(* ===== verification/Prelude.thy ===== *)
theory Prelude
  imports Main "HOL-Library.AList"
begin

text \<open>
  What every component of the model shares: Python's values as they come out of
  \<^verbatim>\<open>json.loads\<close> (type \<open>json\<close>), dictionaries as association lists, the string
  operations the sources call, exceptions as values of a sum type, and the collections of
  rewrite rules the component proofs use.

  A \<open>string\<close> is a Python string whose code points are below 256; the repository's keys,
  states, ids and commit names are ASCII. Human-readable Chinese texts (labels, messages) are
  not part of the model.
\<close>

named_theorems dict_simps \<open>lookups in updated and merged dictionaries\<close>
named_theorems check_simps \<open>when a sequence of checks succeeds\<close>

section \<open>Values\<close>

datatype json =
    JNull
  | JBool bool
  | JInt int
  | JStr string
  | JList "json list"
  | JObj "(string \<times> json) list"

type_synonym dict = "(string \<times> json) list"

text \<open>
  Exceptions a source function may raise, with the text that identifies the raise. The program's own
  exception classes, whose class decides what a handler does, are told apart by \<open>error_class\<close>:
  \<^verbatim>\<open>CodexIpcNoOwner\<close>, \<^verbatim>\<open>CodexIpcOwnerUnconfirmed\<close> (a subclass of it), \<^verbatim>\<open>CodexTurnAcceptanceUnknown\<close>,
  \<^verbatim>\<open>CodexBackgroundMcpPermissionRequired\<close>, \<^verbatim>\<open>InterruptedError\<close> and \<^verbatim>\<open>SchemaCompatibilityError\<close>.
  \<open>LarkRequestError\<close> holds its message, code, missing scopes and repair link.
\<close>

datatype error_class =
    No_Owner | Owner_Unconfirmed | Acceptance_Unknown | Permission_Required | Interrupted_Call
  | Schema_Incompatible | Other_Class

datatype py_error =
    ValueError string
  | TypeError
  | KeyError string
  | IndexError
  | RuntimeError string
  | GitFactError string
  | Raised error_class string
  | LarkRequestError string string "string list" string

type_synonym 'a result = "py_error + 'a"

text \<open>Python's truth value of an object, as \<^verbatim>\<open>if value\<close> and \<^verbatim>\<open>value or other\<close> use it.\<close>

fun truthy :: "json \<Rightarrow> bool" where
  "truthy JNull = False"
| "truthy (JBool b) = b"
| "truthy (JInt i) = (i \<noteq> 0)"
| "truthy (JStr s) = (s \<noteq> [])"
| "truthy (JList xs) = (xs \<noteq> [])"
| "truthy (JObj kvs) = (kvs \<noteq> [])"

section \<open>Strings\<close>

text \<open>The characters \<^verbatim>\<open>str.strip\<close> removes (below code point 256).\<close>

definition is_space :: "char \<Rightarrow> bool" where
  "is_space c \<longleftrightarrow> c \<in> set [CHR 0x20, CHR 0x09, CHR 0x0A, CHR 0x0B, CHR 0x0C, CHR 0x0D,
                          CHR 0x1C, CHR 0x1D, CHR 0x1E, CHR 0x1F, CHR 0x85, CHR 0xA0]"

definition strip :: "string \<Rightarrow> string" where
  "strip s = rev (dropWhile is_space (rev (dropWhile is_space s)))"

definition starts_with :: "string \<Rightarrow> string \<Rightarrow> bool" where
  "starts_with s p \<longleftrightarrow> take (length p) s = p"

text \<open>
  \<^verbatim>\<open>str.lower\<close> and \<^verbatim>\<open>str.casefold\<close> below code point 256, but for the two letters whose case folding is longer
  or outside that range (sharp s and the micro sign).
\<close>

definition lower_char :: "char \<Rightarrow> char" where
  "lower_char c =
     (let n = of_char c :: nat in
      if 65 \<le> n \<and> n \<le> 90 \<or> 192 \<le> n \<and> n \<le> 222 \<and> n \<noteq> 215 then char_of (n + 32) else c)"

text \<open>\<^verbatim>\<open>fragment in message\<close>\<close>

definition contains_text :: "string \<Rightarrow> string \<Rightarrow> bool" where
  "contains_text message fragment \<longleftrightarrow> (\<exists>i \<in> set [0..<Suc (length message)]. starts_with (drop i message) fragment)"

text \<open>\<^verbatim>\<open>str.upper\<close> on ASCII letters.\<close>

definition upper_char :: "char \<Rightarrow> char" where
  "upper_char c = (let n = of_char c :: nat in if 97 \<le> n \<and> n \<le> 122 then char_of (n - 32) else c)"

text \<open>Decimal digits of an integer, as \<^verbatim>\<open>str\<close> prints it.\<close>

fun nat_digits :: "nat \<Rightarrow> string" where
  "nat_digits n =
     (if n < 10 then [char_of (48 + n)] else nat_digits (n div 10) @ [char_of (48 + n mod 10)])"

declare nat_digits.simps [simp del]

definition int_str :: "int \<Rightarrow> string" where
  "int_str i = (if i < 0 then CHR ''-'' # nat_digits (nat (- i)) else nat_digits (nat i))"

lemma dropWhile_strip_nil [simp]: "dropWhile is_space s = [] \<longleftrightarrow> (\<forall>c \<in> set s. is_space c)"
  by (rule dropWhile_eq_Nil_conv)

lemma strip_empty_iff: "strip s = [] \<longleftrightarrow> (\<forall>c \<in> set s. is_space c)"
proof -
  have "strip s = [] \<longleftrightarrow> (\<forall>c \<in> set (dropWhile is_space s). is_space c)"
    by (simp add: strip_def)
  also have "\<dots> \<longleftrightarrow> (\<forall>c \<in> set s. is_space c)"
    by (induction s) auto
  finally show ?thesis .
qed

lemma strip_Nil [simp]: "strip [] = []"
  by (simp add: strip_def)

lemma strip_nonempty: "strip s \<noteq> [] \<Longrightarrow> s \<noteq> []"
  by auto

lemma dropWhile_idem_hd: "xs = [] \<or> \<not> P (hd xs) \<Longrightarrow> dropWhile P xs = xs"
  by (cases xs) auto

lemma strip_fixed: "s = [] \<or> \<not> is_space (hd s) \<and> \<not> is_space (last s) \<Longrightarrow> strip s = s"
proof (cases "s = []")
  case False
  assume "s = [] \<or> \<not> is_space (hd s) \<and> \<not> is_space (last s)"
  with False have "\<not> is_space (hd s)" and "\<not> is_space (hd (rev s))"
    by (simp_all add: hd_rev)
  then show ?thesis by (simp add: strip_def dropWhile_idem_hd)
qed simp

lemma strip_hd: "strip s \<noteq> [] \<Longrightarrow> \<not> is_space (hd (strip s))"
proof -
  assume ne: "strip s \<noteq> []"
  define t where "t = dropWhile is_space s"
  define u where "u = dropWhile is_space (rev t)"
  have t: "t \<noteq> [] \<Longrightarrow> \<not> is_space (hd t)" unfolding t_def by (rule hd_dropWhile)
  have st: "strip s = rev u" by (simp add: strip_def t_def u_def)
  have tn: "t \<noteq> []" using ne st u_def by auto
  have "rev t = takeWhile is_space (rev t) @ u" by (simp add: u_def)
  then have "t = rev u @ rev (takeWhile is_space (rev t))"
    by (metis rev_append rev_rev_ident)
  moreover have "rev u \<noteq> []" using ne st by simp
  ultimately have "hd t = hd (rev u)" by (metis hd_append2)
  then show ?thesis using t tn st by simp
qed

lemma strip_last: "strip s \<noteq> [] \<Longrightarrow> \<not> is_space (last (strip s))"
  by (metis hd_dropWhile last_rev rev_rev_ident rev.simps(1) strip_def)

lemma strip_strip [simp]: "strip (strip s) = strip s"
  using strip_fixed strip_hd strip_last by blast

lemma starts_with_append [simp]: "starts_with (p @ s) p"
  by (simp add: starts_with_def)

lemma starts_with_iff: "starts_with s p \<longleftrightarrow> (\<exists>t. s = p @ t)"
  by (metis append_eq_conv_conj starts_with_def append_take_drop_id)

section \<open>Dictionaries\<close>

text \<open>
  \<^verbatim>\<open>d.get(k)\<close> answers \<^verbatim>\<open>None\<close> for a missing key, so it cannot tell it from a stored
  \<^verbatim>\<open>None\<close>; \<open>map_of d k\<close> can, and stands for \<^verbatim>\<open>k in d\<close> and \<^verbatim>\<open>d[k]\<close>.
  \<^verbatim>\<open>d[k] = v\<close> is \<open>AList.update\<close> (in place for an old key, at the end for a new one) and
  \<^verbatim>\<open>{**a, **b}\<close> is \<open>AList.merge a b\<close>.
\<close>

definition dget :: "dict \<Rightarrow> string \<Rightarrow> json" where
  "dget d k = (case map_of d k of None \<Rightarrow> JNull | Some v \<Rightarrow> v)"

definition dkeys :: "(string \<times> 'v) list \<Rightarrow> string list" where
  "dkeys d = map fst d"

definition assoc_list :: "(string \<times> 'v list) list \<Rightarrow> string \<Rightarrow> 'v list" where
  "assoc_list d k = (case map_of d k of None \<Rightarrow> [] | Some v \<Rightarrow> v)"

text \<open>Equality of two dictionaries does not look at the order of their keys.\<close>

definition dict_same :: "dict \<Rightarrow> dict \<Rightarrow> bool" where
  "dict_same a b \<longleftrightarrow>
     (\<forall>k \<in> set (dkeys a @ dkeys b). map_of a k = map_of b k)"

lemma set_dkeys [simp]: "set (dkeys d) = dom (map_of d)"
  by (simp add: dkeys_def dom_map_of_conv_image_fst)

lemma dict_same_iff: "dict_same a b \<longleftrightarrow> map_of a = map_of b"
proof
  assume same: "dict_same a b"
  show "map_of a = map_of b"
  proof
    fix k
    show "map_of a k = map_of b k"
    proof (cases "k \<in> dom (map_of a) \<union> dom (map_of b)")
      case True
      with same show ?thesis by (simp add: dict_same_def)
    next
      case False
      then show ?thesis by (simp add: domIff)
    qed
  qed
qed (simp add: dict_same_def)

lemma dict_same_refl [simp]: "dict_same a a"
  by (simp add: dict_same_iff)

lemma dict_same_dget: "dict_same a b \<Longrightarrow> dget a = dget b"
  by (simp add: dict_same_iff dget_def fun_eq_iff)

lemma dget_Nil [simp]: "dget [] k = JNull"
  by (simp add: dget_def)

lemma map_of_update [dict_simps]: "map_of (AList.update k v d) = (map_of d)(k \<mapsto> v)"
  by (rule update_conv')

lemma dget_update [dict_simps]: "dget (AList.update k v d) k' = (if k' = k then v else dget d k')"
  by (simp add: dget_def update_conv')

lemma map_of_merge [dict_simps]: "map_of (AList.merge a b) = map_of a ++ map_of b"
  by (rule merge_conv')

lemma dget_merge [dict_simps]:
  "dget (AList.merge a b) k = (case map_of b k of None \<Rightarrow> dget a k | Some v \<Rightarrow> v)"
  by (simp add: dget_def merge_conv' map_add_def split: option.splits)

lemma dget_None: "map_of d k = None \<Longrightarrow> dget d k = JNull"
  by (simp add: dget_def)

lemma dget_Some: "map_of d k = Some v \<Longrightarrow> dget d k = v"
  by (simp add: dget_def)

lemma assoc_list_Nil [simp]: "assoc_list [] k = []"
  by (simp add: assoc_list_def)

section \<open>Access to raw values\<close>

fun as_dict :: "json \<Rightarrow> dict" where
  "as_dict (JObj d) = d"
| "as_dict _ = []"

fun as_items :: "json \<Rightarrow> json list" where
  "as_items (JList xs) = xs"
| "as_items _ = []"

fun as_str :: "json \<Rightarrow> string" where
  "as_str (JStr s) = s"
| "as_str _ = []"

fun is_str :: "json \<Rightarrow> bool" where
  "is_str (JStr s) = True"
| "is_str _ = False"

fun is_dict :: "json \<Rightarrow> bool" where
  "is_dict (JObj d) = True"
| "is_dict _ = False"

fun is_list :: "json \<Rightarrow> bool" where
  "is_list (JList xs) = True"
| "is_list _ = False"

lemma is_list_iff: "is_list v \<longleftrightarrow> (\<exists>xs. v = JList xs)"
  by (cases v) auto

fun is_bool :: "json \<Rightarrow> bool" where
  "is_bool (JBool b) = True"
| "is_bool _ = False"

text \<open>\<^verbatim>\<open>isinstance(v, str) and v.strip()\<close>\<close>

fun nonblank_str :: "json \<Rightarrow> bool" where
  "nonblank_str (JStr s) = (strip s \<noteq> [])"
| "nonblank_str _ = False"

text \<open>\<^verbatim>\<open>v in xs\<close> for a list (or set) of strings.\<close>

fun member_str :: "json \<Rightarrow> string list \<Rightarrow> bool" where
  "member_str (JStr s) xs = (s \<in> set xs)"
| "member_str _ xs = False"

lemma member_str_iff: "member_str v xs \<longleftrightarrow> (\<exists>s \<in> set xs. v = JStr s)"
  by (cases v) auto

text \<open>\<^verbatim>\<open>isinstance(v, int)\<close> as Python decides it: \<^verbatim>\<open>bool\<close> is a subclass of \<^verbatim>\<open>int\<close>.\<close>

fun as_int :: "json \<Rightarrow> int option" where
  "as_int (JInt i) = Some i"
| "as_int (JBool b) = Some (of_bool b)"
| "as_int _ = None"

text \<open>\<^verbatim>\<open>d.get(k, default)\<close>: the default stands in for a missing key only, not for a stored null.\<close>

definition dget_or :: "dict \<Rightarrow> string \<Rightarrow> json \<Rightarrow> json" where
  "dget_or d k dflt = (case map_of d k of None \<Rightarrow> dflt | Some v \<Rightarrow> v)"

definition strs :: "string list \<Rightarrow> json" where
  "strs xs = JList (map JStr xs)"

section \<open>Sequences of checks\<close>

text \<open>
  A validation function of the source is a sequence of statements, each of which may raise; the
  first one that raises ends it. \<open>checks\<close> is that sequence for statements with no result, and
  \<open>andthen\<close> passes the result of one statement to the rest.
\<close>

fun checks :: "unit result list \<Rightarrow> unit result" where
  "checks [] = Inr ()"
| "checks (c # cs) = (case c of Inl e \<Rightarrow> Inl e | Inr _ \<Rightarrow> checks cs)"

definition andthen :: "'a result \<Rightarrow> ('a \<Rightarrow> 'b result) \<Rightarrow> 'b result" where
  "andthen r f = (case r of Inl e \<Rightarrow> Inl e | Inr v \<Rightarrow> f v)"

definition ensure :: "bool \<Rightarrow> string \<Rightarrow> unit result" where
  "ensure b msg = (if b then Inr () else Inl (ValueError msg))"

definition no_type_error :: "bool \<Rightarrow> unit result" where
  "no_type_error b = (if b then Inr () else Inl TypeError)"

definition ok :: "'a result \<Rightarrow> bool" where
  "ok r \<longleftrightarrow> (\<exists>v. r = Inr v)"

lemma ok_simps [simp]: "ok (Inr v)" "\<not> ok (Inl e)"
  by (simp_all add: ok_def)

lemma ok_unit [check_simps]: "(r :: unit result) = Inr () \<longleftrightarrow> ok r"
  by (auto simp: ok_def)

lemma ok_checks [check_simps]: "ok (checks cs) \<longleftrightarrow> (\<forall>c \<in> set cs. ok c)"
  by (induction cs) (auto split: sum.splits)

declare checks.simps [simp del]

lemma ok_andthen [check_simps]: "ok (andthen r f) \<longleftrightarrow> (\<exists>v. r = Inr v \<and> ok (f v))"
  by (auto simp: andthen_def split: sum.splits)

lemma ok_ensure [check_simps]: "ok (ensure b m) \<longleftrightarrow> b"
  by (simp add: ensure_def)

lemma ok_no_type_error [check_simps]: "ok (no_type_error b) \<longleftrightarrow> b"
  by (simp add: no_type_error_def)

lemma andthen_Inr [simp]: "andthen (Inr v) f = f v" "andthen (Inl e) f = Inl e"
  by (simp_all add: andthen_def)

lemma andthen_eq_Inr: "andthen r f = Inr v \<longleftrightarrow> (\<exists>u. r = Inr u \<and> f u = Inr v)"
  by (auto simp: andthen_def split: sum.splits)

text \<open>A list comprehension whose element expression may raise: left to right, up to the first raise.\<close>

fun map_result :: "('a \<Rightarrow> 'b result) \<Rightarrow> 'a list \<Rightarrow> 'b list result" where
  "map_result f [] = Inr []"
| "map_result f (x # xs) =
     (case f x of Inl e \<Rightarrow> Inl e
      | Inr y \<Rightarrow> (case map_result f xs of Inl e \<Rightarrow> Inl e | Inr ys \<Rightarrow> Inr (y # ys)))"

fun filter_result :: "('a \<Rightarrow> bool result) \<Rightarrow> 'a list \<Rightarrow> 'a list result" where
  "filter_result p [] = Inr []"
| "filter_result p (x # xs) =
     (case p x of Inl e \<Rightarrow> Inl e
      | Inr b \<Rightarrow> (case filter_result p xs of Inl e \<Rightarrow> Inl e
                 | Inr ys \<Rightarrow> Inr (if b then x # ys else ys)))"

lemma map_result_ok: "\<forall>x \<in> set xs. f x = Inr (g x) \<Longrightarrow> map_result f xs = Inr (map g xs)"
  by (induction xs) auto

lemma map_result_Inr:
  "map_result f xs = Inr ys \<Longrightarrow> list_all2 (\<lambda>x y. f x = Inr y) xs ys"
  by (induction xs arbitrary: ys) (auto split: sum.splits)

lemma filter_result_ok: "\<forall>x \<in> set xs. p x = Inr (q x) \<Longrightarrow> filter_result p xs = Inr (filter q xs)"
  by (induction xs) auto

lemma filter_result_Inr:
  "filter_result p xs = Inr ys \<Longrightarrow>
     ys = filter (\<lambda>x. p x = Inr True) xs \<and> (\<forall>x \<in> set xs. \<exists>b. p x = Inr b)"
  by (induction xs arbitrary: ys) (auto split: sum.splits if_splits)

section \<open>Lists\<close>

text \<open>\<^verbatim>\<open>next((x for x in xs if p(x)), None)\<close> is \<open>List.find\<close>; \<^verbatim>\<open>dict.fromkeys\<close> keeps first occurrences.\<close>

fun dedup :: "'a list \<Rightarrow> 'a list" where
  "dedup [] = []"
| "dedup (x # xs) = x # filter (\<lambda>y. y \<noteq> x) (dedup xs)"

lemma set_dedup [simp]: "set (dedup xs) = set xs"
  by (induction xs) auto

lemma distinct_dedup [simp]: "distinct (dedup xs)"
  by (induction xs) auto

lemma find_SomeD: "List.find P xs = Some x \<Longrightarrow> x \<in> set xs \<and> P x"
  by (auto simp: find_Some_iff)

lemma find_key_unique:
  "distinct (map f xs) \<Longrightarrow> x \<in> set xs \<Longrightarrow> List.find (\<lambda>y. f y = f x) xs = Some x"
  by (induction xs) (auto simp: image_iff)

lemma find_eq_None: "List.find P xs = None \<longleftrightarrow> (\<forall>x \<in> set xs. \<not> P x)"
  by (induction xs) auto

end
