(* ===== verification/Workflow_Model.thy ===== *)
theory Workflow_Model
  imports Prelude
begin

text \<open>
  The data model of a collaboration workflow: the task card's field keys and the field sets the
  validator and the action engine share (\<^verbatim>\<open>core/workflow_validation.py\<close>, module constants), and
  a workflow definition as records. The records hold what the engine reads from a definition;
  display labels, descriptions and colours are left out, since no decision depends on them.
\<close>

section \<open>Field keys and constants\<close>

definition TASK_FIELD_KEYS :: "string list" where
  "TASK_FIELD_KEYS =
    [''title'', ''task_id'', ''status'', ''type'', ''priority'', ''role'', ''agent'', ''agent_id'',
     ''description'', ''context'', ''acceptance_criteria'', ''dependencies'', ''progress'',
     ''next_action'', ''result_evidence'', ''blocked_reason'', ''waiting_on'', ''delivery_mode'',
     ''target_branch'', ''base_sha'', ''candidate_sha'', ''verified_sha'', ''promoted_sha'',
     ''delivery_resources'']"

definition DELIVERY_MODES :: "string list" where
  "DELIVERY_MODES = [''standard'', ''repository'']"

definition PRIORITIES :: "string list" where
  "PRIORITIES = [''P0'', ''P1'', ''P2'', ''P3'']"

definition LOCALES :: "string list" where
  "LOCALES = [''zh-CN'', ''en'']"

definition WORKFLOW_ACTION_KEYS :: "string list" where
  "WORKFLOW_ACTION_KEYS =
    [''create'', ''update'', ''route'', ''claim'', ''submit'', ''block'', ''review'', ''cancel'']"

definition WORKFLOW_GUARDS :: "string list" where
  "WORKFLOW_GUARDS = [''executor_unavailable'', ''execution_stopped'']"

definition WORKFLOW_GUARD_ACTIONS :: "string \<Rightarrow> string list" where
  "WORKFLOW_GUARD_ACTIONS g =
     (if g = ''executor_unavailable'' then [''route'']
      else if g = ''execution_stopped'' then [''route'', ''cancel''] else [])"

definition ACTOR_FIELD_BINDINGS :: "(string \<times> string) list" where
  "ACTOR_FIELD_BINDINGS = [(''agent'', ''agent_name''), (''agent_id'', ''agent_id'')]"

definition DELIVERY_MANAGED_FIELDS :: "string list" where
  "DELIVERY_MANAGED_FIELDS =
    [''delivery_mode'', ''target_branch'', ''base_sha'', ''candidate_sha'', ''verified_sha'',
     ''promoted_sha'', ''delivery_resources'']"

definition DIRECTLY_WRITABLE_FIELDS :: "string list" where
  "DIRECTLY_WRITABLE_FIELDS =
     filter (\<lambda>f. f \<notin> set ([''task_id'', ''status'', ''agent'', ''agent_id''] @ DELIVERY_MANAGED_FIELDS))
       TASK_FIELD_KEYS"

definition CLEARABLE_FIELDS :: "string list" where
  "CLEARABLE_FIELDS =
     filter (\<lambda>f. f \<notin> set ([''task_id'', ''status'', ''title''] @ DELIVERY_MANAGED_FIELDS))
       TASK_FIELD_KEYS"

section \<open>Workflow definitions\<close>

text \<open>Who may act, and whom a state notifies: the two enumerations of the validator.\<close>

datatype actor = Coordinator | Task_Role | Assigned_Agent

datatype dispatch = Dispatch_None | Dispatch_Task_Role | Dispatch_Coordinator

fun actor_key :: "actor \<Rightarrow> string" where
  "actor_key Coordinator = ''coordinator''"
| "actor_key Task_Role = ''task_role''"
| "actor_key Assigned_Agent = ''assigned_agent''"

fun dispatch_key :: "dispatch \<Rightarrow> string" where
  "dispatch_key Dispatch_None = ''none''"
| "dispatch_key Dispatch_Task_Role = ''task_role''"
| "dispatch_key Dispatch_Coordinator = ''coordinator''"

definition WORKFLOW_ACTORS :: "string list" where
  "WORKFLOW_ACTORS = map actor_key [Coordinator, Task_Role, Assigned_Agent]"

definition WORKFLOW_DISPATCH_TARGETS :: "string list" where
  "WORKFLOW_DISPATCH_TARGETS = map dispatch_key [Dispatch_None, Dispatch_Task_Role, Dispatch_Coordinator]"

record state_def =
  sd_key :: string
  sd_dispatch :: dispatch
  sd_required :: "string list"

record rule =
  rl_key :: string
  rl_actors :: "actor list"
  rl_roles :: "string list"
  rl_from :: "string list"
  rl_to :: "string option"
  rl_writable :: "string list"
  rl_required_inputs :: "string list"
  rl_required_task_fields :: "string list"
  rl_defaults :: dict
  rl_fixed_fields :: dict
  rl_clear_fields :: "string list"
  rl_field_values :: "(string \<times> string list) list"
  rl_field_prefixes :: "(string \<times> string) list"
  rl_actor_fields :: "(string \<times> string) list"
  rl_guards :: "string list"

record action_def =
  ac_confirmation :: bool
  ac_rules :: "rule list"

record runtime_action =
  ra_actors :: "actor list"
  ra_roles :: "string list"
  ra_states :: "string list"
  ra_required_inputs :: "string list"
  ra_required_task_fields :: "string list"
  ra_confirmation :: bool
  ra_produces :: "string list"

record workflow =
  wf_key :: string
  wf_coordinator_role :: string
  wf_roles :: "(string \<times> bool) list"
  wf_task_types :: "(string \<times> string) list"
  wf_waiting_targets :: "string list"
  wf_initial_state :: string
  wf_terminal_states :: "string list"
  wf_completion_states :: "string list"
  wf_states :: "state_def list"
  wf_actions :: "(string \<times> action_def) list"
  wf_runtime_actions :: "(string \<times> runtime_action) list"

text \<open>The agent on whose behalf a tool call runs.\<close>

record assignment =
  as_role_key :: string
  as_agent_id :: string
  as_agent_name :: string
  as_workspace_root :: string
  as_workflow_key :: string
  as_session_id :: string
  as_revision :: int
  as_workspace_name :: string
  as_workflow_name :: string
  as_role_name :: string
  as_role_description :: string

text \<open>\<^verbatim>\<open>assignment[key]\<close>\<close>

definition assignment_fields :: "assignment \<Rightarrow> dict" where
  "assignment_fields a =
    [(''agent_id'', JStr (as_agent_id a)), (''workspace_root'', JStr (as_workspace_root a)),
     (''workspace_name'', JStr (as_workspace_name a)), (''workflow_key'', JStr (as_workflow_key a)),
     (''workflow_name'', JStr (as_workflow_name a)), (''role_key'', JStr (as_role_key a)),
     (''role_name'', JStr (as_role_name a)), (''role_description'', JStr (as_role_description a)),
     (''agent_name'', JStr (as_agent_name a)), (''session_id'', JStr (as_session_id a)),
     (''assignment_revision'', JInt (as_revision a))]"

definition state_keys :: "workflow \<Rightarrow> string list" where
  "state_keys w = map sd_key (wf_states w)"

definition action_rules :: "workflow \<Rightarrow> string \<Rightarrow> rule list" where
  "action_rules w ak = (case map_of (wf_actions w) ak of None \<Rightarrow> [] | Some a \<Rightarrow> ac_rules a)"

definition find_state :: "workflow \<Rightarrow> string \<Rightarrow> state_def option" where
  "find_state w k = List.find (\<lambda>s. sd_key s = k) (wf_states w)"

text \<open>The transitions a definition allows, as edges between states.\<close>

definition rule_transitions :: "rule \<Rightarrow> (string \<times> string) list" where
  "rule_transitions r = (case rl_to r of None \<Rightarrow> [] | Some t \<Rightarrow> map (\<lambda>f. (f, t)) (rl_from r))"

definition workflow_edges :: "workflow \<Rightarrow> (string \<times> string) list" where
  "workflow_edges w = concat (map (\<lambda>(ak, a).
     if ak \<in> set [''create'', ''update''] then [] else concat (map rule_transitions (ac_rules a)))
     (wf_actions w))"

section \<open>Well-formed definitions\<close>

text \<open>
  What a definition that passed validation guarantees its readers: the typed counterpart of the
  checks in \<^verbatim>\<open>_validate_lifecycle\<close> and \<^verbatim>\<open>_validate_action_rule\<close>.
\<close>

definition wf_rule_shape :: "string list \<Rightarrow> string list \<Rightarrow> string \<Rightarrow> string \<Rightarrow> rule \<Rightarrow> bool" where
  "wf_rule_shape states terminal initial ak r \<longleftrightarrow>
     set (rl_from r) \<subseteq> set states \<and> set (rl_from r) \<inter> set terminal = {} \<and>
     (if ak = ''create'' then rl_from r = [] \<and> rl_to r = Some initial
      else if ak = ''update'' then rl_from r \<noteq> [] \<and> rl_to r = None
      else rl_from r \<noteq> [] \<and> (\<exists>t \<in> set states. rl_to r = Some t))"

definition wf_rule_fields :: "rule \<Rightarrow> bool" where
  "wf_rule_fields r \<longleftrightarrow>
     set (rl_writable r) \<subseteq> set DIRECTLY_WRITABLE_FIELDS \<and>
     set (rl_required_inputs r) \<subseteq> set (rl_writable r) \<and>
     set (rl_clear_fields r) \<subseteq> set CLEARABLE_FIELDS \<and>
     set (dkeys (rl_defaults r)) \<subseteq> set DIRECTLY_WRITABLE_FIELDS \<and>
     set (dkeys (rl_fixed_fields r)) \<subseteq> set DIRECTLY_WRITABLE_FIELDS \<and>
     fst ` set (rl_field_prefixes r) \<subseteq> set (rl_writable r) \<and>
     fst ` set (rl_field_values r) \<subseteq> set (rl_writable r) \<and>
     set (rl_actor_fields r) \<subseteq> set ACTOR_FIELD_BINDINGS \<and>
     set (rl_guards r) \<subseteq> set WORKFLOW_GUARDS"

definition wf_rule :: "workflow \<Rightarrow> string \<Rightarrow> rule \<Rightarrow> bool" where
  "wf_rule w ak r \<longleftrightarrow>
     wf_rule_shape (state_keys w) (wf_terminal_states w) (wf_initial_state w) ak r \<and> wf_rule_fields r"

definition wf_workflow :: "workflow \<Rightarrow> bool" where
  "wf_workflow w \<longleftrightarrow>
     distinct (state_keys w) \<and> [] \<notin> set (state_keys w) \<and>
     wf_coordinator_role w \<in> set (dkeys (wf_roles w)) \<and>
     wf_initial_state w \<in> set (state_keys w) \<and>
     wf_initial_state w \<notin> set (wf_terminal_states w) \<and>
     set (wf_terminal_states w) \<subseteq> set (state_keys w) \<and>
     wf_completion_states w \<noteq> [] \<and>
     set (wf_completion_states w) \<subseteq> set (wf_terminal_states w) \<and>
     (\<forall>s \<in> set (wf_states w). sd_key s \<in> set (wf_terminal_states w) \<longrightarrow> sd_dispatch s = Dispatch_None) \<and>
     set (dkeys (wf_actions w)) = set WORKFLOW_ACTION_KEYS \<and>
     length (action_rules w ''create'') = 1 \<and>
     (\<forall>(ak, a) \<in> set (wf_actions w). \<forall>r \<in> set (ac_rules a). wf_rule w ak r)"

lemma directly_writable_not_managed:
  "f \<in> set DIRECTLY_WRITABLE_FIELDS \<Longrightarrow>
   f \<notin> set DELIVERY_MANAGED_FIELDS \<and> f \<noteq> ''status'' \<and> f \<noteq> ''task_id'' \<and> f \<noteq> ''agent_id'' \<and> f \<noteq> ''agent''"
  by (simp add: DIRECTLY_WRITABLE_FIELDS_def)

lemma clearable_not_managed:
  "f \<in> set CLEARABLE_FIELDS \<Longrightarrow>
   f \<notin> set DELIVERY_MANAGED_FIELDS \<and> f \<noteq> ''status'' \<and> f \<noteq> ''task_id'' \<and> f \<noteq> ''title''"
  by (simp add: CLEARABLE_FIELDS_def)

lemma wf_workflow_rule:
  "wf_workflow w \<Longrightarrow> r \<in> set (action_rules w ak) \<Longrightarrow> wf_rule w ak r"
proof -
  assume wf: "wf_workflow w" and r: "r \<in> set (action_rules w ak)"
  then obtain a where "(ak, a) \<in> set (wf_actions w)" and "r \<in> set (ac_rules a)"
    by (cases "map_of (wf_actions w) ak") (auto simp: action_rules_def dest: map_of_SomeD)
  with wf show ?thesis unfolding wf_workflow_def by blast
qed

lemma find_state_key: "find_state w k = Some s \<Longrightarrow> s \<in> set (wf_states w) \<and> sd_key s = k"
  by (auto simp: find_state_def dest: find_SomeD)

lemma find_state_None: "find_state w k = None \<longleftrightarrow> k \<notin> set (state_keys w)"
  by (auto simp: find_state_def state_keys_def find_eq_None)

end
