(* ===== verification/Workflow_Validation.thy ===== *)
theory Workflow_Validation
  imports Workflow_Model
begin

text \<open>
  \<^verbatim>\<open>core/workflow_validation.py\<close>: the checks a \<^verbatim>\<open>workflow.json\<close> must pass before it is
  installed, on the raw value \<^verbatim>\<open>json.loads\<close> returns. Each function is the sequence of its
  source's checks in order; \<open>Inl\<close> is the exception of the first one that fails. A membership
  test of an unhashable value in a set or dictionary raises \<^verbatim>\<open>TypeError\<close>, which the sources do
  not catch, so it is an error of its own here.
\<close>

section \<open>Schema constants\<close>

definition WORKFLOW_SCHEMA_VERSION :: int where
  "WORKFLOW_SCHEMA_VERSION = 3"

definition WORKFLOW_DEFINITION_FIELDS :: "string list" where
  "WORKFLOW_DEFINITION_FIELDS =
    [''schema_version'', ''key'', ''labels'', ''short_descriptions'', ''coordinator_role'', ''roles'',
     ''task_types'', ''waiting_targets'', ''task_schema'', ''lifecycle'', ''runtime_actions'']"

definition ROLE_FIELDS :: "string list" where
  "ROLE_FIELDS = [''key'', ''labels'', ''descriptions'', ''allow_multiple'']"

definition TASK_TYPE_FIELDS :: "string list" where
  "TASK_TYPE_FIELDS = [''key'', ''labels'', ''descriptions'', ''default_role'']"

definition WAITING_TARGET_FIELDS :: "string list" where
  "WAITING_TARGET_FIELDS = [''key'', ''labels'', ''color'']"

definition TASK_SCHEMA_FIELDS :: "string list" where
  "TASK_SCHEMA_FIELDS = [''base'', ''task_id'']"

definition TASK_ID_FIELDS :: "string list" where
  "TASK_ID_FIELDS = [''sequence_length'']"

definition LIFECYCLE_FIELDS :: "string list" where
  "LIFECYCLE_FIELDS = [''initial_state'', ''terminal_states'', ''completion_states'', ''states'', ''actions'']"

definition STATE_FIELDS :: "string list" where
  "STATE_FIELDS = [''key'', ''labels'', ''color'', ''dispatch'', ''dispatch_instructions'', ''required_fields'']"

definition COLOR_FIELDS :: "string list" where
  "COLOR_FIELDS = [''hue'', ''lightness'']"

definition ACTION_FIELDS :: "string list" where
  "ACTION_FIELDS = [''labels'', ''confirmation_required'', ''rules'']"

definition RULE_FIELDS :: "string list" where
  "RULE_FIELDS =
    [''key'', ''labels'', ''actors'', ''roles'', ''from'', ''to'', ''writable_fields'', ''required_inputs'',
     ''required_task_fields'', ''defaults'', ''fixed_fields'', ''clear_fields'', ''field_values'',
     ''field_prefixes'', ''actor_fields'', ''guards'']"

definition RUNTIME_ACTION_FIELDS :: "string list" where
  "RUNTIME_ACTION_FIELDS =
    [''labels'', ''actors'', ''roles'', ''states'', ''required_inputs'', ''required_task_fields'',
     ''confirmation_required'', ''produces'']"

text \<open>\<^verbatim>\<open>RUNTIME_ACTION_SPECS\<close>: the inputs a runtime action asks for and the facts it produces.\<close>

definition RUNTIME_ACTION_SPECS :: "(string \<times> string list \<times> string list) list" where
  "RUNTIME_ACTION_SPECS = [(''stop_execution'', [''reason''], [''execution_stopped''])]"

section \<open>Membership tests\<close>

text \<open>\<^verbatim>\<open>v in keys\<close> for a set or dictionary of strings.\<close>

fun in_keys :: "string list \<Rightarrow> json \<Rightarrow> bool result" where
  "in_keys ks (JStr s) = Inr (s \<in> set ks)"
| "in_keys ks (JList _) = Inl TypeError"
| "in_keys ks (JObj _) = Inl TypeError"
| "in_keys ks _ = Inr False"

definition require_member :: "string list \<Rightarrow> json \<Rightarrow> string \<Rightarrow> unit result" where
  "require_member ks v msg = andthen (in_keys ks v) (\<lambda>b. ensure b msg)"

text \<open>
  \<^verbatim>\<open>any(x not in keys for x in xs)\<close>, left to right: the scan stops at the first non-member, and
  raises if it meets an unhashable value before one. With \<^verbatim>\<open>not isinstance(x, str) or\<close> in front
  (\<open>typed\<close>) an unhashable value is a non-member like any other.
\<close>

fun scan_members :: "bool \<Rightarrow> string list \<Rightarrow> json list \<Rightarrow> bool result" where
  "scan_members typed ks [] = Inr True"
| "scan_members typed ks (JStr s # xs) = (if s \<in> set ks then scan_members typed ks xs else Inr False)"
| "scan_members typed ks (JList _ # xs) = (if typed then Inr False else Inl TypeError)"
| "scan_members typed ks (JObj _ # xs) = (if typed then Inr False else Inl TypeError)"
| "scan_members typed ks (_ # xs) = Inr False"

text \<open>
  The recurring check of a list of known names: a list, non-empty where the code asks for it, with
  known members and no repetition.
\<close>

definition member_list :: "bool \<Rightarrow> bool \<Rightarrow> string list \<Rightarrow> json \<Rightarrow> string \<Rightarrow> string list result" where
  "member_list typed nonempty ks v msg =
     (case v of
        JList xs \<Rightarrow>
          if nonempty \<and> xs = [] then Inl (ValueError msg)
          else andthen (scan_members typed ks xs) (\<lambda>b.
                 if b \<and> distinct xs then Inr (map as_str xs) else Inl (ValueError msg))
      | _ \<Rightarrow> Inl (ValueError msg))"

definition check_member_list :: "bool \<Rightarrow> bool \<Rightarrow> string list \<Rightarrow> json \<Rightarrow> string \<Rightarrow> unit result" where
  "check_member_list typed nonempty ks v msg =
     andthen (member_list typed nonempty ks v msg) (\<lambda>_. Inr ())"

lemma map_JStr_eq [simp]: "map JStr ss = map JStr ts \<longleftrightarrow> ss = ts"
  by (rule inj_map_eq_map) (rule injI, simp)

lemma map_JObj_eq [simp]: "map JObj ds = map JObj es \<longleftrightarrow> ds = es"
  by (rule inj_map_eq_map) (rule injI, simp)

lemma scan_members_True:
  "scan_members typed ks xs = Inr True \<longleftrightarrow> (\<exists>ss. xs = map JStr ss \<and> set ss \<subseteq> set ks)"
proof (induction typed ks xs rule: scan_members.induct)
  case (2 typed ks s xs)
  show ?case
  proof (cases "s \<in> set ks")
    case True
    with 2 show ?thesis by (auto simp: Cons_eq_map_conv)
  qed (auto simp: Cons_eq_map_conv)
qed (auto simp: Cons_eq_map_conv)

lemma map_as_str_JStr [simp]: "map as_str (map JStr ss) = ss"
  by (induction ss) auto

lemma member_list_eq:
  "member_list typed nonempty ks v msg = Inr ss \<longleftrightarrow>
     v = JList (map JStr ss) \<and> set ss \<subseteq> set ks \<and> distinct ss \<and> (nonempty \<longrightarrow> ss \<noteq> [])"
proof (cases v)
  case (JList xs)
  have inj: "inj_on JStr (set ss)" for ss by (simp add: inj_on_def)
  have "member_list typed nonempty ks v msg = Inr ss \<longleftrightarrow>
      (nonempty \<longrightarrow> xs \<noteq> []) \<and> scan_members typed ks xs = Inr True \<and> distinct xs \<and> map as_str xs = ss"
    by (auto simp: member_list_def JList andthen_eq_Inr split: if_splits)
  also have "\<dots> \<longleftrightarrow> xs = map JStr ss \<and> set ss \<subseteq> set ks \<and> distinct ss \<and> (nonempty \<longrightarrow> ss \<noteq> [])"
    by (auto simp: scan_members_True distinct_map inj simp del: map_map)
  finally show ?thesis by (simp add: JList)
qed (simp_all add: member_list_def)

lemma ok_check_member_list [check_simps]:
  "ok (check_member_list typed nonempty ks v msg) \<longleftrightarrow>
     (\<exists>ss. v = JList (map JStr ss) \<and> set ss \<subseteq> set ks \<and> distinct ss \<and> (nonempty \<longrightarrow> ss \<noteq> []))"
  by (simp add: check_member_list_def ok_andthen member_list_eq)

lemma ok_require_member [check_simps]:
  "ok (require_member ks v msg) \<longleftrightarrow> (\<exists>s \<in> set ks. v = JStr s)"
  by (cases v) (auto simp: require_member_def check_simps)

section \<open>The small checks\<close>

text \<open>\<^verbatim>\<open>_reject_unknown_fields\<close> and \<^verbatim>\<open>_require_fields\<close>\<close>

definition reject_unknown_fields :: "dict \<Rightarrow> string list \<Rightarrow> string \<Rightarrow> unit result" where
  "reject_unknown_fields d allowed name =
     ensure (\<forall>k \<in> set (map fst d). k \<in> set allowed) (name @ '' contains unsupported fields'')"

definition require_fields :: "dict \<Rightarrow> string list \<Rightarrow> string \<Rightarrow> unit result" where
  "require_fields d required name =
     ensure (\<forall>k \<in> set required. k \<in> set (map fst d)) (name @ '' is missing required fields'')"

definition required_text :: "dict \<Rightarrow> string \<Rightarrow> string \<Rightarrow> string result" where
  "required_text d key path =
     (case dget d key of
        JStr s \<Rightarrow> if strip s \<noteq> [] then Inr s
                  else Inl (ValueError (key @ '' must be a non-empty string: '' @ path))
      | _ \<Rightarrow> Inl (ValueError (key @ '' must be a non-empty string: '' @ path)))"

text \<open>\<^verbatim>\<open>validate_localized\<close>: exactly the two locales, each with a non-blank text.\<close>

definition validate_localized :: "json \<Rightarrow> string \<Rightarrow> unit result" where
  "validate_localized v name =
     ensure (is_dict v \<and>
             (\<forall>k \<in> set (map fst (as_dict v)). k \<in> set LOCALES) \<and>
             (\<forall>l \<in> set LOCALES. l \<in> set (map fst (as_dict v)) \<and> nonblank_str (dget (as_dict v) l)))
       (name @ '' must define non-empty zh-CN and en values'')"

definition validate_color :: "json \<Rightarrow> string \<Rightarrow> unit result" where
  "validate_color v name = checks
     [ensure (is_dict v) (name @ '' must define hue and lightness''),
      reject_unknown_fields (as_dict v) COLOR_FIELDS name,
      ensure (nonblank_str (dget (as_dict v) ''hue'') \<and> nonblank_str (dget (as_dict v) ''lightness''))
        (name @ '' must define hue and lightness'')]"

text \<open>\<^verbatim>\<open>_field_list\<close>: null counts as the empty list.\<close>

definition field_list :: "json \<Rightarrow> string \<Rightarrow> string list result" where
  "field_list v name =
     (case v of
        JNull \<Rightarrow> Inr []
      | _ \<Rightarrow> member_list True False TASK_FIELD_KEYS v (name @ '' contains an unknown or duplicate field''))"

definition check_field_list :: "json \<Rightarrow> string \<Rightarrow> unit result" where
  "check_field_list v name = andthen (field_list v name) (\<lambda>_. Inr ())"

text \<open>\<^verbatim>\<open>keyed_items\<close>: the loop over the list, with the dictionary built so far.\<close>

fun keyed_loop :: "string \<Rightarrow> (string \<times> dict) list \<Rightarrow> json list \<Rightarrow> (string \<times> dict) list result" where
  "keyed_loop name acc [] = Inr acc"
| "keyed_loop name acc (JObj d # xs) =
     (case dget d ''key'' of
        JStr k \<Rightarrow>
          if strip k = [] then Inl (ValueError (name @ '' contains an item without a valid key''))
          else if k \<in> set (map fst acc) then Inl (ValueError (name @ '' contains duplicate key '' @ k))
          else keyed_loop name (acc @ [(k, d)]) xs
      | _ \<Rightarrow> Inl (ValueError (name @ '' contains an item without a valid key'')))"
| "keyed_loop name acc (_ # xs) = Inl (ValueError (name @ '' contains an item without a valid key''))"

definition keyed_items :: "json \<Rightarrow> string \<Rightarrow> (string \<times> dict) list result" where
  "keyed_items v name =
     (case v of
        JList xs \<Rightarrow> if xs = [] then Inl (ValueError (name @ '' must be a non-empty list''))
                    else keyed_loop name [] xs
      | _ \<Rightarrow> Inl (ValueError (name @ '' must be a non-empty list'')))"

lemma ok_reject_unknown_fields [check_simps]:
  "ok (reject_unknown_fields d allowed name) \<longleftrightarrow> set (dkeys d) \<subseteq> set allowed"
  by (auto simp: reject_unknown_fields_def check_simps dkeys_def simp del: set_dkeys)

lemma field_list_eq:
  "field_list v name = Inr fs \<longleftrightarrow>
     v = JNull \<and> fs = [] \<or> v = JList (map JStr fs) \<and> set fs \<subseteq> set TASK_FIELD_KEYS \<and> distinct fs"
  by (cases v) (auto simp: field_list_def member_list_eq)

lemma ok_check_field_list [check_simps]:
  "ok (check_field_list v name) \<longleftrightarrow>
     v = JNull \<or> (\<exists>fs. v = JList (map JStr fs) \<and> set fs \<subseteq> set TASK_FIELD_KEYS \<and> distinct fs)"
  by (auto simp: check_field_list_def ok_andthen field_list_eq)

lemma keyed_loop_items:
  "keyed_loop name acc xs = Inr kds \<Longrightarrow>
     \<exists>ds. xs = map JObj ds \<and> kds = acc @ map (\<lambda>d. (as_str (dget d ''key''), d)) ds \<and>
       (\<forall>d \<in> set ds. nonblank_str (dget d ''key''))"
proof (induction name acc xs arbitrary: kds rule: keyed_loop.induct)
  case (2 name acc d xs)
  from "2.prems" obtain k where k: "dget d ''key'' = JStr k" "strip k \<noteq> []"
      and new: "k \<notin> set (map fst acc)" and rest: "keyed_loop name (acc @ [(k, d)]) xs = Inr kds"
    by (auto split: json.splits if_splits)
  from "2.IH"[OF k(1,2) new rest] obtain ds where
    "xs = map JObj ds" and "kds = (acc @ [(k, d)]) @ map (\<lambda>d. (as_str (dget d ''key''), d)) ds" and
    "\<forall>d \<in> set ds. nonblank_str (dget d ''key'')"
    by blast
  with k show ?case by (intro exI[of _ "d # ds"]) auto
qed auto

lemma keyed_loop_distinct:
  "keyed_loop name acc xs = Inr kds \<Longrightarrow> distinct (map fst acc) \<Longrightarrow> distinct (map fst kds)"
  by (induction name acc xs arbitrary: kds rule: keyed_loop.induct) (auto split: json.splits if_splits)

lemma keyed_items_eq:
  assumes "keyed_items v name = Inr kds"
  obtains ds where "v = JList (map JObj ds)" and "ds \<noteq> []"
    and "kds = map (\<lambda>d. (as_str (dget d ''key''), d)) ds" and "distinct (map fst kds)"
    and "\<forall>d \<in> set ds. nonblank_str (dget d ''key'')"
proof -
  from assms obtain xs where v: "v = JList xs" and "xs \<noteq> []" and loop: "keyed_loop name [] xs = Inr kds"
    by (auto simp: keyed_items_def split: json.splits if_splits)
  moreover from keyed_loop_items[OF loop] obtain ds where "xs = map JObj ds"
    and "kds = map (\<lambda>d. (as_str (dget d ''key''), d)) ds"
    and "\<forall>d \<in> set ds. nonblank_str (dget d ''key'')"
    by auto
  moreover from keyed_loop_distinct[OF loop] have "distinct (map fst kds)" by simp
  ultimately show thesis using that by blast
qed

section \<open>Action rules\<close>

text \<open>What the checks of a rule refer to: the keys of the definition's states, roles and options.\<close>

record rule_context =
  rc_states :: "string list"
  rc_roles :: "string list"
  rc_task_types :: "string list"
  rc_waiting_targets :: "string list"
  rc_initial_state :: string
  rc_terminal_states :: "string list"

definition option_values :: "rule_context \<Rightarrow> (string \<times> string list) list" where
  "option_values c =
    [(''status'', rc_states c), (''role'', rc_roles c), (''type'', rc_task_types c),
     (''priority'', PRIORITIES), (''waiting_on'', rc_waiting_targets c)]"

text \<open>The shape of a transition: \<^verbatim>\<open>from\<close> and \<^verbatim>\<open>to\<close> by kind of action.\<close>

definition check_transition :: "string \<Rightarrow> dict \<Rightarrow> string \<Rightarrow> rule_context \<Rightarrow> string list \<Rightarrow> unit result" where
  "check_transition ak d name c from_states =
     (if ak = ''create'' then
        ensure (from_states = [] \<and> dget d ''to'' = JStr (rc_initial_state c))
          (name @ '' must create the lifecycle initial state'')
      else if ak = ''update'' then
        ensure (from_states \<noteq> [] \<and> ''to'' \<notin> set (map fst d))
          (name @ '' must update existing non-terminal states without a transition'')
      else if from_states = [] then Inl (ValueError (name @ '' must define valid from and to states''))
      else require_member (rc_states c) (dget d ''to'') (name @ '' must define valid from and to states''))"

definition check_mapping :: "json \<Rightarrow> string \<Rightarrow> unit result" where
  "check_mapping v name = checks
     [ensure (is_dict v \<and> (\<forall>f \<in> set (map fst (as_dict v)). f \<in> set TASK_FIELD_KEYS))
        (name @ '' contains an unknown field''),
      ensure (\<forall>f \<in> set (map fst (as_dict v)). f \<in> set DIRECTLY_WRITABLE_FIELDS)
        (name @ '' contains a protected field'')]"

definition check_option_mapping :: "rule_context \<Rightarrow> json \<Rightarrow> string \<Rightarrow> unit result" where
  "check_option_mapping c v name = checks
     (map (\<lambda>(f, x). case map_of (option_values c) f of
              None \<Rightarrow> Inr ()
            | Some vs \<Rightarrow> require_member vs x (name @ ''.'' @ f @ '' is invalid''))
        (as_dict v))"

definition check_field_prefixes :: "json \<Rightarrow> string list \<Rightarrow> string \<Rightarrow> unit result" where
  "check_field_prefixes v writable name =
     ensure (is_dict v \<and> (\<forall>(f, p) \<in> set (as_dict v). f \<in> set writable) \<and>
             (\<forall>(f, p) \<in> set (as_dict v). nonblank_str p))
       (name @ ''.field_prefixes is invalid'')"

text \<open>
  \<^verbatim>\<open>ACTOR_FIELD_BINDINGS.get(field) != source\<close>: a field without a binding looks up to
  \<^verbatim>\<open>None\<close>, which a stored null equals.
\<close>

definition binding_of :: "string \<Rightarrow> json" where
  "binding_of f = (case map_of ACTOR_FIELD_BINDINGS f of None \<Rightarrow> JNull | Some s \<Rightarrow> JStr s)"

definition check_actor_fields :: "json \<Rightarrow> string \<Rightarrow> unit result" where
  "check_actor_fields v name =
     ensure (is_dict v \<and> (\<forall>(f, src) \<in> set (as_dict v). binding_of f = src))
       (name @ ''.actor_fields is invalid'')"

fun nonempty_str :: "json \<Rightarrow> bool" where
  "nonempty_str (JStr s) = (s \<noteq> [])"
| "nonempty_str _ = False"

definition check_field_values :: "rule_context \<Rightarrow> json \<Rightarrow> string list \<Rightarrow> string \<Rightarrow> unit result" where
  "check_field_values c v writable name = checks
     (ensure (is_dict v) (name @ ''.field_values must be an object'') #
      map (\<lambda>(f, vs). checks
             [ensure (f \<in> set writable \<and> is_list vs \<and> as_items vs \<noteq> [] \<and>
                      (\<forall>x \<in> set (as_items vs). nonempty_str x))
                (name @ ''.field_values.'' @ f @ '' is invalid''),
              (case map_of (option_values c) f of
                 None \<Rightarrow> Inr ()
               | Some allowed \<Rightarrow>
                   ensure (\<forall>x \<in> set (as_items vs). as_str x \<in> set allowed)
                     (name @ ''.field_values.'' @ f @ '' contains an unsupported option''))])
        (as_dict v))"

text \<open>\<^verbatim>\<open>_validate_action_rule\<close>\<close>

definition validate_action_rule :: "string \<Rightarrow> dict \<Rightarrow> string \<Rightarrow> rule_context \<Rightarrow> unit result" where
  "validate_action_rule ak d name c = checks
     [reject_unknown_fields d RULE_FIELDS name,
      validate_localized (dget d ''labels'') (name @ ''.labels''),
      check_member_list True True WORKFLOW_ACTORS (dget d ''actors'') (name @ ''.actors is invalid''),
      check_member_list True False (rc_roles c) (dget_or d ''roles'' (JList [])) (name @ ''.roles is invalid''),
      andthen (member_list True False (rc_states c) (dget_or d ''from'' (JList [])) (name @ ''.from is invalid''))
        (\<lambda>from_states. checks
           [ensure (set from_states \<inter> set (rc_terminal_states c) = {}) (name @ '' cannot leave a terminal state''),
            check_transition ak d name c from_states]),
      andthen (field_list (dget d ''writable_fields'') (name @ ''.writable_fields''))
        (\<lambda>writable. checks
           [ensure (\<forall>f \<in> set writable. f \<in> set DIRECTLY_WRITABLE_FIELDS)
              (name @ ''.writable_fields contains a protected or unknown field''),
            andthen (field_list (dget d ''required_inputs'') (name @ ''.required_inputs''))
              (\<lambda>required. ensure (\<forall>f \<in> set required. f \<in> set writable)
                 (name @ ''.required_inputs must be writable fields'')),
            check_field_list (dget d ''required_task_fields'') (name @ ''.required_task_fields''),
            andthen (field_list (dget d ''clear_fields'') (name @ ''.clear_fields''))
              (\<lambda>clear. ensure (\<forall>f \<in> set clear. f \<in> set CLEARABLE_FIELDS)
                 (name @ ''.clear_fields contains a protected field'')),
            check_mapping (dget_or d ''defaults'' (JObj [])) (name @ ''.defaults''),
            check_mapping (dget_or d ''fixed_fields'' (JObj [])) (name @ ''.fixed_fields''),
            check_field_prefixes (dget_or d ''field_prefixes'' (JObj [])) writable name,
            check_actor_fields (dget_or d ''actor_fields'' (JObj [])) name,
            check_option_mapping c (dget_or d ''defaults'' (JObj [])) (name @ ''.defaults''),
            check_option_mapping c (dget_or d ''fixed_fields'' (JObj [])) (name @ ''.fixed_fields''),
            check_field_values c (dget_or d ''field_values'' (JObj [])) writable name]),
      andthen (member_list True False WORKFLOW_GUARDS (dget_or d ''guards'' (JList [])) (name @ ''.guards is invalid''))
        (\<lambda>guards. ensure (\<forall>g \<in> set guards. ak \<in> set (WORKFLOW_GUARD_ACTIONS g))
           (name @ ''.guards are not supported by '' @ ak))]"

section \<open>The state graph\<close>

text \<open>
  \<^verbatim>\<open>_reachable_states\<close>: \<^verbatim>\<open>pending\<close> is a stack, popped at its end; here its end is the head of
  the list. \<open>es\<close> holds the edges as pairs; each call pops one state, adds its new successors to
  what was reached and pushes them. The order in which Python iterates a set of strings is not
  fixed; the result is a set, so no order shows in it.
\<close>

definition successors :: "(string \<times> string) list \<Rightarrow> string \<Rightarrow> string list" where
  "successors es s = dedup (map snd (filter (\<lambda>e. fst e = s) es))"

definition new_successors :: "(string \<times> string) list \<Rightarrow> string \<Rightarrow> string list \<Rightarrow> string list" where
  "new_successors es s reached = filter (\<lambda>d. d \<notin> set reached) (successors es s)"

lemma set_successors [simp]: "set (successors es s) = {d. (s, d) \<in> set es}"
  by (force simp: successors_def)

lemma set_new_successors [simp]:
  "set (new_successors es s reached) = {d. (s, d) \<in> set es} - set reached"
  by (auto simp: new_successors_def)

function reach_loop :: "(string \<times> string) list \<Rightarrow> string list \<Rightarrow> string list \<Rightarrow> string list" where
  "reach_loop es reached [] = reached"
| "reach_loop es reached (s # pending) =
     reach_loop es (reached @ new_successors es s reached)
       (rev (new_successors es s reached) @ pending)"
  by pat_completeness auto
termination
proof (relation "measures [\<lambda>(es, reached, pending). card (snd ` set es - set reached),
                           \<lambda>(es, reached, pending). length pending]")
  fix es :: "(string \<times> string) list" and reached s pending
  let ?new = "new_successors es s reached"
  show "((es, reached @ ?new, rev ?new @ pending), es, reached, s # pending)
          \<in> measures [\<lambda>(es, reached, pending). card (snd ` set es - set reached),
                      \<lambda>(es, reached, pending). length pending]"
  proof (cases "?new = []")
    case False
    then obtain d where d: "d \<in> set ?new" by (meson last_in_set)
    then have "d \<in> snd ` set es - set reached" by force
    moreover have "d \<notin> snd ` set es - set (reached @ ?new)" using d by auto
    ultimately have "snd ` set es - set (reached @ ?new) \<subset> snd ` set es - set reached" by auto
    then show ?thesis by (simp add: psubset_card_mono)
  qed simp
qed simp

definition reachable_states :: "string list \<Rightarrow> (string \<times> string) list \<Rightarrow> string list" where
  "reachable_states roots es = reach_loop es roots (rev roots)"

text \<open>The edges of the graph: every rule of a transition leads from each \<^verbatim>\<open>from\<close> to its \<^verbatim>\<open>to\<close>.\<close>

definition rule_edges :: "dict \<Rightarrow> (string \<times> string) list" where
  "rule_edges d = map (\<lambda>src. (as_str src, as_str (dget d ''to''))) (as_items (dget d ''from''))"

definition action_edges :: "dict \<Rightarrow> (string \<times> string) list" where
  "action_edges actions = concat (map (\<lambda>(ak, a).
     if ak \<in> set [''create'', ''update''] then []
     else concat (map (\<lambda>r. rule_edges (as_dict r)) (as_items (dget (as_dict a) ''rules'')))) actions)"

definition validate_state_graph :: "string \<Rightarrow> string list \<Rightarrow> dict \<Rightarrow> string \<Rightarrow> string list \<Rightarrow> unit result" where
  "validate_state_graph key states actions initial terminal =
     (let es = action_edges actions;
          reachable = reachable_states [initial] es;
          terminating = reachable_states terminal (map (\<lambda>(a, b). (b, a)) es)
      in checks
        [ensure (\<forall>s \<in> set states. s \<in> set reachable)
           (key @ ''.lifecycle contains states unreachable from '' @ initial),
         ensure (\<forall>s \<in> set states. s \<notin> set terminal \<longrightarrow> s \<in> set terminating)
           (key @ ''.lifecycle contains non-terminal states without a path to a terminal state'')])"

text \<open>
  The loop computes reachability: everything reached is reachable from what was reached at the
  start, and everything that can be reached from a pending state, or from the reached ones, is.
\<close>

lemma reach_loop_sound:
  "d \<in> set (reach_loop es reached pending) \<Longrightarrow> set pending \<subseteq> set reached \<Longrightarrow>
   \<exists>r \<in> set reached. (r, d) \<in> (set es)\<^sup>*"
proof (induction es reached pending rule: reach_loop.induct)
  case (2 es reached s pending)
  let ?new = "new_successors es s reached"
  have "set (rev ?new @ pending) \<subseteq> set (reached @ ?new)" using "2.prems"(2) by auto
  with "2.IH" "2.prems"(1) obtain r where "r \<in> set (reached @ ?new)" and rd: "(r, d) \<in> (set es)\<^sup>*"
    by auto
  then consider "r \<in> set reached" | "(s, r) \<in> set es" by auto
  then show ?case
  proof cases
    case 2
    from 2 rd have "(s, d) \<in> (set es)\<^sup>*" by (rule converse_rtrancl_into_rtrancl)
    moreover have "s \<in> set reached" using "2.prems"(2) by simp
    ultimately show ?thesis by blast
  qed (use rd in blast)
qed auto

lemma reach_loop_mono: "set reached \<subseteq> set (reach_loop es reached pending)"
  by (induction es reached pending rule: reach_loop.induct) auto

lemma reach_loop_closed:
  "\<forall>s \<in> set reached. s \<in> set pending \<or> (\<forall>d. (s, d) \<in> set es \<longrightarrow> d \<in> set reached) \<Longrightarrow>
   s \<in> set (reach_loop es reached pending) \<Longrightarrow> (s, d) \<in> set es \<Longrightarrow>
   d \<in> set (reach_loop es reached pending)"
proof (induction es reached pending arbitrary: s d rule: reach_loop.induct)
  case (2 es reached p pending)
  let ?new = "new_successors es p reached"
  have "\<forall>s \<in> set (reached @ ?new). s \<in> set (rev ?new @ pending) \<or>
          (\<forall>d. (s, d) \<in> set es \<longrightarrow> d \<in> set (reached @ ?new))"
    using "2.prems"(1) by auto
  from "2.IH"[OF this] "2.prems"(2,3) show ?case by simp
qed auto

lemma reachable_states_eq: "set (reachable_states roots es) = (set es)\<^sup>* `` set roots"
proof
  show "set (reachable_states roots es) \<subseteq> (set es)\<^sup>* `` set roots"
    using reach_loop_sound[of _ es roots "rev roots"] by (auto simp: reachable_states_def)
next
  show "(set es)\<^sup>* `` set roots \<subseteq> set (reachable_states roots es)"
  proof
    fix d assume "d \<in> (set es)\<^sup>* `` set roots"
    then obtain r where r: "r \<in> set roots" and rd: "(r, d) \<in> (set es)\<^sup>*" by auto
    from rd show "d \<in> set (reachable_states roots es)"
    proof (induction rule: rtrancl_induct)
      case base
      then show ?case using r reach_loop_mono by (auto simp: reachable_states_def)
    next
      case (step y z)
      then show ?case
        using reach_loop_closed[of roots "rev roots" es y z] by (simp add: reachable_states_def)
    qed
  qed
qed

lemma set_map_swap: "set (map (\<lambda>(a, b). (b, a)) es) = (set es)\<inverse>"
  by force

lemma ok_validate_state_graph [check_simps]:
  "ok (validate_state_graph key states actions initial terminal) \<longleftrightarrow>
     (\<forall>s \<in> set states. (initial, s) \<in> (set (action_edges actions))\<^sup>*) \<and>
     (\<forall>s \<in> set states. s \<notin> set terminal \<longrightarrow>
        (\<exists>t \<in> set terminal. (s, t) \<in> (set (action_edges actions))\<^sup>*))"
  by (auto simp: validate_state_graph_def Let_def check_simps reachable_states_eq set_map_swap
      rtrancl_converse simp del: set_map)

section \<open>Lifecycle and runtime actions\<close>

text \<open>One state of the lifecycle: the body of the first loop of \<^verbatim>\<open>_validate_lifecycle\<close>.\<close>

definition validate_state :: "dict \<Rightarrow> string \<Rightarrow> unit result" where
  "validate_state d name = checks
     [reject_unknown_fields d STATE_FIELDS name,
      validate_localized (dget d ''labels'') (name @ ''.labels''),
      validate_color (dget d ''color'') (name @ ''.color''),
      require_member WORKFLOW_DISPATCH_TARGETS (dget d ''dispatch'') (name @ ''.dispatch is invalid''),
      (if dget d ''dispatch'' = JStr ''none'' \<and> dget d ''dispatch_instructions'' = JNull then Inr ()
       else validate_localized (dget d ''dispatch_instructions'') (name @ ''.dispatch_instructions'')),
      check_field_list (dget d ''required_fields'') (name @ ''.required_fields'')]"

definition validate_action :: "string \<Rightarrow> json \<Rightarrow> string \<Rightarrow> rule_context \<Rightarrow> unit result" where
  "validate_action ak a name c = checks
     [ensure (is_dict a) (name @ '' must be an object''),
      reject_unknown_fields (as_dict a) ACTION_FIELDS name,
      validate_localized (dget (as_dict a) ''labels'') (name @ ''.labels''),
      ensure (is_bool (dget_or (as_dict a) ''confirmation_required'' (JBool False)))
        (name @ ''.confirmation_required must be boolean''),
      ensure (\<not> (truthy (dget (as_dict a) ''confirmation_required'') \<and> ak \<noteq> ''cancel''))
        (name @ ''.confirmation_required is only supported for cancel''),
      andthen (keyed_items (dget (as_dict a) ''rules'') (name @ ''.rules'')) (\<lambda>rules. checks
        (ensure (\<not> (ak = ''create'' \<and> length rules \<noteq> 1)) (name @ '' must define exactly one rule'') #
         map (\<lambda>(k, d). validate_action_rule ak d (name @ ''.rules.'' @ k) c) rules))]"

text \<open>
  \<^verbatim>\<open>_validate_lifecycle\<close>. The terminal states are non-members of the completion test one by
  one, but in a list, where an unhashable value is only unequal: that scan is \<open>typed\<close>.
\<close>

definition validate_states :: "string \<Rightarrow> (string \<times> dict) list \<Rightarrow> unit result" where
  "validate_states key states = checks (map (\<lambda>(k, d). validate_state d (key @ ''.lifecycle.states.'' @ k)) states)"

definition validate_actions :: "string \<Rightarrow> dict \<Rightarrow> (string \<times> dict) list \<Rightarrow> rule_context \<Rightarrow> unit result" where
  "validate_actions key lc states c =
     (let actions = as_dict (dget lc ''actions''); terminal = rc_terminal_states c; initial = rc_initial_state c
      in checks
        ([ensure (initial \<notin> set terminal) (key @ ''.lifecycle.initial_state cannot be terminal''),
          ensure (\<forall>(k, d) \<in> set states. k \<in> set terminal \<longrightarrow> dget d ''dispatch'' = JStr ''none'')
            (key @ ''.lifecycle terminal state cannot dispatch work''),
          ensure (is_dict (dget lc ''actions'')) (key @ ''.lifecycle.actions must be an object''),
          ensure ((\<forall>k \<in> set (map fst actions). k \<in> set WORKFLOW_ACTION_KEYS) \<and>
                  (\<forall>k \<in> set WORKFLOW_ACTION_KEYS. k \<in> set (map fst actions)))
            (key @ ''.lifecycle.actions must define the TeamFlow action set'')] @
         map (\<lambda>(ak, a). validate_action ak a (key @ ''.lifecycle.actions.'' @ ak) c) actions @
         [validate_state_graph key (map fst states) actions initial terminal]))"

definition validate_lifecycle ::
  "string \<Rightarrow> dict \<Rightarrow> string list \<Rightarrow> string list \<Rightarrow> string list \<Rightarrow> unit result" where
  "validate_lifecycle key defn roles task_types waiting =
     andthen (ensure (is_dict (dget defn ''lifecycle'')) (key @ ''.lifecycle must be an object''))
     (\<lambda>_. let lc = as_dict (dget defn ''lifecycle'') in
          andthen (reject_unknown_fields lc LIFECYCLE_FIELDS (key @ ''.lifecycle''))
     (\<lambda>_. andthen (keyed_items (dget lc ''states'') (key @ ''.lifecycle.states''))
     (\<lambda>states. andthen (validate_states key states)
     (\<lambda>_. andthen (require_member (map fst states) (dget lc ''initial_state'')
                    (key @ ''.lifecycle.initial_state is invalid''))
     (\<lambda>_. andthen (member_list False True (map fst states) (dget lc ''terminal_states'')
                    (key @ ''.lifecycle.terminal_states is invalid''))
     (\<lambda>terminal. andthen (member_list True True terminal (dget lc ''completion_states'')
                    (key @ ''.lifecycle.completion_states must be a non-empty subset of terminal_states''))
     (\<lambda>_. validate_actions key lc states
            \<lparr>rc_states = map fst states, rc_roles = roles, rc_task_types = task_types,
             rc_waiting_targets = waiting, rc_initial_state = as_str (dget lc ''initial_state''),
             rc_terminal_states = terminal\<rparr>)))))))"

definition validate_runtime_action :: "string \<Rightarrow> string list \<Rightarrow> string list \<Rightarrow> string \<Rightarrow> json \<Rightarrow> unit result" where
  "validate_runtime_action key roles states ak a =
     (let name = key @ ''.runtime_actions.'' @ ak; d = as_dict a
      in case map_of RUNTIME_ACTION_SPECS ak of
           None \<Rightarrow> Inl (ValueError (name @ '' is invalid''))
         | Some (inputs, produces) \<Rightarrow> checks
             [ensure (is_dict a) (name @ '' is invalid''),
              reject_unknown_fields d RUNTIME_ACTION_FIELDS name,
              validate_localized (dget d ''labels'') (name @ ''.labels''),
              check_member_list False True WORKFLOW_ACTORS (dget d ''actors'') (name @ ''.actors is invalid''),
              check_member_list False False roles (dget_or d ''roles'' (JList [])) (name @ ''.roles is invalid''),
              check_member_list False True states (dget d ''states'') (name @ ''.states is invalid''),
              andthen (member_list True False inputs (dget_or d ''required_inputs'' (JList []))
                         (name @ ''.required_inputs is invalid''))
                (\<lambda>fs. ensure (set fs = set inputs) (name @ ''.required_inputs is invalid'')),
              check_field_list (dget d ''required_task_fields'') (name @ ''.required_task_fields''),
              ensure (is_bool (dget_or d ''confirmation_required'' (JBool False)))
                (name @ ''.confirmation_required must be boolean''),
              andthen (member_list False False WORKFLOW_GUARDS (dget_or d ''produces'' (JList []))
                         (name @ ''.produces is invalid''))
                (\<lambda>fs. ensure (set fs = set produces) (name @ ''.produces is invalid''))])"

text \<open>
  \<^verbatim>\<open>required_inputs\<close> is checked in the source as a list of non-blank, distinct strings whose set
  is the specification's; a list of members of that set with the whole set as its elements is the
  same condition, since the specification's inputs are non-blank.
\<close>

definition validate_runtime_actions :: "string \<Rightarrow> dict \<Rightarrow> string list \<Rightarrow> unit result" where
  "validate_runtime_actions key defn roles =
     (let states = map (\<lambda>s. as_str (dget (as_dict s) ''key''))
                     (as_items (dget (as_dict (dget defn ''lifecycle'')) ''states''));
          v = dget_or defn ''runtime_actions'' (JObj [])
      in checks (ensure (is_dict v) (key @ ''.runtime_actions must be an object'') #
                 map (\<lambda>(ak, a). validate_runtime_action key roles states ak a) (as_dict v)))"

section \<open>The whole definition\<close>

definition validate_role :: "dict \<Rightarrow> string \<Rightarrow> unit result" where
  "validate_role d name = checks
     [reject_unknown_fields d ROLE_FIELDS name,
      validate_localized (dget d ''labels'') (name @ ''.labels''),
      validate_localized (dget d ''descriptions'') (name @ ''.descriptions''),
      ensure (is_bool (dget d ''allow_multiple'')) (name @ ''.allow_multiple must be boolean'')]"

definition validate_task_type :: "dict \<Rightarrow> string \<Rightarrow> string list \<Rightarrow> unit result" where
  "validate_task_type d name roles = checks
     [reject_unknown_fields d TASK_TYPE_FIELDS name,
      validate_localized (dget d ''labels'') (name @ ''.labels''),
      validate_localized (dget d ''descriptions'') (name @ ''.descriptions''),
      require_member roles (dget d ''default_role'') (''unknown default role for task type '' @ name)]"

definition validate_waiting_target :: "dict \<Rightarrow> string \<Rightarrow> unit result" where
  "validate_waiting_target d name = checks
     [reject_unknown_fields d WAITING_TARGET_FIELDS name,
      validate_localized (dget d ''labels'') (name @ ''.labels''),
      validate_color (dget d ''color'') (name @ ''.color'')]"

definition validate_task_schema :: "json \<Rightarrow> string \<Rightarrow> unit result" where
  "validate_task_schema v key =
     (let d = as_dict v; tid = dget d ''task_id''; len = as_int (dget (as_dict tid) ''sequence_length'')
      in checks
        [ensure (is_dict v \<and> dget d ''base'' = JStr ''teamflow-task-v1'')
           (key @ ''.task_schema.base must be teamflow-task-v1''),
         reject_unknown_fields d TASK_SCHEMA_FIELDS (key @ ''.task_schema''),
         ensure (is_dict tid) (key @ ''.task_schema.task_id must be an object''),
         reject_unknown_fields (as_dict tid) TASK_ID_FIELDS (key @ ''.task_schema.task_id''),
         ensure (case len of None \<Rightarrow> False | Some n \<Rightarrow> 1 \<le> n \<and> n \<le> 9)
           (key @ ''.task_schema.task_id.sequence_length must be between 1 and 9'')])"

text \<open>
  \<^verbatim>\<open>validate_workflow_definition\<close>: \<open>dir\<close> is the name of the directory that holds the file and
  \<open>path\<close> the file's path, which occurs in messages only.
\<close>

definition validate_workflow_definition :: "json \<Rightarrow> string \<Rightarrow> string \<Rightarrow> unit result" where
  "validate_workflow_definition v dir path =
     andthen (ensure (is_dict v) (''workflow definition must be an object: '' @ path))
     (\<lambda>_. let d = as_dict v in andthen (checks
        [reject_unknown_fields d WORKFLOW_DEFINITION_FIELDS path,
         require_fields d WORKFLOW_DEFINITION_FIELDS path,
         ensure (as_int (dget d ''schema_version'') = Some WORKFLOW_SCHEMA_VERSION)
           (''unsupported workflow schema version: '' @ path)])
     (\<lambda>_. andthen (required_text d ''key'' path)
     (\<lambda>key. andthen (checks
        [ensure (key = dir) (''workflow key must match its directory name: '' @ path),
         validate_localized (dget d ''labels'') (key @ ''.labels''),
         validate_localized (dget d ''short_descriptions'') (key @ ''.short_descriptions'')])
     (\<lambda>_. andthen (keyed_items (dget d ''roles'') (key @ ''.roles''))
     (\<lambda>roles. andthen (checks (map (\<lambda>(k, r). validate_role r (key @ ''.roles.'' @ k)) roles))
     (\<lambda>_. andthen (required_text d ''coordinator_role'' path)
     (\<lambda>coordinator. andthen (ensure (coordinator \<in> set (map fst roles))
                              (''unknown coordinator role '' @ coordinator @ '': '' @ path))
     (\<lambda>_. andthen (keyed_items (dget d ''task_types'') (key @ ''.task_types''))
     (\<lambda>types. andthen (checks (map (\<lambda>(k, t). validate_task_type t (key @ ''.task_types.'' @ k) (map fst roles)) types))
     (\<lambda>_. andthen (keyed_items (dget d ''waiting_targets'') (key @ ''.waiting_targets''))
     (\<lambda>waiting. checks
        (map (\<lambda>(k, t). validate_waiting_target t (key @ ''.waiting_targets.'' @ k)) waiting @
         [validate_task_schema (dget d ''task_schema'') key,
          validate_lifecycle key d (map fst roles) (map fst types) (map fst waiting),
          validate_runtime_actions key d (map fst roles)]))))))))))))"

end
