(* ===== verification/Workflow_Loading.thy ===== *)
theory Workflow_Loading
  imports Workflow_Validation "HOL-Library.Monad_Syntax"
begin

text \<open>
  From a raw definition to the records of \<open>Workflow_Model\<close>: every read the engine makes of a
  loaded definition (\<^verbatim>\<open>core/workflow.py\<close> and its clients), and the proof that validation makes
  these reads succeed. The engine of the later theories works on the records.
\<close>

section \<open>Reading a definition\<close>

text \<open>
  How the engine reads a definition it loaded: by subscripts for the parts the validator requires
  and by \<^verbatim>\<open>get\<close> with a default for the optional ones. \<open>None\<close> is a read that raises (a missing
  key, a null where a list is iterated, a name outside its enumeration).
\<close>

fun read_actor :: "json \<Rightarrow> actor option" where
  "read_actor (JStr s) = List.find (\<lambda>a. actor_key a = s) [Coordinator, Task_Role, Assigned_Agent]"
| "read_actor _ = None"

fun read_dispatch :: "json \<Rightarrow> dispatch option" where
  "read_dispatch (JStr s) =
     List.find (\<lambda>t. dispatch_key t = s) [Dispatch_None, Dispatch_Task_Role, Dispatch_Coordinator]"
| "read_dispatch _ = None"

fun read_str :: "json \<Rightarrow> string option" where
  "read_str (JStr s) = Some s"
| "read_str _ = None"

fun read_list :: "(json \<Rightarrow> 'a option) \<Rightarrow> json \<Rightarrow> 'a list option" where
  "read_list f (JList xs) = those (map f xs)"
| "read_list f _ = None"

fun read_dict :: "json \<Rightarrow> dict option" where
  "read_dict (JObj d) = Some d"
| "read_dict _ = None"

definition read_pairs :: "(json \<Rightarrow> 'a option) \<Rightarrow> dict \<Rightarrow> (string \<times> 'a) list option" where
  "read_pairs f d = those (map (\<lambda>(k, v). map_option (Pair k) (f v)) d)"

fun read_bool :: "json \<Rightarrow> bool option" where
  "read_bool (JBool b) = Some b"
| "read_bool _ = None"


definition read_names :: "dict \<Rightarrow> string \<Rightarrow> string list option" where
  "read_names d k = read_list read_str (dget_or d k (JList []))"

definition read_rule :: "dict \<Rightarrow> rule option" where
  "read_rule d = do {
     key \<leftarrow> read_str (dget d ''key'');
     actors \<leftarrow> read_list read_actor (dget d ''actors'');
     roles \<leftarrow> read_names d ''roles'';
     from_states \<leftarrow> read_names d ''from'';
     to_state \<leftarrow> (case dget d ''to'' of JNull \<Rightarrow> Some None | v \<Rightarrow> map_option Some (read_str v));
     writable \<leftarrow> read_names d ''writable_fields'';
     inputs \<leftarrow> read_names d ''required_inputs'';
     task_fields \<leftarrow> read_names d ''required_task_fields'';
     defaults \<leftarrow> read_dict (dget_or d ''defaults'' (JObj []));
     fixed \<leftarrow> read_dict (dget_or d ''fixed_fields'' (JObj []));
     clear \<leftarrow> read_names d ''clear_fields'';
     field_values \<leftarrow> read_dict (dget_or d ''field_values'' (JObj []));
     options \<leftarrow> read_pairs (read_list read_str) field_values;
     field_prefixes \<leftarrow> read_dict (dget_or d ''field_prefixes'' (JObj []));
     prefixes \<leftarrow> read_pairs read_str field_prefixes;
     actor_fields \<leftarrow> read_dict (dget_or d ''actor_fields'' (JObj []));
     bindings \<leftarrow> read_pairs read_str actor_fields;
     guards \<leftarrow> read_names d ''guards'';
     Some \<lparr>rl_key = key, rl_actors = actors, rl_roles = roles, rl_from = from_states, rl_to = to_state,
           rl_writable = writable, rl_required_inputs = inputs, rl_required_task_fields = task_fields,
           rl_defaults = defaults, rl_fixed_fields = fixed, rl_clear_fields = clear,
           rl_field_values = options, rl_field_prefixes = prefixes, rl_actor_fields = bindings,
           rl_guards = guards\<rparr>
   }"

definition read_state :: "dict \<Rightarrow> state_def option" where
  "read_state d = do {
     key \<leftarrow> read_str (dget d ''key'');
     target \<leftarrow> read_dispatch (dget d ''dispatch'');
     required \<leftarrow> read_names d ''required_fields'';
     Some \<lparr>sd_key = key, sd_dispatch = target, sd_required = required\<rparr>
   }"

definition read_action :: "json \<Rightarrow> action_def option" where
  "read_action v = do {
     d \<leftarrow> read_dict v;
     rules \<leftarrow> read_list (\<lambda>r. Option.bind (read_dict r) read_rule) (dget d ''rules'');
     Some \<lparr>ac_confirmation = truthy (dget d ''confirmation_required''), ac_rules = rules\<rparr>
   }"

definition read_runtime_action :: "json \<Rightarrow> runtime_action option" where
  "read_runtime_action v = do {
     d \<leftarrow> read_dict v;
     actors \<leftarrow> read_list read_actor (dget d ''actors'');
     roles \<leftarrow> read_names d ''roles'';
     states \<leftarrow> read_list read_str (dget d ''states'');
     inputs \<leftarrow> read_names d ''required_inputs'';
     task_fields \<leftarrow> read_names d ''required_task_fields'';
     produces \<leftarrow> read_names d ''produces'';
     Some \<lparr>ra_actors = actors, ra_roles = roles, ra_states = states, ra_required_inputs = inputs,
           ra_required_task_fields = task_fields,
           ra_confirmation = truthy (dget d ''confirmation_required''), ra_produces = produces\<rparr>
   }"

definition read_keyed :: "(dict \<Rightarrow> 'a option) \<Rightarrow> json \<Rightarrow> 'a list option" where
  "read_keyed f v = read_list (\<lambda>x. Option.bind (read_dict x) f) v"

definition read_role :: "dict \<Rightarrow> (string \<times> bool) option" where
  "read_role d = do {
     key \<leftarrow> read_str (dget d ''key'');
     multiple \<leftarrow> read_bool (dget d ''allow_multiple'');
     Some (key, multiple)
   }"

definition read_task_type :: "dict \<Rightarrow> (string \<times> string) option" where
  "read_task_type d = do {
     key \<leftarrow> read_str (dget d ''key'');
     role \<leftarrow> read_str (dget d ''default_role'');
     Some (key, role)
   }"

definition read_waiting_target :: "dict \<Rightarrow> string option" where
  "read_waiting_target d = read_str (dget d ''key'')"

definition read_workflow :: "json \<Rightarrow> workflow option" where
  "read_workflow v = do {
     d \<leftarrow> read_dict v;
     key \<leftarrow> read_str (dget d ''key'');
     coordinator \<leftarrow> read_str (dget d ''coordinator_role'');
     roles \<leftarrow> read_keyed read_role (dget d ''roles'');
     types \<leftarrow> read_keyed read_task_type (dget d ''task_types'');
     waiting \<leftarrow> read_keyed read_waiting_target (dget d ''waiting_targets'');
     lc \<leftarrow> read_dict (dget d ''lifecycle'');
     initial \<leftarrow> read_str (dget lc ''initial_state'');
     terminal \<leftarrow> read_list read_str (dget lc ''terminal_states'');
     completion \<leftarrow> read_list read_str (dget lc ''completion_states'');
     states \<leftarrow> read_keyed read_state (dget lc ''states'');
     raw_actions \<leftarrow> read_dict (dget lc ''actions'');
     actions \<leftarrow> read_pairs read_action raw_actions;
     raw_runtime \<leftarrow> read_dict (dget_or d ''runtime_actions'' (JObj []));
     runtime \<leftarrow> read_pairs read_runtime_action raw_runtime;
     Some \<lparr>wf_key = key, wf_coordinator_role = coordinator, wf_roles = roles, wf_task_types = types,
           wf_waiting_targets = waiting, wf_initial_state = initial, wf_terminal_states = terminal,
           wf_completion_states = completion, wf_states = states, wf_actions = actions,
           wf_runtime_actions = runtime\<rparr>
   }"

text \<open>A definition that stores no null anywhere.\<close>

fun null_free :: "json \<Rightarrow> bool" where
  "null_free JNull = False"
| "null_free (JList xs) = (\<forall>x \<in> set xs. null_free x)"
| "null_free (JObj d) = (\<forall>(k, v) \<in> set d. null_free v)"
| "null_free _ = True"

lemma null_free_map_of: "null_free (JObj d) \<Longrightarrow> map_of d k = Some v \<Longrightarrow> null_free v"
  by (auto dest!: map_of_SomeD)

lemma null_free_dget: "null_free (JObj d) \<Longrightarrow> dget d k \<noteq> JNull \<Longrightarrow> null_free (dget d k)"
  by (cases "map_of d k") (auto simp: dget_None dget_Some dest: null_free_map_of simp del: null_free.simps)

lemma null_free_dget_or:
  assumes "null_free (JObj d)" and "dget d k = JNull"
  shows "dget_or d k dflt = dflt"
proof (cases "map_of d k")
  case (Some v)
  with assms have "null_free JNull" using null_free_map_of[of d k v] by (simp add: dget_Some)
  then show ?thesis by simp
qed (simp add: dget_or_def)

lemma dget_or_dget: "dget d k \<noteq> JNull \<Longrightarrow> dget_or d k dflt = dget d k"
  by (auto simp: dget_or_def dget_def split: option.splits)

section \<open>Reads that succeed\<close>

lemma those_map_Some: "(\<And>x. x \<in> set xs \<Longrightarrow> f x = Some (g x)) \<Longrightarrow> those (map f xs) = Some (map g xs)"
  by (induction xs) auto

lemma those_map_eq: "those (map f xs) = Some ys \<longleftrightarrow> map f xs = map Some ys"
  by (induction xs arbitrary: ys) (auto simp: Cons_eq_map_conv split: option.splits)

lemma those_map_ex: "(\<forall>x \<in> set xs. \<exists>y. f x = Some y) \<Longrightarrow> \<exists>ys. those (map f xs) = Some ys"
  using those_map_Some[of xs f "\<lambda>x. the (f x)"] by force

lemma read_list_strs [simp]: "read_list read_str (JList (map JStr ss)) = Some ss"
  by (simp add: those_map_eq)

lemma read_list_Nil [simp]: "read_list f (JList []) = Some []"
  by simp

lemma read_names_check:
  assumes "null_free (JObj d)" and "field_list (dget d k) name = Inr fs"
  shows "read_names d k = Some fs"
  using assms
  by (auto simp: field_list_eq read_names_def null_free_dget_or dget_or_dget simp del: null_free.simps read_list.simps)

lemma read_names_member_list:
  assumes "member_list typed ne ks (dget_or d k (JList [])) msg = Inr ss"
  shows "read_names d k = Some ss"
  using assms by (auto simp: member_list_eq read_names_def simp del: read_list.simps)

lemma read_actors:
  "set ss \<subseteq> set WORKFLOW_ACTORS \<Longrightarrow> \<exists>as. read_list read_actor (JList (map JStr ss)) = Some as"
proof -
  assume "set ss \<subseteq> set WORKFLOW_ACTORS"
  then have "\<forall>x \<in> set (map JStr ss). \<exists>a. read_actor x = Some a"
    by (auto simp: WORKFLOW_ACTORS_def)
  then show ?thesis unfolding read_list.simps by (rule those_map_ex)
qed

lemma read_dispatch_ok:
  "s \<in> set WORKFLOW_DISPATCH_TARGETS \<Longrightarrow> \<exists>t. read_dispatch (JStr s) = Some t \<and> dispatch_key t = s"
  by (auto simp: WORKFLOW_DISPATCH_TARGETS_def)

lemma read_pairs_ex:
  "\<forall>(k, v) \<in> set d. \<exists>y. f v = Some y \<Longrightarrow> \<exists>ps. read_pairs f d = Some ps"
  unfolding read_pairs_def by (rule those_map_ex) fastforce

lemma read_pairs_Cons:
  "read_pairs f ((k, v) # d) = Some ps \<longleftrightarrow>
     (\<exists>y ps'. f v = Some y \<and> read_pairs f d = Some ps' \<and> ps = (k, y) # ps')"
  by (auto simp: read_pairs_def split: option.splits)

lemma read_pairs_keys: "read_pairs f d = Some ps \<Longrightarrow> map fst ps = map fst d"
proof (induction d arbitrary: ps)
  case (Cons kv d)
  then show ?case by (cases kv) (auto simp: read_pairs_Cons)
qed (simp add: read_pairs_def)

lemma read_pairs_mem:
  "read_pairs f d = Some ps \<Longrightarrow> (k, y) \<in> set ps \<Longrightarrow> \<exists>v. (k, v) \<in> set d \<and> f v = Some y"
proof (induction d arbitrary: ps)
  case (Cons kv d)
  obtain k0 v0 where kv: "kv = (k0, v0)" by (cases kv)
  from Cons.prems(1) kv obtain y0 ps' where "f v0 = Some y0" and "read_pairs f d = Some ps'"
    and "ps = (k0, y0) # ps'"
    by (auto simp: read_pairs_def split: option.splits)
  with Cons.IH Cons.prems(2) kv show ?case by auto
qed (simp add: read_pairs_def)

section \<open>A validated rule\<close>

lemma ok_check_mapping:
  "ok (check_mapping v name) \<Longrightarrow> \<exists>m. v = JObj m \<and> set (dkeys m) \<subseteq> set DIRECTLY_WRITABLE_FIELDS"
  by (cases v) (auto simp: check_mapping_def check_simps dkeys_def simp del: set_dkeys)

lemma ok_check_field_prefixes:
  assumes "ok (check_field_prefixes v writable name)"
  shows "\<exists>m ps. v = JObj m \<and> read_pairs read_str m = Some ps \<and> fst ` set ps \<subseteq> set writable"
proof -
  from assms obtain m where m: "v = JObj m" "\<forall>(f, p) \<in> set m. f \<in> set writable" "\<forall>(f, p) \<in> set m. nonblank_str p"
    by (cases v) (auto simp: check_field_prefixes_def check_simps)
  have "\<exists>y. read_str x = Some y" if "nonblank_str x" for x
    using that by (cases x) auto
  then have "\<forall>(k, v) \<in> set m. \<exists>y. read_str v = Some y" using m(3) by fastforce
  then obtain ps where ps: "read_pairs read_str m = Some ps" using read_pairs_ex by blast
  moreover have "fst ` set ps \<subseteq> set writable"
    using m(2) read_pairs_mem[OF ps] by fastforce
  ultimately show ?thesis using m(1) by blast
qed

lemma ok_check_actor_fields:
  assumes "ok (check_actor_fields v name)" and "null_free v"
  shows "\<exists>m ps. v = JObj m \<and> read_pairs read_str m = Some ps \<and> set ps \<subseteq> set ACTOR_FIELD_BINDINGS"
proof -
  from assms obtain m where m: "v = JObj m" "\<forall>(f, src) \<in> set m. binding_of f = src" "\<forall>(k, x) \<in> set m. null_free x"
    by (cases v) (auto simp: check_actor_fields_def check_simps)
  have bind: "\<exists>s. x = JStr s \<and> (f, s) \<in> set ACTOR_FIELD_BINDINGS" if "binding_of f = x" "null_free x" for f x
    using that by (auto simp: binding_of_def split: option.splits dest: map_of_SomeD)
  have "\<forall>(k, v) \<in> set m. \<exists>y. read_str v = Some y" using m(2,3) bind by fastforce
  then obtain ps where ps: "read_pairs read_str m = Some ps" using read_pairs_ex by blast
  have "(k, y) \<in> set ACTOR_FIELD_BINDINGS" if ky: "(k, y) \<in> set ps" for k y
  proof -
    obtain x where x: "(k, x) \<in> set m" "read_str x = Some y" using read_pairs_mem[OF ps ky] by blast
    then have "x = JStr y" by (cases x) auto
    with bind[of k x] m(2,3) x(1) show ?thesis by fastforce
  qed
  with ps m(1) show ?thesis by auto
qed

lemma read_nonempty_strs:
  "\<forall>x \<in> set xs. nonempty_str x \<Longrightarrow> \<exists>ss. read_list read_str (JList xs) = Some ss"
proof -
  assume "\<forall>x \<in> set xs. nonempty_str x"
  moreover have "\<exists>y. read_str x = Some y" if "nonempty_str x" for x
    using that by (cases x) auto
  ultimately show ?thesis unfolding read_list.simps by (intro those_map_ex) blast
qed

lemma ok_check_field_values:
  assumes "ok (check_field_values c v writable name)"
  shows "\<exists>m ps. v = JObj m \<and> read_pairs (read_list read_str) m = Some ps \<and> fst ` set ps \<subseteq> set writable"
proof -
  from assms obtain m where v: "v = JObj m"
    by (cases v) (auto simp: check_field_values_def check_simps)
  with assms have m: "\<forall>(f, vs) \<in> set m. f \<in> set writable \<and> (\<exists>xs. vs = JList xs) \<and> (\<forall>x \<in> set (as_items vs). nonempty_str x)"
    by (auto simp: check_field_values_def check_simps is_list_iff)
  then have "\<forall>(k, v) \<in> set m. \<exists>y. read_list read_str v = Some y"
    using read_nonempty_strs by fastforce
  then obtain ps where ps: "read_pairs (read_list read_str) m = Some ps" using read_pairs_ex by blast
  moreover have "fst ` set ps \<subseteq> set writable"
    using m read_pairs_mem[OF ps] by fastforce
  ultimately show ?thesis using v by blast
qed

lemma validated_names:
  assumes "ok (check_member_list typed ne ks (dget_or d k (JList [])) msg)"
  shows "\<exists>ss. read_names d k = Some ss \<and> set ss \<subseteq> set ks"
  using assms by (auto simp: check_simps read_names_def simp del: read_list.simps)

lemma validated_actors:
  assumes "ok (check_member_list typed ne WORKFLOW_ACTORS v msg)"
  shows "\<exists>as. read_list read_actor v = Some as"
  using assms read_actors unfolding ok_check_member_list by blast

lemma validated_field_names:
  assumes "ok (check_field_list (dget d k) name)" and "null_free (JObj d)"
  shows "\<exists>ss. read_names d k = Some ss"
  using assms read_names_check unfolding check_field_list_def ok_andthen by blast

lemma validated_transition:
  assumes "ok (check_transition ak d name c froms)" and "read_names d ''from'' = Some froms"
    and "null_free (JObj d)"
  shows "\<exists>t. (case dget d ''to'' of JNull \<Rightarrow> Some None | v \<Rightarrow> map_option Some (read_str v)) = Some t \<and>
     (if ak = ''create'' then froms = [] \<and> t = Some (rc_initial_state c)
      else if ak = ''update'' then froms \<noteq> [] \<and> t = None
      else froms \<noteq> [] \<and> (\<exists>s \<in> set (rc_states c). t = Some s \<and> dget d ''to'' = JStr s))"
  using assms(1)
  by (auto simp: check_transition_def check_simps dget_def map_of_eq_None_iff[symmetric] split: if_splits)

text \<open>A rule that passed its checks can be read, and the record satisfies the typed invariant.\<close>

lemma validated_rule:
  assumes ok: "ok (validate_action_rule ak d name c)" and nf: "null_free (JObj d)"
    and key: "dget d ''key'' = JStr k"
  shows "\<exists>r. read_rule d = Some r \<and>
     wf_rule_shape (rc_states c) (rc_terminal_states c) (rc_initial_state c) ak r \<and> wf_rule_fields r \<and>
     (ak \<noteq> ''create'' \<longrightarrow> ak \<noteq> ''update'' \<longrightarrow>
        rule_edges d = rule_transitions r)"
proof -
  have checked: "ok (check_member_list True True WORKFLOW_ACTORS (dget d ''actors'') (name @ ''.actors is invalid''))"
      "ok (check_member_list True False (rc_roles c) (dget_or d ''roles'' (JList [])) (name @ ''.roles is invalid''))"
    using ok by (simp_all add: validate_action_rule_def ok_checks)
  from validated_actors[OF checked(1)] obtain as where
    actors: "read_list read_actor (dget d ''actors'') = Some as" by blast
  from validated_names[OF checked(2)] obtain roles where roles: "read_names d ''roles'' = Some roles" by blast
  from ok obtain froms where
      fm: "member_list True False (rc_states c) (dget_or d ''from'' (JList [])) (name @ ''.from is invalid'') = Inr froms"
      and live: "set froms \<inter> set (rc_terminal_states c) = {}"
      and tr: "ok (check_transition ak d name c froms)"
    by (auto simp: validate_action_rule_def ok_andthen ok_checks ok_ensure)
  from fm have froms: "read_names d ''from'' = Some froms" by (rule read_names_member_list)
  from validated_transition[OF tr froms nf] obtain t where
      t: "(case dget d ''to'' of JNull \<Rightarrow> Some None | v \<Rightarrow> map_option Some (read_str v)) = Some t"
      and shape: "if ak = ''create'' then froms = [] \<and> t = Some (rc_initial_state c)
        else if ak = ''update'' then froms \<noteq> [] \<and> t = None
        else froms \<noteq> [] \<and> (\<exists>s \<in> set (rc_states c). t = Some s \<and> dget d ''to'' = JStr s)"
    by blast
  from ok obtain writable required clear where
      w: "field_list (dget d ''writable_fields'') (name @ ''.writable_fields'') = Inr writable"
      and r: "field_list (dget d ''required_inputs'') (name @ ''.required_inputs'') = Inr required"
      and cl: "field_list (dget d ''clear_fields'') (name @ ''.clear_fields'') = Inr clear"
      and sub: "set writable \<subseteq> set DIRECTLY_WRITABLE_FIELDS" "set required \<subseteq> set writable"
        "set clear \<subseteq> set CLEARABLE_FIELDS"
      and tf: "ok (check_field_list (dget d ''required_task_fields'') (name @ ''.required_task_fields''))"
      and df: "ok (check_mapping (dget_or d ''defaults'' (JObj [])) (name @ ''.defaults''))"
      and ff: "ok (check_mapping (dget_or d ''fixed_fields'' (JObj [])) (name @ ''.fixed_fields''))"
      and fp: "ok (check_field_prefixes (dget_or d ''field_prefixes'' (JObj [])) writable name)"
      and af: "ok (check_actor_fields (dget_or d ''actor_fields'' (JObj [])) name)"
      and fv: "ok (check_field_values c (dget_or d ''field_values'' (JObj [])) writable name)"
    by (auto simp: validate_action_rule_def ok_andthen ok_checks ok_ensure subset_iff)
  from ok obtain gs where
      g: "member_list True False WORKFLOW_GUARDS (dget_or d ''guards'' (JList [])) (name @ ''.guards is invalid'') = Inr gs"
    by (auto simp: validate_action_rule_def ok_checks ok_andthen)
  have names: "read_names d ''writable_fields'' = Some writable" "read_names d ''required_inputs'' = Some required"
      "read_names d ''clear_fields'' = Some clear" "read_names d ''guards'' = Some gs"
    using read_names_check[OF nf] w r cl read_names_member_list[OF g] by blast+
  from validated_field_names[OF tf nf] obtain tfs where tfs: "read_names d ''required_task_fields'' = Some tfs" ..
  from ok_check_mapping[OF df] ok_check_mapping[OF ff] obtain dm fx where
      dm: "dget_or d ''defaults'' (JObj []) = JObj dm" "set (dkeys dm) \<subseteq> set DIRECTLY_WRITABLE_FIELDS" and
      fx: "dget_or d ''fixed_fields'' (JObj []) = JObj fx" "set (dkeys fx) \<subseteq> set DIRECTLY_WRITABLE_FIELDS"
    by blast
  from ok_check_field_prefixes[OF fp] obtain pm ps where
      ps: "dget_or d ''field_prefixes'' (JObj []) = JObj pm" "read_pairs read_str pm = Some ps" "fst ` set ps \<subseteq> set writable"
    by blast
  have "null_free (dget_or d ''actor_fields'' (JObj []))"
    using nf by (auto simp: dget_or_def split: option.splits dest: null_free_map_of simp del: null_free.simps) simp
  from ok_check_actor_fields[OF af this] obtain am bs where
      bs: "dget_or d ''actor_fields'' (JObj []) = JObj am" "read_pairs read_str am = Some bs" "set bs \<subseteq> set ACTOR_FIELD_BINDINGS"
    by blast
  from ok_check_field_values[OF fv] obtain vm vs where
      vs: "dget_or d ''field_values'' (JObj []) = JObj vm" "read_pairs (read_list read_str) vm = Some vs" "fst ` set vs \<subseteq> set writable"
    by blast
  define r' where "r' = \<lparr>rl_key = k, rl_actors = as, rl_roles = roles, rl_from = froms, rl_to = t,
      rl_writable = writable, rl_required_inputs = required, rl_required_task_fields = tfs,
      rl_defaults = dm, rl_fixed_fields = fx, rl_clear_fields = clear, rl_field_values = vs,
      rl_field_prefixes = ps, rl_actor_fields = bs, rl_guards = gs\<rparr>"
  have "read_rule d = Some r'"
    unfolding read_rule_def using key actors roles froms t names tfs dm(1) fx(1) ps(1,2) bs(1,2) vs(1,2)
    by (simp add: r'_def del: read_list.simps)
  moreover have "wf_rule_shape (rc_states c) (rc_terminal_states c) (rc_initial_state c) ak r'"
    using fm live shape by (auto simp: wf_rule_shape_def r'_def member_list_eq)
  moreover have "wf_rule_fields r'"
    using sub dm(2) fx(2) ps(3) bs(3) vs(3) g by (simp add: wf_rule_fields_def r'_def member_list_eq)
  moreover have "rule_edges d = rule_transitions r'" if "ak \<noteq> ''create''" "ak \<noteq> ''update''"
  proof -
    from that shape obtain s where "t = Some s" "dget d ''to'' = JStr s" "froms \<noteq> []" by auto
    moreover have "dget d ''from'' = JList (map JStr froms)"
      using fm \<open>froms \<noteq> []\<close> by (auto simp: member_list_eq dget_or_def dget_def split: option.splits)
    ultimately show ?thesis by (simp add: rule_edges_def rule_transitions_def r'_def comp_def)
  qed
  ultimately show ?thesis by blast
qed

section \<open>A validated definition\<close>

lemma null_free_member: "null_free (JObj d) \<Longrightarrow> dget d k = JList xs \<Longrightarrow> x \<in> set xs \<Longrightarrow> null_free x"
  using null_free_dget[of d k] by simp

lemma null_free_sub: "null_free (JObj d) \<Longrightarrow> dget d k = JObj e \<Longrightarrow> null_free (JObj e)"
  using null_free_dget[of d k] by simp

lemma nonblank_str_ex: "nonblank_str x \<Longrightarrow> \<exists>s. x = JStr s"
  by (cases x) auto

lemma read_keyed_items:
  assumes "v = JList (map JObj ds)" and "\<And>d. d \<in> set ds \<Longrightarrow> f d = Some (g d)"
  shows "read_keyed f v = Some (map g ds)"
  using assms by (simp add: read_keyed_def comp_def those_map_Some)

lemma validated_state:
  assumes "ok (validate_state d name)" and "null_free (JObj d)" and "nonblank_str (dget d ''key'')"
  shows "\<exists>s. read_state d = Some s \<and> sd_key s = as_str (dget d ''key'') \<and>
           (dget d ''dispatch'' = JStr ''none'' \<longrightarrow> sd_dispatch s = Dispatch_None)"
proof -
  from assms(1) have "ok (require_member WORKFLOW_DISPATCH_TARGETS (dget d ''dispatch'') (name @ ''.dispatch is invalid''))"
      and fl: "ok (check_field_list (dget d ''required_fields'') (name @ ''.required_fields''))"
    by (simp_all add: validate_state_def ok_checks)
  then obtain t where t: "read_dispatch (dget d ''dispatch'') = Some t" "dget d ''dispatch'' = JStr (dispatch_key t)"
    using read_dispatch_ok by (auto simp: ok_require_member simp del: read_dispatch.simps)
  from validated_field_names[OF fl assms(2)] obtain fs where fs: "read_names d ''required_fields'' = Some fs" ..
  from nonblank_str_ex[OF assms(3)] obtain k where k: "dget d ''key'' = JStr k" ..
  have "dispatch_key t = ''none'' \<longrightarrow> t = Dispatch_None" by (cases t) auto
  with t fs k show ?thesis by (simp add: read_state_def)
qed

lemma validated_action:
  assumes "ok (validate_action ak a name c)" and nf: "null_free a"
  shows "\<exists>ad. read_action a = Some ad \<and>
     (\<forall>r \<in> set (ac_rules ad).
        wf_rule_shape (rc_states c) (rc_terminal_states c) (rc_initial_state c) ak r \<and> wf_rule_fields r) \<and>
     (ak = ''create'' \<longrightarrow> length (ac_rules ad) = 1) \<and>
     (ak \<noteq> ''create'' \<longrightarrow> ak \<noteq> ''update'' \<longrightarrow>
        concat (map (\<lambda>r. rule_edges (as_dict r)) (as_items (dget (as_dict a) ''rules''))) =
        concat (map rule_transitions (ac_rules ad)))"
proof -
  from assms(1) obtain d where a: "a = JObj d"
    by (cases a) (auto simp: validate_action_def check_simps)
  let ?name = "name @ ''.rules''"
  from assms(1) a have "ok (andthen (keyed_items (dget d ''rules'') ?name) (\<lambda>rules. checks
      (ensure (\<not> (ak = ''create'' \<and> length rules \<noteq> 1)) (name @ '' must define exactly one rule'') #
       map (\<lambda>(k, d). validate_action_rule ak d (name @ ''.rules.'' @ k) c) rules)))"
    by (simp add: validate_action_def ok_checks)
  then obtain kds where items: "keyed_items (dget d ''rules'') ?name = Inr kds"
      and kds: "ok (checks (ensure (\<not> (ak = ''create'' \<and> length kds \<noteq> 1)) (name @ '' must define exactly one rule'') #
       map (\<lambda>(k, d). validate_action_rule ak d (name @ ''.rules.'' @ k) c) kds))"
    unfolding ok_andthen by blast
  from kds have one: "ak = ''create'' \<longrightarrow> length kds = 1"
      and each: "\<forall>(k, d) \<in> set kds. ok (validate_action_rule ak d (name @ ''.rules.'' @ k) c)"
    by (simp_all add: ok_checks ok_ensure case_prod_beta)
  from keyed_items_eq[OF items] obtain ds where ds: "dget d ''rules'' = JList (map JObj ds)"
      "kds = map (\<lambda>d. (as_str (dget d ''key''), d)) ds" "\<forall>d \<in> set ds. nonblank_str (dget d ''key'')"
    by blast
  let ?P = "\<lambda>e r. read_rule e = Some r \<and>
     wf_rule_shape (rc_states c) (rc_terminal_states c) (rc_initial_state c) ak r \<and> wf_rule_fields r \<and>
     (ak \<noteq> ''create'' \<longrightarrow> ak \<noteq> ''update'' \<longrightarrow> rule_edges e = rule_transitions r)"
  have "\<exists>r. ?P e r" if e: "e \<in> set ds" for e
  proof -
    from e ds(2) each have "ok (validate_action_rule ak e (name @ ''.rules.'' @ as_str (dget e ''key'')) c)" by auto
    moreover have "null_free (JObj e)"
      using null_free_member[OF nf[unfolded a] ds(1), of "JObj e"] e by (simp del: null_free.simps)
    moreover obtain k where "dget e ''key'' = JStr k" using nonblank_str_ex ds(3) e by blast
    ultimately show ?thesis by (rule validated_rule)
  qed
  then obtain g where g: "\<And>e. e \<in> set ds \<Longrightarrow> ?P e (g e)" by metis
  have "read_keyed read_rule (dget d ''rules'') = Some (map g ds)"
    using g by (intro read_keyed_items[OF ds(1)]) blast
  then have "read_action a = Some \<lparr>ac_confirmation = truthy (dget d ''confirmation_required''), ac_rules = map g ds\<rparr>"
    by (simp add: read_action_def a read_keyed_def)
  moreover have "concat (map rule_edges ds) = concat (map (\<lambda>e. rule_transitions (g e)) ds)"
    if "ak \<noteq> ''create''" "ak \<noteq> ''update''"
    using g that by (intro arg_cong[where f = concat] map_cong) simp_all
  then have "concat (map (\<lambda>r. rule_edges (as_dict r)) (as_items (dget (as_dict a) ''rules''))) =
      concat (map rule_transitions (map g ds))" if "ak \<noteq> ''create''" "ak \<noteq> ''update''"
    using that by (simp add: a ds(1) comp_def)
  ultimately show ?thesis using g one ds(2) by (intro exI[of _ "\<lparr>ac_confirmation = truthy (dget d ''confirmation_required''), ac_rules = map g ds\<rparr>"]) simp
qed

lemma validated_runtime_action:
  assumes "ok (validate_runtime_action key roles states ak a)" and nf: "null_free a"
  shows "\<exists>ra. read_runtime_action a = Some ra"
proof -
  from assms(1) obtain inputs produces where spec: "map_of RUNTIME_ACTION_SPECS ak = Some (inputs, produces)"
    by (auto simp: validate_runtime_action_def Let_def split: option.splits)
  let ?name = "key @ ''.runtime_actions.'' @ ak"
  from assms(1) spec obtain d where a: "a = JObj d"
    by (cases a) (auto simp: validate_runtime_action_def Let_def check_simps)
  with assms(1) spec have checked:
      "ok (check_member_list False True WORKFLOW_ACTORS (dget d ''actors'') (?name @ ''.actors is invalid''))"
      "ok (check_member_list False False roles (dget_or d ''roles'' (JList [])) (?name @ ''.roles is invalid''))"
      "ok (check_member_list False True states (dget d ''states'') (?name @ ''.states is invalid''))"
      "ok (check_field_list (dget d ''required_task_fields'') (?name @ ''.required_task_fields''))"
    by (simp_all add: validate_runtime_action_def ok_checks)
  from assms(1) spec a obtain fs gs where
      "member_list True False inputs (dget_or d ''required_inputs'' (JList [])) (?name @ ''.required_inputs is invalid'') = Inr fs"
      "member_list False False WORKFLOW_GUARDS (dget_or d ''produces'' (JList [])) (?name @ ''.produces is invalid'') = Inr gs"
    by (auto simp: validate_runtime_action_def ok_checks ok_andthen)
  then have names: "read_names d ''required_inputs'' = Some fs" "read_names d ''produces'' = Some gs"
    by (blast intro: read_names_member_list)+
  from validated_actors[OF checked(1)] obtain as where as: "read_list read_actor (dget d ''actors'') = Some as" ..
  from validated_names[OF checked(2)] obtain rs where rs: "read_names d ''roles'' = Some rs" by blast
  from checked(3) obtain ss where ss: "read_list read_str (dget d ''states'') = Some ss"
    unfolding ok_check_member_list by (metis read_list_strs)
  from validated_field_names[OF checked(4)] nf a obtain tfs where "read_names d ''required_task_fields'' = Some tfs" by blast
  with names as rs ss show ?thesis by (simp add: read_runtime_action_def a del: read_list.simps)
qed

text \<open>The lifecycle part, with the sequence of binds taken apart.\<close>

lemma validated_actions:
  assumes "ok (validate_actions key lc kds c)"
  shows "\<exists>actions. dget lc ''actions'' = JObj actions \<and> set (map fst actions) = set WORKFLOW_ACTION_KEYS \<and>
    rc_initial_state c \<notin> set (rc_terminal_states c) \<and>
    (\<forall>(k, e) \<in> set kds. k \<in> set (rc_terminal_states c) \<longrightarrow> dget e ''dispatch'' = JStr ''none'') \<and>
    (\<forall>(ak, a) \<in> set actions. ok (validate_action ak a (key @ ''.lifecycle.actions.'' @ ak) c)) \<and>
    ok (validate_state_graph key (map fst kds) actions (rc_initial_state c) (rc_terminal_states c))"
proof -
  from assms obtain actions where "dget lc ''actions'' = JObj actions"
    by (cases "dget lc ''actions''") (simp_all add: validate_actions_def Let_def ok_checks ok_ensure)
  moreover from assms this
  have "(\<forall>k \<in> set (map fst actions). k \<in> set WORKFLOW_ACTION_KEYS) \<and>
        (\<forall>k \<in> set WORKFLOW_ACTION_KEYS. k \<in> set (map fst actions))"
    by (simp add: validate_actions_def Let_def ok_checks ok_ensure)
  moreover from assms calculation(1)
  have "rc_initial_state c \<notin> set (rc_terminal_states c)"
    "\<forall>(k, e) \<in> set kds. k \<in> set (rc_terminal_states c) \<longrightarrow> dget e ''dispatch'' = JStr ''none''"
    "ok (validate_state_graph key (map fst kds) actions (rc_initial_state c) (rc_terminal_states c))"
    by (simp_all add: validate_actions_def Let_def ok_checks ok_ensure)
  moreover from assms calculation(1)
  have "\<forall>(ak, a) \<in> set actions. ok (validate_action ak a (key @ ''.lifecycle.actions.'' @ ak) c)"
    by (simp add: validate_actions_def Let_def ok_checks case_prod_beta)
  ultimately show ?thesis by blast
qed

lemma validated_lifecycle:
  assumes "ok (validate_lifecycle key d roles types waiting)"
  obtains lc kds initial terminal completion where
    "dget d ''lifecycle'' = JObj lc" and "keyed_items (dget lc ''states'') (key @ ''.lifecycle.states'') = Inr kds"
    and "\<forall>(k, e) \<in> set kds. ok (validate_state e (key @ ''.lifecycle.states.'' @ k))"
    and "dget lc ''initial_state'' = JStr initial" and "initial \<in> set (map fst kds)"
    and "dget lc ''terminal_states'' = JList (map JStr terminal)" and "set terminal \<subseteq> set (map fst kds)"
    and "dget lc ''completion_states'' = JList (map JStr completion)" and "set completion \<subseteq> set terminal"
    and "completion \<noteq> []"
    and "ok (validate_actions key lc kds
      \<lparr>rc_states = map fst kds, rc_roles = roles, rc_task_types = types, rc_waiting_targets = waiting,
       rc_initial_state = initial, rc_terminal_states = terminal\<rparr>)"
proof -
  from assms obtain lc where lc: "dget d ''lifecycle'' = JObj lc"
    by (cases "dget d ''lifecycle''") (auto simp: validate_lifecycle_def ok_andthen ensure_def)
  from assms[unfolded validate_lifecycle_def lc Let_def as_dict.simps ok_andthen] obtain kds u terminal completion where
      kds: "keyed_items (dget lc ''states'') (key @ ''.lifecycle.states'') = Inr kds"
      and states: "validate_states key kds = Inr u"
      and initial: "ok (require_member (map fst kds) (dget lc ''initial_state'') (key @ ''.lifecycle.initial_state is invalid''))"
      and terminal: "member_list False True (map fst kds) (dget lc ''terminal_states'')
                    (key @ ''.lifecycle.terminal_states is invalid'') = Inr terminal"
      and completion: "member_list True True terminal (dget lc ''completion_states'')
         (key @ ''.lifecycle.completion_states must be a non-empty subset of terminal_states'') = Inr completion"
      and actions: "ok (validate_actions key lc kds
        \<lparr>rc_states = map fst kds, rc_roles = roles, rc_task_types = types, rc_waiting_targets = waiting,
         rc_initial_state = as_str (dget lc ''initial_state''), rc_terminal_states = terminal\<rparr>)"
    unfolding ok_def by blast
  from states have "ok (validate_states key kds)" by simp
  then have "\<forall>(k, e) \<in> set kds. ok (validate_state e (key @ ''.lifecycle.states.'' @ k))"
    by (simp add: validate_states_def ok_checks case_prod_beta)
  moreover from initial obtain i where "dget lc ''initial_state'' = JStr i" "i \<in> set (map fst kds)"
    unfolding ok_require_member by blast
  ultimately show thesis
    using that[OF lc kds] terminal completion actions unfolding member_list_eq by auto
qed

lemma validated_runtime_actions:
  assumes "ok (validate_runtime_actions key d roles)" and nf: "null_free (JObj d)"
  shows "\<exists>m ps. dget_or d ''runtime_actions'' (JObj []) = JObj m \<and> read_pairs read_runtime_action m = Some ps"
proof -
  from assms(1) obtain m where m: "dget_or d ''runtime_actions'' (JObj []) = JObj m"
    by (cases "dget_or d ''runtime_actions'' (JObj [])")
       (simp_all add: validate_runtime_actions_def Let_def ok_checks ok_ensure)
  with assms(1) have each: "\<forall>(ak, a) \<in> set m. \<exists>states. ok (validate_runtime_action key roles states ak a)"
    by (fastforce simp: validate_runtime_actions_def Let_def ok_checks)
  have "null_free (JObj m)"
    using nf m by (auto simp: dget_or_def split: option.splits dest: null_free_map_of simp del: null_free.simps) simp
  then have "\<forall>(ak, a) \<in> set m. null_free a" by simp
  with each have "\<forall>(ak, a) \<in> set m. \<exists>y. read_runtime_action a = Some y"
    using validated_runtime_action by fast
  then show ?thesis using read_pairs_ex m by blast
qed

text \<open>The parts of a definition whose validation succeeded.\<close>

lemma validated_parts:
  assumes "ok (validate_workflow_definition v dir path)"
  obtains d roles coordinator types waiting where
    "v = JObj d" and "dget d ''key'' = JStr dir"
    and "keyed_items (dget d ''roles'') (dir @ ''.roles'') = Inr roles"
    and "\<forall>(k, r) \<in> set roles. ok (validate_role r (dir @ ''.roles.'' @ k))"
    and "dget d ''coordinator_role'' = JStr coordinator" and "coordinator \<in> set (map fst roles)"
    and "keyed_items (dget d ''task_types'') (dir @ ''.task_types'') = Inr types"
    and "\<forall>(k, t) \<in> set types. ok (validate_task_type t (dir @ ''.task_types.'' @ k) (map fst roles))"
    and "keyed_items (dget d ''waiting_targets'') (dir @ ''.waiting_targets'') = Inr waiting"
    and "ok (validate_lifecycle dir d (map fst roles) (map fst types) (map fst waiting))"
    and "ok (validate_runtime_actions dir d (map fst roles))"
proof -
  from assms obtain d where v: "v = JObj d"
    by (cases v) (auto simp: validate_workflow_definition_def ensure_def)
  have text_eq: "\<And>k c. required_text d k path = Inr c \<Longrightarrow> dget d k = JStr c"
    by (auto simp: required_text_def split: json.splits if_splits)
  from assms[unfolded validate_workflow_definition_def v Let_def as_dict.simps ok_andthen]
  obtain key u1 roles u2 coordinator u3 types u4 waiting where
      key: "required_text d ''key'' path = Inr key"
      and head: "checks [ensure (key = dir) (''workflow key must match its directory name: '' @ path),
         validate_localized (dget d ''labels'') (key @ ''.labels''),
         validate_localized (dget d ''short_descriptions'') (key @ ''.short_descriptions'')] = Inr u1"
      and roles: "keyed_items (dget d ''roles'') (key @ ''.roles'') = Inr roles"
      and each_role: "checks (map (\<lambda>(k, r). validate_role r (key @ ''.roles.'' @ k)) roles) = Inr u2"
      and coordinator: "required_text d ''coordinator_role'' path = Inr coordinator"
      and member: "ensure (coordinator \<in> set (map fst roles)) (''unknown coordinator role '' @ coordinator @ '': '' @ path) = Inr u3"
      and types: "keyed_items (dget d ''task_types'') (key @ ''.task_types'') = Inr types"
      and each_type: "checks (map (\<lambda>(k, t). validate_task_type t (key @ ''.task_types.'' @ k) (map fst roles)) types) = Inr u4"
      and waiting: "keyed_items (dget d ''waiting_targets'') (key @ ''.waiting_targets'') = Inr waiting"
      and rest: "ok (checks
        (map (\<lambda>(k, t). validate_waiting_target t (key @ ''.waiting_targets.'' @ k)) waiting @
         [validate_task_schema (dget d ''task_schema'') key,
          validate_lifecycle key d (map fst roles) (map fst types) (map fst waiting),
          validate_runtime_actions key d (map fst roles)]))"
    unfolding ok_def by blast
  from head have dir: "key = dir" by (simp add: check_simps)
  from each_role have "\<forall>(k, r) \<in> set roles. ok (validate_role r (dir @ ''.roles.'' @ k))"
    by (simp add: ok_unit ok_checks case_prod_beta dir)
  moreover from each_type have "\<forall>(k, t) \<in> set types. ok (validate_task_type t (dir @ ''.task_types.'' @ k) (map fst roles))"
    by (simp add: ok_unit ok_checks case_prod_beta dir)
  moreover from member have "coordinator \<in> set (map fst roles)" by (simp add: ok_unit ok_ensure)
  moreover from rest have "ok (validate_lifecycle dir d (map fst roles) (map fst types) (map fst waiting))"
    "ok (validate_runtime_actions dir d (map fst roles))"
    by (simp_all add: ok_checks dir)
  ultimately show thesis
    using that[OF v] text_eq[OF key] text_eq[OF coordinator] roles types waiting unfolding dir by blast
qed

lemma read_keyed_ex:
  assumes "v = JList (map JObj ds)" and "\<forall>d \<in> set ds. \<exists>y. f d = Some y \<and> P d y"
  shows "\<exists>g. read_keyed f v = Some (map g ds) \<and> (\<forall>d \<in> set ds. P d (g d))"
proof -
  from assms(2) obtain g where "\<forall>d \<in> set ds. f d = Some (g d) \<and> P d (g d)" by metis
  with read_keyed_items[OF assms(1)] show ?thesis by blast
qed

lemma validated_states:
  assumes items: "keyed_items v name = Inr kds" and nf: "null_free v"
    and each: "\<forall>(k, e) \<in> set kds. ok (validate_state e (pre @ k))"
    and none: "\<forall>(k, e) \<in> set kds. k \<in> set terminal \<longrightarrow> dget e ''dispatch'' = JStr ''none''"
  shows "\<exists>ss. read_keyed read_state v = Some ss \<and> map sd_key ss = map fst kds \<and>
    (distinct (map fst kds) \<and> [] \<notin> set (map fst kds)) \<and>
    (\<forall>s \<in> set ss. sd_key s \<in> set terminal \<longrightarrow> sd_dispatch s = Dispatch_None)"
proof -
  from keyed_items_eq[OF items] obtain ds where v: "v = JList (map JObj ds)"
    and kds: "kds = map (\<lambda>d. (as_str (dget d ''key''), d)) ds" and dist: "distinct (map fst kds)"
    and keys: "\<forall>d \<in> set ds. nonblank_str (dget d ''key'')" by blast
  let ?P = "\<lambda>d s. sd_key s = as_str (dget d ''key'') \<and> (dget d ''dispatch'' = JStr ''none'' \<longrightarrow> sd_dispatch s = Dispatch_None)"
  have "\<forall>d \<in> set ds. \<exists>s. read_state d = Some s \<and> ?P d s"
  proof
    fix d assume d: "d \<in> set ds"
    then have "ok (validate_state d (pre @ as_str (dget d ''key'')))" using each kds by auto
    moreover have "null_free (JObj d)" using nf v d by auto
    ultimately show "\<exists>s. read_state d = Some s \<and> ?P d s" using validated_state keys d by blast
  qed
  from read_keyed_ex[OF v this] obtain g where g: "read_keyed read_state v = Some (map g ds)" "\<forall>d \<in> set ds. ?P d (g d)"
    by blast
  have "map sd_key (map g ds) = map fst kds" using g(2) kds by simp
  moreover have "\<forall>s \<in> set (map g ds). sd_key s \<in> set terminal \<longrightarrow> sd_dispatch s = Dispatch_None"
    using g(2) none kds by auto
  moreover have "[] \<notin> set (map fst kds)"
    using keys nonblank_str_ex by (fastforce simp: kds)
  ultimately show ?thesis using g(1) dist by blast
qed

lemma validated_action_set:
  assumes "\<forall>(ak, a) \<in> set actions. ok (validate_action ak a (pre @ ak) c)" and "null_free (JObj actions)"
  shows "\<exists>as. read_pairs read_action actions = Some as \<and>
    (\<forall>(ak, a) \<in> set as. (ak = ''create'' \<longrightarrow> length (ac_rules a) = 1) \<and>
       (\<forall>r \<in> set (ac_rules a). wf_rule_shape (rc_states c) (rc_terminal_states c) (rc_initial_state c) ak r \<and> wf_rule_fields r)) \<and>
    action_edges actions = concat (map (\<lambda>(ak, a).
      if ak \<in> set [''create'', ''update''] then [] else concat (map rule_transitions (ac_rules a))) as)"
  using assms
proof (induction actions)
  case Nil
  then show ?case by (simp add: read_pairs_def action_edges_def)
next
  case (Cons ka actions)
  obtain ak a where ka: "ka = (ak, a)" by (cases ka)
  from Cons.prems ka have "ok (validate_action ak a (pre @ ak) c)" and "null_free a" by auto
  from validated_action[OF this] obtain ad where ad: "read_action a = Some ad"
     "\<forall>r \<in> set (ac_rules ad). wf_rule_shape (rc_states c) (rc_terminal_states c) (rc_initial_state c) ak r \<and> wf_rule_fields r"
     "ak = ''create'' \<longrightarrow> length (ac_rules ad) = 1"
     "ak \<noteq> ''create'' \<longrightarrow> ak \<noteq> ''update'' \<longrightarrow>
        concat (map (\<lambda>r. rule_edges (as_dict r)) (as_items (dget (as_dict a) ''rules''))) =
        concat (map rule_transitions (ac_rules ad))"
    by blast
  from Cons.IH Cons.prems obtain as where as: "read_pairs read_action actions = Some as"
    "\<forall>(ak, a) \<in> set as. (ak = ''create'' \<longrightarrow> length (ac_rules a) = 1) \<and>
       (\<forall>r \<in> set (ac_rules a). wf_rule_shape (rc_states c) (rc_terminal_states c) (rc_initial_state c) ak r \<and> wf_rule_fields r)"
    "action_edges actions = concat (map (\<lambda>(ak, a).
      if ak \<in> set [''create'', ''update''] then [] else concat (map rule_transitions (ac_rules a))) as)"
    by auto
  have "read_pairs read_action (ka # actions) = Some ((ak, ad) # as)"
    using ka ad(1) as(1) by (simp add: read_pairs_Cons)
  moreover have "action_edges (ka # actions) =
      (if ak \<in> set [''create'', ''update''] then [] else concat (map rule_transitions (ac_rules ad))) @ action_edges actions"
    using ka ad(4) by (simp add: action_edges_def)
  ultimately show ?case using ad(2,3) as(2,3) by auto
qed

text \<open>
  The contract between validation and the engine: a definition that passes, and stores no null, can
  be read; the records satisfy the typed invariant, and every state lies on a path from the initial
  state to a terminal one.
\<close>

definition graph_ok :: "workflow \<Rightarrow> bool" where
  "graph_ok w \<longleftrightarrow>
     (\<forall>s \<in> set (state_keys w). (wf_initial_state w, s) \<in> (set (workflow_edges w))\<^sup>*) \<and>
     (\<forall>s \<in> set (state_keys w). \<exists>t \<in> set (wf_terminal_states w). (s, t) \<in> (set (workflow_edges w))\<^sup>*)"

lemma validated_roles:
  assumes items: "keyed_items v name = Inr roles" and each: "\<forall>(k, r) \<in> set roles. ok (validate_role r (pre @ k))"
  shows "\<exists>rs. read_keyed read_role v = Some rs \<and> map fst rs = map fst roles"
proof -
  from keyed_items_eq[OF items] obtain ds where v: "v = JList (map JObj ds)"
    and roles: "roles = map (\<lambda>d. (as_str (dget d ''key''), d)) ds" and keys: "\<forall>d \<in> set ds. nonblank_str (dget d ''key'')"
    by blast
  have "\<forall>d \<in> set ds. \<exists>y. read_role d = Some y \<and> fst y = as_str (dget d ''key'')"
  proof
    fix d assume d: "d \<in> set ds"
    with roles each have "is_bool (dget d ''allow_multiple'')" by (auto simp: validate_role_def ok_checks ok_ensure)
    then obtain b where "dget d ''allow_multiple'' = JBool b" by (cases "dget d ''allow_multiple''") auto
    moreover obtain k where "dget d ''key'' = JStr k" using nonblank_str_ex keys d by blast
    ultimately show "\<exists>y. read_role d = Some y \<and> fst y = as_str (dget d ''key'')" by (simp add: read_role_def)
  qed
  from read_keyed_ex[OF v this] show ?thesis by (auto simp: roles)
qed

lemma validated_task_types:
  assumes items: "keyed_items v name = Inr types" and each: "\<forall>(k, t) \<in> set types. ok (validate_task_type t (pre @ k) roles)"
  shows "\<exists>ts. read_keyed read_task_type v = Some ts"
proof -
  from keyed_items_eq[OF items] obtain ds where v: "v = JList (map JObj ds)"
    and types: "types = map (\<lambda>d. (as_str (dget d ''key''), d)) ds" and keys: "\<forall>d \<in> set ds. nonblank_str (dget d ''key'')"
    by blast
  have "\<forall>d \<in> set ds. \<exists>y. read_task_type d = Some y \<and> True"
  proof
    fix d assume d: "d \<in> set ds"
    with types each obtain r where "dget d ''default_role'' = JStr r"
      by (auto simp: validate_task_type_def ok_checks ok_require_member)
    moreover obtain k where "dget d ''key'' = JStr k" using nonblank_str_ex keys d by blast
    ultimately show "\<exists>y. read_task_type d = Some y \<and> True" by (simp add: read_task_type_def)
  qed
  from read_keyed_ex[OF v this] show ?thesis by blast
qed

lemma validated_waiting_targets:
  assumes items: "keyed_items v name = Inr waiting"
  shows "\<exists>ts. read_keyed read_waiting_target v = Some ts"
proof -
  obtain ds where v: "v = JList (map JObj ds)" and keys: "\<forall>d \<in> set ds. nonblank_str (dget d ''key'')"
    by (rule keyed_items_eq[OF items])
  have "\<forall>d \<in> set ds. \<exists>y. read_waiting_target d = Some y \<and> True"
  proof
    fix d assume "d \<in> set ds"
    then obtain k where "dget d ''key'' = JStr k" using nonblank_str_ex keys by blast
    then show "\<exists>y. read_waiting_target d = Some y \<and> True" by (simp add: read_waiting_target_def)
  qed
  from read_keyed_ex[OF v this] show ?thesis by blast
qed

text \<open>What the engine reads of a validated lifecycle.\<close>

lemma validated_lifecycle_read:
  assumes "ok (validate_lifecycle key d roles types waiting)" and nf: "null_free (JObj d)"
  obtains lc ss initial terminal completion actions as where
    "dget d ''lifecycle'' = JObj lc" and "read_keyed read_state (dget lc ''states'') = Some ss"
    and "distinct (map sd_key ss) \<and> [] \<notin> set (map sd_key ss)" and "dget lc ''initial_state'' = JStr initial"
    and "initial \<in> set (map sd_key ss)" and "initial \<notin> set terminal"
    and "dget lc ''terminal_states'' = JList (map JStr terminal)" and "set terminal \<subseteq> set (map sd_key ss)"
    and "dget lc ''completion_states'' = JList (map JStr completion)" and "set completion \<subseteq> set terminal"
    and "completion \<noteq> []" and "\<forall>s \<in> set ss. sd_key s \<in> set terminal \<longrightarrow> sd_dispatch s = Dispatch_None"
    and "dget lc ''actions'' = JObj actions" and "read_pairs read_action actions = Some as"
    and "set (map fst as) = set WORKFLOW_ACTION_KEYS"
    and "\<forall>(ak, a) \<in> set as. (ak = ''create'' \<longrightarrow> length (ac_rules a) = 1) \<and>
         (\<forall>r \<in> set (ac_rules a). wf_rule_shape (map sd_key ss) terminal initial ak r \<and> wf_rule_fields r)"
    and "ok (validate_state_graph key (map sd_key ss) actions initial terminal)"
    and "action_edges actions = concat (map (\<lambda>(ak, a).
         if ak \<in> set [''create'', ''update''] then [] else concat (map rule_transitions (ac_rules a))) as)"
proof -
  obtain lc kds initial terminal completion where
      lc: "dget d ''lifecycle'' = JObj lc" and kds: "keyed_items (dget lc ''states'') (key @ ''.lifecycle.states'') = Inr kds"
      and states: "\<forall>(k, e) \<in> set kds. ok (validate_state e (key @ ''.lifecycle.states.'' @ k))"
      and ini: "dget lc ''initial_state'' = JStr initial" "initial \<in> set (map fst kds)"
      and trm: "dget lc ''terminal_states'' = JList (map JStr terminal)" "set terminal \<subseteq> set (map fst kds)"
      and cmp: "dget lc ''completion_states'' = JList (map JStr completion)" "set completion \<subseteq> set terminal" "completion \<noteq> []"
      and acts: "ok (validate_actions key lc kds
        \<lparr>rc_states = map fst kds, rc_roles = roles, rc_task_types = types, rc_waiting_targets = waiting,
         rc_initial_state = initial, rc_terminal_states = terminal\<rparr>)" (is "ok (validate_actions _ _ _ ?c)")
    by (rule validated_lifecycle[OF assms(1)])
  have nfl: "null_free (JObj lc)" using nf lc by (rule null_free_sub)
  from validated_actions[OF acts] obtain actions where
      actions: "dget lc ''actions'' = JObj actions" "set (map fst actions) = set WORKFLOW_ACTION_KEYS" "initial \<notin> set terminal"
      and none: "\<forall>(k, e) \<in> set kds. k \<in> set terminal \<longrightarrow> dget e ''dispatch'' = JStr ''none''"
      and each: "\<forall>(ak, a) \<in> set actions. ok (validate_action ak a ((key @ ''.lifecycle.actions.'') @ ak) ?c)"
      and graph: "ok (validate_state_graph key (map fst kds) actions initial terminal)"
    by auto
  have ne: "dget lc ''states'' \<noteq> JNull" by (rule keyed_items_eq[OF kds]) simp
  have "\<forall>(k, e) \<in> set kds. ok (validate_state e ((key @ ''.lifecycle.states.'') @ k))" using states by simp
  from validated_states[OF kds null_free_dget[OF nfl ne] this none]
  obtain ss where ss: "read_keyed read_state (dget lc ''states'') = Some ss" "map sd_key ss = map fst kds"
    "distinct (map fst kds) \<and> [] \<notin> set (map fst kds)"
    "\<forall>s \<in> set ss. sd_key s \<in> set terminal \<longrightarrow> sd_dispatch s = Dispatch_None" by blast
  from validated_action_set[OF each null_free_sub[OF nfl actions(1)]] obtain as where
      as: "read_pairs read_action actions = Some as"
      "\<forall>(ak, a) \<in> set as. (ak = ''create'' \<longrightarrow> length (ac_rules a) = 1) \<and>
         (\<forall>r \<in> set (ac_rules a). wf_rule_shape (map sd_key ss) terminal initial ak r \<and> wf_rule_fields r)"
      "action_edges actions = concat (map (\<lambda>(ak, a).
         if ak \<in> set [''create'', ''update''] then [] else concat (map rule_transitions (ac_rules a))) as)"
    unfolding ss(2) by auto
  have "set (map fst as) = set WORKFLOW_ACTION_KEYS" using read_pairs_keys[OF as(1)] actions(2) by simp
  with that[OF lc ss(1) _ ini(1) _ actions(3) trm(1) _ cmp ss(4) actions(1) as(1)] as(2,3) graph ss(3) ini(2) trm(2)
  show thesis unfolding ss(2) by simp
qed

lemma validated_read:
  assumes "ok (validate_workflow_definition v dir path)" and nf: "null_free v"
  shows "\<exists>w. read_workflow v = Some w \<and> wf_key w = dir \<and> wf_workflow w \<and> graph_ok w"
proof -
  obtain d roles coordinator types waiting where
      v: "v = JObj d" and key: "dget d ''key'' = JStr dir"
      and roles: "keyed_items (dget d ''roles'') (dir @ ''.roles'') = Inr roles"
      and each_role: "\<forall>(k, r) \<in> set roles. ok (validate_role r (dir @ ''.roles.'' @ k))"
      and co: "dget d ''coordinator_role'' = JStr coordinator" "coordinator \<in> set (map fst roles)"
      and types: "keyed_items (dget d ''task_types'') (dir @ ''.task_types'') = Inr types"
      and each_type: "\<forall>(k, t) \<in> set types. ok (validate_task_type t (dir @ ''.task_types.'' @ k) (map fst roles))"
      and waiting: "keyed_items (dget d ''waiting_targets'') (dir @ ''.waiting_targets'') = Inr waiting"
      and lifecycle: "ok (validate_lifecycle dir d (map fst roles) (map fst types) (map fst waiting))"
      and runtime: "ok (validate_runtime_actions dir d (map fst roles))"
    by (rule validated_parts[OF assms(1)])
  have nfd: "null_free (JObj d)" using nf v by simp
  from validated_roles[OF roles, of "dir @ ''.roles.''"] each_role obtain rs where
    rs: "read_keyed read_role (dget d ''roles'') = Some rs" "map fst rs = map fst roles" by auto
  from validated_task_types[OF types, of "dir @ ''.task_types.''"] each_type obtain ts where
    ts: "read_keyed read_task_type (dget d ''task_types'') = Some ts" by auto
  from validated_waiting_targets[OF waiting] obtain ws where
    ws: "read_keyed read_waiting_target (dget d ''waiting_targets'') = Some ws" by blast
  from validated_runtime_actions[OF runtime nfd] obtain rm rp where
      rt: "dget_or d ''runtime_actions'' (JObj []) = JObj rm" "read_pairs read_runtime_action rm = Some rp" by blast
  obtain lc ss initial terminal completion actions as where
    lc: "dget d ''lifecycle'' = JObj lc" "read_keyed read_state (dget lc ''states'') = Some ss"
    and dist: "distinct (map sd_key ss) \<and> [] \<notin> set (map sd_key ss)" and ini: "dget lc ''initial_state'' = JStr initial"
      "initial \<in> set (map sd_key ss)" "initial \<notin> set terminal"
    and trm: "dget lc ''terminal_states'' = JList (map JStr terminal)" "set terminal \<subseteq> set (map sd_key ss)"
    and cmp: "dget lc ''completion_states'' = JList (map JStr completion)" "set completion \<subseteq> set terminal"
      "completion \<noteq> []" and none: "\<forall>s \<in> set ss. sd_key s \<in> set terminal \<longrightarrow> sd_dispatch s = Dispatch_None"
    and actions: "dget lc ''actions'' = JObj actions" "read_pairs read_action actions = Some as"
      "set (map fst as) = set WORKFLOW_ACTION_KEYS"
    and rules: "\<forall>(ak, a) \<in> set as. (ak = ''create'' \<longrightarrow> length (ac_rules a) = 1) \<and>
         (\<forall>r \<in> set (ac_rules a). wf_rule_shape (map sd_key ss) terminal initial ak r \<and> wf_rule_fields r)"
    and graph: "ok (validate_state_graph dir (map sd_key ss) actions initial terminal)"
    and edges: "action_edges actions = concat (map (\<lambda>(ak, a).
         if ak \<in> set [''create'', ''update''] then [] else concat (map rule_transitions (ac_rules a))) as)"
    by (rule validated_lifecycle_read[OF lifecycle nfd])
  define w where "w = \<lparr>wf_key = dir, wf_coordinator_role = coordinator, wf_roles = rs, wf_task_types = ts,
           wf_waiting_targets = ws, wf_initial_state = initial, wf_terminal_states = terminal,
           wf_completion_states = completion, wf_states = ss, wf_actions = as, wf_runtime_actions = rp\<rparr>"
  have "read_workflow v = Some w"
    unfolding read_workflow_def v
    using key co(1) rs(1) ts ws lc ini(1) trm(1) cmp(1) actions rt by (simp add: w_def del: read_list.simps)
  moreover have "graph_ok w"
  proof -
    have "workflow_edges w = action_edges actions" by (simp add: workflow_edges_def w_def edges)
    moreover have "\<exists>t \<in> set terminal. (s, t) \<in> (set (action_edges actions))\<^sup>*" if "s \<in> set (map sd_key ss)" for s
      using graph that unfolding ok_validate_state_graph by (cases "s \<in> set terminal") blast+
    ultimately show ?thesis
      using graph unfolding ok_validate_state_graph graph_ok_def by (simp add: w_def state_keys_def)
  qed
  moreover have "wf_workflow w"
  proof -
    from actions(3) have "''create'' \<in> set (map fst as)" by (simp add: WORKFLOW_ACTION_KEYS_def)
    then obtain a where a: "map_of as ''create'' = Some a" by (auto simp: map_of_eq_None_iff dest: weak_map_of_SomeI)
    then have "length (action_rules w ''create'') = 1"
      using rules map_of_SomeD[OF a] by (auto simp: action_rules_def w_def)
    then show ?thesis
      unfolding wf_workflow_def
      using dist ini(2,3) trm(2) cmp(2,3) none co(2) rs(2) actions(3) rules
      by (auto simp: w_def state_keys_def dkeys_def wf_rule_def simp del: set_dkeys set_map)
  qed
  ultimately show ?thesis by (auto simp: w_def)
qed

end
