(* ===== verification/Demo_Workflow.thy ===== *)
theory Demo_Workflow
  imports Workflow_Loading
begin

text \<open>
  A small complete workflow definition in the form of a parsed \<^verbatim>\<open>workflow.json\<close>, with the
  states and actions of the built-in general-task workflow and fewer fields: the input at which the
  properties of the validator and the engine are shown not to be vacuous.
\<close>

definition demo_labels :: json where
  "demo_labels = JObj [(''zh-CN'', JStr ''x''), (''en'', JStr ''x'')]"

definition demo_color :: json where
  "demo_color = JObj [(''hue'', JStr ''Gray''), (''lightness'', JStr ''Lighter'')]"

definition demo_create :: json where
  "demo_create =
     JObj [(''labels'', demo_labels), (''rules'', JList [JObj [(''key'', JStr ''create''),
     (''labels'', demo_labels), (''actors'', strs [''coordinator'']), (''to'', JStr ''backlog''),
     (''writable_fields'', strs [''title'', ''type'', ''priority'', ''role'']), (''required_inputs'',
     strs [''title'']), (''defaults'', JObj [(''priority'', JStr ''P2'')])]])]"

definition demo_update :: json where
  "demo_update =
     JObj [(''labels'', demo_labels), (''rules'', JList [JObj [(''key'', JStr ''coordinate''),
     (''labels'', demo_labels), (''actors'', strs [''coordinator'']), (''from'', strs [''backlog'',
     ''ready'', ''in_progress'', ''review'']), (''writable_fields'', strs [''title'', ''priority'',
     ''result_evidence''])]])]"

definition demo_route :: json where
  "demo_route =
     JObj [(''labels'', demo_labels), (''rules'', JList [JObj [(''key'', JStr ''prepare''),
     (''labels'', demo_labels), (''actors'', strs [''coordinator'']), (''from'', strs [''backlog'',
     ''blocked'']), (''to'', JStr ''ready''), (''writable_fields'', strs [''role'']),
     (''required_inputs'', strs [''role'']), (''clear_fields'', strs [''agent'', ''agent_id'',
     ''blocked_reason''])], JObj [(''key'', JStr ''recover''), (''labels'', demo_labels),
     (''actors'', strs [''coordinator'']), (''from'', strs [''in_progress'']), (''to'', JStr
     ''ready''), (''writable_fields'', strs [''role'']), (''required_inputs'', strs [''role'']),
     (''clear_fields'', strs [''agent'', ''agent_id'']), (''guards'', strs
     [''executor_unavailable''])]])]"

definition demo_claim :: json where
  "demo_claim =
     JObj [(''labels'', demo_labels), (''rules'', JList [JObj [(''key'', JStr ''claim''),
     (''labels'', demo_labels), (''actors'', strs [''task_role'']), (''from'', strs [''ready'']),
     (''to'', JStr ''in_progress''), (''required_task_fields'', strs [''role'']), (''actor_fields'',
     JObj [(''agent'', JStr ''agent_name''), (''agent_id'', JStr ''agent_id'')])]])]"

definition demo_submit :: json where
  "demo_submit =
     JObj [(''labels'', demo_labels), (''rules'', JList [JObj [(''key'', JStr ''completed''),
     (''labels'', demo_labels), (''actors'', strs [''assigned_agent'']), (''roles'', strs
     [''executor'']), (''from'', strs [''in_progress'']), (''to'', JStr ''review''),
     (''writable_fields'', strs [''result_evidence'']), (''required_inputs'', strs
     [''result_evidence'']), (''field_prefixes'', JObj [(''result_evidence'', JStr ''Done: '')])]])]"

definition demo_block :: json where
  "demo_block =
     JObj [(''labels'', demo_labels), (''rules'', JList [JObj [(''key'', JStr ''worker''),
     (''labels'', demo_labels), (''actors'', strs [''assigned_agent'']), (''from'', strs
     [''in_progress'']), (''to'', JStr ''blocked''), (''writable_fields'', strs [''blocked_reason'',
     ''waiting_on'']), (''required_inputs'', strs [''blocked_reason'', ''waiting_on'']),
     (''field_values'', JObj [(''waiting_on'', strs [''owner''])])]])]"

definition demo_review :: json where
  "demo_review =
     JObj [(''labels'', demo_labels), (''rules'', JList [JObj [(''key'', JStr ''approve''),
     (''labels'', demo_labels), (''actors'', strs [''coordinator'']), (''from'', strs [''review'']),
     (''to'', JStr ''done''), (''writable_fields'', strs [''result_evidence'']),
     (''required_inputs'', strs [''result_evidence''])], JObj [(''key'', JStr ''rework''),
     (''labels'', demo_labels), (''actors'', strs [''coordinator'']), (''from'', strs [''review'']),
     (''to'', JStr ''ready''), (''fixed_fields'', JObj [(''role'', JStr ''executor'')]),
     (''clear_fields'', strs [''agent'', ''agent_id''])]])]"

definition demo_cancel :: json where
  "demo_cancel =
     JObj [(''labels'', demo_labels), (''rules'', JList [JObj [(''key'', JStr ''cancel''),
     (''labels'', demo_labels), (''actors'', strs [''coordinator'']), (''from'', strs [''backlog'',
     ''ready'', ''review'', ''blocked'']), (''to'', JStr ''canceled'')], JObj [(''key'', JStr
     ''cancel_in_progress''), (''labels'', demo_labels), (''actors'', strs [''coordinator'']),
     (''from'', strs [''in_progress'']), (''to'', JStr ''canceled''), (''guards'', strs
     [''execution_stopped''])]]), (''confirmation_required'', JBool True)]"

definition demo_states :: json where
  "demo_states =
     JList [JObj [(''key'', JStr ''backlog''), (''labels'', demo_labels), (''color'', demo_color),
     (''dispatch'', JStr ''none''), (''required_fields'', strs [''title''])], JObj [(''key'', JStr
     ''ready''), (''labels'', demo_labels), (''color'', demo_color), (''dispatch'', JStr
     ''task_role''), (''required_fields'', strs [''title'', ''role'']), (''dispatch_instructions'',
     demo_labels)], JObj [(''key'', JStr ''in_progress''), (''labels'', demo_labels), (''color'',
     demo_color), (''dispatch'', JStr ''none''), (''required_fields'', strs [''title'', ''role'',
     ''agent_id''])], JObj [(''key'', JStr ''review''), (''labels'', demo_labels), (''color'',
     demo_color), (''dispatch'', JStr ''coordinator''), (''required_fields'', strs [''title'',
     ''result_evidence'']), (''dispatch_instructions'', demo_labels)], JObj [(''key'', JStr
     ''blocked''), (''labels'', demo_labels), (''color'', demo_color), (''dispatch'', JStr
     ''coordinator''), (''required_fields'', strs [''title'', ''blocked_reason'']),
     (''dispatch_instructions'', demo_labels)], JObj [(''key'', JStr ''done''), (''labels'',
     demo_labels), (''color'', demo_color), (''dispatch'', JStr ''none''), (''required_fields'', strs
     [''title'', ''result_evidence''])], JObj [(''key'', JStr ''canceled''), (''labels'',
     demo_labels), (''color'', demo_color), (''dispatch'', JStr ''none''), (''required_fields'', strs
     [''title''])]]"

definition demo_lifecycle :: json where
  "demo_lifecycle =
     JObj [(''initial_state'', JStr ''backlog''), (''terminal_states'', strs [''done'',
     ''canceled'']), (''completion_states'', strs [''done'']), (''states'', demo_states),
     (''actions'', JObj [(''create'', demo_create), (''update'', demo_update), (''route'',
     demo_route), (''claim'', demo_claim), (''submit'', demo_submit), (''block'', demo_block),
     (''review'', demo_review), (''cancel'', demo_cancel)])]"

definition demo_definition :: json where
  "demo_definition =
     JObj [(''schema_version'', JInt 3), (''key'', JStr ''demo''), (''labels'', demo_labels),
     (''short_descriptions'', demo_labels), (''coordinator_role'', JStr ''owner''), (''roles'', JList
     [JObj [(''key'', JStr ''owner''), (''labels'', demo_labels), (''descriptions'', demo_labels),
     (''allow_multiple'', JBool False)], JObj [(''key'', JStr ''executor''), (''labels'',
     demo_labels), (''descriptions'', demo_labels), (''allow_multiple'', JBool True)]]),
     (''task_types'', JList [JObj [(''key'', JStr ''task''), (''labels'', demo_labels),
     (''descriptions'', demo_labels), (''default_role'', JStr ''executor'')]]), (''waiting_targets'',
     JList [JObj [(''key'', JStr ''owner''), (''labels'', demo_labels), (''color'', demo_color)]]),
     (''task_schema'', JObj [(''base'', JStr ''teamflow-task-v1''), (''task_id'', JObj
     [(''sequence_length'', JInt 4)])]), (''lifecycle'', demo_lifecycle), (''runtime_actions'', JObj
     [(''stop_execution'', JObj [(''labels'', demo_labels), (''actors'', strs [''coordinator'']),
     (''states'', strs [''in_progress'']), (''required_inputs'', strs [''reason'']),
     (''required_task_fields'', strs [''agent_id'']), (''confirmation_required'', JBool True),
     (''produces'', strs [''execution_stopped''])])])]"

text \<open>The same definition as the records the engine reads.\<close>

definition demo_workflow :: workflow where
  "demo_workflow =
   \<lparr>wf_key = ''demo'', wf_coordinator_role = ''owner'',
     wf_roles = [(''owner'', False), (''executor'', True)],
     wf_task_types = [(''task'', ''executor'')],
     wf_waiting_targets = [''owner''], wf_initial_state = ''backlog'',
     wf_terminal_states = [''done'', ''canceled''],
     wf_completion_states = [''done''],
     wf_states =
       [\<lparr>sd_key = ''backlog'', sd_dispatch = Dispatch_None,
           sd_required = [''title'']\<rparr>,
        \<lparr>sd_key = ''ready'', sd_dispatch = Dispatch_Task_Role,
           sd_required = [''title'', ''role'']\<rparr>,
        \<lparr>sd_key = ''in_progress'', sd_dispatch = Dispatch_None,
           sd_required = [''title'', ''role'', ''agent_id'']\<rparr>,
        \<lparr>sd_key = ''review'', sd_dispatch = Dispatch_Coordinator,
           sd_required = [''title'', ''result_evidence'']\<rparr>,
        \<lparr>sd_key = ''blocked'', sd_dispatch = Dispatch_Coordinator,
           sd_required = [''title'', ''blocked_reason'']\<rparr>,
        \<lparr>sd_key = ''done'', sd_dispatch = Dispatch_None,
           sd_required = [''title'', ''result_evidence'']\<rparr>,
        \<lparr>sd_key = ''canceled'', sd_dispatch = Dispatch_None,
           sd_required = [''title'']\<rparr>],
     wf_actions =
       [(''create'',
         \<lparr>ac_confirmation = False,
            ac_rules =
              [\<lparr>rl_key = ''create'', rl_actors = [Coordinator],
                  rl_roles = [], rl_from = [], rl_to = Some ''backlog'',
                  rl_writable =
                    [''title'', ''type'', ''priority'', ''role''],
                  rl_required_inputs = [''title''],
                  rl_required_task_fields = [],
                  rl_defaults = [(''priority'', JStr ''P2'')],
                  rl_fixed_fields = [], rl_clear_fields = [],
                  rl_field_values = [], rl_field_prefixes = [],
                  rl_actor_fields = [], rl_guards = []\<rparr>]\<rparr>),
        (''update'',
         \<lparr>ac_confirmation = False,
            ac_rules =
              [\<lparr>rl_key = ''coordinate'', rl_actors = [Coordinator],
                  rl_roles = [],
                  rl_from =
                    [''backlog'', ''ready'', ''in_progress'', ''review''],
                  rl_to = None,
                  rl_writable =
                    [''title'', ''priority'', ''result_evidence''],
                  rl_required_inputs = [], rl_required_task_fields = [],
                  rl_defaults = [], rl_fixed_fields = [],
                  rl_clear_fields = [], rl_field_values = [],
                  rl_field_prefixes = [], rl_actor_fields = [],
                  rl_guards = []\<rparr>]\<rparr>),
        (''route'',
         \<lparr>ac_confirmation = False,
            ac_rules =
              [\<lparr>rl_key = ''prepare'', rl_actors = [Coordinator],
                  rl_roles = [], rl_from = [''backlog'', ''blocked''],
                  rl_to = Some ''ready'', rl_writable = [''role''],
                  rl_required_inputs = [''role''],
                  rl_required_task_fields = [], rl_defaults = [],
                  rl_fixed_fields = [],
                  rl_clear_fields =
                    [''agent'', ''agent_id'', ''blocked_reason''],
                  rl_field_values = [], rl_field_prefixes = [],
                  rl_actor_fields = [], rl_guards = []\<rparr>,
               \<lparr>rl_key = ''recover'', rl_actors = [Coordinator],
                  rl_roles = [], rl_from = [''in_progress''],
                  rl_to = Some ''ready'', rl_writable = [''role''],
                  rl_required_inputs = [''role''],
                  rl_required_task_fields = [], rl_defaults = [],
                  rl_fixed_fields = [],
                  rl_clear_fields = [''agent'', ''agent_id''],
                  rl_field_values = [], rl_field_prefixes = [],
                  rl_actor_fields = [],
                  rl_guards = [''executor_unavailable'']\<rparr>]\<rparr>),
        (''claim'',
         \<lparr>ac_confirmation = False,
            ac_rules =
              [\<lparr>rl_key = ''claim'', rl_actors = [Task_Role], rl_roles = [],
                  rl_from = [''ready''], rl_to = Some ''in_progress'',
                  rl_writable = [], rl_required_inputs = [],
                  rl_required_task_fields = [''role''], rl_defaults = [],
                  rl_fixed_fields = [], rl_clear_fields = [],
                  rl_field_values = [], rl_field_prefixes = [],
                  rl_actor_fields =
                    [(''agent'', ''agent_name''),
                     (''agent_id'', ''agent_id'')],
                  rl_guards = []\<rparr>]\<rparr>),
        (''submit'',
         \<lparr>ac_confirmation = False,
            ac_rules =
              [\<lparr>rl_key = ''completed'', rl_actors = [Assigned_Agent],
                  rl_roles = [''executor''], rl_from = [''in_progress''],
                  rl_to = Some ''review'',
                  rl_writable = [''result_evidence''],
                  rl_required_inputs = [''result_evidence''],
                  rl_required_task_fields = [], rl_defaults = [],
                  rl_fixed_fields = [], rl_clear_fields = [],
                  rl_field_values = [],
                  rl_field_prefixes = [(''result_evidence'', ''Done: '')],
                  rl_actor_fields = [], rl_guards = []\<rparr>]\<rparr>),
        (''block'',
         \<lparr>ac_confirmation = False,
            ac_rules =
              [\<lparr>rl_key = ''worker'', rl_actors = [Assigned_Agent],
                  rl_roles = [], rl_from = [''in_progress''],
                  rl_to = Some ''blocked'',
                  rl_writable = [''blocked_reason'', ''waiting_on''],
                  rl_required_inputs = [''blocked_reason'', ''waiting_on''],
                  rl_required_task_fields = [], rl_defaults = [],
                  rl_fixed_fields = [], rl_clear_fields = [],
                  rl_field_values = [(''waiting_on'', [''owner''])],
                  rl_field_prefixes = [], rl_actor_fields = [],
                  rl_guards = []\<rparr>]\<rparr>),
        (''review'',
         \<lparr>ac_confirmation = False,
            ac_rules =
              [\<lparr>rl_key = ''approve'', rl_actors = [Coordinator],
                  rl_roles = [], rl_from = [''review''],
                  rl_to = Some ''done'',
                  rl_writable = [''result_evidence''],
                  rl_required_inputs = [''result_evidence''],
                  rl_required_task_fields = [], rl_defaults = [],
                  rl_fixed_fields = [], rl_clear_fields = [],
                  rl_field_values = [], rl_field_prefixes = [],
                  rl_actor_fields = [], rl_guards = []\<rparr>,
               \<lparr>rl_key = ''rework'', rl_actors = [Coordinator],
                  rl_roles = [], rl_from = [''review''],
                  rl_to = Some ''ready'', rl_writable = [],
                  rl_required_inputs = [], rl_required_task_fields = [],
                  rl_defaults = [],
                  rl_fixed_fields = [(''role'', JStr ''executor'')],
                  rl_clear_fields = [''agent'', ''agent_id''],
                  rl_field_values = [], rl_field_prefixes = [],
                  rl_actor_fields = [], rl_guards = []\<rparr>]\<rparr>),
        (''cancel'',
         \<lparr>ac_confirmation = True,
            ac_rules =
              [\<lparr>rl_key = ''cancel'', rl_actors = [Coordinator],
                  rl_roles = [],
                  rl_from =
                    [''backlog'', ''ready'', ''review'', ''blocked''],
                  rl_to = Some ''canceled'', rl_writable = [],
                  rl_required_inputs = [], rl_required_task_fields = [],
                  rl_defaults = [], rl_fixed_fields = [],
                  rl_clear_fields = [], rl_field_values = [],
                  rl_field_prefixes = [], rl_actor_fields = [],
                  rl_guards = []\<rparr>,
               \<lparr>rl_key = ''cancel_in_progress'', rl_actors = [Coordinator],
                  rl_roles = [], rl_from = [''in_progress''],
                  rl_to = Some ''canceled'', rl_writable = [],
                  rl_required_inputs = [], rl_required_task_fields = [],
                  rl_defaults = [], rl_fixed_fields = [],
                  rl_clear_fields = [], rl_field_values = [],
                  rl_field_prefixes = [], rl_actor_fields = [],
                  rl_guards = [''execution_stopped'']\<rparr>]\<rparr>)],
     wf_runtime_actions =
       [(''stop_execution'',
         \<lparr>ra_actors = [Coordinator], ra_roles = [],
            ra_states = [''in_progress''],
            ra_required_inputs = [''reason''],
            ra_required_task_fields = [''agent_id''],
            ra_confirmation = True,
            ra_produces = [''execution_stopped'']\<rparr>)]\<rparr>"

lemma demo_valid: "validate_workflow_definition demo_definition ''demo'' ''p'' = Inr ()"
  by code_simp

lemma demo_null_free: "null_free demo_definition"
  by code_simp

lemma read_demo: "read_workflow demo_definition = Some demo_workflow"
  by code_simp

lemma wf_demo: "wf_workflow demo_workflow"
  by code_simp

end
