(* ===== verification/Workflow_Values.thy ===== *)
theory Workflow_Values
  imports Workflow_Model
begin

text \<open>
  The value helpers and option tables of \<^verbatim>\<open>core/workflow.py\<close>: when a field counts as empty, when
  two values count as the same, and the closed option lists of a definition. Also Python's \<^verbatim>\<open>str\<close>
  on the values a task card holds.
\<close>

section \<open>Printing values\<close>

text \<open>\<^verbatim>\<open>repr\<close> of a string: single quotes, unless the text has a single and no double quote.\<close>

definition hex_digit :: "nat \<Rightarrow> char" where
  "hex_digit n = (if n < 10 then char_of (48 + n) else char_of (87 + n))"

definition repr_char :: "char \<Rightarrow> char \<Rightarrow> string" where
  "repr_char q c =
     (let n = of_char c :: nat in
      if c = q \<or> c = CHR 0x5C then [CHR 0x5C, c]
      else if c = CHR 0x0A then [CHR 0x5C, CHR ''n'']
      else if c = CHR 0x0D then [CHR 0x5C, CHR ''r'']
      else if c = CHR 0x09 then [CHR 0x5C, CHR ''t'']
      else if n < 32 \<or> 127 \<le> n \<and> n \<le> 160 \<or> n = 173
        then [CHR 0x5C, CHR ''x'', hex_digit (n div 16), hex_digit (n mod 16)]
      else [c])"

definition repr_str :: "string \<Rightarrow> string" where
  "repr_str s =
     (let q = (if CHR 0x27 \<in> set s \<and> CHR 0x22 \<notin> set s then CHR 0x22 else CHR 0x27)
      in [q] @ concat (map (repr_char q) s) @ [q])"

fun join :: "string \<Rightarrow> string list \<Rightarrow> string" where
  "join sep [] = []"
| "join sep [x] = x"
| "join sep (x # xs) = x @ sep @ join sep xs"

fun py_repr :: "json \<Rightarrow> string" where
  "py_repr JNull = ''None''"
| "py_repr (JBool b) = (if b then ''True'' else ''False'')"
| "py_repr (JInt i) = int_str i"
| "py_repr (JStr s) = repr_str s"
| "py_repr (JList xs) = ''['' @ join '', '' (map py_repr xs) @ '']''"
| "py_repr (JObj kvs) = ''{'' @ join '', '' (map (\<lambda>(k, v). repr_str k @ '': '' @ py_repr v) kvs) @ ''}''"

fun py_str :: "json \<Rightarrow> string" where
  "py_str (JStr s) = s"
| "py_str v = py_repr v"

text \<open>\<^verbatim>\<open>str(value or "")\<close>\<close>

definition text_of :: "json \<Rightarrow> string" where
  "text_of v = (if truthy v then py_str v else [])"

lemma text_of_simps [simp]: "text_of JNull = []" "text_of (JStr s) = s"
  by (simp_all add: text_of_def)

section \<open>Empty and equal values\<close>

fun blank :: "json \<Rightarrow> bool" where
  "blank (JStr s) = (strip s = [])"
| "blank JNull = True"
| "blank (JList xs) = (xs = [])"
| "blank (JObj d) = (d = [])"
| "blank _ = False"

text \<open>Python's \<^verbatim>\<open>==\<close>: \<^verbatim>\<open>True == 1\<close>, and dictionaries compare without regard to order.\<close>

fun py_eq :: "json \<Rightarrow> json \<Rightarrow> bool" where
  "py_eq JNull JNull = True"
| "py_eq (JBool a) (JBool b) = (a = b)"
| "py_eq (JBool a) (JInt i) = (of_bool a = i)"
| "py_eq (JInt i) (JBool a) = (of_bool a = i)"
| "py_eq (JInt i) (JInt j) = (i = j)"
| "py_eq (JStr s) (JStr t) = (s = t)"
| "py_eq (JList xs) (JList ys) = list_all2 py_eq xs ys"
| "py_eq (JObj d) (JObj e) =
     (length d = length e \<and>
      (\<forall>(k, v) \<in> set d. case map_of e k of None \<Rightarrow> False | Some v' \<Rightarrow> py_eq v v'))"
| "py_eq _ _ = False"

definition same_value :: "json \<Rightarrow> json \<Rightarrow> bool" where
  "same_value current expected \<longleftrightarrow> blank current \<and> blank expected \<or> py_eq current expected"

text \<open>A JSON value whose objects have distinct keys, as every parsed one has.\<close>

fun proper :: "json \<Rightarrow> bool" where
  "proper (JList xs) = (\<forall>x \<in> set xs. proper x)"
| "proper (JObj d) = (distinct (map fst d) \<and> (\<forall>(k, v) \<in> set d. proper v))"
| "proper _ = True"

lemma py_eq_refl: "proper v \<Longrightarrow> py_eq v v"
proof (induction v)
  case (JList xs)
  then show ?case by (auto simp: list_all2_conv_all_nth)
next
  case (JObj d)
  have "py_eq v v" if "(k, v) \<in> set d" for k v
    using JObj that by fastforce
  then show ?case using JObj.prems by fastforce
qed auto

lemma same_value_refl [simp]: "proper v \<Longrightarrow> same_value v v"
  by (simp add: same_value_def py_eq_refl)

lemma py_eq_JStr [simp]: "py_eq (JStr s) v \<longleftrightarrow> v = JStr s" "py_eq v (JStr s) \<longleftrightarrow> v = JStr s"
  by (cases v; auto)+

lemma same_value_JStr:
  "same_value v (JStr s) \<Longrightarrow> strip s \<noteq> [] \<Longrightarrow> v = JStr s"
  by (auto simp: same_value_def)

section \<open>Option tables\<close>

text \<open>
  \<^verbatim>\<open>task_option_definitions\<close>, with the keys of each option list; labels and colours of the
  options are left out.
\<close>

definition task_options :: "workflow \<Rightarrow> (string \<times> string list) list" where
  "task_options w =
    [(''status'', state_keys w),
     (''type'', map fst (wf_task_types w)),
     (''priority'', PRIORITIES),
     (''role'', map fst (wf_roles w)),
     (''waiting_on'', wf_waiting_targets w),
     (''delivery_mode'', DELIVERY_MODES)]"

end
