(* ===== verification/Json_Text.thy ===== *)
theory Json_Text
  imports Workflow_Values
begin

text \<open>
  The JSON text codec of Python's standard library as the sources call it:
  \<^verbatim>\<open>json.dumps(v, ensure_ascii=False)\<close> and \<^verbatim>\<open>json.loads\<close>. Numbers with a fraction or an exponent
  and code points above 255 are outside the model: a text that holds one does not parse here.
  The main fact is the round trip \<open>loads_dumps\<close>, for every value.
\<close>

section \<open>Printing\<close>

definition escape_char :: "char \<Rightarrow> string" where
  "escape_char c =
     (if c = CHR 0x22 then [CHR 0x5C, CHR 0x22]
      else if c = CHR 0x5C then [CHR 0x5C, CHR 0x5C]
      else if c = CHR 0x0A then [CHR 0x5C, CHR ''n'']
      else if c = CHR 0x0D then [CHR 0x5C, CHR ''r'']
      else if c = CHR 0x09 then [CHR 0x5C, CHR ''t'']
      else if c = CHR 0x0C then [CHR 0x5C, CHR ''f'']
      else if c = CHR 0x08 then [CHR 0x5C, CHR ''b'']
      else if of_char c < (32::nat)
        then [CHR 0x5C, CHR ''u'', CHR ''0'', CHR ''0'', hex_digit (of_char c div 16), hex_digit (of_char c mod 16)]
      else [c])"

definition dump_string :: "string \<Rightarrow> string" where
  "dump_string s = CHR 0x22 # concat (map escape_char s) @ [CHR 0x22]"

fun dumps :: "json \<Rightarrow> string" where
  "dumps JNull = ''null''"
| "dumps (JBool b) = (if b then ''true'' else ''false'')"
| "dumps (JInt i) = int_str i"
| "dumps (JStr s) = dump_string s"
| "dumps (JList xs) = ''['' @ join '', '' (map dumps xs) @ '']''"
| "dumps (JObj kvs) = ''{'' @ join '', '' (map (\<lambda>(k, v). dump_string k @ '': '' @ dumps v) kvs) @ ''}''"

section \<open>Parsing\<close>

definition json_ws :: "char \<Rightarrow> bool" where
  "json_ws c \<longleftrightarrow> c \<in> set [CHR 0x20, CHR 0x09, CHR 0x0A, CHR 0x0D]"

definition skip_ws :: "string \<Rightarrow> string" where
  "skip_ws s = dropWhile json_ws s"

definition is_digit :: "char \<Rightarrow> bool" where
  "is_digit c \<longleftrightarrow> 48 \<le> (of_char c :: nat) \<and> (of_char c :: nat) \<le> 57"

definition hex_value :: "char \<Rightarrow> nat option" where
  "hex_value c =
     (let n = of_char c :: nat in
      if 48 \<le> n \<and> n \<le> 57 then Some (n - 48)
      else if 97 \<le> n \<and> n \<le> 102 then Some (n - 87)
      else if 65 \<le> n \<and> n \<le> 70 then Some (n - 55)
      else None)"

definition unescape :: "char \<Rightarrow> char option" where
  "unescape c =
     (if c = CHR 0x22 \<or> c = CHR 0x5C \<or> c = CHR ''/'' then Some c
      else if c = CHR ''n'' then Some (CHR 0x0A)
      else if c = CHR ''r'' then Some (CHR 0x0D)
      else if c = CHR ''t'' then Some (CHR 0x09)
      else if c = CHR ''f'' then Some (CHR 0x0C)
      else if c = CHR ''b'' then Some (CHR 0x08)
      else None)"

text \<open>The rest of a string literal after its opening quote; control characters must be escaped.\<close>

fun parse_chars :: "string \<Rightarrow> (string \<times> string) option" where
  "parse_chars [] = None"
| "parse_chars (c # s) =
     (if c = CHR 0x22 then Some ([], s)
      else if c = CHR 0x5C then
        (case s of
           [] \<Rightarrow> None
         | e # s' \<Rightarrow>
             if e = CHR ''u'' then
               (case s' of
                  a # b # x # y # s'' \<Rightarrow>
                    (case (hex_value a, hex_value b, hex_value x, hex_value y) of
                       (Some 0, Some 0, Some h, Some l) \<Rightarrow>
                         map_option (\<lambda>(t, r). (char_of (16 * h + l) # t, r)) (parse_chars s'')
                     | _ \<Rightarrow> None)
                | _ \<Rightarrow> None)
             else (case unescape e of
                     None \<Rightarrow> None
                   | Some c' \<Rightarrow> map_option (\<lambda>(t, r). (c' # t, r)) (parse_chars s')))
      else if of_char c < (32::nat) then None
      else map_option (\<lambda>(t, r). (c # t, r)) (parse_chars s))"

fun digits_value :: "nat \<Rightarrow> string \<Rightarrow> nat" where
  "digits_value acc [] = acc"
| "digits_value acc (c # s) = digits_value (10 * acc + (of_char c - 48)) s"

text \<open>A number: no leading zero, and neither a fraction nor an exponent after it.\<close>

definition parse_nat :: "string \<Rightarrow> (nat \<times> string) option" where
  "parse_nat s =
     (let ds = takeWhile is_digit s; r = dropWhile is_digit s
      in if ds = [] \<or> (hd ds = CHR ''0'' \<and> length ds > 1) then None
         else if r \<noteq> [] \<and> hd r \<in> set ''.eE'' then None
         else Some (digits_value 0 ds, r))"

definition parse_number :: "string \<Rightarrow> (json \<times> string) option" where
  "parse_number s =
     (case s of
        [] \<Rightarrow> None
      | c # s' \<Rightarrow>
          if c = CHR ''-'' then map_option (\<lambda>(n, r). (JInt (- int n), r)) (parse_nat s')
          else map_option (\<lambda>(n, r). (JInt (int n), r)) (parse_nat s))"

text \<open>
  Every call spends one unit of fuel; \<open>loads\<close> gives more than the length of the text, which is
  enough because each call also consumes a character (\<open>parse_dumps\<close> for printed texts).
\<close>

fun parse_value :: "nat \<Rightarrow> string \<Rightarrow> (json \<times> string) option"
and parse_items :: "nat \<Rightarrow> string \<Rightarrow> (json list \<times> string) option"
and parse_members :: "nat \<Rightarrow> string \<Rightarrow> (dict \<times> string) option" where
  "parse_value 0 s = None"
| "parse_value (Suc n) s =
     (case skip_ws s of
        [] \<Rightarrow> None
      | c # r \<Rightarrow>
          if c = CHR 0x22 then map_option (\<lambda>(t, r'). (JStr t, r')) (parse_chars r)
          else if c = CHR ''['' then
            (if take 1 (skip_ws r) = '']'' then Some (JList [], drop 1 (skip_ws r))
             else map_option (\<lambda>(xs, r'). (JList xs, r')) (parse_items n r))
          else if c = CHR ''{'' then
            (if take 1 (skip_ws r) = ''}'' then Some (JObj [], drop 1 (skip_ws r))
             else map_option (\<lambda>(kvs, r'). (JObj kvs, r')) (parse_members n r))
          else if starts_with (c # r) ''null'' then Some (JNull, drop 4 (c # r))
          else if starts_with (c # r) ''true'' then Some (JBool True, drop 4 (c # r))
          else if starts_with (c # r) ''false'' then Some (JBool False, drop 5 (c # r))
          else parse_number (c # r))"
| "parse_items 0 s = None"
| "parse_items (Suc n) s =
     (case parse_value n s of
        None \<Rightarrow> None
      | Some (v, r) \<Rightarrow>
          (case skip_ws r of
             [] \<Rightarrow> None
           | c # r' \<Rightarrow>
               if c = CHR '']'' then Some ([v], r')
               else if c = CHR '','' then map_option (\<lambda>(vs, r''). (v # vs, r'')) (parse_items n r')
               else None))"
| "parse_members 0 s = None"
| "parse_members (Suc n) s =
     (case skip_ws s of
        c # r \<Rightarrow>
          (if c = CHR 0x22 then
             (case parse_chars r of
                None \<Rightarrow> None
              | Some (k, r1) \<Rightarrow>
                  (case skip_ws r1 of
                     c1 # r2 \<Rightarrow>
                       (if c1 = CHR '':'' then
                          (case parse_value n r2 of
                             None \<Rightarrow> None
                           | Some (v, r3) \<Rightarrow>
                               (case skip_ws r3 of
                                  c2 # r4 \<Rightarrow>
                                    (if c2 = CHR ''}'' then Some ([(k, v)], r4)
                                     else if c2 = CHR '','' then
                                       map_option (\<lambda>(kvs, r5). ((k, v) # kvs, r5)) (parse_members n r4)
                                     else None)
                                | [] \<Rightarrow> None))
                        else None)
                   | [] \<Rightarrow> None))
           else None)
      | [] \<Rightarrow> None)"

text \<open>A repeated key keeps its last value, at the place of its first occurrence.\<close>

definition dict_of_pairs :: "(string \<times> json) list \<Rightarrow> dict" where
  "dict_of_pairs kvs = fold (\<lambda>(k, v) d. AList.update k v d) kvs []"

fun normal_keys :: "json \<Rightarrow> json" where
  "normal_keys (JList xs) = JList (map normal_keys xs)"
| "normal_keys (JObj kvs) = JObj (dict_of_pairs (map (\<lambda>(k, v). (k, normal_keys v)) kvs))"
| "normal_keys v = v"

definition loads :: "string \<Rightarrow> json option" where
  "loads s =
     (case parse_value (Suc (Suc (length s))) s of
        Some (v, r) \<Rightarrow> if skip_ws r = [] then Some (normal_keys v) else None
      | None \<Rightarrow> None)"

section \<open>The round trip\<close>

subsection \<open>Strings\<close>

lemma hex_value_digit [simp]: "n < 16 \<Longrightarrow> hex_value (hex_digit n) = Some n"
  by (auto simp: hex_value_def hex_digit_def Let_def)

lemma hex_value_0 [simp]: "hex_value (CHR ''0'') = Some 0"
  by (simp add: hex_value_def)

lemma parse_escaped_char:
  "parse_chars (escape_char c @ s) = map_option (\<lambda>(t, r). (c # t, r)) (parse_chars s)"
proof (cases "c \<in> {CHR 0x22, CHR 0x5C, CHR 0x0A, CHR 0x0D, CHR 0x09, CHR 0x0C, CHR 0x08}")
  case True
  then show ?thesis by (auto simp: escape_char_def unescape_def)
next
  case False
  show ?thesis
  proof (cases "of_char c < (32::nat)")
    case True
    have "16 * (of_char c div 16) + of_char c mod 16 = (of_char c :: nat)" by simp
    then have "char_of (16 * (of_char c div 16) + of_char c mod 16 :: nat) = c" by simp
    then show ?thesis using False True by (simp add: escape_char_def)
  qed (use False in \<open>simp add: escape_char_def\<close>)
qed

lemma parse_chars_escaped: "parse_chars (concat (map escape_char s) @ CHR 0x22 # r) = Some (s, r)"
  by (induction s) (simp_all add: parse_escaped_char)

subsection \<open>Numbers\<close>

lemma digits_value_append: "digits_value acc (s @ [c]) = 10 * digits_value acc s + (of_char c - 48)"
  by (induction s arbitrary: acc) auto

lemma is_digit_char [simp]: "(n::nat) < 10 \<Longrightarrow> is_digit (char_of (48 + n))"
  by (simp add: is_digit_def)

lemma nat_digits_facts:
  "digits_value 0 (nat_digits n) = n \<and> nat_digits n \<noteq> [] \<and> (\<forall>c \<in> set (nat_digits n). is_digit c) \<and>
   (hd (nat_digits n) = CHR ''0'' \<longrightarrow> length (nat_digits n) = 1)"
proof (induction n rule: nat_digits.induct)
  case (1 n)
  show ?case
  proof (cases "n < 10")
    case True
    then show ?thesis by (simp add: nat_digits.simps[of n])
  next
    case False
    with "1.IH" have IH: "digits_value 0 (nat_digits (n div 10)) = n div 10" "nat_digits (n div 10) \<noteq> []"
      "\<forall>c \<in> set (nat_digits (n div 10)). is_digit c"
      "hd (nat_digits (n div 10)) = CHR ''0'' \<longrightarrow> length (nat_digits (n div 10)) = 1" by auto
    have "hd (nat_digits (n div 10)) \<noteq> CHR ''0''"
    proof
      assume "hd (nat_digits (n div 10)) = CHR ''0''"
      with IH(2,4) have "nat_digits (n div 10) = [CHR ''0'']"
        by (metis length_Suc_conv length_0_conv list.sel(1) One_nat_def)
      with IH(1) have "n div 10 = 0" by simp
      with False show False by simp
    qed
    moreover have "10 * (n div 10) + n mod 10 = n" by simp
    ultimately show ?thesis
      using IH False by (simp add: nat_digits.simps[of n] digits_value_append)
  qed
qed

definition value_end :: "string \<Rightarrow> bool" where
  "value_end r \<longleftrightarrow> r = [] \<or> hd r \<in> set '',]}''"

lemma value_end_digits:
  assumes "value_end r" and "\<forall>c \<in> set ds. is_digit c"
  shows "takeWhile is_digit (ds @ r) = ds" and "dropWhile is_digit (ds @ r) = r"
proof -
  have "r = [] \<or> \<not> is_digit (hd r)" using assms(1) by (auto simp: value_end_def is_digit_def)
  then show "takeWhile is_digit (ds @ r) = ds" "dropWhile is_digit (ds @ r) = r"
    using assms(2) by (cases r; simp add: takeWhile_append dropWhile_append)+
qed

lemma parse_nat_digits: "value_end r \<Longrightarrow> parse_nat (nat_digits n @ r) = Some (n, r)"
proof -
  assume r: "value_end r"
  note facts = nat_digits_facts[of n]
  have "\<not> (r \<noteq> [] \<and> hd r \<in> set ''.eE'')" using r by (auto simp: value_end_def)
  moreover have "\<not> (hd (nat_digits n) = CHR ''0'' \<and> 1 < length (nat_digits n))" using facts by auto
  moreover have "takeWhile is_digit (nat_digits n @ r) = nat_digits n" "dropWhile is_digit (nat_digits n @ r) = r"
    using facts value_end_digits[OF r] by blast+
  ultimately show ?thesis using facts unfolding parse_nat_def Let_def by auto
qed

lemma nat_digits_hd: "\<exists>c ds. nat_digits n = c # ds \<and> is_digit c"
  using nat_digits_facts[of n] by (cases "nat_digits n") auto

lemma parse_number_int: "value_end r \<Longrightarrow> parse_number (int_str i @ r) = Some (JInt i, r)"
proof (cases "i < 0")
  case True
  assume "value_end r"
  with True show ?thesis by (simp add: parse_number_def int_str_def parse_nat_digits)
next
  case False
  assume r: "value_end r"
  obtain c ds where c: "nat_digits (nat i) = c # ds" "is_digit c" using nat_digits_hd by blast
  then have "c \<noteq> CHR ''-''" by (auto simp: is_digit_def)
  with False c parse_nat_digits[OF r, of "nat i"] show ?thesis
    by (simp add: parse_number_def int_str_def)
qed

subsection \<open>Values\<close>

text \<open>What may start a printed value: no white space, so skipping changes nothing.\<close>

lemma skip_ws_hd: "s \<noteq> [] \<Longrightarrow> \<not> json_ws (hd s) \<Longrightarrow> skip_ws s = s"
  by (cases s) (auto simp: skip_ws_def)

lemma skip_ws_space [simp]: "skip_ws (CHR '' '' # s) = skip_ws s"
  by (simp add: skip_ws_def json_ws_def)

lemma int_str_hd: "\<exists>c ds. int_str i = c # ds \<and> (c = CHR ''-'' \<or> is_digit c)"
  using nat_digits_hd[of "nat i"] by (auto simp: int_str_def)

lemma dumps_hd: "\<exists>c s. dumps v = c # s \<and> \<not> json_ws c \<and> c \<notin> set ''],}''"
proof (cases v)
  case (JInt i)
  obtain c ds where "int_str i = c # ds" "c = CHR ''-'' \<or> is_digit c" using int_str_hd by blast
  then show ?thesis by (auto simp: JInt json_ws_def is_digit_def)
qed (auto simp: dump_string_def json_ws_def)

lemma skip_ws_dumps: "skip_ws (dumps v @ r) = dumps v @ r"
  using dumps_hd[of v] by (auto simp: skip_ws_hd)

lemma parse_value_space [simp]: "parse_value n (CHR '' '' # s) = parse_value n s"
  by (cases n) simp_all

lemma parse_items_space [simp]: "parse_items n (CHR '' '' # s) = parse_items n s"
  by (cases n) simp_all

lemma parse_members_space [simp]: "parse_members n (CHR '' '' # s) = parse_members n s"
  by (cases n) simp_all

fun fuel :: "json \<Rightarrow> nat" where
  "fuel (JList xs) = Suc (sum_list (map (\<lambda>x. Suc (fuel x)) xs))"
| "fuel (JObj kvs) = Suc (sum_list (map (\<lambda>(k, v). Suc (fuel v)) kvs))"
| "fuel v = 1"

definition reads_back :: "json \<Rightarrow> bool" where
  "reads_back v \<longleftrightarrow> (\<forall>n r. fuel v \<le> n \<longrightarrow> value_end r \<longrightarrow> parse_value n (dumps v @ r) = Some (v, r))"

lemma reads_backD: "reads_back v \<Longrightarrow> fuel v \<le> n \<Longrightarrow> value_end r \<Longrightarrow> parse_value n (dumps v @ r) = Some (v, r)"
  by (simp add: reads_back_def)

lemma value_end_simps [simp]: "value_end []" "value_end (CHR '','' # r)" "value_end (CHR '']'' # r)" "value_end (CHR ''}'' # r)"
  by (simp_all add: value_end_def)

lemma skip_ws_close [simp]:
  "skip_ws (CHR '','' # r) = CHR '','' # r" "skip_ws (CHR '']'' # r) = CHR '']'' # r"
  "skip_ws (CHR ''}'' # r) = CHR ''}'' # r" "skip_ws (CHR '':'' # r) = CHR '':'' # r"
  "skip_ws (CHR 0x22 # r) = CHR 0x22 # r" "skip_ws [] = []"
  by (simp_all add: skip_ws_def json_ws_def)

lemma parse_items_dumps:
  "xs \<noteq> [] \<Longrightarrow> \<forall>x \<in> set xs. reads_back x \<Longrightarrow> sum_list (map (\<lambda>x. Suc (fuel x)) xs) \<le> n \<Longrightarrow>
   parse_items n (join '', '' (map dumps xs) @ CHR '']'' # r) = Some (xs, r)"
proof (induction xs arbitrary: n)
  case (Cons x xs)
  from Cons.prems obtain m where n: "n = Suc m" "fuel x \<le> m" "sum_list (map (\<lambda>x. Suc (fuel x)) xs) \<le> m"
    by (cases n) auto
  have x: "reads_back x" using Cons.prems by simp
  show ?case
  proof (cases xs)
    case Nil
    then show ?thesis using reads_backD[OF x n(2)] by (simp add: n(1))
  next
    case (Cons y ys)
    then have "parse_items m (join '', '' (map dumps xs) @ CHR '']'' # r) = Some (xs, r)"
      using Cons.IH Cons.prems n(3) by simp
    then show ?thesis using reads_backD[OF x n(2)] Cons by (simp add: n(1))
  qed
qed simp

lemma parse_members_dumps:
  "kvs \<noteq> [] \<Longrightarrow> \<forall>(k, v) \<in> set kvs. reads_back v \<Longrightarrow> sum_list (map (\<lambda>(k, v). Suc (fuel v)) kvs) \<le> n \<Longrightarrow>
   parse_members n (join '', '' (map (\<lambda>(k, v). dump_string k @ '': '' @ dumps v) kvs) @ CHR ''}'' # r) = Some (kvs, r)"
proof (induction kvs arbitrary: n)
  case (Cons kv kvs)
  obtain k v where kv: "kv = (k, v)" by (cases kv)
  from Cons.prems kv obtain m where n: "n = Suc m" "fuel v \<le> m" "sum_list (map (\<lambda>(k, v). Suc (fuel v)) kvs) \<le> m"
    by (cases n) auto
  have v: "reads_back v" using Cons.prems kv by simp
  show ?case
  proof (cases kvs)
    case Nil
    then show ?thesis using reads_backD[OF v n(2)] by (simp add: n(1) kv dump_string_def parse_chars_escaped)
  next
    case (Cons y ys)
    then have "parse_members m (join '', '' (map (\<lambda>(k, v). dump_string k @ '': '' @ dumps v) kvs) @ CHR ''}'' # r) = Some (kvs, r)"
      using Cons.IH Cons.prems n(3) by simp
    then show ?thesis
      using reads_backD[OF v n(2)] Cons by (simp add: n(1) kv dump_string_def parse_chars_escaped)
  qed
qed simp

lemma join_dumps_hd:
  "xs \<noteq> [] \<Longrightarrow> \<exists>c s. join '', '' (map dumps xs) @ r = c # s \<and> \<not> json_ws c \<and> c \<noteq> CHR '']''"
  using dumps_hd[of "hd xs"] by (cases xs rule: list.exhaust; cases "tl xs") auto

lemma scalar_dispatch:
  assumes "s = c # t" and "\<not> json_ws c" and "c \<notin> set [CHR 0x22, CHR ''['', CHR ''{'', CHR ''n'', CHR ''t'', CHR ''f'']"
  shows "parse_value (Suc n) s = parse_number s"
  using assms by (simp add: skip_ws_hd starts_with_def)

lemma reads_back_all: "reads_back v"
proof (induction v)
  case (JInt i)
  have "parse_value n (int_str i @ r) = Some (JInt i, r)" if "1 \<le> n" "value_end r" for n r
  proof -
    obtain c ds where c: "int_str i = c # ds" "c = CHR ''-'' \<or> is_digit c" using int_str_hd by blast
    from that obtain m where "n = Suc m" by (cases n) auto
    moreover have "parse_value (Suc m) (int_str i @ r) = parse_number (int_str i @ r)"
      using c by (intro scalar_dispatch[where c = c and t = "ds @ r"]) (auto simp: json_ws_def is_digit_def)
    ultimately show ?thesis using parse_number_int that(2) by simp
  qed
  then show ?case by (simp add: reads_back_def)
next
  case (JList xs)
  have "parse_value n (dumps (JList xs) @ r) = Some (JList xs, r)" if "fuel (JList xs) \<le> n" for n r
  proof -
    from that obtain m where m: "n = Suc m" "sum_list (map (\<lambda>x. Suc (fuel x)) xs) \<le> m" by (cases n) auto
    show ?thesis
    proof (cases "xs = []")
      case False
      with join_dumps_hd[OF False, of "CHR '']'' # r"] parse_items_dumps[OF False _ m(2), of r] JList.IH
      show ?thesis by (auto simp: m(1) skip_ws_def json_ws_def)
    qed (simp add: m(1) skip_ws_def json_ws_def)
  qed
  then show ?case by (simp add: reads_back_def)
next
  case (JObj kvs)
  have "parse_value n (dumps (JObj kvs) @ r) = Some (JObj kvs, r)" if "fuel (JObj kvs) \<le> n" for n r
  proof -
    from that obtain m where m: "n = Suc m" "sum_list (map (\<lambda>(k, v). Suc (fuel v)) kvs) \<le> m" by (cases n) auto
    have all: "\<forall>(k, v) \<in> set kvs. reads_back v" using JObj.IH by fastforce
    show ?thesis
    proof (cases "kvs = []")
      case False
      then have "\<exists>s. join '', '' (map (\<lambda>(k, v). dump_string k @ '': '' @ dumps v) kvs) @ CHR ''}'' # r = CHR 0x22 # s"
        by (cases kvs; cases "tl kvs") (auto simp: dump_string_def)
      with parse_members_dumps[OF False all m(2), of r]
      show ?thesis by (auto simp: m(1) skip_ws_def json_ws_def)
    qed (simp add: m(1) skip_ws_def json_ws_def)
  qed
  then show ?case by (simp add: reads_back_def)
next
  case (JStr s)
  have "parse_value n (dumps (JStr s) @ r) = Some (JStr s, r)" if "1 \<le> n" for n r
    using that by (cases n) (simp_all add: dump_string_def parse_chars_escaped)
  then show ?case by (simp add: reads_back_def)
next
  case JNull
  have "parse_value n (dumps JNull @ r) = Some (JNull, r)" if "1 \<le> n" for n r
    using that by (cases n) (simp_all add: skip_ws_def json_ws_def starts_with_def)
  then show ?case by (simp add: reads_back_def)
next
  case (JBool b)
  have "parse_value n (dumps (JBool b) @ r) = Some (JBool b, r)" if "1 \<le> n" for n r
    using that by (cases n) (simp_all add: skip_ws_def json_ws_def starts_with_def)
  then show ?case by (simp add: reads_back_def)
qed

lemma length_join:
  "xs \<noteq> [] \<Longrightarrow> length (join '', '' xs) + 2 = sum_list (map length xs) + 2 * length xs"
proof (induction xs)
  case (Cons x xs)
  then show ?case by (cases xs) auto
qed simp

lemma length_join_ge:
  "xs \<noteq> [] \<Longrightarrow> \<forall>x \<in> set xs. f x \<le> length (g x) \<Longrightarrow>
   sum_list (map (\<lambda>x. Suc (f x)) xs) \<le> Suc (length (join '', '' (map g xs)))"
proof -
  assume ne: "xs \<noteq> []" and each: "\<forall>x \<in> set xs. f x \<le> length (g x)"
  have "sum_list (map (\<lambda>x. Suc (f x)) xs) = sum_list (map f xs) + length xs"
    by (induction xs) auto
  moreover have "sum_list (map f xs) \<le> sum_list (map (\<lambda>x. length (g x)) xs)"
    using each by (intro sum_list_mono) auto
  moreover have "length (join '', '' (map g xs)) + 2 = sum_list (map (\<lambda>x. length (g x)) xs) + 2 * length xs"
    using length_join[of "map g xs"] ne by (simp add: comp_def)
  moreover have "length xs > 0" using ne by simp
  ultimately show ?thesis by linarith
qed

lemma fuel_le_length: "fuel v \<le> length (dumps v)"
proof (induction v)
  case (JInt i)
  then show ?case using int_str_hd[of i] by auto
next
  case (JList xs)
  show ?case
  proof (cases "xs = []")
    case False
    from length_join_ge[OF False, of fuel dumps] JList show ?thesis by simp
  qed simp
next
  case (JObj kvs)
  let ?g = "\<lambda>(k, v). dump_string k @ '': '' @ dumps v"
  have "\<forall>kv \<in> set kvs. (case kv of (k, v) \<Rightarrow> fuel v) \<le> length (?g kv)"
    using JObj by fastforce
  show ?case
  proof (cases "kvs = []")
    case False
    with length_join_ge[OF False, of "\<lambda>(k, v). fuel v" ?g] \<open>\<forall>kv \<in> set kvs. _ kv\<close>
    show ?thesis by (simp add: case_prod_beta')
  qed simp
qed (auto simp: dump_string_def)

lemma dict_of_pairs_distinct: "distinct (map fst kvs) \<Longrightarrow> dict_of_pairs kvs = kvs"
proof -
  have upd: "k \<notin> fst ` set d \<Longrightarrow> AList.update k v d = d @ [(k, v)]" for k :: string and v :: json and d
    by (induction d) auto
  have "distinct (map fst (d @ kvs)) \<Longrightarrow> fold (\<lambda>(k, v) d. AList.update k v d) kvs d = d @ kvs" for d
  proof (induction kvs arbitrary: d)
    case (Cons kv kvs)
    obtain k v where kv: "kv = (k, v)" by (cases kv)
    have "AList.update k v d = d @ [(k, v)]" using Cons.prems kv by (intro upd) auto
    then show ?case using Cons.IH[of "d @ [(k, v)]"] Cons.prems kv by auto
  qed simp
  then show "distinct (map fst kvs) \<Longrightarrow> dict_of_pairs kvs = kvs" by (simp add: dict_of_pairs_def)
qed

lemma normal_keys_proper: "proper v \<Longrightarrow> normal_keys v = v"
proof (induction v)
  case (JObj kvs)
  have "map (\<lambda>(k, v). (k, normal_keys v)) kvs = kvs"
    using JObj by (intro map_idI) fastforce
  then show ?case using JObj.prems dict_of_pairs_distinct by simp
qed (auto intro: map_idI)

lemma loads_dumps: "proper v \<Longrightarrow> loads (dumps v) = Some v"
  using reads_backD[OF reads_back_all, of v "Suc (Suc (length (dumps v)))" "[]"] fuel_le_length[of v]
  by (simp add: loads_def normal_keys_proper)

end
