(* ===== verification/Git_Facts.thy ===== *)
theory Git_Facts
  imports Prelude
begin

text \<open>
  \<^verbatim>\<open>core/git_facts.py\<close>: the read-only questions TeamFlow asks a repository. The git program is
  not part of the repository, so it is an argument: \<open>git repo args\<close> is \<open>None\<close> when the process
  cannot run or times out, and otherwise its exit code and standard output. Everything the code
  does with that answer is modelled: which exit codes it accepts, how it parses the output, and
  the \<^verbatim>\<open>GitFactError\<close> it raises when git cannot answer.
\<close>

type_synonym git = "string \<Rightarrow> string list \<Rightarrow> (int \<times> string) option"

section \<open>Object ids\<close>

definition lower_hex :: "char \<Rightarrow> bool" where
  "lower_hex c \<longleftrightarrow> c \<in> set ''0123456789abcdef''"

text \<open>\<^verbatim>\<open>is_object_id\<close>: 40 or 64 lowercase hexadecimal digits, after stripping.\<close>

definition is_object_id :: "string \<Rightarrow> bool" where
  "is_object_id v \<longleftrightarrow>
     (let s = strip v in (length s = 40 \<or> length s = 64) \<and> list_all lower_hex s)"

section \<open>Running git\<close>

text \<open>\<^verbatim>\<open>_run\<close>\<close>

definition run_git :: "git \<Rightarrow> string \<Rightarrow> string list \<Rightarrow> int list \<Rightarrow> (int \<times> string) result" where
  "run_git git repo args allowed =
     (case git repo args of
        None \<Rightarrow> Inl (GitFactError (''git could not run in '' @ repo))
      | Some (code, out) \<Rightarrow>
          if code \<in> set allowed then Inr (code, out)
          else Inl (GitFactError (''git failed in '' @ repo)))"

definition ensure_repository :: "git \<Rightarrow> string \<Rightarrow> unit result" where
  "ensure_repository git repo =
     andthen (run_git git repo [''rev-parse'', ''--git-dir''] [0]) (\<lambda>_. Inr ())"

definition object_id_length :: "git \<Rightarrow> string \<Rightarrow> nat result" where
  "object_id_length git repo =
     andthen (run_git git repo [''rev-parse'', ''--show-object-format''] [0])
       (\<lambda>(_, out). Inr (if strip out = ''sha256'' then 64 else 40))"

definition commit_exists :: "git \<Rightarrow> string \<Rightarrow> string \<Rightarrow> bool result" where
  "commit_exists git repo object_id =
     (let v = strip object_id in
      if \<not> is_object_id v then Inr False
      else andthen (object_id_length git repo) (\<lambda>len.
             if length v \<noteq> len then Inr False
             else andthen (run_git git repo [''cat-file'', ''-t'', v] [0, 1, 128])
                    (\<lambda>(code, out). Inr (code = 0 \<and> strip out = ''commit''))))"

definition branch_ref :: "string \<Rightarrow> string" where
  "branch_ref branch = ''refs/heads/'' @ branch"

definition branch_sha :: "git \<Rightarrow> string \<Rightarrow> string \<Rightarrow> string option result" where
  "branch_sha git repo branch =
     andthen (run_git git repo [''rev-parse'', ''--verify'', ''--quiet'', branch_ref branch] [0, 1])
       (\<lambda>(code, out). Inr (if code = 0 \<and> strip out \<noteq> [] then Some (strip out) else None))"

definition branch_exists :: "git \<Rightarrow> string \<Rightarrow> string \<Rightarrow> bool result" where
  "branch_exists git repo branch =
     andthen (run_git git repo [''show-ref'', ''--verify'', ''--quiet'', branch_ref branch] [0, 1])
       (\<lambda>(code, _). Inr (code = 0))"

definition is_ancestor :: "git \<Rightarrow> string \<Rightarrow> string \<Rightarrow> string \<Rightarrow> bool result" where
  "is_ancestor git repo ancestor descendant =
     andthen (run_git git repo [''merge-base'', ''--is-ancestor'', ancestor, descendant] [0, 1])
       (\<lambda>(code, _). Inr (code = 0))"

section \<open>The branch's own history\<close>

text \<open>
  \<^verbatim>\<open>splitlines\<close> followed by stripping and dropping empty lines; a two-character line break only
  adds an empty line, which is dropped.
\<close>

definition is_line_break :: "char \<Rightarrow> bool" where
  "is_line_break c \<longleftrightarrow>
     c \<in> set [CHR 0x0A, CHR 0x0D, CHR 0x0B, CHR 0x0C, CHR 0x1C, CHR 0x1D, CHR 0x1E, CHR 0x85]"

fun split_at :: "(char \<Rightarrow> bool) \<Rightarrow> string \<Rightarrow> string list" where
  "split_at p [] = [[]]"
| "split_at p (c # s) =
     (if p c then [] # split_at p s
      else (case split_at p s of [] \<Rightarrow> [[c]] | w # ws \<Rightarrow> (c # w) # ws))"

definition reflog_entries :: "string \<Rightarrow> string list" where
  "reflog_entries out = filter (\<lambda>l. l \<noteq> []) (map strip (split_at is_line_break out))"

text \<open>
  The reflog lists the newest position first. \<open>moved_forward\<close> is the \<^verbatim>\<open>all\<close> over the chain from
  an entry's predecessor up to the tip: each position is an ancestor of the next one. It stops at
  the first answer that is no, and raises if git cannot answer before that.
\<close>

fun moved_forward :: "git \<Rightarrow> string \<Rightarrow> string list \<Rightarrow> bool result" where
  "moved_forward git repo (new # old # rest) =
     andthen (is_ancestor git repo old new)
       (\<lambda>b. if b then moved_forward git repo (old # rest) else Inr False)"
| "moved_forward git repo _ = Inr True"

fun fast_forward_scan :: "git \<Rightarrow> string \<Rightarrow> string \<Rightarrow> string list \<Rightarrow> nat list \<Rightarrow> bool result" where
  "fast_forward_scan git repo target updates [] = Inr False"
| "fast_forward_scan git repo target updates (i # is) =
     (if updates ! i \<noteq> target \<or> length updates \<le> i + 1 then fast_forward_scan git repo target updates is
      else andthen (moved_forward git repo (take (i + 2) updates))
             (\<lambda>b. if b then Inr True else fast_forward_scan git repo target updates is))"

definition fast_forwarded_to :: "git \<Rightarrow> string \<Rightarrow> string \<Rightarrow> string \<Rightarrow> bool result" where
  "fast_forwarded_to git repo branch target =
     andthen (run_git git repo
         [''reflog'', ''show'', ''--no-abbrev'', ''--format=%H'', branch_ref branch] [0, 128])
       (\<lambda>(code, out).
          if code \<noteq> 0 then Inr False
          else let updates = reflog_entries out
               in fast_forward_scan git repo target updates [0..<length updates])"

text \<open>\<open>resolve\<close> is \<^verbatim>\<open>Path.resolve\<close> on the machine's file system.\<close>

definition worktree_paths :: "git \<Rightarrow> (string \<Rightarrow> string) \<Rightarrow> string \<Rightarrow> string list result" where
  "worktree_paths git resolve repo =
     andthen (run_git git repo [''worktree'', ''list'', ''--porcelain'', ''-z''] [0])
       (\<lambda>(_, out). Inr (map (\<lambda>e. resolve (drop 9 e))
          (filter (\<lambda>e. starts_with e ''worktree '') (split_at (\<lambda>c. c = CHR 0x00) out))))"

section \<open>What the answers mean\<close>

lemma run_git_Inr: "run_git git repo args allowed = Inr (code, out) \<Longrightarrow>
    git repo args = Some (code, out) \<and> code \<in> set allowed"
  by (auto simp: run_git_def split: option.splits if_splits)

lemma run_git_error: "run_git git repo args allowed = Inl e \<Longrightarrow> \<exists>m. e = GitFactError m"
  by (auto simp: run_git_def split: option.splits if_splits)

lemma is_ancestor_True:
  "is_ancestor git repo a d = Inr True \<Longrightarrow>
     \<exists>out. git repo [''merge-base'', ''--is-ancestor'', a, d] = Some (0, out)"
  by (auto simp: is_ancestor_def andthen_eq_Inr dest!: run_git_Inr)

text \<open>A commit that exists is named by a full object id of the repository's own format.\<close>

lemma commit_exists_True:
  "commit_exists git repo v = Inr True \<Longrightarrow>
     is_object_id v \<and> object_id_length git repo = Inr (length (strip v)) \<and>
     (\<exists>out. git repo [''cat-file'', ''-t'', strip v] = Some (0, out) \<and> strip out = ''commit'')"
  by (auto simp: commit_exists_def Let_def is_object_id_def andthen_eq_Inr split: if_splits dest!: run_git_Inr)

text \<open>Each entry of a chain that moved forward is an ancestor of the entry before it.\<close>

definition forward_chain :: "git \<Rightarrow> string \<Rightarrow> string list \<Rightarrow> bool" where
  "forward_chain git repo us \<longleftrightarrow>
     (\<forall>i. Suc i < length us \<longrightarrow> is_ancestor git repo (us ! Suc i) (us ! i) = Inr True)"

lemma moved_forward_iff: "moved_forward git repo us = Inr True \<longleftrightarrow> forward_chain git repo us"
proof (induction git repo us rule: moved_forward.induct)
  case (1 git repo new old rest)
  have "forward_chain git repo (new # old # rest) \<longleftrightarrow>
      is_ancestor git repo old new = Inr True \<and> forward_chain git repo (old # rest)"
    by (auto simp: forward_chain_def less_Suc_eq_0_disj all_conj_distrib imp_conjL nth_Cons split: nat.splits)
  then show ?case using 1 by (auto simp: andthen_eq_Inr)
qed (auto simp: forward_chain_def)

lemma fast_forward_scan_True:
  "fast_forward_scan git repo target us is = Inr True \<Longrightarrow>
     \<exists>i \<in> set is. us ! i = target \<and> i + 1 < length us \<and> forward_chain git repo (take (i + 2) us)"
  by (induction git repo target us "is" rule: fast_forward_scan.induct)
     (auto simp: andthen_eq_Inr moved_forward_iff split: if_splits)

text \<open>
  A confirmed fast-forward: the reflog holds the target, something was there before it, and every
  update from that predecessor up to the present tip moved the branch forward.
\<close>

lemma fast_forwarded_to_True:
  assumes "fast_forwarded_to git repo branch target = Inr True"
  obtains out us i where
    "git repo [''reflog'', ''show'', ''--no-abbrev'', ''--format=%H'', branch_ref branch] = Some (0, out)"
    and "us = reflog_entries out" and "i + 1 < length us" and "us ! i = target"
    and "\<forall>j \<le> i. is_ancestor git repo (us ! Suc j) (us ! j) = Inr True"
proof -
  from assms obtain out where
    git: "git repo [''reflog'', ''show'', ''--no-abbrev'', ''--format=%H'', branch_ref branch] = Some (0, out)"
    and scan: "fast_forward_scan git repo target (reflog_entries out) [0..<length (reflog_entries out)] = Inr True"
    by (auto simp: fast_forwarded_to_def andthen_eq_Inr Let_def split: if_splits dest!: run_git_Inr)
  from fast_forward_scan_True[OF scan] obtain i where i: "reflog_entries out ! i = target"
    "i + 1 < length (reflog_entries out)" "forward_chain git repo (take (i + 2) (reflog_entries out))" by auto
  from i(3) have "\<forall>j \<le> i. is_ancestor git repo (reflog_entries out ! Suc j) (reflog_entries out ! j) = Inr True"
    using i(2) by (auto simp: forward_chain_def)
  with git i that show thesis by blast
qed

text \<open>
  If git's ancestry answers are transitive, the target is then an ancestor of every later position
  of the branch, its tip included: no later update dropped it.
\<close>

lemma forward_chain_tip:
  assumes chain: "\<forall>j < i. is_ancestor git repo (us ! Suc j) (us ! j) = Inr True"
    and trans: "\<And>a b c. is_ancestor git repo a b = Inr True \<Longrightarrow> is_ancestor git repo b c = Inr True \<Longrightarrow>
                  is_ancestor git repo a c = Inr True"
    and refl: "is_ancestor git repo (us ! i) (us ! i) = Inr True"
    and "j \<le> i"
  shows "is_ancestor git repo (us ! i) (us ! j) = Inr True"
  using \<open>j \<le> i\<close>
proof (induction j rule: inc_induct)
  case (step n)
  then show ?case using trans chain by blast
qed (rule refl)

end
