(* ===== verification/Append_Only.thy ===== *)
theory Append_Only
  imports Prelude "HOL-Library.Sublist"
begin

text \<open>
  The interface of the system's append-only histories: the resource ledger of a task card, the turns
  of a delivery, the event log. A client may only record an entry; recording a known entry changes
  nothing. The clients' lemmas are proved once from these two laws.
\<close>

definition add_once :: "'a \<Rightarrow> 'a list \<Rightarrow> 'a list" where
  "add_once x xs = (if x \<in> set xs then xs else xs @ [x])"

locale append_only =
  fixes entries :: "'s \<Rightarrow> 'e list"
    and record_entry :: "'e \<Rightarrow> 's \<Rightarrow> 's"
  assumes record_new: "e \<notin> set (entries s) \<Longrightarrow> entries (record_entry e s) = entries s @ [e]"
    and record_known: "e \<in> set (entries s) \<Longrightarrow> entries (record_entry e s) = entries s"
begin

lemma entries_record: "entries (record_entry e s) = add_once e (entries s)"
  by (simp add: add_once_def record_new record_known)

lemma entries_fold: "entries (fold record_entry es s) = fold add_once es (entries s)"
  by (induction es arbitrary: s) (simp_all add: entries_record)

lemma set_fold: "set (entries (fold record_entry es s)) = set (entries s) \<union> set es"
  by (induction es arbitrary: s) (auto simp: entries_record add_once_def)

lemma prefix_fold: "prefix (entries s) (entries (fold record_entry es s))"
proof (induction es arbitrary: s)
  case (Cons e es)
  have "prefix (entries s) (entries (record_entry e s))" by (simp add: entries_record add_once_def)
  then show ?case using Cons.IH[of "record_entry e s"] prefix_order.trans by auto
qed simp

lemma distinct_fold: "distinct (entries s) \<Longrightarrow> distinct (entries (fold record_entry es s))"
  by (induction es arbitrary: s) (auto simp: entries_record add_once_def)

lemma fold_known: "set es \<subseteq> set (entries s) \<Longrightarrow> entries (fold record_entry es s) = entries s"
  by (induction es arbitrary: s) (auto simp: entries_record add_once_def)

end

text \<open>A plain list is the simplest such history.\<close>

interpretation once_list: append_only "\<lambda>xs. xs" add_once
  by unfold_locales (simp_all add: add_once_def)

end
