(* ===== verification/Workspace_Settings.thy ===== *)
theory Workspace_Settings
  imports Prelude
begin

text \<open>
  \<^verbatim>\<open>core/workspace_settings.py\<close>: the per-workspace switch for version control. The settings file
  is missing, unreadable (an I/O error or text that is not JSON), or holds a parsed value; writing
  replaces it atomically, so the file afterwards holds exactly what was written.
\<close>

datatype settings_file = Missing_File | Unreadable_File | Parsed_File json

definition SETTINGS_SCHEMA_VERSION :: int where
  "SETTINGS_SCHEMA_VERSION = 1"

definition default_settings :: dict where
  "default_settings =
    [(''schema_version'', JInt SETTINGS_SCHEMA_VERSION),
     (''version_control'', JObj [(''enabled'', JBool True)])]"

text \<open>\<^verbatim>\<open>_validate\<close>\<close>

definition validate_settings :: "json \<Rightarrow> unit result" where
  "validate_settings v = checks
     [ensure (is_dict v) ''TeamFlow workspace settings must be an object'',
      ensure (as_int (dget (as_dict v) ''schema_version'') = Some SETTINGS_SCHEMA_VERSION)
        ''unsupported TeamFlow workspace settings schema version'',
      ensure (is_dict (dget (as_dict v) ''version_control'')) ''version_control must be an object'',
      ensure (is_bool (dget (as_dict (dget (as_dict v) ''version_control'')) ''enabled''))
        ''version_control.enabled must be a boolean'']"

definition read_workspace_settings :: "settings_file \<Rightarrow> dict result" where
  "read_workspace_settings f =
     (case f of
        Missing_File \<Rightarrow> Inr default_settings
      | Unreadable_File \<Rightarrow> Inl (ValueError ''TeamFlow workspace settings are unreadable'')
      | Parsed_File v \<Rightarrow> andthen (validate_settings v) (\<lambda>_. Inr (as_dict v)))"

definition ensure_workspace_settings :: "settings_file \<Rightarrow> (dict \<times> settings_file) result" where
  "ensure_workspace_settings f =
     (if f = Missing_File then Inr (default_settings, Parsed_File (JObj default_settings))
      else andthen (read_workspace_settings f) (\<lambda>s. Inr (s, f)))"

text \<open>A failed read counts as the defaults here: the switch repairs a corrupt file.\<close>

definition set_version_control :: "settings_file \<Rightarrow> bool \<Rightarrow> dict \<times> settings_file" where
  "set_version_control f enabled =
     (let settings = (case ensure_workspace_settings f of Inl _ \<Rightarrow> default_settings | Inr (s, _) \<Rightarrow> s);
          vc = as_dict (dget settings ''version_control'');
          settings' = AList.update ''version_control'' (JObj (AList.update ''enabled'' (JBool enabled) vc)) settings
      in (settings', Parsed_File (JObj settings')))"

definition version_control_enabled :: "settings_file \<Rightarrow> bool result" where
  "version_control_enabled f =
     andthen (read_workspace_settings f) (\<lambda>s.
       Inr (truthy (dget (as_dict (dget s ''version_control'')) ''enabled'')))"

lemma validate_default: "ok (validate_settings (JObj default_settings))"
  by (simp add: validate_settings_def check_simps default_settings_def dget_def)

lemma read_settings_valid: "read_workspace_settings f = Inr s \<Longrightarrow> ok (validate_settings (JObj s))"
proof (cases f)
  case (Parsed_File v)
  assume "read_workspace_settings f = Inr s"
  with Parsed_File have v: "ok (validate_settings v)" "as_dict v = s"
    by (auto simp: read_workspace_settings_def andthen_eq_Inr check_simps)
  from v(1) have "is_dict v" by (simp add: validate_settings_def check_simps)
  then obtain d where "v = JObj d" by (cases v) auto
  with v show ?thesis by simp
qed (auto simp: read_workspace_settings_def validate_default)

text \<open>The switch always takes effect, whatever the file held before, and keeps the file valid.\<close>

lemma set_version_control_reads_back:
  "version_control_enabled (snd (set_version_control f enabled)) = Inr enabled"
proof -
  define s where "s = (case ensure_workspace_settings f of Inl _ \<Rightarrow> default_settings | Inr (s, _) \<Rightarrow> s)"
  have valid: "ok (validate_settings (JObj s))"
  proof (cases "ensure_workspace_settings f")
    case (Inr p)
    then show ?thesis
      using read_settings_valid
      by (auto simp: s_def ensure_workspace_settings_def andthen_eq_Inr validate_default split: if_splits)
  qed (simp add: s_def validate_default)
  define vc where "vc = AList.update ''enabled'' (JBool enabled) (as_dict (dget s ''version_control''))"
  have "set_version_control f enabled =
      (AList.update ''version_control'' (JObj vc) s, Parsed_File (JObj (AList.update ''version_control'' (JObj vc) s)))"
    by (simp add: set_version_control_def s_def vc_def Let_def)
  moreover have "ok (validate_settings (JObj (AList.update ''version_control'' (JObj vc) s)))"
    using valid by (simp add: validate_settings_def check_simps dict_simps vc_def)
  then have "validate_settings (JObj (AList.update ''version_control'' (JObj vc) s)) = Inr ()"
    by (simp only: ok_unit)
  ultimately show ?thesis
    by (simp add: version_control_enabled_def read_workspace_settings_def dict_simps vc_def)
qed

end
