(* ===== verification/Delivery.thy ===== *)
theory Delivery
  imports Workflow_Values Json_Text Git_Facts Append_Only Workspace_Settings
begin

text \<open>
  \<^verbatim>\<open>core/delivery.py\<close>: the delivery mode of a task, the ledger of declared branches and
  worktrees, the baseline pinned at the first claim, and the Git facts that must hold before a task
  may enter a completion state. Git and the machine's file system are arguments. A task card and a
  patch are dictionaries of values; the reports to the agent keep the failed check and the value
  found, and drop the prose.
\<close>

definition DEFAULT_TARGET_BRANCH :: string where
  "DEFAULT_TARGET_BRANCH = ''main''"

definition AGENT_SHA_FIELDS :: "string list" where
  "AGENT_SHA_FIELDS = [''candidate_sha'', ''verified_sha'', ''promoted_sha'']"

definition SYSTEM_FIELDS :: "string list" where
  "SYSTEM_FIELDS = [''target_branch'', ''base_sha'']"

datatype resource_kind = Branches | Worktrees

fun kind_key :: "resource_kind \<Rightarrow> string" where
  "kind_key Branches = ''branches''"
| "kind_key Worktrees = ''worktrees''"

definition RESOURCE_KINDS :: "resource_kind list" where
  "RESOURCE_KINDS = [Branches, Worktrees]"

record resources =
  res_branches :: "string list"
  res_worktrees :: "string list"

definition no_resources :: resources where
  "no_resources = \<lparr>res_branches = [], res_worktrees = []\<rparr>"

fun kind_items :: "resource_kind \<Rightarrow> resources \<Rightarrow> string list" where
  "kind_items Branches r = res_branches r"
| "kind_items Worktrees r = res_worktrees r"

fun put_items :: "resource_kind \<Rightarrow> string list \<Rightarrow> resources \<Rightarrow> resources" where
  "put_items Branches xs r = r\<lparr>res_branches := xs\<rparr>"
| "put_items Worktrees xs r = r\<lparr>res_worktrees := xs\<rparr>"

text \<open>What the agent submitted, normalised: a key is present exactly if its field is.\<close>

record delivery_input =
  di_mode :: "json option"
  di_shas :: "(string \<times> string) list"
  di_resources :: "resources option"

text \<open>The file system's answers: \<^verbatim>\<open>Path.expanduser\<close>, \<^verbatim>\<open>Path.resolve\<close>, \<^verbatim>\<open>Path.exists\<close>.\<close>

record file_system =
  fs_expand :: "string \<Rightarrow> string"
  fs_resolve :: "string \<Rightarrow> string"
  fs_exists :: "string \<Rightarrow> bool"

definition is_absolute :: "string \<Rightarrow> bool" where
  "is_absolute p \<longleftrightarrow> starts_with p ''/''"

definition path_join :: "string \<Rightarrow> string \<Rightarrow> string" where
  "path_join root p = root @ ''/'' @ p"

definition workspace_root :: "file_system \<Rightarrow> string option \<Rightarrow> string" where
  "workspace_root fs workspace =
     fs_resolve fs (fs_expand fs (case workspace of None \<Rightarrow> ''.'' | Some w \<Rightarrow> if w = [] then ''.'' else w))"

definition raw_workspace :: "string option \<Rightarrow> string" where
  "raw_workspace workspace = (case workspace of None \<Rightarrow> ''.'' | Some w \<Rightarrow> if w = [] then ''.'' else w)"

section \<open>Input of an agent\<close>

definition str_items :: "json \<Rightarrow> string list option" where
  "str_items v =
     (case v of
        JList xs \<Rightarrow> if list_all is_str xs then Some (map as_str xs) else None
      | _ \<Rightarrow> None)"

definition clean_items :: "string list \<Rightarrow> string list" where
  "clean_items xs = filter (\<lambda>v. v \<noteq> []) (map strip xs)"

definition locate :: "file_system \<Rightarrow> string option \<Rightarrow> resource_kind \<Rightarrow> string \<Rightarrow> string" where
  "locate fs workspace kind v =
     (case kind of
        Branches \<Rightarrow> v
      | Worktrees \<Rightarrow>
          if is_absolute v then fs_resolve fs v
          else fs_resolve fs (path_join (workspace_root fs workspace) v))"

definition normalize_kind ::
  "file_system \<Rightarrow> string option \<Rightarrow> dict \<Rightarrow> resource_kind \<Rightarrow> resources \<Rightarrow> resources result" where
  "normalize_kind fs workspace d kind r =
     (case str_items (dget_or d (kind_key kind) (JList [])) of
        None \<Rightarrow> Inl (ValueError (''delivery.resources.'' @ kind_key kind @ '' must be an array of strings''))
      | Some xs \<Rightarrow> Inr (put_items kind (map (locate fs workspace kind) (clean_items xs)) r))"

definition normalize_resource_input :: "file_system \<Rightarrow> string option \<Rightarrow> json \<Rightarrow> resources result" where
  "normalize_resource_input fs workspace v =
     andthen (checks
         [ensure (is_dict v) ''delivery.resources must be an object'',
          ensure (list_all (\<lambda>k. k \<in> set (map kind_key RESOURCE_KINDS)) (dkeys (as_dict v)))
            ''delivery.resources only accepts branches, worktrees''])
       (\<lambda>_. andthen (normalize_kind fs workspace (as_dict v) Branches no_resources)
              (normalize_kind fs workspace (as_dict v) Worktrees))"

fun normalize_shas :: "dict \<Rightarrow> string list \<Rightarrow> (string \<times> string) list result" where
  "normalize_shas d [] = Inr []"
| "normalize_shas d (f # fs) =
     (case map_of d f of
        None \<Rightarrow> normalize_shas d fs
      | Some v \<Rightarrow>
          let s = strip (text_of v) in
          if s = [] then normalize_shas d fs
          else if \<not> is_object_id s then Inl (ValueError (f @ '' must be a full commit id''))
          else andthen (normalize_shas d fs) (\<lambda>rest. Inr ((f, s) # rest)))"

definition no_delivery_input :: delivery_input where
  "no_delivery_input = \<lparr>di_mode = None, di_shas = [], di_resources = None\<rparr>"

definition normalize_delivery_input :: "file_system \<Rightarrow> string option \<Rightarrow> json \<Rightarrow> delivery_input result" where
  "normalize_delivery_input fs workspace delivery =
     (if delivery = JNull then Inr no_delivery_input
      else andthen (checks
         [ensure (is_dict delivery) ''delivery must be an object'',
          ensure (list_all (\<lambda>k. k \<in> set ([''delivery_mode''] @ AGENT_SHA_FIELDS @ [''resources'']) \<or>
                               k \<notin> set SYSTEM_FIELDS) (dkeys (as_dict delivery)))
            ''is set by TeamFlow and cannot be supplied'',
          ensure (list_all (\<lambda>k. k \<in> set ([''delivery_mode''] @ AGENT_SHA_FIELDS @ [''resources'']))
                   (dkeys (as_dict delivery)))
            ''unknown delivery fields''])
        (\<lambda>_. andthen (normalize_shas (as_dict delivery) AGENT_SHA_FIELDS) (\<lambda>shas.
           (case map_of (as_dict delivery) ''resources'' of
              None \<Rightarrow> Inr \<lparr>di_mode = map_of (as_dict delivery) ''delivery_mode'', di_shas = shas, di_resources = None\<rparr>
            | Some v \<Rightarrow> andthen (normalize_resource_input fs workspace v) (\<lambda>r.
                Inr \<lparr>di_mode = map_of (as_dict delivery) ''delivery_mode'', di_shas = shas, di_resources = Some r\<rparr>)))))"

section \<open>The ledger of declared resources\<close>

definition parse_kind :: "dict \<Rightarrow> resource_kind \<Rightarrow> resources \<Rightarrow> resources result" where
  "parse_kind d kind r =
     (case str_items (dget_or d (kind_key kind) (JList [])) of
        None \<Rightarrow> Inl (ValueError (''delivery_resources.'' @ kind_key kind @ '' must be an array of strings''))
      | Some xs \<Rightarrow> Inr (put_items kind (clean_items xs) r))"

definition parse_resources :: "json \<Rightarrow> resources result" where
  "parse_resources raw =
     (if strip (text_of raw) = [] then Inr no_resources
      else case raw of
        JStr s \<Rightarrow>
          (case loads s of
             None \<Rightarrow> Inl (ValueError ''delivery_resources is not valid JSON'')
           | Some v \<Rightarrow>
               andthen (ensure (is_dict v) ''delivery_resources must be a JSON object'') (\<lambda>_.
                 andthen (parse_kind (as_dict v) Branches no_resources) (parse_kind (as_dict v) Worktrees)))
      | _ \<Rightarrow> Inl TypeError)"

definition resources_value :: "resources \<Rightarrow> json" where
  "resources_value r =
     JObj (map (\<lambda>k. (kind_key k, JList (map JStr (kind_items k r)))) RESOURCE_KINDS)"

definition render_resources :: "resources \<Rightarrow> string" where
  "render_resources r = dumps (resources_value r)"

definition append_item :: "resource_kind \<Rightarrow> string \<Rightarrow> resources \<Rightarrow> resources" where
  "append_item kind item r =
     (let v = strip item
      in if v \<noteq> [] \<and> v \<notin> set (kind_items kind r) then put_items kind (kind_items kind r @ [v]) r else r)"

definition append_kind :: "resources option \<Rightarrow> resource_kind \<Rightarrow> resources \<Rightarrow> resources" where
  "append_kind added kind r =
     fold (append_item kind) (case added of None \<Rightarrow> [] | Some a \<Rightarrow> kind_items kind a) r"

definition append_resources :: "json \<Rightarrow> resources option \<Rightarrow> string result" where
  "append_resources current added =
     andthen (parse_resources current) (\<lambda>r. Inr (render_resources (fold (append_kind added) RESOURCE_KINDS r)))"

section \<open>The mode of a delivery\<close>

definition mode_of :: "dict \<Rightarrow> string" where
  "mode_of task = strip (text_of (dget task ''delivery_mode''))"

definition resolve_create_mode :: "settings_file \<Rightarrow> json \<Rightarrow> string result" where
  "resolve_create_mode settings requested =
     andthen (version_control_enabled settings) (\<lambda>enabled.
       let mode = strip (text_of requested) in
       if mode = [] then Inr (if enabled then [] else ''standard'')
       else if mode \<notin> set DELIVERY_MODES then Inl (ValueError ''delivery_mode must be one of standard, repository'')
       else if mode = ''repository'' \<and> \<not> enabled
         then Inl (ValueError ''repository delivery is unavailable'')
       else Inr mode)"

text \<open>The mode to write, or \<open>None\<close> when nothing should change.\<close>

definition resolve_transition_mode ::
  "settings_file \<Rightarrow> workflow \<Rightarrow> dict \<Rightarrow> json \<Rightarrow> string option \<Rightarrow> string \<Rightarrow> string option result" where
  "resolve_transition_mode settings w task requested target_state action_key =
     andthen (version_control_enabled settings) (\<lambda>enabled.
       let current = mode_of task;
           req = strip (text_of requested);
           in_initial = (text_of (dget task ''status'') = wf_initial_state w);
           carries_forward = (action_key \<noteq> ''cancel'' \<and> target_state \<noteq> None)
       in
       if current \<noteq> [] \<and> current \<notin> set DELIVERY_MODES \<and> carries_forward
         then Inl (ValueError ''delivery_mode is not one of standard, repository'')
       else if req \<noteq> [] then
         (if req \<notin> set DELIVERY_MODES then Inl (ValueError ''delivery_mode must be one of standard, repository'')
          else if req = ''repository'' \<and> \<not> enabled \<and> current \<noteq> ''repository''
            then Inl (ValueError ''repository delivery is unavailable'')
          else if current \<noteq> [] \<and> current \<noteq> req \<and> \<not> in_initial
            then Inl (ValueError ''delivery_mode is locked'')
          else Inr (if req \<noteq> current then Some req else None))
       else if current \<noteq> [] then Inr None
       else if \<not> enabled then Inr (Some ''standard'')
       else if carries_forward then Inl (ValueError ''choose a delivery_mode'')
       else Inr None)"

definition reject_repository_only_input :: "string \<Rightarrow> delivery_input \<Rightarrow> unit result" where
  "reject_repository_only_input mode delivery =
     (if mode = ''repository'' then Inr ()
      else ensure (di_shas delivery = [] \<and> di_resources delivery = None)
             ''only applies to repository delivery'')"

definition verify_supplied_shas ::
  "git \<Rightarrow> file_system \<Rightarrow> string option \<Rightarrow> delivery_input \<Rightarrow> unit result" where
  "verify_supplied_shas git fs workspace delivery =
     (if di_shas delivery = [] then Inr ()
      else let repo = workspace_root fs workspace in
        case andthen (ensure_repository git repo) (\<lambda>_.
               filter_result (\<lambda>(f, sha). andthen (commit_exists git repo sha) (\<lambda>b. Inr (\<not> b))) (di_shas delivery)) of
          Inl (GitFactError m) \<Rightarrow> Inl (ValueError ''git could not confirm the supplied commit ids'')
        | Inl e \<Rightarrow> Inl e
        | Inr missing \<Rightarrow> ensure (missing = []) ''does not name a commit in this repository'')"

definition claim_baseline :: "git \<Rightarrow> string option \<Rightarrow> dict \<Rightarrow> dict result" where
  "claim_baseline git workspace task =
     (if mode_of task \<noteq> ''repository'' then Inr []
      else if strip (text_of (dget task ''target_branch'')) \<noteq> [] \<and> strip (text_of (dget task ''base_sha'')) \<noteq> []
        then Inr []
      else andthen (branch_sha git (raw_workspace workspace) DEFAULT_TARGET_BRANCH) (\<lambda>sha.
        case sha of
          None \<Rightarrow> Inl (ValueError ''repository delivery needs an existing main branch'')
        | Some h \<Rightarrow> Inr [(''target_branch'', JStr DEFAULT_TARGET_BRANCH), (''base_sha'', JStr h)]))"

section \<open>The completion gate\<close>

record failure =
  fl_check :: string
  fl_current :: json

record gate_failure =
  gf_failures :: "failure list"
  gf_target_branch :: string
  gf_leftover :: resources

fun error_text :: "py_error \<Rightarrow> string" where
  "error_text (ValueError s) = s"
| "error_text TypeError = ''type error''"
| "error_text (KeyError s) = s"
| "error_text IndexError = ''index error''"
| "error_text (RuntimeError s) = s"
| "error_text (GitFactError s) = s"
| "error_text (Raised c s) = s"
| "error_text (LarkRequestError s code scopes link) = s"

definition failed :: "string \<Rightarrow> json \<Rightarrow> failure" where
  "failed check current = \<lparr>fl_check = check, fl_current = current\<rparr>"

text \<open>\<^verbatim>\<open>_gate_failure\<close>\<close>

definition single_failure :: "string \<Rightarrow> json \<Rightarrow> gate_failure" where
  "single_failure check current =
     \<lparr>gf_failures = [failed check current], gf_target_branch = DEFAULT_TARGET_BRANCH, gf_leftover = no_resources\<rparr>"

definition worktree_location :: "file_system \<Rightarrow> string \<Rightarrow> string \<Rightarrow> string" where
  "worktree_location fs repo path =
     (let declared = fs_expand fs path
      in fs_resolve fs (if is_absolute declared then declared else path_join repo declared))"

definition text_field :: "dict \<Rightarrow> string \<Rightarrow> string" where
  "text_field d f = strip (text_of (dget d f))"

text \<open>The loop over the three commit fields: the failures, and the fields that resolved.\<close>

fun check_shas :: "git \<Rightarrow> string \<Rightarrow> dict \<Rightarrow> string list \<Rightarrow> (failure list \<times> (string \<times> string) list) result" where
  "check_shas git repo merged [] = Inr ([], [])"
| "check_shas git repo merged (f # fs) =
     (let v = text_field merged f in
      if v = [] then
        andthen (check_shas git repo merged fs) (\<lambda>(fl, rs). Inr (failed f JNull # fl, rs))
      else andthen (commit_exists git repo v) (\<lambda>b.
        andthen (check_shas git repo merged fs) (\<lambda>(fl, rs).
          if b then Inr (fl, (f, v) # rs) else Inr (failed f (JStr v) # fl, rs))))"

definition check_same_commit :: "(string \<times> string) list \<Rightarrow> failure list" where
  "check_same_commit resolved =
     (if length resolved = length AGENT_SHA_FIELDS \<and> length (dedup (map snd resolved)) \<noteq> 1
      then [failed ''verified_candidate'' (JObj (map (\<lambda>(k, v). (k, JStr v)) resolved))] else [])"

definition check_base :: "git \<Rightarrow> string \<Rightarrow> string \<Rightarrow> string option \<Rightarrow> failure list result" where
  "check_base git repo base candidate =
     (if base = [] then Inr [failed ''base_sha'' JNull]
      else andthen (commit_exists git repo base) (\<lambda>b.
        if \<not> b then Inr [failed ''base_sha'' (JStr base)]
        else case candidate of
          None \<Rightarrow> Inr []
        | Some c \<Rightarrow> andthen (is_ancestor git repo base c) (\<lambda>a.
            Inr (if a then [] else
              [failed ''base_ancestry'' (JObj [(''base_sha'', JStr base), (''candidate_sha'', JStr c)])]))))"

definition check_target :: "git \<Rightarrow> string \<Rightarrow> string \<Rightarrow> string option \<Rightarrow> failure list result" where
  "check_target git repo branch candidate =
     andthen (branch_sha git repo branch) (\<lambda>head.
       case candidate of
         None \<Rightarrow> Inr []
       | Some c \<Rightarrow>
           (case head of
              None \<Rightarrow> Inr [failed ''target_branch'' (JObj [(''branch'', JStr branch), (''sha'', JNull)])]
            | Some h \<Rightarrow> andthen (is_ancestor git repo c h) (\<lambda>a.
                if \<not> a then
                  Inr [failed ''target_branch'' (JObj [(''branch'', JStr branch), (''sha'', JStr h)])]
                else andthen (fast_forwarded_to git repo branch c) (\<lambda>f.
                  Inr (if f then [] else
                    [failed ''fast_forward'' (JObj [(''branch'', JStr branch), (''candidate_sha'', JStr c)])])))))"

definition check_ledger :: "json \<Rightarrow> (failure list \<times> resources) result" where
  "check_ledger raw =
     (case parse_resources raw of
        Inr r \<Rightarrow> Inr ([], r)
      | Inl (ValueError m) \<Rightarrow> Inr ([failed ''delivery_resources'' (JStr m)], no_resources)
      | Inl (GitFactError m) \<Rightarrow> Inr ([failed ''delivery_resources'' (JStr m)], no_resources)
      | Inl e \<Rightarrow> Inl e)"

definition worktree_left :: "file_system \<Rightarrow> string \<Rightarrow> string list \<Rightarrow> string \<Rightarrow> bool" where
  "worktree_left fs repo registered path \<longleftrightarrow>
     worktree_location fs repo path \<in> set registered \<or> fs_exists fs (worktree_location fs repo path)"

definition repository_failures ::
  "git \<Rightarrow> file_system \<Rightarrow> string \<Rightarrow> dict \<Rightarrow> (failure list \<times> resources) result" where
  "repository_failures git fs repo merged =
     andthen (ensure_repository git repo) (\<lambda>_.
     andthen (check_shas git repo merged AGENT_SHA_FIELDS) (\<lambda>(sha_failures, resolved).
     let candidate = map_of resolved ''candidate_sha'' in
     andthen (check_base git repo (text_field merged ''base_sha'') candidate) (\<lambda>base_failures.
     andthen (check_target git repo DEFAULT_TARGET_BRANCH candidate) (\<lambda>target_failures.
     andthen (check_ledger (dget merged ''delivery_resources'')) (\<lambda>(ledger_failures, declared).
     andthen (filter_result (branch_exists git repo) (res_branches declared)) (\<lambda>branches.
     andthen (worktree_paths git (fs_resolve fs) repo) (\<lambda>registered.
     let worktrees = filter (worktree_left fs repo registered) (res_worktrees declared) in
     Inr (sha_failures @ check_same_commit resolved @ base_failures @ target_failures @ ledger_failures
            @ (if branches \<noteq> [] then [failed ''declared_branches'' (JList (map JStr branches))] else [])
            @ (if worktrees \<noteq> [] then [failed ''declared_worktrees'' (JList (map JStr worktrees))] else []),
          \<lparr>res_branches = branches, res_worktrees = worktrees\<rparr>))))))))"

definition completion_failure ::
  "git \<Rightarrow> file_system \<Rightarrow> string option \<Rightarrow> workflow \<Rightarrow> dict \<Rightarrow> dict \<Rightarrow> gate_failure option result" where
  "completion_failure git fs workspace w task patch =
     (let merged = AList.merge task patch; mode = mode_of merged in
      if text_of (dget patch ''status'') \<notin> set (wf_completion_states w) then Inr None
      else if mode \<noteq> [] \<and> mode \<notin> set DELIVERY_MODES
        then Inr (Some (single_failure ''delivery_mode'' (JStr mode)))
      else if mode \<noteq> ''repository'' then Inr None
      else case repository_failures git fs (workspace_root fs workspace) merged of
          Inl (GitFactError m) \<Rightarrow> Inr (Some (single_failure ''git_probe'' (JStr m)))
        | Inl e \<Rightarrow> Inl e
        | Inr (failures, leftover) \<Rightarrow>
            Inr (if failures = [] then None
                 else Some \<lparr>gf_failures = failures, gf_target_branch = DEFAULT_TARGET_BRANCH,
                            gf_leftover = leftover\<rparr>))"

text \<open>\<^verbatim>\<open>delivery_constraints\<close>: what the agent is told; the prose of \<^verbatim>\<open>sha_format\<close> is left out.\<close>

record constraints =
  dc_version_control :: bool
  dc_modes :: "string list"
  dc_target_branch :: string
  dc_completion_states :: "string list"
  dc_submittable :: "string list"
  dc_system :: "string list"
  dc_kinds :: "string list"

definition delivery_constraints :: "settings_file \<Rightarrow> workflow \<Rightarrow> constraints result" where
  "delivery_constraints settings w =
     andthen (version_control_enabled settings) (\<lambda>enabled. Inr
       \<lparr>dc_version_control = enabled, dc_modes = DELIVERY_MODES, dc_target_branch = DEFAULT_TARGET_BRANCH,
        dc_completion_states = wf_completion_states w,
        dc_submittable = [''delivery_mode''] @ AGENT_SHA_FIELDS @ [''resources''],
        dc_system = SYSTEM_FIELDS, dc_kinds = map kind_key RESOURCE_KINDS\<rparr>)"

section \<open>The ledger is append-only\<close>

text \<open>Recording one entry that is already clean; \<open>append_kind\<close> is the fold of these steps.\<close>

definition record_resource :: "resource_kind \<Rightarrow> string \<Rightarrow> resources \<Rightarrow> resources" where
  "record_resource kind v r =
     (if v \<in> set (kind_items kind r) then r else put_items kind (kind_items kind r @ [v]) r)"

lemma kind_items_put [simp]:
  "kind_items k (put_items k' xs r) = (if k = k' then xs else kind_items k r)"
  by (cases k; cases k') auto

lemma kind_items_none [simp]: "kind_items k no_resources = []"
  by (cases k) (simp_all add: no_resources_def)

lemma resources_eqI: "(\<And>k. kind_items k r = kind_items k r') \<Longrightarrow> r = (r' :: resources)"
  by (metis (full_types) kind_items.simps resources.equality old.unit.exhaust)

interpretation ledger: append_only "kind_items k" "record_resource k" for k
  by unfold_locales (simp_all add: record_resource_def)

lemma fold_append_item: "fold (append_item k) xs r = fold (record_resource k) (clean_items xs) r"
  by (induction xs arbitrary: r)
     (auto simp: clean_items_def append_item_def record_resource_def Let_def)

lemma append_kind_eq:
  "append_kind added k r =
     fold (record_resource k) (clean_items (case added of None \<Rightarrow> [] | Some a \<Rightarrow> kind_items k a)) r"
  by (simp add: append_kind_def fold_append_item)

lemma kind_items_fold_other:
  "k' \<noteq> k \<Longrightarrow> kind_items k' (fold (record_resource k) xs r) = kind_items k' r"
  by (induction xs arbitrary: r) (auto simp: record_resource_def)

definition added_items :: "resources option \<Rightarrow> resource_kind \<Rightarrow> string list" where
  "added_items added k = clean_items (case added of None \<Rightarrow> [] | Some a \<Rightarrow> kind_items k a)"

lemma kind_items_append_all:
  "kind_items k (fold (append_kind added) RESOURCE_KINDS r) =
     fold add_once (added_items added k) (kind_items k r)"
  by (cases k)
     (simp_all add: RESOURCE_KINDS_def append_kind_eq added_items_def ledger.entries_fold kind_items_fold_other
        del: kind_items.simps)

text \<open>A clean ledger holds stripped, nonempty entries only.\<close>

definition clean_ledger :: "resources \<Rightarrow> bool" where
  "clean_ledger r \<longleftrightarrow> (\<forall>k. \<forall>v \<in> set (kind_items k r). strip v = v \<and> v \<noteq> [])"

lemma clean_items_clean: "v \<in> set (clean_items xs) \<Longrightarrow> strip v = v \<and> v \<noteq> []"
  by (auto simp: clean_items_def)

lemma clean_items_id: "\<forall>v \<in> set xs. strip v = v \<and> v \<noteq> [] \<Longrightarrow> clean_items xs = xs"
  by (induction xs) (auto simp: clean_items_def)

lemma str_items_strs [simp]: "str_items (JList (map JStr xs)) = Some xs"
  by (simp add: str_items_def list_all_iff comp_def)

lemma parse_resources_clean: "parse_resources raw = Inr r \<Longrightarrow> clean_ledger r"
proof -
  assume "parse_resources raw = Inr r"
  then have "r = no_resources \<or> (\<exists>xs ys. r = put_items Worktrees (clean_items ys) (put_items Branches (clean_items xs) no_resources))"
    by (auto simp: parse_resources_def parse_kind_def andthen_eq_Inr split: if_splits json.splits option.splits)
  then show ?thesis
  proof
    assume "r = no_resources"
    then show ?thesis by (simp add: clean_ledger_def)
  next
    assume "\<exists>xs ys. r = put_items Worktrees (clean_items ys) (put_items Branches (clean_items xs) no_resources)"
    then obtain xs ys where "r = put_items Worktrees (clean_items ys) (put_items Branches (clean_items xs) no_resources)"
      by blast
    then have "kind_items k r = clean_items (if k = Worktrees then ys else xs)" for k
      by (cases k) auto
    then show ?thesis using clean_items_clean by (auto simp: clean_ledger_def)
  qed
qed

lemma render_nonblank: "strip (render_resources r) \<noteq> []"
proof -
  have "CHR ''{'' \<in> set (render_resources r)" by (simp add: render_resources_def resources_value_def)
  moreover have "\<not> is_space (CHR ''{'')" by (simp add: is_space_def)
  ultimately show ?thesis using strip_empty_iff by blast
qed

lemma proper_resources_value: "proper (resources_value r)"
  by (auto simp: resources_value_def RESOURCE_KINDS_def)

lemma parse_render_clean: "clean_ledger r \<Longrightarrow> parse_resources (JStr (render_resources r)) = Inr r"
proof -
  assume clean: "clean_ledger r"
  have lookup: "dget_or (as_dict (resources_value r)) (kind_key k) (JList []) = JList (map JStr (kind_items k r))" for k
    by (cases k) (simp_all add: resources_value_def RESOURCE_KINDS_def dget_or_def)
  have kind: "parse_kind (as_dict (resources_value r)) k r0 = Inr (put_items k (kind_items k r) r0)" for k r0
    using clean unfolding parse_kind_def lookup by (simp add: clean_items_id clean_ledger_def)
  have "loads (render_resources r) = Some (resources_value r)"
    unfolding render_resources_def by (rule loads_dumps[OF proper_resources_value])
  moreover have "is_dict (resources_value r)" by (simp add: resources_value_def)
  moreover have "put_items Worktrees (kind_items Worktrees r) (put_items Branches (kind_items Branches r) no_resources) = r"
    by (simp add: no_resources_def)
  ultimately show ?thesis
    using render_nonblank[of r]
    by (simp add: parse_resources_def ensure_def kind del: kind_items.simps put_items.simps)
qed

lemma append_resources_reads:
  assumes "parse_resources current = Inr r"
  obtains s r' where "append_resources current added = Inr s" and "parse_resources (JStr s) = Inr r'"
    and "\<And>k. kind_items k r' = fold add_once (added_items added k) (kind_items k r)"
proof
  let ?r' = "fold (append_kind added) RESOURCE_KINDS r"
  show "append_resources current added = Inr (render_resources ?r')"
    by (simp add: append_resources_def assms)
  show kind: "\<And>k. kind_items k ?r' = fold add_once (added_items added k) (kind_items k r)"
    by (rule kind_items_append_all)
  have "clean_ledger r" using assms by (rule parse_resources_clean)
  moreover have "set (fold add_once xs ys) = set ys \<union> set xs" for xs ys :: "string list"
    using once_list.set_fold[of xs ys] by simp
  ultimately have "clean_ledger ?r'"
    unfolding clean_ledger_def kind added_items_def by (metis Un_iff clean_items_clean)
  then show "parse_resources (JStr (render_resources ?r')) = Inr ?r'" by (rule parse_render_clean)
qed

section \<open>What the completion gate promises\<close>

text \<open>
  The promise in one formula: the three recorded commits are one existing commit, built on the
  existing baseline, contained in the target branch and reached by it through fast-forwards only;
  no declared branch exists any more and no declared worktree is registered or on disk.
\<close>

definition gate_holds :: "git \<Rightarrow> file_system \<Rightarrow> string \<Rightarrow> dict \<Rightarrow> bool" where
  "gate_holds git fs repo merged \<longleftrightarrow>
     ensure_repository git repo = Inr () \<and>
     (\<exists>c h. (\<forall>f \<in> set AGENT_SHA_FIELDS. text_field merged f = c) \<and>
        commit_exists git repo c = Inr True \<and>
        commit_exists git repo (text_field merged ''base_sha'') = Inr True \<and>
        is_ancestor git repo (text_field merged ''base_sha'') c = Inr True \<and>
        branch_sha git repo DEFAULT_TARGET_BRANCH = Inr (Some h) \<and>
        is_ancestor git repo c h = Inr True \<and>
        fast_forwarded_to git repo DEFAULT_TARGET_BRANCH c = Inr True) \<and>
     (\<exists>r registered. parse_resources (dget merged ''delivery_resources'') = Inr r \<and>
        (\<forall>b \<in> set (res_branches r). branch_exists git repo b = Inr False) \<and>
        worktree_paths git (fs_resolve fs) repo = Inr registered \<and>
        (\<forall>p \<in> set (res_worktrees r). \<not> worktree_left fs repo registered p))"

lemma commit_exists_Nil [simp]: "commit_exists git repo [] = Inr False"
  by (simp add: commit_exists_def is_object_id_def)

lemma check_shas_pass:
  "check_shas git repo merged fs = Inr ([], rs) \<longleftrightarrow>
     (\<forall>f \<in> set fs. commit_exists git repo (text_field merged f) = Inr True) \<and>
     rs = map (\<lambda>f. (f, text_field merged f)) fs"
proof (induction fs arbitrary: rs)
  case (Cons f fs)
  show ?case
  proof (cases "text_field merged f = []")
    case True
    then show ?thesis by (auto simp: andthen_eq_Inr Let_def)
  next
    case False
    then show ?thesis using Cons by (auto simp: andthen_eq_Inr Let_def split: if_splits)
  qed
qed auto

lemma check_same_commit_pass:
  "check_same_commit (map (\<lambda>f. (f, g f)) AGENT_SHA_FIELDS) = [] \<longleftrightarrow>
     (\<exists>c. \<forall>f \<in> set AGENT_SHA_FIELDS. g f = c)"
  by (auto simp: check_same_commit_def AGENT_SHA_FIELDS_def)

lemma check_base_pass:
  "check_base git repo base (Some c) = Inr [] \<longleftrightarrow>
     commit_exists git repo base = Inr True \<and> is_ancestor git repo base c = Inr True"
  by (cases "base = []") (auto simp: check_base_def andthen_eq_Inr split: if_splits)

lemma check_target_pass:
  "check_target git repo b (Some c) = Inr [] \<longleftrightarrow>
     (\<exists>h. branch_sha git repo b = Inr (Some h) \<and> is_ancestor git repo c h = Inr True \<and>
          fast_forwarded_to git repo b c = Inr True)"
  by (auto simp: check_target_def andthen_eq_Inr split: option.splits if_splits)

lemma check_ledger_pass: "check_ledger raw = Inr ([], r) \<longleftrightarrow> parse_resources raw = Inr r"
  by (auto simp: check_ledger_def split: sum.splits py_error.splits)

lemma filter_result_none:
  "filter_result p xs = Inr [] \<longleftrightarrow> (\<forall>x \<in> set xs. p x = Inr False)"
  by (induction xs) (auto split: sum.splits)

lemma AGENT_SHA_FIELDS_candidate: "''candidate_sha'' \<in> set AGENT_SHA_FIELDS"
  by (simp add: AGENT_SHA_FIELDS_def)

lemma map_of_candidate:
  "map_of (map (\<lambda>f. (f, g f)) AGENT_SHA_FIELDS) ''candidate_sha'' = Some (g ''candidate_sha'')"
  by (simp add: AGENT_SHA_FIELDS_def)

lemma repository_failures_none_parts:
  "(\<exists>left. repository_failures git fs repo merged = Inr ([], left)) \<longleftrightarrow>
     ensure_repository git repo = Inr () \<and>
     (\<exists>rs. check_shas git repo merged AGENT_SHA_FIELDS = Inr ([], rs) \<and> check_same_commit rs = [] \<and>
        check_base git repo (text_field merged ''base_sha'') (map_of rs ''candidate_sha'') = Inr [] \<and>
        check_target git repo DEFAULT_TARGET_BRANCH (map_of rs ''candidate_sha'') = Inr []) \<and>
     (\<exists>r registered. check_ledger (dget merged ''delivery_resources'') = Inr ([], r) \<and>
        filter_result (branch_exists git repo) (res_branches r) = Inr [] \<and>
        worktree_paths git (fs_resolve fs) repo = Inr registered \<and>
        filter (worktree_left fs repo registered) (res_worktrees r) = [])"
  unfolding repository_failures_def
  by (auto simp: andthen_eq_Inr Let_def split: if_splits prod.splits) blast+

lemma repository_failures_none:
  "(\<exists>left. repository_failures git fs repo merged = Inr ([], left)) \<longleftrightarrow> gate_holds git fs repo merged"
proof -
  have "(\<exists>rs. check_shas git repo merged AGENT_SHA_FIELDS = Inr ([], rs) \<and> check_same_commit rs = [] \<and>
        check_base git repo (text_field merged ''base_sha'') (map_of rs ''candidate_sha'') = Inr [] \<and>
        check_target git repo DEFAULT_TARGET_BRANCH (map_of rs ''candidate_sha'') = Inr []) \<longleftrightarrow>
      (\<exists>c h. (\<forall>f \<in> set AGENT_SHA_FIELDS. text_field merged f = c) \<and>
        commit_exists git repo c = Inr True \<and>
        commit_exists git repo (text_field merged ''base_sha'') = Inr True \<and>
        is_ancestor git repo (text_field merged ''base_sha'') c = Inr True \<and>
        branch_sha git repo DEFAULT_TARGET_BRANCH = Inr (Some h) \<and>
        is_ancestor git repo c h = Inr True \<and>
        fast_forwarded_to git repo DEFAULT_TARGET_BRANCH c = Inr True)" (is "?L \<longleftrightarrow> ?R")
  proof
    assume ?L
    then show ?R
      unfolding check_shas_pass using AGENT_SHA_FIELDS_candidate
      by (auto simp: check_same_commit_pass map_of_candidate check_base_pass check_target_pass)
  next
    assume ?R
    then obtain c h where same: "\<forall>f \<in> set AGENT_SHA_FIELDS. text_field merged f = c" and
      facts: "commit_exists git repo c = Inr True"
        "check_base git repo (text_field merged ''base_sha'') (Some c) = Inr []"
        "check_target git repo DEFAULT_TARGET_BRANCH (Some c) = Inr []"
      unfolding check_base_pass check_target_pass by blast
    from same have "text_field merged ''candidate_sha'' = c" using AGENT_SHA_FIELDS_candidate by blast
    with same facts show ?L
      unfolding check_shas_pass
      by (intro exI[of _ "map (\<lambda>f. (f, text_field merged f)) AGENT_SHA_FIELDS"])
         (auto simp: check_same_commit_pass map_of_candidate)
  qed
  then show ?thesis
    unfolding repository_failures_none_parts gate_holds_def check_ledger_pass filter_result_none filter_empty_conv
    by simp
qed

lemma completion_failure_None:
  assumes "text_of (dget patch ''status'') \<in> set (wf_completion_states w)"
  shows "completion_failure git fs workspace w task patch = Inr None \<longleftrightarrow>
     mode_of (AList.merge task patch) \<in> {[], ''standard''} \<or>
     mode_of (AList.merge task patch) = ''repository'' \<and>
     gate_holds git fs (workspace_root fs workspace) (AList.merge task patch)"
proof (cases "mode_of (AList.merge task patch) = ''repository''")
  case True
  show ?thesis
    unfolding completion_failure_def repository_failures_none[symmetric]
    using assms True by (auto simp: Let_def DELIVERY_MODES_def split: sum.splits py_error.splits)
next
  case False
  then show ?thesis using assms by (auto simp: completion_failure_def Let_def DELIVERY_MODES_def)
qed

section \<open>Properties\<close>

lemma added_twice: "fold add_once xs (fold add_once xs ys) = fold add_once xs ys"
  using once_list.fold_known[of xs "fold add_once xs ys"] once_list.set_fold[of xs ys] by simp

lemma append_resources_twice:
  assumes s: "append_resources current added = Inr s"
  shows "append_resources (JStr s) added = Inr s"
proof -
  from s obtain r where r: "parse_resources current = Inr r"
    by (auto simp: append_resources_def andthen_eq_Inr)
  from append_resources_reads[OF r, of added] s obtain r' where r': "parse_resources (JStr s) = Inr r'"
    and items: "\<And>k. kind_items k r' = fold add_once (added_items added k) (kind_items k r)" by auto
  have "fold (append_kind added) RESOURCE_KINDS r' = r'"
    by (rule resources_eqI) (simp add: kind_items_append_all items added_twice del: kind_items.simps)
  moreover have "fold (append_kind added) RESOURCE_KINDS r = r'"
    by (rule resources_eqI) (simp add: kind_items_append_all items del: kind_items.simps)
  moreover have "s = render_resources (fold (append_kind added) RESOURCE_KINDS r)"
    using s r by (simp add: append_resources_def)
  ultimately show ?thesis using r' by (simp add: append_resources_def)
qed

text \<open>Declaring resources is append-only. If the card's ledger can be read, appending succeeds, the
  written ledger can be read again, each old list of branches and worktrees is a prefix of the new
  one, the new entries are exactly the old ones and the declared ones, and no duplicate appears.\<close>

theorem ledger_append_only:
  assumes "parse_resources current = Inr r"
  shows "\<exists>s r'. append_resources current added = Inr s \<and> parse_resources (JStr s) = Inr r' \<and>
    (\<forall>k. prefix (kind_items k r) (kind_items k r') \<and>
         set (kind_items k r') = set (kind_items k r) \<union> set (added_items added k) \<and>
         (distinct (kind_items k r) \<longrightarrow> distinct (kind_items k r')))"
  using assms
proof (rule append_resources_reads[of current r added])
  fix s r'
  assume "append_resources current added = Inr s" and "parse_resources (JStr s) = Inr r'"
    and "\<And>k. kind_items k r' = fold add_once (added_items added k) (kind_items k r)"
  then show ?thesis
    using once_list.prefix_fold once_list.set_fold once_list.distinct_fold by metis
qed

definition demo_ledger :: resources where
  "demo_ledger = \<lparr>res_branches = [''topic''], res_worktrees = [''/w/topic'']\<rparr>"

definition demo_added :: resources where
  "demo_added = \<lparr>res_branches = ['' topic '', ''fix''], res_worktrees = []\<rparr>"

lemma clean_demo_ledger: "clean_ledger demo_ledger"
  unfolding clean_ledger_def demo_ledger_def
  by (rule allI, case_tac k) (simp_all add: strip_def is_space_def)

theorem ledger_append_only_witness:
  "\<exists>s r'. append_resources (JStr (render_resources demo_ledger)) (Some demo_added) = Inr s \<and>
    parse_resources (JStr s) = Inr r' \<and>
    (\<forall>k. prefix (kind_items k demo_ledger) (kind_items k r') \<and>
         set (kind_items k r') = set (kind_items k demo_ledger) \<union> set (added_items (Some demo_added) k) \<and>
         (distinct (kind_items k demo_ledger) \<longrightarrow> distinct (kind_items k r')))"
  by (rule ledger_append_only[OF parse_render_clean[OF clean_demo_ledger]])

text \<open>C23: Reading back a rendered ledger gives the same branches and worktrees in the same order, for
  every ledger of stripped, nonempty names, which is what reading and appending produce.\<close>

theorem ledger_roundtrip:
  assumes "clean_ledger r"
  shows "parse_resources (JStr (render_resources r)) = Inr r"
  using assms by (rule parse_render_clean)

theorem ledger_roundtrip_witness: "parse_resources (JStr (render_resources demo_ledger)) = Inr demo_ledger"
  by (rule ledger_roundtrip[OF clean_demo_ledger])

text \<open>Declaring the same resources again writes the very same text to the card, so a repeated call is
  visible as unchanged.\<close>

theorem ledger_append_idempotent:
  assumes "append_resources current added = Inr s"
  shows "append_resources (JStr s) added = Inr s"
  using assms by (rule append_resources_twice)

theorem ledger_append_idempotent_witness:
  "\<exists>s. append_resources JNull (Some demo_added) = Inr s \<and> append_resources (JStr s) (Some demo_added) = Inr s"
proof -
  obtain s where s: "append_resources JNull (Some demo_added) = Inr s"
    by (auto simp: append_resources_def parse_resources_def)
  from s ledger_append_idempotent[OF s] show ?thesis by blast
qed

text \<open>The baseline is pinned once. After the first claim of a repository task has recorded the target
  branch and its commit, a baseline is on the card and no later claim, whatever git then answers,
  changes it.\<close>

theorem baseline_pinned_once:
  assumes "claim_baseline git workspace task = Inr b" and "mode_of task = ''repository''"
  shows "text_field (AList.merge task b) ''base_sha'' \<noteq> [] \<and>
    claim_baseline git' workspace' (AList.merge task b) = Inr []"
proof (cases "b = []")
  case True
  have "AList.merge task [] = task" by (simp add: AList.merge_def)
  then show ?thesis using assms True by (auto simp: claim_baseline_def andthen_eq_Inr text_field_def split: if_splits option.splits)
next
  case False
  then obtain h where b: "b = [(''target_branch'', JStr DEFAULT_TARGET_BRANCH), (''base_sha'', JStr h)]"
    and "branch_sha git (raw_workspace workspace) DEFAULT_TARGET_BRANCH = Inr (Some h)"
    using assms by (auto simp: claim_baseline_def andthen_eq_Inr split: if_splits option.splits)
  then have "strip h \<noteq> []" by (auto simp: branch_sha_def andthen_eq_Inr split: if_splits)
  moreover have "strip DEFAULT_TARGET_BRANCH \<noteq> []"
    by (simp add: DEFAULT_TARGET_BRANCH_def strip_def is_space_def)
  ultimately show ?thesis
    using assms(2) by (simp add: claim_baseline_def text_field_def b mode_of_def dget_merge dget_update)
qed

definition demo_tip_git :: git where
  "demo_tip_git repo args = Some (0, ''1111111111111111111111111111111111111111'')"

theorem baseline_pinned_once_witness:
  "\<exists>b. claim_baseline demo_tip_git None [(''delivery_mode'', JStr ''repository'')] = Inr b \<and>
     text_field (AList.merge [(''delivery_mode'', JStr ''repository'')] b) ''base_sha'' \<noteq> [] \<and>
     (\<forall>git' workspace'. claim_baseline git' workspace' (AList.merge [(''delivery_mode'', JStr ''repository'')] b) = Inr [])"
proof -
  have repository: "mode_of [(''delivery_mode'', JStr ''repository'')] = ''repository''" by code_simp
  obtain b where b: "claim_baseline demo_tip_git None [(''delivery_mode'', JStr ''repository'')] = Inr b"
    by (auto simp: claim_baseline_def repository branch_sha_def run_git_def demo_tip_git_def dget_def strip_def is_space_def)
  from b baseline_pinned_once[OF b repository] show ?thesis by blast
qed

end
