(* ===== verification/Workflow_Contract.thy ===== *)
theory Workflow_Contract
  imports Workflow_Values Delivery "HOL-Library.List_Lexorder" "HOL-Library.Char_ord"
begin

text \<open>
  \<^verbatim>\<open>core/workflow_contract.py\<close>: which actions an agent may take on a task, as the agent is told.
  Localized names are left out of the reports. A rule's permissions, its required fields and its
  allowed values are decided here, for the reports and for the action engine alike.
\<close>

definition LIFECYCLE_ACTION_TO_TOOL :: "(string \<times> string) list" where
  "LIFECYCLE_ACTION_TO_TOOL =
    [(''create'', ''create_task''), (''update'', ''update_task''), (''route'', ''route_task''),
     (''claim'', ''claim_task''), (''submit'', ''submit_task''), (''block'', ''block_task''),
     (''review'', ''review_task''), (''cancel'', ''cancel_task'')]"

definition RUNTIME_ACTION_TO_TOOL :: "(string \<times> string) list" where
  "RUNTIME_ACTION_TO_TOOL = [(''stop_execution'', ''stop_task_execution'')]"

definition ACTION_TO_TOOL :: "(string \<times> string) list" where
  "ACTION_TO_TOOL = LIFECYCLE_ACTION_TO_TOOL @ RUNTIME_ACTION_TO_TOOL"

definition MUTATING_TOOL_NAMES :: "string list" where
  "MUTATING_TOOL_NAMES = map snd LIFECYCLE_ACTION_TO_TOOL"

definition RUNTIME_TOOL_NAMES :: "string list" where
  "RUNTIME_TOOL_NAMES = map snd RUNTIME_ACTION_TO_TOOL"

definition TOOL_NAMES :: "string list" where
  "TOOL_NAMES = [''get_assignment'', ''list_tasks'', ''list_available_tasks'', ''get_task'']
     @ MUTATING_TOOL_NAMES @ RUNTIME_TOOL_NAMES"

definition VARIANT_ACTIONS :: "string list" where
  "VARIANT_ACTIONS = [''submit'', ''review'']"

text \<open>\<^verbatim>\<open>workflow_definition_for_assignment\<close>, over the definitions loaded at start-up.\<close>

definition workflow_definition_for_assignment ::
  "(string \<times> workflow) list \<Rightarrow> assignment \<Rightarrow> workflow result" where
  "workflow_definition_for_assignment defs a =
     (case map_of defs (as_workflow_key a) of
        None \<Rightarrow> Inl (ValueError ''workflow definition is not installed'')
      | Some w \<Rightarrow> Inr w)"

definition tool_of :: "string \<Rightarrow> string result" where
  "tool_of ak = (case map_of ACTION_TO_TOOL ak of None \<Rightarrow> Inl (KeyError ak) | Some t \<Rightarrow> Inr t)"

section \<open>Permissions\<close>

fun actor_matches :: "assignment \<Rightarrow> workflow \<Rightarrow> dict option \<Rightarrow> actor \<Rightarrow> bool" where
  "actor_matches a w task Coordinator = (as_role_key a = wf_coordinator_role w)"
| "actor_matches a w task Task_Role =
     (case task of None \<Rightarrow> False | Some t \<Rightarrow> dget t ''role'' = JStr (as_role_key a))"
| "actor_matches a w task Assigned_Agent =
     (case task of None \<Rightarrow> False | Some t \<Rightarrow> dget t ''agent_id'' = JStr (as_agent_id a))"

definition actors_allowed ::
  "assignment \<Rightarrow> workflow \<Rightarrow> actor list \<Rightarrow> string list \<Rightarrow> dict option \<Rightarrow> bool" where
  "actors_allowed a w actors roles task \<longleftrightarrow>
     (roles = [] \<or> as_role_key a \<in> set roles) \<and> list_ex (actor_matches a w task) actors"

definition rule_actor_allowed :: "assignment \<Rightarrow> workflow \<Rightarrow> rule \<Rightarrow> dict option \<Rightarrow> bool" where
  "rule_actor_allowed a w r task = actors_allowed a w (rl_actors r) (rl_roles r) task"

definition roles_applicable :: "assignment \<Rightarrow> workflow \<Rightarrow> actor list \<Rightarrow> string list \<Rightarrow> bool" where
  "roles_applicable a w actors roles \<longleftrightarrow>
     (roles = [] \<or> as_role_key a \<in> set roles) \<and>
     list_ex (\<lambda>ac. ac = Task_Role \<or> ac = Assigned_Agent \<or>
                  ac = Coordinator \<and> as_role_key a = wf_coordinator_role w) actors"

definition rule_role_applicable :: "assignment \<Rightarrow> workflow \<Rightarrow> rule \<Rightarrow> bool" where
  "rule_role_applicable a w r = roles_applicable a w (rl_actors r) (rl_roles r)"

definition runtime_action_actor_allowed :: "assignment \<Rightarrow> workflow \<Rightarrow> runtime_action \<Rightarrow> dict \<Rightarrow> bool" where
  "runtime_action_actor_allowed a w act task \<longleftrightarrow>
     (ra_roles act = [] \<or> as_role_key a \<in> set (ra_roles act)) \<and>
     actors_allowed a w (ra_actors act) (ra_roles act) (Some task)"

definition runtime_action_role_applicable :: "assignment \<Rightarrow> workflow \<Rightarrow> runtime_action \<Rightarrow> bool" where
  "runtime_action_role_applicable a w act = roles_applicable a w (ra_actors act) (ra_roles act)"

section \<open>Fields and values\<close>

text \<open>\<^verbatim>\<open>if rule.get("to")\<close>\<close>

definition rule_target :: "rule \<Rightarrow> string option" where
  "rule_target r = (case rl_to r of None \<Rightarrow> None | Some t \<Rightarrow> if t = [] then None else Some t)"

definition required_task_fields :: "workflow \<Rightarrow> rule \<Rightarrow> dict \<Rightarrow> string list" where
  "required_task_fields w r task =
     (let state_key = (case rule_target r of Some t \<Rightarrow> JStr t | None \<Rightarrow> dget task ''status'');
          state = List.find (\<lambda>s. JStr (sd_key s) = state_key) (wf_states w)
      in dedup (rl_required_task_fields r @ (case state of None \<Rightarrow> [] | Some s \<Rightarrow> sd_required s)))"

text \<open>
  \<^verbatim>\<open>_rule_allowed_values\<close> evaluates \<^verbatim>\<open>options[field]\<close> even when an explicit list is there, so a
  field with explicit values and no option list raises.
\<close>

definition rule_allowed_values :: "workflow \<Rightarrow> rule \<Rightarrow> (string \<times> string list) list result" where
  "rule_allowed_values w r =
     map_result (\<lambda>f.
         case map_of (task_options w) f of
           None \<Rightarrow> Inl (KeyError f)
         | Some opts \<Rightarrow> Inr (f, case map_of (rl_field_values r) f of None \<Rightarrow> opts | Some vs \<Rightarrow> vs))
       (dedup (filter (\<lambda>f. f \<in> set (dkeys (rl_field_values r)) \<or> f \<in> set (dkeys (task_options w)))
                (rl_writable r)))"

section \<open>What an agent is told\<close>

record available_action =
  aa_action :: string
  aa_tool :: string
  aa_option :: "string option"
  aa_to :: "string option"
  aa_required_fields :: "string list"
  aa_required_task_fields :: "string list"
  aa_writable_fields :: "string list"
  aa_allowed_values :: "(string \<times> string list) list"
  aa_confirmation_required :: bool
  aa_preconditions :: "string list"
  aa_runtime_facts :: "string list"

definition available_rule :: "workflow \<Rightarrow> dict \<Rightarrow> string \<Rightarrow> action_def \<Rightarrow> rule \<Rightarrow> available_action result" where
  "available_rule w task ak act r =
     andthen (tool_of ak) (\<lambda>tool. andthen (rule_allowed_values w r) (\<lambda>allowed. Inr
       \<lparr>aa_action = ak, aa_tool = tool,
        aa_option = (if ak \<in> set VARIANT_ACTIONS then Some (rl_key r) else None),
        aa_to = rl_to r, aa_required_fields = rl_required_inputs r,
        aa_required_task_fields = required_task_fields w r task,
        aa_writable_fields = rl_writable r, aa_allowed_values = allowed,
        aa_confirmation_required = ac_confirmation act, aa_preconditions = rl_guards r,
        aa_runtime_facts = []\<rparr>))"

definition available_runtime :: "string \<Rightarrow> runtime_action \<Rightarrow> available_action result" where
  "available_runtime ak act =
     andthen (tool_of ak) (\<lambda>tool. Inr
       \<lparr>aa_action = ak, aa_tool = tool, aa_option = None, aa_to = None,
        aa_required_fields = ra_required_inputs act,
        aa_required_task_fields = ra_required_task_fields act,
        aa_writable_fields = [], aa_allowed_values = [],
        aa_confirmation_required = ra_confirmation act, aa_preconditions = [],
        aa_runtime_facts = ra_produces act\<rparr>)"

definition available_task_actions :: "assignment \<Rightarrow> workflow \<Rightarrow> dict \<Rightarrow> available_action list result" where
  "available_task_actions a w task =
     (let status = text_of (dget task ''status'');
          lifecycle = concat (map (\<lambda>(ak, act).
            if ak = ''create'' then []
            else map (\<lambda>r. (ak, act, r))
              (filter (\<lambda>r. status \<in> set (rl_from r) \<and> rule_actor_allowed a w r (Some task)) (ac_rules act)))
            (wf_actions w));
          runtime = filter (\<lambda>(ak, act). status \<in> set (ra_states act) \<and> runtime_action_actor_allowed a w act task)
            (wf_runtime_actions w)
      in andthen (map_result (\<lambda>(ak, act, r). available_rule w task ak act r) lifecycle) (\<lambda>xs.
         andthen (map_result (\<lambda>(ak, act). available_runtime ak act) runtime) (\<lambda>ys.
           Inr (xs @ ys))))"

record contract_rule =
  cr_key :: string
  cr_from :: "string list"
  cr_to :: "string option"
  cr_required_fields :: "string list"
  cr_required_task_fields :: "string list"
  cr_writable_fields :: "string list"
  cr_allowed_values :: "(string \<times> string list) list"
  cr_confirmation_required :: bool
  cr_preconditions :: "string list"
  cr_option :: "string option"

record contract_action =
  ca_action :: string
  ca_tool :: string
  ca_options :: "contract_rule list"

record contract_runtime =
  ct_action :: string
  ct_tool :: string
  ct_states :: "string list"
  ct_required_fields :: "string list"
  ct_required_task_fields :: "string list"
  ct_confirmation_required :: bool
  ct_runtime_facts :: "string list"

record contract =
  cn_key :: string
  cn_coordinator_role :: string
  cn_initial_state :: string
  cn_terminal_states :: "string list"
  cn_completion_states :: "string list"
  cn_delivery :: constraints
  cn_states :: "state_def list"
  cn_actions :: "contract_action list"
  cn_runtime_actions :: "contract_runtime list"

text \<open>\<^verbatim>\<open>_contract_rule\<close> and \<^verbatim>\<open>_runtime_action_contract\<close>\<close>

definition contract_rule_of :: "workflow \<Rightarrow> string \<Rightarrow> action_def \<Rightarrow> rule \<Rightarrow> contract_rule result" where
  "contract_rule_of w ak act r =
     andthen (rule_allowed_values w r) (\<lambda>allowed. Inr
       \<lparr>cr_key = rl_key r, cr_from = rl_from r, cr_to = rl_to r, cr_required_fields = rl_required_inputs r,
        cr_required_task_fields = required_task_fields w r [], cr_writable_fields = rl_writable r,
        cr_allowed_values = allowed, cr_confirmation_required = ac_confirmation act,
        cr_preconditions = rl_guards r,
        cr_option = (if ak \<in> set VARIANT_ACTIONS then Some (rl_key r) else None)\<rparr>)"

definition contract_runtime_of :: "string \<Rightarrow> runtime_action \<Rightarrow> contract_runtime result" where
  "contract_runtime_of ak act =
     andthen (tool_of ak) (\<lambda>tool. Inr
       \<lparr>ct_action = ak, ct_tool = tool, ct_states = ra_states act, ct_required_fields = ra_required_inputs act,
        ct_required_task_fields = ra_required_task_fields act,
        ct_confirmation_required = ra_confirmation act, ct_runtime_facts = ra_produces act\<rparr>)"

definition contract_action_of ::
  "assignment \<Rightarrow> workflow \<Rightarrow> string \<times> action_def \<Rightarrow> contract_action list result" where
  "contract_action_of a w = (\<lambda>(ak, act).
     andthen (map_result (contract_rule_of w ak act) (filter (rule_role_applicable a w) (ac_rules act))) (\<lambda>options.
       if options = [] then Inr []
       else andthen (tool_of ak) (\<lambda>tool. Inr [\<lparr>ca_action = ak, ca_tool = tool, ca_options = options\<rparr>])))"

definition workflow_contract :: "settings_file \<Rightarrow> assignment \<Rightarrow> workflow \<Rightarrow> contract result" where
  "workflow_contract settings a w =
     andthen (map_result (contract_action_of a w) (wf_actions w)) (\<lambda>actions.
     andthen (delivery_constraints settings w) (\<lambda>delivery.
     andthen (map_result (\<lambda>(ak, act). contract_runtime_of ak act)
         (filter (\<lambda>(ak, act). runtime_action_role_applicable a w act) (wf_runtime_actions w))) (\<lambda>runtime. Inr
       \<lparr>cn_key = wf_key w, cn_coordinator_role = wf_coordinator_role w, cn_initial_state = wf_initial_state w,
        cn_terminal_states = wf_terminal_states w, cn_completion_states = wf_completion_states w,
        cn_delivery = delivery, cn_states = wf_states w, cn_actions = concat actions,
        cn_runtime_actions = runtime\<rparr>)))"

section \<open>Facts the engine rests on\<close>

lemma rule_target_Some: "rule_target r = Some t \<Longrightarrow> rl_to r = Some t \<and> t \<noteq> []"
  by (auto simp: rule_target_def split: option.splits if_splits)

lemma actors_allowed_applicable:
  "actors_allowed a w actors roles task \<Longrightarrow> roles_applicable a w actors roles"
  by (auto simp: actors_allowed_def roles_applicable_def list_ex_iff elim!: actor_matches.elims)

text \<open>An action an agent may take now is one its contract lists: permission implies applicability.\<close>

lemma rule_actor_applicable: "rule_actor_allowed a w r task \<Longrightarrow> rule_role_applicable a w r"
  unfolding rule_actor_allowed_def rule_role_applicable_def by (rule actors_allowed_applicable)

lemma rule_allowed_values_ok:
  "ok (rule_allowed_values w r) \<longleftrightarrow>
     (\<forall>f \<in> set (rl_writable r). f \<in> set (dkeys (rl_field_values r)) \<longrightarrow> f \<in> set (dkeys (task_options w)))"
proof -
  have none: "ok (map_result g xs) \<longleftrightarrow> (\<forall>x \<in> set xs. ok (g x))" for g :: "string \<Rightarrow> 'z result" and xs
    by (induction xs) (auto split: sum.splits)
  show ?thesis
    unfolding rule_allowed_values_def none by (auto split: option.splits simp: domIff)
qed

end
