(* ===== verification/Workflow_Responses.thy ===== *)
theory Workflow_Responses
  imports Workflow_Contract
begin

text \<open>
  \<^verbatim>\<open>core/workflow_responses.py\<close>: the structured answers of the action engine. A task card is a
  dictionary of field values; the prose of the messages is left out.
\<close>

record wf_error =
  we_category :: string
  we_code :: string
  we_retryable :: bool
  we_action :: string
  we_option :: "string option"
  we_record_id :: json
  we_task_id :: json
  we_state :: json
  we_details :: json
  we_available :: "available_action list"

definition sorted_set :: "string list \<Rightarrow> string list" where
  "sorted_set xs = sort (dedup xs)"

lemma set_sorted_set [simp]: "set (sorted_set xs) = set xs"
  by (simp add: sorted_set_def)

text \<open>
  \<^verbatim>\<open>workflow_error\<close>. An empty card is as good as none: both are false in Python.
\<close>

definition workflow_error ::
  "assignment \<Rightarrow> workflow \<Rightarrow> string \<Rightarrow> string option \<Rightarrow> dict option \<Rightarrow> string \<Rightarrow> string \<Rightarrow> json \<Rightarrow> bool \<Rightarrow> wf_error result" where
  "workflow_error a w ak variant task category code details retryable =
     (let t = (case task of None \<Rightarrow> [] | Some t \<Rightarrow> t) in
      andthen (if t = [] then Inr [] else available_task_actions a w t) (\<lambda>available. Inr
        \<lparr>we_category = category, we_code = code, we_retryable = retryable, we_action = ak, we_option = variant,
         we_record_id = dget t ''record_id'', we_task_id = dget t ''task_id'', we_state = dget t ''status'',
         we_details = details, we_available = available\<rparr>))"

definition input_error :: "assignment \<Rightarrow> workflow \<Rightarrow> string \<Rightarrow> string \<Rightarrow> json \<Rightarrow> wf_error result" where
  "input_error a w ak code details = workflow_error a w ak None None ''validation'' code details False"

definition changed_fields :: "dict \<Rightarrow> dict \<Rightarrow> string list" where
  "changed_fields expected current =
     sorted_set (filter (\<lambda>f. \<not> same_value (dget expected f) (dget current f)) (dkeys expected @ dkeys current))"

definition task_changed_error ::
  "assignment \<Rightarrow> workflow \<Rightarrow> string \<Rightarrow> string option \<Rightarrow> dict \<Rightarrow> dict \<Rightarrow> wf_error result" where
  "task_changed_error a w ak variant expected current =
     workflow_error a w ak variant (Some current) ''conflict'' ''task_changed''
       (JObj [(''changed_fields'', strs (changed_fields expected current)),
              (''expected_state'', dget expected ''status''),
              (''current_state'', dget current ''status'')]) True"

definition pending_fields :: "dict \<Rightarrow> dict \<Rightarrow> string list" where
  "pending_fields patch current =
     sorted_set (map fst (filter (\<lambda>(f, v). \<not> same_value (dget current f) v) patch))"

definition write_not_visible_error ::
  "assignment \<Rightarrow> workflow \<Rightarrow> string \<Rightarrow> string option \<Rightarrow> dict \<Rightarrow> dict \<Rightarrow> wf_error result" where
  "write_not_visible_error a w ak variant patch current =
     workflow_error a w ak variant (Some current) ''conflict'' ''write_not_visible''
       (JObj [(''pending_fields'', strs (pending_fields patch current)),
              (''expected_state'', dget patch ''status''),
              (''current_state'', dget current ''status'')]) True"

definition failure_value :: "failure \<Rightarrow> json" where
  "failure_value f = JObj [(''check'', JStr (fl_check f)), (''current'', fl_current f)]"

definition gate_value :: "gate_failure \<Rightarrow> json" where
  "gate_value g =
     JObj [(''failures'', JList (map failure_value (gf_failures g))),
           (''target_branch'', JStr (gf_target_branch g)),
           (''leftover_resources'', resources_value (gf_leftover g))]"

definition delivery_incomplete_error ::
  "assignment \<Rightarrow> workflow \<Rightarrow> string \<Rightarrow> string option \<Rightarrow> dict \<Rightarrow> gate_failure \<Rightarrow> wf_error result" where
  "delivery_incomplete_error a w ak variant task blocked =
     workflow_error a w ak variant (Some task) ''business_rule'' ''delivery_incomplete'' (gate_value blocked) True"

record success =
  sc_action :: string
  sc_tool :: string
  sc_option :: "string option"
  sc_already_applied :: bool
  sc_from :: json
  sc_to :: json
  sc_task :: dict
  sc_available :: "available_action list"

definition action_success ::
  "assignment \<Rightarrow> workflow \<Rightarrow> string \<Rightarrow> rule \<Rightarrow> dict option \<Rightarrow> dict \<Rightarrow> bool \<Rightarrow> success result" where
  "action_success a w ak r before task already_applied =
     andthen (tool_of ak) (\<lambda>tool. andthen (available_task_actions a w task) (\<lambda>available. Inr
       \<lparr>sc_action = ak, sc_tool = tool,
        sc_option = (if ak \<in> set VARIANT_ACTIONS then Some (rl_key r) else None),
        sc_already_applied = already_applied,
        sc_from = (case before of None \<Rightarrow> JNull | Some b \<Rightarrow> dget b ''status''),
        sc_to = dget task ''status'', sc_task = task, sc_available = available\<rparr>))"

lemma changed_fields_iff:
  "f \<in> set (changed_fields expected current) \<longleftrightarrow> \<not> same_value (dget expected f) (dget current f)"
proof -
  have "same_value JNull JNull" by (simp add: same_value_def)
  then have "\<not> same_value (dget expected f) (dget current f) \<Longrightarrow>
      f \<in> dom (map_of expected) \<union> dom (map_of current)"
    by (cases "map_of expected f"; cases "map_of current f") (auto simp: dget_None dget_Some)
  then show ?thesis by (auto simp: changed_fields_def)
qed

lemma workflow_error_code:
  "workflow_error a w ak variant task category code details retryable = Inr e \<Longrightarrow>
     we_code e = code \<and> we_category e = category \<and> we_retryable e = retryable \<and> we_details e = details"
  by (auto simp: workflow_error_def Let_def andthen_eq_Inr)

end
