(* ===== verification/Rule_Validation.thy ===== *)
theory Rule_Validation
  imports Workflow_Responses
begin

text \<open>
  \<^verbatim>\<open>core/workflow_rule_validation.py\<close>: whether one rule may be applied to a task with a payload,
  the patch it writes, and whether its effect is already there.
\<close>

section \<open>The patch of a rule\<close>

definition add_prefix :: "string \<times> string \<Rightarrow> dict \<Rightarrow> dict" where
  "add_prefix = (\<lambda>(f, prefix) patch.
     let v = dget patch f in
     if \<not> blank v \<and> \<not> starts_with (py_str v) prefix
     then AList.update f (JStr (prefix @ py_str v)) patch else patch)"

fun bind_actor_fields :: "assignment \<Rightarrow> (string \<times> string) list \<Rightarrow> dict \<Rightarrow> dict result" where
  "bind_actor_fields a [] patch = Inr patch"
| "bind_actor_fields a ((f, source) # rest) patch =
     (case map_of (assignment_fields a) source of
        None \<Rightarrow> Inl (KeyError source)
      | Some v \<Rightarrow> bind_actor_fields a rest (AList.update f v patch))"

definition clear_field :: "string \<Rightarrow> dict \<Rightarrow> dict" where
  "clear_field f patch = AList.update f JNull patch"

definition action_patch :: "assignment \<Rightarrow> rule \<Rightarrow> dict \<Rightarrow> dict result" where
  "action_patch a r payload =
     (let patch = AList.merge (AList.merge (rl_defaults r) payload) (rl_fixed_fields r);
          patch = fold add_prefix (rl_field_prefixes r) patch
      in andthen (bind_actor_fields a (rl_actor_fields r) patch) (\<lambda>patch.
           let patch = fold clear_field (rl_clear_fields r) patch
           in Inr (case rule_target r of None \<Rightarrow> patch | Some t \<Rightarrow> AList.update ''status'' (JStr t) patch)))"

section \<open>The checks of a rule\<close>

definition rule_values_allowed :: "rule \<Rightarrow> dict \<Rightarrow> bool" where
  "rule_values_allowed r payload \<longleftrightarrow>
     list_all (\<lambda>(f, vs). case map_of payload f of None \<Rightarrow> True | Some v \<Rightarrow> member_str v vs) (rl_field_values r)"

text \<open>
  \<^verbatim>\<open>value in allowed\<close> hashes the value, since \<^verbatim>\<open>allowed\<close> is a set: a list or an object raises.
\<close>

fun hashable :: "json \<Rightarrow> bool" where
  "hashable (JList _) = False"
| "hashable (JObj _) = False"
| "hashable _ = True"

fun invalid_options :: "(string \<times> string list) list \<Rightarrow> dict \<Rightarrow> dict result" where
  "invalid_options [] patch = Inr []"
| "invalid_options ((f, allowed) # rest) patch =
     (let v = dget patch f in
      if blank v then invalid_options rest patch
      else if \<not> hashable v then Inl TypeError
      else if member_str v allowed then invalid_options rest patch
      else andthen (invalid_options rest patch) (\<lambda>more. Inr
             ((f, JObj [(''received'', v), (''allowed'', strs (sorted_set allowed))]) # more)))"

definition invalid_option_values :: "workflow \<Rightarrow> dict \<Rightarrow> dict result" where
  "invalid_option_values w patch = invalid_options (task_options w) patch"

definition merge_values :: "(string \<times> string list) list \<Rightarrow> (string \<times> string list) list \<Rightarrow> (string \<times> string list) list" where
  "merge_values fvs merged = fold (\<lambda>(f, vs) m. AList.update f (assoc_list m f @ vs) m) fvs merged"

definition merged_allowed_values :: "rule list \<Rightarrow> (string \<times> string list) list" where
  "merged_allowed_values rules =
     map (\<lambda>(f, vs). (f, sorted_set vs)) (fold (\<lambda>r. merge_values (rl_field_values r)) rules [])"

definition values_json :: "(string \<times> string list) list \<Rightarrow> json" where
  "values_json xs = JObj (map (\<lambda>(f, vs). (f, strs vs)) xs)"

definition invalid_fields :: "rule \<Rightarrow> dict \<Rightarrow> string list" where
  "invalid_fields r payload =
     sorted_set (filter (\<lambda>f. f \<notin> set (rl_writable r) \<or> f \<in> set DELIVERY_MANAGED_FIELDS) (dkeys payload))"

definition missing_inputs :: "string list \<Rightarrow> dict \<Rightarrow> string list" where
  "missing_inputs names payload = filter (\<lambda>f. blank (dget payload f)) names"

definition task_dict :: "dict option \<Rightarrow> dict" where
  "task_dict task = (case task of None \<Rightarrow> [] | Some t \<Rightarrow> t)"

text \<open>\<^verbatim>\<open>validate_rule\<close>: the error to report, or \<open>None\<close> when the rule may be applied.\<close>

definition validate_rule ::
  "assignment \<Rightarrow> workflow \<Rightarrow> string \<Rightarrow> rule \<Rightarrow> dict option \<Rightarrow> dict \<Rightarrow> string list \<Rightarrow> wf_error option result" where
  "validate_rule a w ak r task payload facts =
     (let report = (\<lambda>category code details.
            andthen (workflow_error a w ak (Some (rl_key r)) task category code details False)
              (\<lambda>e. Inr (Some e)))
      in
      if \<not> rule_actor_allowed a w r task then report ''permission'' ''permission_denied'' (JObj [])
      else if invalid_fields r payload \<noteq> [] then
        report ''validation'' ''invalid_fields'' (JObj [(''invalid_fields'', strs (invalid_fields r payload))])
      else if missing_inputs (rl_required_inputs r) payload \<noteq> [] then
        report ''validation'' ''missing_fields''
          (JObj [(''missing_fields'', strs (missing_inputs (rl_required_inputs r) payload))])
      else if \<not> rule_values_allowed r payload then
        report ''validation'' ''invalid_value''
          (JObj [(''allowed_values'', values_json (merged_allowed_values [r]))])
      else andthen (action_patch a r payload) (\<lambda>patch.
        andthen (invalid_option_values w patch) (\<lambda>invalid.
        if invalid \<noteq> [] then report ''validation'' ''invalid_value'' (JObj [(''invalid_values'', JObj invalid)])
        else
          let merged = AList.merge (task_dict task) patch;
              missing = missing_inputs (required_task_fields w r merged) merged;
              missing_guards = filter (\<lambda>g. g \<notin> set facts) (rl_guards r)
          in
          if missing \<noteq> [] then
            report ''business_rule'' ''task_not_ready'' (JObj [(''missing_task_fields'', strs missing)])
          else if missing_guards \<noteq> [] then
            (if hd missing_guards \<notin> set WORKFLOW_GUARDS then Inl (KeyError (hd missing_guards))
             else report ''business_rule'' ''precondition_failed''
                    (JObj [(''missing_preconditions'', strs missing_guards)]))
          else Inr None)))"

section \<open>An effect that is already there\<close>

definition values_present :: "dict \<Rightarrow> dict \<Rightarrow> bool" where
  "values_present task expected \<longleftrightarrow> list_all (\<lambda>(f, v). same_value (dget task f) v) expected"

definition only_writable :: "rule \<Rightarrow> dict \<Rightarrow> bool" where
  "only_writable r payload \<longleftrightarrow> list_all (\<lambda>f. f \<in> set (rl_writable r)) (dkeys payload)"

fun applied_transition :: "assignment \<Rightarrow> workflow \<Rightarrow> rule list \<Rightarrow> dict \<Rightarrow> dict \<Rightarrow> rule option result" where
  "applied_transition a w [] task payload = Inr None"
| "applied_transition a w (r # rs) task payload =
     (if rule_target r = None \<or> Some (dget task ''status'') \<noteq> map_option JStr (rule_target r) \<or>
         \<not> rule_actor_allowed a w r (Some task) \<or> \<not> only_writable r payload \<or>
         \<not> rule_values_allowed r payload
      then applied_transition a w rs task payload
      else andthen (action_patch a r payload) (\<lambda>expected.
        if values_present task expected then Inr (Some r) else applied_transition a w rs task payload))"

definition matching_applied_rule ::
  "assignment \<Rightarrow> workflow \<Rightarrow> rule list \<Rightarrow> dict \<Rightarrow> dict \<Rightarrow> rule option result" where
  "matching_applied_rule a w rules task payload =
     andthen (applied_transition a w rules task payload) (\<lambda>found.
       case found of
         Some r \<Rightarrow> Inr (Some r)
       | None \<Rightarrow>
           Inr (if rules \<noteq> [] \<and> list_all (\<lambda>r. rl_to r = None) rules
                then List.find (\<lambda>r. rule_actor_allowed a w r (Some task) \<and> only_writable r payload \<and>
                                   values_present task payload) rules
                else None))"

section \<open>What a patch holds\<close>

text \<open>A dictionary only ever gains keys by an update, and the key just written is there.\<close>

lemma dom_update [dict_simps]: "dom (map_of (AList.update k v d)) = insert k (dom (map_of d))"
  by (simp add: update_conv' dom_def) auto

lemma dom_merge [dict_simps]: "dom (map_of (AList.merge a b)) = dom (map_of a) \<union> dom (map_of b)"
  by (auto simp: merge_conv')

lemma nonblank_key: "\<not> blank (dget d f) \<Longrightarrow> f \<in> dom (map_of d)"
  by (auto simp: dget_def split: option.splits)

lemma dom_prefixes: "dom (map_of (fold add_prefix ps d)) = dom (map_of d)"
proof (induction ps arbitrary: d)
  case (Cons p ps)
  have "dom (map_of (add_prefix p d)) = dom (map_of d)"
    using nonblank_key by (cases p) (auto simp: add_prefix_def Let_def dom_update)
  then show ?case using Cons by simp
qed simp

lemma dom_clear: "dom (map_of (fold clear_field fs d)) = dom (map_of d) \<union> set fs"
  by (induction fs arbitrary: d) (auto simp: clear_field_def dom_update)

lemma dget_clear: "dget (fold clear_field fs d) f = (if f \<in> set fs then JNull else dget d f)"
  by (induction fs arbitrary: d) (auto simp: clear_field_def dget_update)

lemma dom_bind:
  "bind_actor_fields a bs d = Inr d' \<Longrightarrow> dom (map_of d') = dom (map_of d) \<union> fst ` set bs"
  by (induction a bs d rule: bind_actor_fields.induct) (auto simp: dom_update split: option.splits)

lemma bind_ok:
  "ok (bind_actor_fields a bs d) \<longleftrightarrow> (\<forall>(f, source) \<in> set bs. source \<in> dom (map_of (assignment_fields a)))"
  by (induction a bs d rule: bind_actor_fields.induct) (auto split: option.splits)

lemma bind_other:
  "bind_actor_fields a bs d = Inr d' \<Longrightarrow> f \<notin> fst ` set bs \<Longrightarrow> dget d' f = dget d f"
  by (induction a bs d rule: bind_actor_fields.induct) (auto simp: dget_update split: option.splits)

lemma bind_bound:
  assumes "bind_actor_fields a bs d = Inr d'"
    and "(f, source) \<in> set bs" and "\<forall>(g, s) \<in> set bs. g = f \<longrightarrow> s = source"
  shows "Some (dget d' f) = map_of (assignment_fields a) source"
  using assms
proof (induction a bs d rule: bind_actor_fields.induct)
  case (2 a g s rest d)
  then obtain v where v: "map_of (assignment_fields a) s = Some v"
    and rest: "bind_actor_fields a rest (AList.update g v d) = Inr d'" by (auto split: option.splits)
  show ?case
  proof (cases "f \<in> fst ` set rest")
    case True
    then obtain s' where "(f, s') \<in> set rest" by auto
    moreover have "s' = source" using 2(4) \<open>(f, s') \<in> set rest\<close> by auto
    ultimately show ?thesis using 2(1)[OF v] 2(4) rest by auto
  next
    case False
    then have "g = f" "s = source" using 2(3,4) by force+
    then show ?thesis using bind_other[OF rest False] v by (simp add: dget_update)
  qed
qed simp

definition patch_keys :: "rule \<Rightarrow> dict \<Rightarrow> string set" where
  "patch_keys r payload =
     set (dkeys (rl_defaults r)) \<union> set (dkeys payload) \<union> set (dkeys (rl_fixed_fields r)) \<union>
     fst ` set (rl_actor_fields r) \<union> set (rl_clear_fields r) \<union>
     (if rule_target r = None then {} else {''status''})"

lemma action_patch_steps:
  assumes "action_patch a r payload = Inr p"
  obtains d d' where "d = fold add_prefix (rl_field_prefixes r)
      (AList.merge (AList.merge (rl_defaults r) payload) (rl_fixed_fields r))"
    and "bind_actor_fields a (rl_actor_fields r) d = Inr d'"
    and "p = (case rule_target r of None \<Rightarrow> fold clear_field (rl_clear_fields r) d'
              | Some t \<Rightarrow> AList.update ''status'' (JStr t) (fold clear_field (rl_clear_fields r) d'))"
  using assms by (auto simp: action_patch_def Let_def andthen_eq_Inr)

lemma dom_action_patch:
  assumes "action_patch a r payload = Inr p"
  shows "dom (map_of p) = patch_keys r payload"
proof -
  from assms obtain d d' where d: "d = fold add_prefix (rl_field_prefixes r)
        (AList.merge (AList.merge (rl_defaults r) payload) (rl_fixed_fields r))"
    and bind: "bind_actor_fields a (rl_actor_fields r) d = Inr d'"
    and p: "p = (case rule_target r of None \<Rightarrow> fold clear_field (rl_clear_fields r) d'
              | Some t \<Rightarrow> AList.update ''status'' (JStr t) (fold clear_field (rl_clear_fields r) d'))"
    by (rule action_patch_steps)
  have "dom (map_of d) = dom (map_of (rl_defaults r)) \<union> dom (map_of payload) \<union> dom (map_of (rl_fixed_fields r))"
    unfolding d dom_prefixes dom_merge ..
  then show ?thesis
    unfolding p patch_keys_def set_dkeys by (cases "rule_target r") (simp_all add: dom_update dom_clear dom_bind[OF bind])
qed

lemma action_patch_status:
  "action_patch a r payload = Inr p \<Longrightarrow> rule_target r = Some t \<Longrightarrow> dget p ''status'' = JStr t"
  by (auto simp: action_patch_def Let_def andthen_eq_Inr dget_update)

lemma action_patch_cleared:
  "action_patch a r payload = Inr p \<Longrightarrow> f \<in> set (rl_clear_fields r) \<Longrightarrow> f \<noteq> ''status'' \<Longrightarrow> dget p f = JNull"
  by (auto simp: action_patch_def Let_def andthen_eq_Inr dget_update dget_clear split: option.splits)

lemma wf_actor_source:
  "wf_rule_fields r \<Longrightarrow> (f, source) \<in> set (rl_actor_fields r) \<Longrightarrow>
     f = ''agent'' \<and> source = ''agent_name'' \<or> f = ''agent_id'' \<and> source = ''agent_id''"
  by (auto simp: wf_rule_fields_def ACTOR_FIELD_BINDINGS_def)

lemma action_patch_total: "wf_rule_fields r \<Longrightarrow> ok (action_patch a r payload)"
proof -
  assume wf: "wf_rule_fields r"
  have "\<forall>(f, source) \<in> set (rl_actor_fields r). source \<in> dom (map_of (assignment_fields a))"
    using wf_actor_source[OF wf] by (fastforce simp: assignment_fields_def)
  then show ?thesis by (simp add: action_patch_def Let_def ok_andthen bind_ok[unfolded ok_def])
qed

text \<open>
  The executor recorded by a rule is the caller: when a rule binds \<^verbatim>\<open>agent_id\<close>, the patch holds the
  caller's own id.
\<close>

lemma action_patch_agent:
  assumes wf: "wf_rule_fields r" and p: "action_patch a r payload = Inr p"
    and b: "(''agent_id'', source) \<in> set (rl_actor_fields r)" and c: "''agent_id'' \<notin> set (rl_clear_fields r)"
  shows "dget p ''agent_id'' = JStr (as_agent_id a)"
proof -
  from b have source: "source = ''agent_id''" using wf_actor_source[OF wf] by auto
  from p obtain d d' where bind: "bind_actor_fields a (rl_actor_fields r) d = Inr d'"
    and p: "p = (case rule_target r of None \<Rightarrow> fold clear_field (rl_clear_fields r) d'
                 | Some t \<Rightarrow> AList.update ''status'' (JStr t) (fold clear_field (rl_clear_fields r) d'))"
    by (rule action_patch_steps)
  have "Some (dget d' ''agent_id'') = map_of (assignment_fields a) ''agent_id''"
    using wf_actor_source[OF wf] b unfolding source by (intro bind_bound[OF bind b[unfolded source]]) blast
  then have "dget d' ''agent_id'' = JStr (as_agent_id a)" by (simp add: assignment_fields_def)
  then show ?thesis using c by (simp add: p dget_update dget_clear split: option.splits)
qed

lemma patch_keys_wf:
  assumes "wf_rule_fields r" and "set (dkeys payload) \<subseteq> set (rl_writable r)"
  shows "patch_keys r payload \<inter> set (''task_id'' # DELIVERY_MANAGED_FIELDS) = {}"
    and "rule_target r = None \<Longrightarrow> ''status'' \<notin> patch_keys r payload"
proof -
  have keys: "f \<in> set DIRECTLY_WRITABLE_FIELDS \<union> set CLEARABLE_FIELDS \<union> {''agent'', ''agent_id''} \<or>
      f = ''status'' \<and> rule_target r \<noteq> None" if "f \<in> patch_keys r payload" for f
    using assms that unfolding patch_keys_def wf_rule_fields_def
    by (auto simp: ACTOR_FIELD_BINDINGS_def split: if_splits)
  show "patch_keys r payload \<inter> set (''task_id'' # DELIVERY_MANAGED_FIELDS) = {}"
    using keys directly_writable_not_managed clearable_not_managed
    by (fastforce simp: DELIVERY_MANAGED_FIELDS_def)
  show "rule_target r = None \<Longrightarrow> ''status'' \<notin> patch_keys r payload"
    using keys directly_writable_not_managed clearable_not_managed by blast
qed

section \<open>What an accepted rule guarantees\<close>

lemma invalid_fields_none:
  "invalid_fields r payload = [] \<longleftrightarrow>
     set (dkeys payload) \<subseteq> set (rl_writable r) \<and> set (dkeys payload) \<inter> set DELIVERY_MANAGED_FIELDS = {}"
proof -
  have "invalid_fields r payload = [] \<longleftrightarrow> set (invalid_fields r payload) = {}" by simp
  also have "\<dots> \<longleftrightarrow> set (dkeys payload) \<subseteq> set (rl_writable r) \<and> set (dkeys payload) \<inter> set DELIVERY_MANAGED_FIELDS = {}"
    unfolding invalid_fields_def set_sorted_set by auto
  finally show ?thesis .
qed

lemma missing_inputs_none: "missing_inputs fs d = [] \<longleftrightarrow> (\<forall>f \<in> set fs. \<not> blank (dget d f))"
  by (auto simp: missing_inputs_def filter_empty_conv)

lemma invalid_options_none:
  "invalid_options opts patch = Inr [] \<longleftrightarrow>
     (\<forall>(f, allowed) \<in> set opts. blank (dget patch f) \<or> member_str (dget patch f) allowed)"
proof (induction opts patch rule: invalid_options.induct)
  case (2 f allowed rest patch)
  have "member_str (dget patch f) allowed \<Longrightarrow> hashable (dget patch f)"
    by (auto simp: member_str_iff)
  then show ?case using 2 by (auto simp: Let_def andthen_eq_Inr)
qed simp

definition rule_accepts ::
  "assignment \<Rightarrow> workflow \<Rightarrow> rule \<Rightarrow> dict option \<Rightarrow> dict \<Rightarrow> string list \<Rightarrow> dict \<Rightarrow> bool" where
  "rule_accepts a w r task payload facts patch \<longleftrightarrow>
     rule_actor_allowed a w r task \<and>
     set (dkeys payload) \<subseteq> set (rl_writable r) \<and> set (dkeys payload) \<inter> set DELIVERY_MANAGED_FIELDS = {} \<and>
     (\<forall>f \<in> set (rl_required_inputs r). \<not> blank (dget payload f)) \<and>
     rule_values_allowed r payload \<and>
     action_patch a r payload = Inr patch \<and>
     (\<forall>(f, allowed) \<in> set (task_options w). blank (dget patch f) \<or> member_str (dget patch f) allowed) \<and>
     (let merged = AList.merge (task_dict task) patch
      in \<forall>f \<in> set (required_task_fields w r merged). \<not> blank (dget merged f)) \<and>
     set (rl_guards r) \<subseteq> set facts"

text \<open>The sequence of checks accepts exactly the rules that satisfy the specification above.\<close>

lemma report_not_None:
  "andthen (workflow_error a w ak v t c d e b) (\<lambda>x. Inr (Some x)) \<noteq> Inr None"
  by (auto simp: andthen_eq_Inr)

lemma validate_rule_None:
  "validate_rule a w ak r task payload facts = Inr None \<longleftrightarrow>
     (\<exists>patch. rule_accepts a w r task payload facts patch)"
proof -
  have guards: "filter (\<lambda>g. g \<notin> set facts) gs = [] \<longleftrightarrow> set gs \<subseteq> set facts" for gs :: "string list"
    by (auto simp: filter_empty_conv)
  show ?thesis
    unfolding validate_rule_def rule_accepts_def Let_def invalid_option_values_def
    using report_not_None
    by (auto simp: andthen_eq_Inr invalid_fields_none missing_inputs_none invalid_options_none guards
        split: if_splits)
qed

end
