(* ===== verification/Workflow_Lifecycle.thy ===== *)
theory Workflow_Lifecycle
  imports Rule_Validation
begin

text \<open>
  \<^verbatim>\<open>core/workflow_lifecycle.py\<close> and \<^verbatim>\<open>core/workflow_runtime.py\<close>: the action engine. It picks the
  rule of an action that fits the task, the agent and the payload, and prepares the patch to write,
  or rejects the action with a structured error. \<open>defs\<close> are the installed definitions.
\<close>

record prepared =
  pr_definition :: workflow
  pr_rule :: rule
  pr_patch :: dict
  pr_already_applied :: bool

datatype outcome = Rejected wf_error | Prepared prepared

definition rejected :: "wf_error result \<Rightarrow> outcome result" where
  "rejected r = andthen r (\<lambda>e. Inr (Rejected e))"

definition provided_fields :: "dict \<Rightarrow> dict" where
  "provided_fields given = filter (\<lambda>(k, v). v \<noteq> JNull \<and> v \<noteq> JStr []) given"

definition normalize_record_id :: "json \<Rightarrow> string result" where
  "normalize_record_id v =
     (let s = strip (text_of v)
      in andthen (ensure (s \<noteq> []) ''record_id is required'') (\<lambda>_. Inr s))"

text \<open>The default role of a task type fills in for a role that was not given.\<close>

definition default_role :: "workflow \<Rightarrow> dict \<Rightarrow> dict" where
  "default_role w payload =
     (if \<not> truthy (dget payload ''role'') \<and> truthy (dget payload ''type'') then
        (case List.find (\<lambda>(k, d). JStr k = dget payload ''type'') (wf_task_types w) of
           None \<Rightarrow> payload
         | Some (_, d) \<Rightarrow> AList.update ''role'' (JStr d) payload)
      else payload)"

definition lifecycle_action :: "workflow \<Rightarrow> string \<Rightarrow> action_def result" where
  "lifecycle_action w ak =
     (case map_of (wf_actions w) ak of None \<Rightarrow> Inl (KeyError ak) | Some act \<Rightarrow> Inr act)"

definition prepare_create_action ::
  "(string \<times> workflow) list \<Rightarrow> assignment \<Rightarrow> dict \<Rightarrow> outcome result" where
  "prepare_create_action defs a payload0 =
     andthen (workflow_definition_for_assignment defs a) (\<lambda>w.
     let payload = default_role w (provided_fields payload0) in
     andthen (lifecycle_action w ''create'') (\<lambda>act.
     case ac_rules act of
       [] \<Rightarrow> Inl IndexError
     | r # _ \<Rightarrow>
         andthen (validate_rule a w ''create'' r None payload []) (\<lambda>err.
           case err of
             Some e \<Rightarrow> Inr (Rejected e)
           | None \<Rightarrow> andthen (action_patch a r payload) (\<lambda>patch.
               Inr (Prepared \<lparr>pr_definition = w, pr_rule = r, pr_patch = patch, pr_already_applied = False\<rparr>)))))"

section \<open>Choosing a rule\<close>

definition source_rules :: "dict \<Rightarrow> rule list \<Rightarrow> rule list" where
  "source_rules task rules = filter (\<lambda>r. member_str (dget task ''status'') (rl_from r)) rules"

definition actor_rules :: "assignment \<Rightarrow> workflow \<Rightarrow> dict \<Rightarrow> rule list \<Rightarrow> rule list" where
  "actor_rules a w task rules = filter (\<lambda>r. rule_actor_allowed a w r (Some task)) rules"

definition writable_rules :: "dict \<Rightarrow> rule list \<Rightarrow> rule list" where
  "writable_rules payload rules = filter (\<lambda>r. only_writable r payload) rules"

definition value_rules :: "dict \<Rightarrow> rule list \<Rightarrow> rule list" where
  "value_rules payload rules = filter (\<lambda>r. rule_values_allowed r payload) rules"

text \<open>What \<^verbatim>\<open>prepare_existing_action\<close> does with the rules of the requested variant.\<close>

definition select_rule ::
  "assignment \<Rightarrow> workflow \<Rightarrow> string \<Rightarrow> string option \<Rightarrow> dict \<Rightarrow> dict \<Rightarrow> string list \<Rightarrow> rule list \<Rightarrow> outcome result" where
  "select_rule a w ak variant task payload facts rules =
     (let report = (\<lambda>category code details.
            rejected (workflow_error a w ak variant (Some task) category code details False));
          sources = source_rules task rules;
          actors = actor_rules a w task sources;
          writable = writable_rules payload actors;
          fitting = value_rules payload writable;
          allowed_fields = sorted_set (concat (map rl_writable actors))
      in
      if sources = [] then
        report ''business_rule'' ''invalid_state''
          (JObj [(''allowed_from'', strs (sorted_set (concat (map rl_from rules))))])
      else if actors = [] then
        report ''permission'' ''permission_denied''
          (JObj [(''agent_role'', JStr (as_role_key a)), (''task_role'', dget task ''role''),
                 (''task_agent_id'', dget task ''agent_id'')])
      else if writable = [] then
        report ''validation'' ''invalid_fields''
          (JObj [(''invalid_fields'', strs (sorted_set (filter (\<lambda>f. f \<notin> set allowed_fields) (dkeys payload)))),
                 (''allowed_fields'', strs allowed_fields)])
      else if fitting = [] then
        report ''validation'' ''invalid_value''
          (JObj [(''allowed_values'', values_json (merged_allowed_values writable))])
      else
        let r = hd fitting in
        andthen (validate_rule a w ak r (Some task) payload facts) (\<lambda>err.
          case err of
            Some e \<Rightarrow> Inr (Rejected e)
          | None \<Rightarrow> andthen (action_patch a r payload) (\<lambda>patch.
              Inr (Prepared \<lparr>pr_definition = w, pr_rule = r, pr_patch = patch, pr_already_applied = False\<rparr>))))"

definition variant_rules :: "string option \<Rightarrow> rule list \<Rightarrow> rule list" where
  "variant_rules variant rules =
     (case variant of None \<Rightarrow> rules | Some v \<Rightarrow> filter (\<lambda>r. rl_key r = v) rules)"

definition prepare_existing_action ::
  "(string \<times> workflow) list \<Rightarrow> assignment \<Rightarrow> string \<Rightarrow> dict \<Rightarrow> dict \<Rightarrow> string option \<Rightarrow> bool \<Rightarrow> string list \<Rightarrow>
   outcome result" where
  "prepare_existing_action defs a ak task payload variant confirmed facts =
     andthen (workflow_definition_for_assignment defs a) (\<lambda>w.
     andthen (lifecycle_action w ak) (\<lambda>act.
     let report = (\<lambda>category code details.
           rejected (workflow_error a w ak variant (Some task) category code details False));
         rules = variant_rules variant (ac_rules act)
     in
     if ac_confirmation act \<and> \<not> confirmed then
       report ''business_rule'' ''confirmation_required'' (JObj [(''required'', strs [''confirmed''])])
     else if variant \<noteq> None \<and> rules = [] then
       report ''validation'' ''invalid_option''
         (JObj [(''allowed_options'', strs (map rl_key (actor_rules a w task (source_rules task (ac_rules act)))))])
     else
       andthen (matching_applied_rule a w rules task payload) (\<lambda>applied.
         case applied of
           Some r \<Rightarrow> Inr (Prepared \<lparr>pr_definition = w, pr_rule = r, pr_patch = [], pr_already_applied = True\<rparr>)
         | None \<Rightarrow> select_rule a w ak variant task payload facts rules)))"

section \<open>Runtime actions\<close>

record runtime_prepared =
  rp_action :: string
  rp_tool :: string
  rp_task :: dict
  rp_facts :: "string list"

datatype runtime_outcome = Runtime_Rejected wf_error | Runtime_Prepared runtime_prepared

definition prepare_runtime_action ::
  "(string \<times> workflow) list \<Rightarrow> assignment \<Rightarrow> string \<Rightarrow> dict \<Rightarrow> dict \<Rightarrow> bool \<Rightarrow> runtime_outcome result" where
  "prepare_runtime_action defs a ak task payload confirmed =
     andthen (workflow_definition_for_assignment defs a) (\<lambda>w.
     let report = (\<lambda>category code details.
           andthen (workflow_error a w ak None (Some task) category code details False)
             (\<lambda>e. Inr (Runtime_Rejected e)))
     in
     case map_of (wf_runtime_actions w) ak of
       None \<Rightarrow> report ''validation'' ''unsupported_action'' (JObj [])
     | Some act \<Rightarrow>
         if ra_confirmation act \<and> \<not> confirmed then
           report ''business_rule'' ''confirmation_required'' (JObj [(''required'', strs [''confirmed''])])
         else if \<not> member_str (dget task ''status'') (ra_states act) then
           report ''business_rule'' ''invalid_state'' (JObj [(''allowed_states'', strs (ra_states act))])
         else if \<not> runtime_action_actor_allowed a w act task then
           report ''permission'' ''permission_denied'' (JObj [])
         else if missing_inputs (ra_required_inputs act) payload \<noteq> [] then
           report ''validation'' ''missing_fields''
             (JObj [(''missing_fields'', strs (missing_inputs (ra_required_inputs act) payload))])
         else if missing_inputs (ra_required_task_fields act) task \<noteq> [] then
           report ''business_rule'' ''task_not_ready''
             (JObj [(''missing_task_fields'', strs (missing_inputs (ra_required_task_fields act) task))])
         else andthen (tool_of ak) (\<lambda>tool.
           Inr (Runtime_Prepared \<lparr>rp_action = ak, rp_tool = tool, rp_task = task, rp_facts = ra_produces act\<rparr>)))"

section \<open>What a prepared action has passed\<close>

lemma set_variant_rules:
  "set (variant_rules variant rules) = {r \<in> set rules. variant = None \<or> variant = Some (rl_key r)}"
  by (auto simp: variant_rules_def split: option.splits)

lemma rejected_not_Prepared [simp]: "rejected r \<noteq> Inr (Prepared p)"
  by (auto simp: rejected_def andthen_eq_Inr)

lemma applied_transition_Some:
  "applied_transition a w rules task payload = Inr (Some r) \<Longrightarrow>
     r \<in> set rules \<and> (\<exists>t. rule_target r = Some t \<and> dget task ''status'' = JStr t) \<and>
     rule_actor_allowed a w r (Some task) \<and> only_writable r payload \<and>
     (\<exists>p. action_patch a r payload = Inr p \<and> values_present task p)"
  by (induction rules)
     (auto simp: andthen_eq_Inr split: if_splits)

lemma matching_applied_rule_Some:
  "matching_applied_rule a w rules task payload = Inr (Some r) \<Longrightarrow>
     r \<in> set rules \<and> rule_actor_allowed a w r (Some task) \<and> only_writable r payload"
  by (auto simp: matching_applied_rule_def andthen_eq_Inr split: option.splits if_splits
      dest!: applied_transition_Some find_SomeD)

lemma select_rule_Prepared:
  assumes "select_rule a w ak variant task payload facts rules = Inr (Prepared p)"
  shows "pr_rule p \<in> set rules" and "pr_definition p = w" and "\<not> pr_already_applied p"
    and "member_str (dget task ''status'') (rl_from (pr_rule p))"
    and "rule_accepts a w (pr_rule p) (Some task) payload facts (pr_patch p)"
proof -
  define fitting where
    "fitting = value_rules payload (writable_rules payload (actor_rules a w task (source_rules task rules)))"
  from assms have ne: "fitting \<noteq> []"
    and acc: "validate_rule a w ak (hd fitting) (Some task) payload facts = Inr None"
    and patch: "action_patch a (hd fitting) payload = Inr (pr_patch p)"
    and p: "pr_rule p = hd fitting" "pr_definition p = w" "\<not> pr_already_applied p"
    unfolding select_rule_def fitting_def[symmetric] Let_def
    by (auto simp: andthen_eq_Inr split: if_splits option.splits)
  have "hd fitting \<in> set fitting" using ne by simp
  then show "pr_rule p \<in> set rules" "member_str (dget task ''status'') (rl_from (pr_rule p))"
    by (auto simp: p fitting_def value_rules_def writable_rules_def actor_rules_def source_rules_def)
  show "rule_accepts a w (pr_rule p) (Some task) payload facts (pr_patch p)"
    using acc patch p(1) by (auto simp: validate_rule_None rule_accepts_def)
qed (use assms in \<open>auto simp: select_rule_def Let_def andthen_eq_Inr split: if_splits option.splits\<close>)

lemma prepare_existing_Prepared:
  assumes "prepare_existing_action defs a ak task payload variant confirmed facts = Inr (Prepared p)"
  obtains act where "map_of defs (as_workflow_key a) = Some (pr_definition p)"
    and "map_of (wf_actions (pr_definition p)) ak = Some act"
    and "pr_rule p \<in> set (ac_rules act)" and "variant = None \<or> variant = Some (rl_key (pr_rule p))"
    and "ac_confirmation act \<longrightarrow> confirmed"
    and "pr_already_applied p \<and> pr_patch p = [] \<and>
           matching_applied_rule a (pr_definition p) (variant_rules variant (ac_rules act)) task payload = Inr (Some (pr_rule p)) \<or>
         \<not> pr_already_applied p \<and> member_str (dget task ''status'') (rl_from (pr_rule p)) \<and>
           rule_accepts a (pr_definition p) (pr_rule p) (Some task) payload facts (pr_patch p)"
proof -
  from assms obtain w act where w: "map_of defs (as_workflow_key a) = Some w"
    and act: "map_of (wf_actions w) ak = Some act" and conf: "ac_confirmation act \<longrightarrow> confirmed"
    and cases: "matching_applied_rule a w (variant_rules variant (ac_rules act)) task payload = Inr (Some (pr_rule p)) \<and>
         pr_definition p = w \<and> pr_already_applied p \<and> pr_patch p = [] \<or>
       select_rule a w ak variant task payload facts (variant_rules variant (ac_rules act)) = Inr (Prepared p)"
    unfolding prepare_existing_action_def workflow_definition_for_assignment_def lifecycle_action_def
    by (auto simp: andthen_eq_Inr Let_def split: option.splits if_splits)
  then have wp: "pr_definition p = w" using select_rule_Prepared(2) by blast
  have "pr_rule p \<in> set (variant_rules variant (ac_rules act))"
    using cases matching_applied_rule_Some select_rule_Prepared(1) by blast
  then have "pr_rule p \<in> set (ac_rules act)" "variant = None \<or> variant = Some (rl_key (pr_rule p))"
    by (simp_all add: set_variant_rules)
  moreover have "pr_already_applied p \<and> pr_patch p = [] \<and>
         matching_applied_rule a w (variant_rules variant (ac_rules act)) task payload = Inr (Some (pr_rule p)) \<or>
       \<not> pr_already_applied p \<and> member_str (dget task ''status'') (rl_from (pr_rule p)) \<and>
         rule_accepts a w (pr_rule p) (Some task) payload facts (pr_patch p)"
    using cases
  proof
    assume s: "select_rule a w ak variant task payload facts (variant_rules variant (ac_rules act)) = Inr (Prepared p)"
    show ?thesis using select_rule_Prepared(3-5)[OF s] by simp
  qed simp
  ultimately show thesis
    using that[of act] w act conf unfolding wp by blast
qed

lemma prepare_create_Prepared:
  assumes "prepare_create_action defs a payload = Inr (Prepared p)"
  obtains act where "map_of defs (as_workflow_key a) = Some (pr_definition p)"
    and "map_of (wf_actions (pr_definition p)) ''create'' = Some act"
    and "ac_rules act \<noteq> []" and "pr_rule p = hd (ac_rules act)"
    and "rule_accepts a (pr_definition p) (pr_rule p) None
           (default_role (pr_definition p) (provided_fields payload)) [] (pr_patch p)"
proof -
  from assms obtain w act where w: "map_of defs (as_workflow_key a) = Some w"
    and act: "map_of (wf_actions w) ''create'' = Some act" and ne: "ac_rules act \<noteq> []"
    and rest: "validate_rule a w ''create'' (hd (ac_rules act)) None (default_role w (provided_fields payload)) [] = Inr None"
      "action_patch a (hd (ac_rules act)) (default_role w (provided_fields payload)) = Inr (pr_patch p)"
      "pr_definition p = w" "pr_rule p = hd (ac_rules act)"
    unfolding prepare_create_action_def workflow_definition_for_assignment_def lifecycle_action_def Let_def
    by (auto simp: andthen_eq_Inr split: option.splits list.splits)
  then have "rule_accepts a w (hd (ac_rules act)) None (default_role w (provided_fields payload)) [] (pr_patch p)"
    by (auto simp: validate_rule_None rule_accepts_def)
  with that[of act] w act ne rest(3,4) show thesis by simp
qed

end
