(* ===== verification/Workflow_Totality.thy ===== *)
theory Workflow_Totality
  imports Workflow_Lifecycle
begin

text \<open>
  The engine answers: on a well-formed definition whose option fields are all reportable, preparing
  an action ends in a prepared action or a structured error, and never in an exception. Also: what
  the engine prepares is among the actions the agent was told about.
\<close>

section \<open>Reports do not raise\<close>

text \<open>
  A definition whose explicit value lists concern fields that have options. The validator does not
  ask for this; without it the reports of the engine raise.
\<close>

definition reportable :: "workflow \<Rightarrow> bool" where
  "reportable w \<longleftrightarrow>
     (\<forall>(ak, act) \<in> set (wf_actions w). \<forall>r \<in> set (ac_rules act).
        \<forall>f \<in> set (rl_writable r). f \<in> set (dkeys (rl_field_values r)) \<longrightarrow> f \<in> set (dkeys (task_options w))) \<and>
     (\<forall>(ak, act) \<in> set (wf_runtime_actions w). ak \<in> set (dkeys RUNTIME_ACTION_TO_TOOL))"

lemma ok_iff: "ok r \<longleftrightarrow> (\<exists>v. r = Inr v)"
  by (simp add: ok_def)

lemma ok_andthenI: "ok r \<Longrightarrow> (\<And>v. r = Inr v \<Longrightarrow> ok (f v)) \<Longrightarrow> ok (andthen r f)"
  by (auto simp: ok_def)

lemma ok_map_result: "ok (map_result f xs) \<longleftrightarrow> (\<forall>x \<in> set xs. ok (f x))"
  by (induction xs) (auto split: sum.splits)

lemma tool_of_ok: "ak \<in> set WORKFLOW_ACTION_KEYS \<union> set (dkeys RUNTIME_ACTION_TO_TOOL) \<Longrightarrow> ok (tool_of ak)"
  by (auto simp: WORKFLOW_ACTION_KEYS_def tool_of_def ACTION_TO_TOOL_def LIFECYCLE_ACTION_TO_TOOL_def
      RUNTIME_ACTION_TO_TOOL_def split: if_splits)

lemma wf_action_key: "wf_workflow w \<Longrightarrow> (ak, act) \<in> set (wf_actions w) \<Longrightarrow> ak \<in> set WORKFLOW_ACTION_KEYS"
proof -
  assume "wf_workflow w" and "(ak, act) \<in> set (wf_actions w)"
  then have "set (dkeys (wf_actions w)) = set WORKFLOW_ACTION_KEYS" and "ak \<in> set (dkeys (wf_actions w))"
    by (simp add: wf_workflow_def, force simp: dkeys_def simp del: set_dkeys)
  then show ?thesis by blast
qed

lemma available_ok:
  assumes "wf_workflow w" and rep: "reportable w"
  shows "ok (available_task_actions a w task)"
proof -
  have rule: "ok (available_rule w task ak act r)" if "(ak, act) \<in> set (wf_actions w)" "r \<in> set (ac_rules act)" for ak act r
  proof -
    have "ok (rule_allowed_values w r)"
      unfolding rule_allowed_values_ok using rep that unfolding reportable_def by blast
    moreover have "ok (tool_of ak)" using tool_of_ok wf_action_key[OF assms(1) that(1)] by blast
    ultimately show ?thesis by (auto simp: available_rule_def ok_iff)
  qed
  have runtime: "ok (available_runtime ak act)" if "(ak, act) \<in> set (wf_runtime_actions w)" for ak act
  proof -
    have "ok (tool_of ak)" using tool_of_ok rep that unfolding reportable_def by blast
    then show ?thesis by (auto simp: available_runtime_def ok_iff)
  qed
  define lifecycle where "lifecycle = concat (map (\<lambda>(ak, act).
            if ak = ''create'' then []
            else map (\<lambda>r. (ak, act, r))
              (filter (\<lambda>r. text_of (dget task ''status'') \<in> set (rl_from r) \<and> rule_actor_allowed a w r (Some task)) (ac_rules act)))
            (wf_actions w))"
  define actions where "actions = filter (\<lambda>(ak, act). text_of (dget task ''status'') \<in> set (ra_states act) \<and>
      runtime_action_actor_allowed a w act task) (wf_runtime_actions w)"
  have "ok (map_result (\<lambda>(ak, act, r). available_rule w task ak act r) lifecycle)"
    unfolding ok_map_result lifecycle_def using rule by (auto split: if_splits)
  moreover have "ok (map_result (\<lambda>(ak, act). available_runtime ak act) actions)"
    unfolding ok_map_result actions_def using runtime by auto
  ultimately show ?thesis
    unfolding available_task_actions_def Let_def lifecycle_def[symmetric] actions_def[symmetric]
    by (auto simp: ok_iff)
qed

lemma workflow_error_ok:
  "wf_workflow w \<Longrightarrow> reportable w \<Longrightarrow> ok (workflow_error a w ak variant task category code details retryable)"
  unfolding workflow_error_def Let_def using available_ok by (intro ok_andthenI) auto

lemma rejected_ok: "ok r \<Longrightarrow> ok (rejected r)"
  by (auto simp: rejected_def ok_iff)

section \<open>Values that can be checked\<close>

definition hashables :: "dict \<Rightarrow> bool" where
  "hashables d \<longleftrightarrow> (\<forall>f. hashable (dget d f))"

lemma hashables_update: "hashables d \<Longrightarrow> hashable v \<Longrightarrow> hashables (AList.update f v d)"
  by (simp add: hashables_def dget_update)

lemma hashables_merge: "hashables d \<Longrightarrow> hashables e \<Longrightarrow> hashables (AList.merge d e)"
  by (auto simp: hashables_def dget_merge dget_def split: option.splits)

lemma hashables_prefixes: "hashables d \<Longrightarrow> hashables (fold add_prefix ps d)"
  by (induction ps arbitrary: d) (auto simp: add_prefix_def Let_def hashables_update)

lemma hashables_clear: "hashables d \<Longrightarrow> hashables (fold clear_field fs d)"
  by (auto simp: hashables_def dget_clear)

lemma hashables_bind: "bind_actor_fields a bs d = Inr d' \<Longrightarrow> hashables d \<Longrightarrow> hashables d'"
proof (induction a bs d rule: bind_actor_fields.induct)
  case (2 a f source rest patch)
  then obtain v where v: "map_of (assignment_fields a) source = Some v" by (auto split: option.splits)
  then have "hashable v" by (auto simp: assignment_fields_def split: if_splits)
  then show ?case using 2 v by (auto intro: hashables_update)
qed simp

lemma hashables_patch:
  assumes "action_patch a r payload = Inr p"
    and "hashables (rl_defaults r)" "hashables payload" "hashables (rl_fixed_fields r)"
  shows "hashables p"
  using assms(1)
proof (rule action_patch_steps)
  fix d d'
  assume d: "d = fold add_prefix (rl_field_prefixes r) (AList.merge (AList.merge (rl_defaults r) payload) (rl_fixed_fields r))"
    and b: "bind_actor_fields a (rl_actor_fields r) d = Inr d'"
    and p: "p = (case rule_target r of None \<Rightarrow> fold clear_field (rl_clear_fields r) d'
              | Some t \<Rightarrow> AList.update ''status'' (JStr t) (fold clear_field (rl_clear_fields r) d'))"
  have "hashables d" unfolding d using assms(2-4) by (intro hashables_prefixes hashables_merge)
  then have "hashables (fold clear_field (rl_clear_fields r) d')" using hashables_bind[OF b] hashables_clear by blast
  then show ?thesis unfolding p by (auto intro: hashables_update split: option.splits)
qed

lemma invalid_options_ok: "hashables p \<Longrightarrow> ok (invalid_options opts p)"
  by (induction opts p rule: invalid_options.induct) (auto simp: Let_def ok_iff hashables_def)

definition hashable_rules :: "workflow \<Rightarrow> bool" where
  "hashable_rules w \<longleftrightarrow> (\<forall>(ak, act) \<in> set (wf_actions w). \<forall>r \<in> set (ac_rules act).
     list_all (\<lambda>(f, v). hashable v) (rl_defaults r) \<and> list_all (\<lambda>(f, v). hashable v) (rl_fixed_fields r))"

lemma hashables_list: "list_all (\<lambda>(f, v). hashable v) d \<Longrightarrow> hashables d"
  by (auto simp: hashables_def dget_def list_all_iff split: option.splits dest!: map_of_SomeD)

section \<open>The engine answers\<close>

lemma validate_rule_ok:
  assumes wf: "wf_workflow w" "reportable w" and r: "wf_rule_fields r"
    and h: "hashables (rl_defaults r)" "hashables payload" "hashables (rl_fixed_fields r)"
  shows "ok (validate_rule a w ak r task payload facts)"
proof -
  note report = workflow_error_ok[OF wf]
  have rep: "ok (andthen (workflow_error a w k v t c d e b) (\<lambda>x. Inr (Some x)))" for k v t c d e b
    using report[of a k v t c d e b] by (auto simp: ok_iff)
  obtain p where p: "action_patch a r payload = Inr p" using action_patch_total[OF r] by (auto simp: ok_iff)
  have "ok (invalid_option_values w p)"
    unfolding invalid_option_values_def using hashables_patch[OF p h] by (rule invalid_options_ok)
  then obtain i where i: "invalid_option_values w p = Inr i" by (auto simp: ok_iff)
  have guards: "gs = filter (\<lambda>g. g \<notin> set facts) (rl_guards r) \<Longrightarrow> gs \<noteq> [] \<Longrightarrow> hd gs \<in> set WORKFLOW_GUARDS" for gs
  proof -
    assume "gs = filter (\<lambda>g. g \<notin> set facts) (rl_guards r)" and "gs \<noteq> []"
    then have "hd gs \<in> set (rl_guards r)" using hd_in_set by fastforce
    then show "hd gs \<in> set WORKFLOW_GUARDS" using r by (auto simp: wf_rule_fields_def)
  qed
  show ?thesis
    unfolding validate_rule_def Let_def p using rep guards[OF refl] by (simp add: i)
qed

lemma select_rule_ok:
  assumes wf: "wf_workflow w" "reportable w"
    and rules: "\<forall>r \<in> set rules. wf_rule_fields r \<and> hashables (rl_defaults r) \<and> hashables (rl_fixed_fields r)"
    and payload: "hashables payload"
  shows "ok (select_rule a w ak variant task payload facts rules)"
proof -
  define fitting where
    "fitting = value_rules payload (writable_rules payload (actor_rules a w task (source_rules task rules)))"
  have rep: "ok (rejected (workflow_error a w ak variant (Some task) c d e False))" for c d e
    using workflow_error_ok[OF wf] by (rule rejected_ok)
  have r: "wf_rule_fields (hd fitting) \<and> hashables (rl_defaults (hd fitting)) \<and> hashables (rl_fixed_fields (hd fitting))"
    if "fitting \<noteq> []"
  proof -
    have "hd fitting \<in> set rules"
      using hd_in_set[OF that] by (auto simp: fitting_def value_rules_def writable_rules_def actor_rules_def source_rules_def)
    then show ?thesis using rules by blast
  qed
  have chosen: "ok (andthen (validate_rule a w ak (hd fitting) (Some task) payload facts) (\<lambda>err.
          case err of
            Some e \<Rightarrow> Inr (Rejected e)
          | None \<Rightarrow> andthen (action_patch a (hd fitting) payload) (\<lambda>patch.
              Inr (Prepared \<lparr>pr_definition = w, pr_rule = hd fitting, pr_patch = patch, pr_already_applied = False\<rparr>))))"
    if "fitting \<noteq> []"
    using validate_rule_ok[OF wf, of "hd fitting" payload a ak "Some task" facts] r[OF that] payload
      action_patch_total[of "hd fitting" a payload]
    by (auto simp: ok_iff split: option.splits)
  show ?thesis
    unfolding select_rule_def Let_def fitting_def[symmetric] using rep chosen by auto
qed

lemma applied_transition_ok:
  "\<forall>r \<in> set rules. wf_rule_fields r \<Longrightarrow> ok (applied_transition a w rules task payload)"
proof (induction rules)
  case (Cons r rules)
  then show ?case using action_patch_total[of r a payload] by (auto simp: ok_iff)
qed simp

lemma prepare_existing_ok:
  assumes w: "map_of defs (as_workflow_key a) = Some w" and wf: "wf_workflow w" "reportable w" "hashable_rules w"
    and ak: "ak \<in> set WORKFLOW_ACTION_KEYS" and payload: "hashables payload"
  shows "ok (prepare_existing_action defs a ak task payload variant confirmed facts)"
proof -
  have "ak \<in> set (dkeys (wf_actions w))" using wf(1) ak by (simp add: wf_workflow_def)
  then obtain act where act: "map_of (wf_actions w) ak = Some act" by auto
  let ?rules = "variant_rules variant (ac_rules act)"
  have fields: "\<forall>r \<in> set ?rules. wf_rule_fields r \<and> hashables (rl_defaults r) \<and> hashables (rl_fixed_fields r)"
    using wf_workflow_rule[OF wf(1), of _ ak] wf(3) map_of_SomeD[OF act] hashables_list
    unfolding hashable_rules_def set_variant_rules by (fastforce simp: wf_rule_def action_rules_def act)
  have rep: "ok (rejected (workflow_error a w ak variant (Some task) c d e False))" for c d e
    using workflow_error_ok[OF wf(1,2)] by (rule rejected_ok)
  have "ok (matching_applied_rule a w ?rules task payload)"
    using applied_transition_ok[of ?rules a w task payload] fields
    by (auto simp: matching_applied_rule_def ok_iff split: option.splits)
  then obtain m where m: "matching_applied_rule a w ?rules task payload = Inr m" by (auto simp: ok_iff)
  have s: "ok (select_rule a w ak variant task payload facts ?rules)"
    using wf(1,2) fields payload by (rule select_rule_ok)
  show ?thesis
    unfolding prepare_existing_action_def workflow_definition_for_assignment_def lifecycle_action_def w
    using rep s by (cases m) (auto simp: act m Let_def)
qed

section \<open>What is prepared was offered\<close>

lemma map_result_mem: "map_result f xs = Inr ys \<Longrightarrow> x \<in> set xs \<Longrightarrow> \<exists>y \<in> set ys. f x = Inr y"
  by (induction xs arbitrary: ys) (auto split: sum.splits)

lemma prepared_offered:
  assumes prep: "prepare_existing_action defs a ak task payload variant confirmed facts = Inr (Prepared p)"
    and new: "\<not> pr_already_applied p" and wf: "wf_workflow (pr_definition p)"
    and offered: "available_task_actions a (pr_definition p) task = Inr offers"
  shows "\<exists>x \<in> set offers. aa_action x = ak \<and> aa_to x = rl_to (pr_rule p) \<and>
     set (dkeys payload) \<subseteq> set (aa_writable_fields x) \<and>
     (\<forall>f \<in> set (aa_required_fields x). \<not> blank (dget payload f)) \<and> set (aa_preconditions x) \<subseteq> set facts \<and>
     (aa_confirmation_required x \<longrightarrow> confirmed)"
proof -
  let ?w = "pr_definition p" and ?r = "pr_rule p"
  from prep obtain act where act: "map_of (wf_actions ?w) ak = Some act" and r: "?r \<in> set (ac_rules act)"
    and conf: "ac_confirmation act \<longrightarrow> confirmed"
    and from_: "member_str (dget task ''status'') (rl_from ?r)"
    and acc: "rule_accepts a ?w ?r (Some task) payload facts (pr_patch p)"
    by (rule prepare_existing_Prepared) (use new in blast)
  have "wf_rule ?w ak ?r" using wf_workflow_rule[OF wf, of ?r ak] r by (simp add: action_rules_def act)
  then have "ak \<noteq> ''create''" using from_ by (auto simp: wf_rule_def wf_rule_shape_def member_str_iff)
  define lifecycle where "lifecycle = concat (map (\<lambda>(ak, act).
            if ak = ''create'' then []
            else map (\<lambda>r. (ak, act, r))
              (filter (\<lambda>r. text_of (dget task ''status'') \<in> set (rl_from r) \<and> rule_actor_allowed a ?w r (Some task)) (ac_rules act)))
            (wf_actions ?w))"
  from offered obtain xs where xs: "map_result (\<lambda>(ak, act, r). available_rule ?w task ak act r) lifecycle = Inr xs"
    and sub: "set xs \<subseteq> set offers"
    unfolding available_task_actions_def Let_def lifecycle_def[symmetric] by (auto simp: andthen_eq_Inr)
  have "text_of (dget task ''status'') \<in> set (rl_from ?r)" "rule_actor_allowed a ?w ?r (Some task)"
    using from_ acc by (auto simp: member_str_iff rule_accepts_def)
  then have "(ak, act, ?r) \<in> set lifecycle"
    unfolding lifecycle_def set_concat set_map
    using r \<open>ak \<noteq> ''create''\<close> by (intro UN_I[OF imageI[OF map_of_SomeD[OF act]]]) simp
  from map_result_mem[OF xs this] obtain x where x: "x \<in> set xs" "available_rule ?w task ak act ?r = Inr x" by auto
  then have eqs: "aa_action x = ak" "aa_to x = rl_to ?r" "aa_writable_fields x = rl_writable ?r"
      "aa_required_fields x = rl_required_inputs ?r" "aa_preconditions x = rl_guards ?r"
      "aa_confirmation_required x = ac_confirmation act"
    by (auto simp: available_rule_def andthen_eq_Inr)
  have passed: "set (dkeys payload) \<subseteq> set (rl_writable ?r)" "set (rl_guards ?r) \<subseteq> set facts"
    "\<forall>f \<in> set (rl_required_inputs ?r). \<not> blank (dget payload f)"
    using acc unfolding rule_accepts_def by blast+
  show ?thesis
    using passed conf x(1) sub by (intro bexI[of _ x]) (auto simp only: eqs)
qed

end
