(* ===== verification/Workflow_Engine.thy ===== *)
theory Workflow_Engine
  imports Workflow_Totality Demo_Workflow
begin

text \<open>
  The action engine as a state machine over task cards: a step is a prepared action whose patch is
  written to the card. Every step is a step of the definition's state graph, an abstract machine
  over state keys; what holds of every card an engine can produce follows by rule induction.
\<close>

section \<open>The abstract machine\<close>

inductive state_step :: "workflow \<Rightarrow> json \<Rightarrow> json \<Rightarrow> bool" for w where
  stay: "state_step w s s"
| move: "(f, t) \<in> set (workflow_edges w) \<Longrightarrow> state_step w (JStr f) (JStr t)"

section \<open>The concrete machine\<close>

inductive engine_step :: "(string \<times> workflow) list \<Rightarrow> workflow \<Rightarrow> dict \<Rightarrow> dict \<Rightarrow> bool" for defs w where
  prepared: "prepare_existing_action defs a ak task payload variant confirmed facts = Inr (Prepared p) \<Longrightarrow>
    pr_definition p = w \<Longrightarrow> engine_step defs w task (AList.merge task (pr_patch p))"

inductive_cases engine_stepE: "engine_step defs w task task'"

inductive engine_run :: "(string \<times> workflow) list \<Rightarrow> workflow \<Rightarrow> dict \<Rightarrow> dict \<Rightarrow> bool" for defs w where
  run_end: "engine_run defs w task task"
| run_step: "engine_step defs w task task' \<Longrightarrow> engine_run defs w task' task'' \<Longrightarrow> engine_run defs w task task''"

text \<open>The cards that the engine can produce, from the creation of a task on.\<close>

inductive engine_card :: "(string \<times> workflow) list \<Rightarrow> workflow \<Rightarrow> dict \<Rightarrow> bool" for defs w where
  created: "prepare_create_action defs a payload = Inr (Prepared p) \<Longrightarrow> pr_definition p = w \<Longrightarrow>
    engine_card defs w (pr_patch p)"
| stepped: "engine_card defs w task \<Longrightarrow> engine_step defs w task task' \<Longrightarrow> engine_card defs w task'"

section \<open>One step\<close>

lemma merge_Nil [simp]: "AList.merge task [] = task"
  by (simp add: AList.merge_def)

lemma dget_merge_other: "f \<notin> dom (map_of p) \<Longrightarrow> dget (AList.merge t p) f = dget t f"
  by (auto simp: dget_merge domIff)

lemma dget_merge_in: "f \<in> dom (map_of p) \<Longrightarrow> dget (AList.merge t p) f = dget p f"
  by (auto simp: dget_merge dget_def)

lemma wf_action_rule:
  "wf_workflow w \<Longrightarrow> map_of (wf_actions w) ak = Some act \<Longrightarrow> r \<in> set (ac_rules act) \<Longrightarrow> wf_rule w ak r"
  using wf_workflow_rule[of w r ak] by (simp add: action_rules_def)

text \<open>What a step that writes something is made of.\<close>

lemma engine_step_parts:
  assumes "engine_step defs w task task'" and wf: "wf_workflow w"
  obtains (same) "task' = task"
  | (applied) a ak act r payload facts p where
      "map_of (wf_actions w) ak = Some act" "r \<in> set (ac_rules act)" "wf_rule w ak r" "ak \<noteq> ''create''"
      "member_str (dget task ''status'') (rl_from r)"
      "rule_accepts a w r (Some task) payload facts p" "task' = AList.merge task p"
proof -
  from assms(1) obtain a ak payload variant confirmed facts p where
    prep: "prepare_existing_action defs a ak task payload variant confirmed facts = Inr (Prepared p)"
    and w: "pr_definition p = w" and t': "task' = AList.merge task (pr_patch p)" by (auto elim: engine_stepE)
  from prep obtain act where act: "map_of (wf_actions w) ak = Some act" and r: "pr_rule p \<in> set (ac_rules act)"
    and how: "pr_already_applied p \<and> pr_patch p = [] \<or>
       \<not> pr_already_applied p \<and> member_str (dget task ''status'') (rl_from (pr_rule p)) \<and>
       rule_accepts a w (pr_rule p) (Some task) payload facts (pr_patch p)"
    by (rule prepare_existing_Prepared) (auto simp: w)
  have rule: "wf_rule w ak (pr_rule p)" using wf act r by (rule wf_action_rule)
  from how show thesis
  proof
    assume "pr_already_applied p \<and> pr_patch p = []"
    with t' same show thesis by simp
  next
    assume acc: "\<not> pr_already_applied p \<and> member_str (dget task ''status'') (rl_from (pr_rule p)) \<and>
       rule_accepts a w (pr_rule p) (Some task) payload facts (pr_patch p)"
    have "ak \<noteq> ''create''"
      using rule acc by (auto simp: wf_rule_def wf_rule_shape_def member_str_iff)
    with act r rule acc t' applied show thesis by blast
  qed
qed

lemma accepted_patch_keys:
  assumes "wf_rule w ak r" and "rule_accepts a w r task payload facts p"
  shows "dom (map_of p) \<inter> set (''task_id'' # DELIVERY_MANAGED_FIELDS) = {}"
    and "rule_target r = None \<Longrightarrow> ''status'' \<notin> dom (map_of p)"
proof -
  from assms(2) have "action_patch a r payload = Inr p" and "set (dkeys payload) \<subseteq> set (rl_writable r)"
    by (simp_all add: rule_accepts_def)
  moreover from this(1) have "dom (map_of p) = patch_keys r payload" by (rule dom_action_patch)
  moreover from assms(1) have "wf_rule_fields r" by (simp add: wf_rule_def)
  ultimately show "dom (map_of p) \<inter> set (''task_id'' # DELIVERY_MANAGED_FIELDS) = {}"
    "rule_target r = None \<Longrightarrow> ''status'' \<notin> dom (map_of p)"
    using patch_keys_wf by auto
qed

lemma accepted_status:
  assumes "rule_accepts a w r task payload facts p" and "rule_target r = Some t"
  shows "dget p ''status'' = JStr t" and "dget (AList.merge d p) ''status'' = JStr t"
proof -
  from assms(1) have p: "action_patch a r payload = Inr p" by (simp add: rule_accepts_def)
  from dom_action_patch[OF p] have "''status'' \<in> dom (map_of p)" by (simp add: patch_keys_def assms(2))
  then show "dget p ''status'' = JStr t" "dget (AList.merge d p) ''status'' = JStr t"
    using action_patch_status[OF p assms(2)] by (simp_all add: dget_merge_in)
qed

lemma rule_target_iff: "t \<noteq> [] \<Longrightarrow> rl_to r = Some t \<Longrightarrow> rule_target r = Some t"
  by (simp add: rule_target_def)

lemma workflow_edgeI:
  assumes act: "map_of (wf_actions w) ak = Some act" and ak: "ak \<noteq> ''create''" "ak \<noteq> ''update''"
    and r: "r \<in> set (ac_rules act)" and t: "rl_to r = Some t" and f: "f \<in> set (rl_from r)"
  shows "(f, t) \<in> set (workflow_edges w)"
proof -
  have e: "(f, t) \<in> set (rule_transitions r)" using t f by (simp add: rule_transitions_def)
  have "(ak, act) \<in> set (wf_actions w)" using act by (rule map_of_SomeD)
  moreover have "(f, t) \<in> set (case (ak, act) of (ak, a) \<Rightarrow>
      if ak \<in> set [''create'', ''update''] then [] else concat (map rule_transitions (ac_rules a)))"
    using ak r e by auto
  ultimately show ?thesis unfolding workflow_edges_def set_concat set_map by blast
qed

lemma workflow_edgeE:
  assumes "(f, t) \<in> set (workflow_edges w)" and wf: "wf_workflow w"
  obtains ak r where "wf_rule w ak r" "f \<in> set (rl_from r)" "rl_to r = Some t"
proof -
  from assms(1) obtain ak act r where "(ak, act) \<in> set (wf_actions w)" "r \<in> set (ac_rules act)"
    "(f, t) \<in> set (rule_transitions r)"
    unfolding workflow_edges_def by (auto split: if_splits)
  then have "wf_rule w ak r" "f \<in> set (rl_from r)" "rl_to r = Some t"
    using wf by (auto simp: wf_workflow_def rule_transitions_def split: option.splits)
  then show thesis by (rule that)
qed

lemma engine_step_status:
  assumes step: "engine_step defs w task task'" and wf: "wf_workflow w"
  shows "state_step w (dget task ''status'') (dget task' ''status'')"
  using step wf
proof (cases rule: engine_step_parts)
  case same
  then show ?thesis by (simp add: state_step.stay)
next
  case (applied a ak act r payload facts p)
  show ?thesis
  proof (cases "ak = ''update''")
    case True
    then have "rule_target r = None"
      using applied(3) by (simp add: wf_rule_def wf_rule_shape_def rule_target_def)
    then have "''status'' \<notin> dom (map_of p)" using accepted_patch_keys(2) applied(3,6) by blast
    then show ?thesis by (simp add: applied(7) dget_merge_other state_step.stay)
  next
    case False
    then obtain t where t: "rl_to r = Some t"
      using applied(3,4) by (auto simp: wf_rule_def wf_rule_shape_def)
    obtain f where f: "f \<in> set (rl_from r)" "dget task ''status'' = JStr f"
      using applied(5) by (auto simp: member_str_iff)
    show ?thesis
    proof (cases "t = []")
      case True
      then have "rule_target r = None" by (simp add: rule_target_def t)
      then have "''status'' \<notin> dom (map_of p)" using accepted_patch_keys(2) applied(3,6) by blast
      then show ?thesis by (simp add: applied(7) dget_merge_other state_step.stay)
    next
      case nonempty: False
      then have "dget task' ''status'' = JStr t"
        unfolding applied(7) using accepted_status[OF applied(6)] rule_target_iff[OF nonempty t] by blast
      then show ?thesis
        using workflow_edgeI[OF applied(1,4) False applied(2) t f(1)] f(2) by (simp add: state_step.move)
    qed
  qed
qed

lemma engine_step_protected:
  assumes "engine_step defs w task task'" and "wf_workflow w"
    and "f \<in> set (''task_id'' # DELIVERY_MANAGED_FIELDS)"
  shows "dget task' f = dget task f"
  using assms(1,2)
proof (cases rule: engine_step_parts)
  case (applied a ak act r payload facts p)
  then show ?thesis using accepted_patch_keys(1) assms(3) by (metis IntI dget_merge_other empty_iff)
qed simp

lemma engine_step_terminal:
  assumes "engine_step defs w task task'" and wf: "wf_workflow w"
    and final: "member_str (dget task ''status'') (wf_terminal_states w)"
  shows "task' = task"
  using assms(1,2)
proof (cases rule: engine_step_parts)
  case (applied a ak act r payload facts p)
  then have "set (rl_from r) \<inter> set (wf_terminal_states w) = {}"
    by (simp add: wf_rule_def wf_rule_shape_def)
  with applied(5) final show ?thesis by (auto simp: member_str_iff)
qed

text \<open>What has to be filled in before a state is entered is filled in, and the guards hold.\<close>

lemma engine_step_ready:
  assumes "engine_step defs w task task'" and wf: "wf_workflow w" and "task' \<noteq> task"
    and s: "List.find (\<lambda>s. JStr (sd_key s) = dget task' ''status'') (wf_states w) = Some s"
    and f: "f \<in> set (sd_required s)"
  shows "\<not> blank (dget task' f)"
  using assms(1,2)
proof (cases rule: engine_step_parts)
  case (applied a ak act r payload facts p)
  have status: "dget task' ''status'' = (case rule_target r of Some t \<Rightarrow> JStr t | None \<Rightarrow> dget task' ''status'')"
  proof (cases "rule_target r")
    case (Some t)
    then show ?thesis unfolding applied(7) using accepted_status[OF applied(6)] by simp
  qed simp
  have "f \<in> set (required_task_fields w r task')"
    unfolding required_task_fields_def Let_def status[symmetric] s using f by simp
  then show ?thesis using applied(6,7) by (simp add: rule_accepts_def task_dict_def Let_def)
qed (use assms(3) in simp)

section \<open>Runs\<close>

lemma engine_run_protected:
  assumes "engine_run defs w task task'" and "wf_workflow w" and "f \<in> set (''task_id'' # DELIVERY_MANAGED_FIELDS)"
  shows "dget task' f = dget task f"
  using assms by (induction rule: engine_run.induct) (metis engine_step_protected)+

lemma engine_run_terminal:
  assumes "engine_run defs w task task'" and "wf_workflow w"
    and "member_str (dget task ''status'') (wf_terminal_states w)"
  shows "task' = task"
  using assms by (induction rule: engine_run.induct) (use engine_step_terminal in auto)

text \<open>The abstract machine stays inside the state graph.\<close>

lemma workflow_edge_target:
  assumes "(f, t) \<in> set (workflow_edges w)" and "wf_workflow w"
  shows "t \<in> set (state_keys w)"
  using assms
proof (rule workflow_edgeE)
  fix ak r
  assume "wf_rule w ak r" and "rl_to r = Some t"
  then show ?thesis
    using assms(2) by (auto simp: wf_rule_def wf_rule_shape_def wf_workflow_def split: if_splits)
qed

lemma created_status:
  assumes prep: "prepare_create_action defs a payload = Inr (Prepared p)" and wf: "wf_workflow (pr_definition p)"
  shows "dget (pr_patch p) ''status'' = JStr (wf_initial_state (pr_definition p))"
proof -
  let ?w = "pr_definition p"
  from prep obtain act where act: "map_of (wf_actions ?w) ''create'' = Some act" "ac_rules act \<noteq> []"
      "pr_rule p = hd (ac_rules act)"
    and acc: "rule_accepts a ?w (pr_rule p) None (default_role ?w (provided_fields payload)) [] (pr_patch p)"
    by (rule prepare_create_Prepared)
  have "wf_rule ?w ''create'' (pr_rule p)" using wf_action_rule[OF wf act(1)] act(2,3) by simp
  moreover have "wf_initial_state ?w \<noteq> []" using wf by (auto simp: wf_workflow_def)
  ultimately have "rule_target (pr_rule p) = Some (wf_initial_state ?w)"
    by (simp add: wf_rule_def wf_rule_shape_def rule_target_def)
  with acc show ?thesis by (rule accepted_status(1))
qed

lemma engine_card_reachable:
  assumes "engine_card defs w task" and wf: "wf_workflow w"
  shows "\<exists>s \<in> set (state_keys w). dget task ''status'' = JStr s \<and>
           (wf_initial_state w, s) \<in> (set (workflow_edges w))\<^sup>*"
  using assms(1)
proof induction
  case (created a payload p)
  then have "dget (pr_patch p) ''status'' = JStr (wf_initial_state w)"
    using created_status[OF created(1)] wf by simp
  moreover have "wf_initial_state w \<in> set (state_keys w)" using wf by (simp add: wf_workflow_def)
  ultimately show ?case by blast
next
  case (stepped task task')
  then obtain s where s: "s \<in> set (state_keys w)" "dget task ''status'' = JStr s"
      "(wf_initial_state w, s) \<in> (set (workflow_edges w))\<^sup>*" by blast
  from engine_step_status[OF stepped(2) wf] show ?case
  proof (cases rule: state_step.cases)
    case stay
    then show ?thesis using s by auto
  next
    case (move f t)
    then have "(s, t) \<in> set (workflow_edges w)" using s(2) by simp
    then have "t \<in> set (state_keys w)" "(wf_initial_state w, t) \<in> (set (workflow_edges w))\<^sup>*"
      using workflow_edge_target[OF _ wf] s(3) by (auto intro: rtrancl_into_rtrancl)
    then show ?thesis using move(2) by auto
  qed
qed

section \<open>An action repeated\<close>

lemma values_present_merge:
  "proper (JObj p) \<Longrightarrow> values_present (AList.merge task p) p"
proof -
  assume "proper (JObj p)"
  then have "distinct (map fst p)" and "\<forall>(k, v) \<in> set p. proper v" by auto
  then have "dget (AList.merge task p) k = v \<and> proper v" if "(k, v) \<in> set p" for k v
    using that by (auto simp: dget_merge map_of_is_SomeI)
  then show ?thesis by (fastforce simp: values_present_def list_all_iff)
qed

lemma applied_transition_finds:
  assumes "\<forall>r \<in> set rules. wf_rule_fields r" and "r \<in> set rules"
    and "rule_target r = Some t" and "dget task ''status'' = JStr t"
    and "rule_actor_allowed a w r (Some task)" and "only_writable r payload" and "rule_values_allowed r payload"
    and "action_patch a r payload = Inr p" and "values_present task p"
  shows "\<exists>r'. applied_transition a w rules task payload = Inr (Some r')"
  using assms
proof (induction rules)
  case (Cons q rules)
  have total: "\<exists>e. action_patch a q payload = Inr e"
    using action_patch_total[of q] Cons.prems(1) by (auto simp: ok_def)
  show ?case
  proof (cases "q = r")
    case True
    then show ?thesis using Cons.prems by auto
  next
    case False
    then show ?thesis using Cons total by (auto split: if_splits)
  qed
qed simp

lemma replay_prepared:
  assumes prep: "prepare_existing_action defs a ak task payload variant confirmed facts = Inr (Prepared p)"
    and wf: "wf_workflow (pr_definition p)" and new: "\<not> pr_already_applied p"
    and moves: "rule_target (pr_rule p) \<noteq> None" and patch: "proper (JObj (pr_patch p))"
    and task': "task' = AList.merge task (pr_patch p)"
    and actor: "rule_actor_allowed a (pr_definition p) (pr_rule p) (Some task')"
  shows "\<exists>p'. prepare_existing_action defs a ak task' payload variant confirmed facts = Inr (Prepared p') \<and>
           pr_already_applied p' \<and> pr_patch p' = []"
proof -
  let ?w = "pr_definition p"
  from prep obtain act where defs: "map_of defs (as_workflow_key a) = Some ?w"
    and act: "map_of (wf_actions ?w) ak = Some act" "pr_rule p \<in> set (ac_rules act)"
      "variant = None \<or> variant = Some (rl_key (pr_rule p))" "ac_confirmation act \<longrightarrow> confirmed"
    and acc: "rule_accepts a ?w (pr_rule p) (Some task) payload facts (pr_patch p)"
    by (rule prepare_existing_Prepared) (use new in blast)
  let ?rules = "variant_rules variant (ac_rules act)"
  from moves obtain t where t: "rule_target (pr_rule p) = Some t" by blast
  have in_rules: "pr_rule p \<in> set ?rules" using act(2,3) by (auto simp: set_variant_rules)
  have fields: "\<forall>r \<in> set ?rules. wf_rule_fields r"
    using wf_action_rule[OF wf act(1)] by (simp add: set_variant_rules wf_rule_def)
  have status: "dget task' ''status'' = JStr t" unfolding task' using acc t by (rule accepted_status(2))
  have checks: "only_writable (pr_rule p) payload" "rule_values_allowed (pr_rule p) payload"
      "action_patch a (pr_rule p) payload = Inr (pr_patch p)"
    using acc by (auto simp: rule_accepts_def only_writable_def list_all_iff)
  obtain r' where "applied_transition a ?w ?rules task' payload = Inr (Some r')"
    using applied_transition_finds[OF fields in_rules t status actor checks]
      values_present_merge[OF patch] unfolding task' by blast
  then have "matching_applied_rule a ?w ?rules task' payload = Inr (Some r')"
    by (simp add: matching_applied_rule_def)
  moreover have "?rules \<noteq> []" using in_rules by auto
  ultimately show ?thesis
    unfolding prepare_existing_action_def workflow_definition_for_assignment_def lifecycle_action_def
    using defs act(1,4) by (auto simp: Let_def)
qed

section \<open>Properties\<close>

text \<open>The demo definition with two agents, and cards of a task on its way.\<close>

definition demo_defs :: "(string \<times> workflow) list" where
  "demo_defs = [(''demo'', demo_workflow)]"

definition demo_agent :: "string \<Rightarrow> string \<Rightarrow> assignment" where
  "demo_agent agent role =
     \<lparr>as_role_key = role, as_agent_id = agent, as_agent_name = agent, as_workspace_root = ''/w'',
      as_workflow_key = ''demo'', as_session_id = agent, as_revision = 1, as_workspace_name = ''w'',
      as_workflow_name = ''demo'', as_role_name = role, as_role_description = []\<rparr>"

definition demo_ready :: dict where
  "demo_ready =
     [(''record_id'', JStr ''r1''), (''task_id'', JStr ''T-1''), (''status'', JStr ''ready''),
      (''title'', JStr ''t''), (''role'', JStr ''executor''), (''delivery_mode'', JStr ''standard'')]"

definition demo_claimed :: prepared where
  "demo_claimed =
     (case prepare_existing_action demo_defs (demo_agent ''a1'' ''executor'') ''claim'' demo_ready [] None True [] of
        Inr (Prepared p) \<Rightarrow> p
      | _ \<Rightarrow> \<lparr>pr_definition = demo_workflow, pr_rule = hd (action_rules demo_workflow ''claim''),
              pr_patch = [], pr_already_applied = True\<rparr>)"

definition demo_created :: prepared where
  "demo_created =
     (case prepare_create_action demo_defs (demo_agent ''o1'' ''owner'') [(''title'', JStr ''t'')] of
        Inr (Prepared p) \<Rightarrow> p
      | _ \<Rightarrow> \<lparr>pr_definition = demo_workflow, pr_rule = hd (action_rules demo_workflow ''create''),
              pr_patch = [], pr_already_applied = True\<rparr>)"

lemma demo_claim_prepared:
  "prepare_existing_action demo_defs (demo_agent ''a1'' ''executor'') ''claim'' demo_ready [] None True [] =
     Inr (Prepared demo_claimed)"
  by code_simp

lemma demo_claimed_facts:
  "pr_definition demo_claimed = demo_workflow" "\<not> pr_already_applied demo_claimed"
  "rule_target (pr_rule demo_claimed) = Some ''in_progress''"
  "pr_patch demo_claimed = [(''agent'', JStr ''a1''), (''agent_id'', JStr ''a1''), (''status'', JStr ''in_progress'')]"
  by code_simp+

lemma demo_create_prepared:
  "prepare_create_action demo_defs (demo_agent ''o1'' ''owner'') [(''title'', JStr ''t'')] = Inr (Prepared demo_created)"
  by code_simp

lemma demo_created_facts: "pr_definition demo_created = demo_workflow"
  by code_simp

lemma demo_step: "engine_step demo_defs demo_workflow demo_ready (AList.merge demo_ready (pr_patch demo_claimed))"
  using demo_claim_prepared demo_claimed_facts(1) by (rule engine_step.prepared)

lemma demo_run: "engine_run demo_defs demo_workflow demo_ready (AList.merge demo_ready (pr_patch demo_claimed))"
  using demo_step engine_run.run_end by (rule engine_run.run_step)

text \<open>C1: Cards follow the state graph. Every card the engine can produce, from creation through any
  sequence of prepared actions of any agents, is in a state of the definition that the definition's
  transitions reach from its initial state.\<close>

theorem cards_follow_state_graph:
  assumes "wf_workflow w" and "engine_card defs w task"
  shows "\<exists>s \<in> set (state_keys w). dget task ''status'' = JStr s \<and>
           (wf_initial_state w, s) \<in> (set (workflow_edges w))\<^sup>*"
  using assms(2,1) by (rule engine_card_reachable)

theorem cards_follow_state_graph_witness:
  "\<exists>s \<in> set (state_keys demo_workflow). dget (pr_patch demo_created) ''status'' = JStr s \<and>
     (wf_initial_state demo_workflow, s) \<in> (set (workflow_edges demo_workflow))\<^sup>*"
  by (rule cards_follow_state_graph[OF wf_demo engine_card.created[OF demo_create_prepared demo_created_facts]])

text \<open>Terminal states are final: whatever agents try on a card in a terminal state, every action the
  engine prepares leaves the card exactly as it is.\<close>

theorem terminal_states_final:
  assumes "wf_workflow w" and "engine_run defs w task task'"
    and "member_str (dget task ''status'') (wf_terminal_states w)"
  shows "task' = task"
  using assms(2,1,3) by (rule engine_run_terminal)

definition demo_done :: dict where
  "demo_done = [(''status'', JStr ''done''), (''title'', JStr ''t'')]"

theorem terminal_states_final_witness: "{task. engine_run demo_defs demo_workflow demo_done task} = {demo_done}"
proof -
  have "member_str (dget demo_done ''status'') (wf_terminal_states demo_workflow)" by code_simp
  then show ?thesis using terminal_states_final[OF wf_demo, of demo_defs demo_done] engine_run.run_end by blast
qed

text \<open>The engine's own patches never touch the task id or a delivery fact (mode, target branch,
  baseline, the recorded commits, the ledger), over any sequence of actions: those fields have their
  own writers.\<close>

theorem delivery_facts_protected:
  assumes "wf_workflow w" and "engine_run defs w task task'"
    and "f \<in> set (''task_id'' # DELIVERY_MANAGED_FIELDS)"
  shows "dget task' f = dget task f"
  using assms(2,1,3) by (rule engine_run_protected)

theorem delivery_facts_protected_witness:
  "dget (AList.merge demo_ready (pr_patch demo_claimed)) ''delivery_mode'' = dget demo_ready ''delivery_mode''"
  by (rule delivery_facts_protected[OF wf_demo demo_run]) (simp add: DELIVERY_MANAGED_FIELDS_def)

text \<open>A card that a step changes holds everything its new state requires: each required field of the
  state entered (or stayed in) is filled.\<close>

theorem entered_state_ready:
  assumes "wf_workflow w" and "engine_step defs w task task'" and "task' \<noteq> task"
    and "List.find (\<lambda>s. JStr (sd_key s) = dget task' ''status'') (wf_states w) = Some s"
    and "f \<in> set (sd_required s)"
  shows "\<not> blank (dget task' f)"
  using assms(2,1,3-5) by (rule engine_step_ready)

theorem entered_state_ready_witness:
  "\<not> blank (dget (AList.merge demo_ready (pr_patch demo_claimed)) ''agent_id'')"
proof (rule entered_state_ready[OF wf_demo demo_step])
  show "AList.merge demo_ready (pr_patch demo_claimed) \<noteq> demo_ready" by code_simp
  show "List.find (\<lambda>s. JStr (sd_key s) = dget (AList.merge demo_ready (pr_patch demo_claimed)) ''status'')
      (wf_states demo_workflow) =
    Some \<lparr>sd_key = ''in_progress'', sd_dispatch = Dispatch_None, sd_required = [''title'', ''role'', ''agent_id'']\<rparr>"
    by code_simp
qed simp


text \<open>A claim records its caller: when the rule of a prepared action binds the executor's id, the
  patch holds the id of the agent that called, whatever the payload said.\<close>

theorem claim_records_caller:
  assumes "wf_workflow (pr_definition p)"
    and "prepare_existing_action defs a ak task payload variant confirmed facts = Inr (Prepared p)"
    and "\<not> pr_already_applied p"
    and "(''agent_id'', source) \<in> set (rl_actor_fields (pr_rule p))"
    and "''agent_id'' \<notin> set (rl_clear_fields (pr_rule p))"
  shows "dget (pr_patch p) ''agent_id'' = JStr (as_agent_id a)"
  using assms(2)
proof (rule prepare_existing_Prepared)
  fix act
  assume act: "map_of (wf_actions (pr_definition p)) ak = Some act" and r: "pr_rule p \<in> set (ac_rules act)"
    and "pr_already_applied p \<and> pr_patch p = [] \<and>
           matching_applied_rule a (pr_definition p) (variant_rules variant (ac_rules act)) task payload = Inr (Some (pr_rule p)) \<or>
         \<not> pr_already_applied p \<and> member_str (dget task ''status'') (rl_from (pr_rule p)) \<and>
           rule_accepts a (pr_definition p) (pr_rule p) (Some task) payload facts (pr_patch p)"
  then have "action_patch a (pr_rule p) payload = Inr (pr_patch p)"
    using assms(3) unfolding rule_accepts_def by blast
  then show ?thesis
    using wf_action_rule[OF assms(1) act r] assms(4,5) by (intro action_patch_agent) (simp_all add: wf_rule_def)
qed

theorem claim_records_caller_witness: "dget (pr_patch demo_claimed) ''agent_id'' = JStr ''a1''"
proof -
  have "dget (pr_patch demo_claimed) ''agent_id'' = JStr (as_agent_id (demo_agent ''a1'' ''executor''))"
  proof (rule claim_records_caller[OF _ demo_claim_prepared demo_claimed_facts(2)])
    show "wf_workflow (pr_definition demo_claimed)" by (simp add: demo_claimed_facts wf_demo)
    show "(''agent_id'', ''agent_id'') \<in> set (rl_actor_fields (pr_rule demo_claimed))" by code_simp
    show "''agent_id'' \<notin> set (rl_clear_fields (pr_rule demo_claimed))" by code_simp
  qed
  then show ?thesis by (simp add: demo_agent_def)
qed

text \<open>Repeating an action is harmless: once the patch of a transition is on the card and the agent is
  still allowed by its rule, preparing the same call again reports it as already applied, with nothing
  to write.\<close>

theorem repeated_action_already_applied:
  assumes "prepare_existing_action defs a ak task payload variant confirmed facts = Inr (Prepared p)"
    and "wf_workflow (pr_definition p)" and "\<not> pr_already_applied p"
    and "rule_target (pr_rule p) \<noteq> None" and "proper (JObj (pr_patch p))"
    and "rule_actor_allowed a (pr_definition p) (pr_rule p) (Some (AList.merge task (pr_patch p)))"
  shows "\<exists>p'. prepare_existing_action defs a ak (AList.merge task (pr_patch p)) payload variant confirmed facts
             = Inr (Prepared p') \<and> pr_already_applied p' \<and> pr_patch p' = []"
  using assms(1-5) refl assms(6) by (rule replay_prepared)

theorem repeated_action_already_applied_witness:
  "\<exists>p'. prepare_existing_action demo_defs (demo_agent ''a1'' ''executor'') ''claim''
      (AList.merge demo_ready (pr_patch demo_claimed)) [] None True [] = Inr (Prepared p') \<and>
    pr_already_applied p' \<and> pr_patch p' = []"
proof (rule repeated_action_already_applied[OF demo_claim_prepared _ demo_claimed_facts(2)])
  show "wf_workflow (pr_definition demo_claimed)" by (simp add: demo_claimed_facts wf_demo)
  show "rule_target (pr_rule demo_claimed) \<noteq> None" by (simp add: demo_claimed_facts)
  show "proper (JObj (pr_patch demo_claimed))" by (simp add: demo_claimed_facts)
  show "rule_actor_allowed (demo_agent ''a1'' ''executor'') (pr_definition demo_claimed) (pr_rule demo_claimed)
      (Some (AList.merge demo_ready (pr_patch demo_claimed)))" by code_simp
qed






end
