(* ===== verification/Teamflow_Tools.thy ===== *)
theory Teamflow_Tools
  imports Workflow_Lifecycle
begin

text \<open>
  The mutating tools of \<^verbatim>\<open>core/teamflow_tools.py\<close>. A tool reads the card from the board,
  prepares the action, reads the card again, asks the completion gate, writes once, and waits for
  the write to become visible. The board service is a record of operations over a state of its own;
  every call to it is logged, so that the properties can speak of what was written. The clock
  counts milliseconds. Git, the file system and the settings file answer as they do at the time of
  the call.
\<close>

datatype call = Read string | Write "string option" dict

record 's board =
  bd_get :: "string \<Rightarrow> 's \<Rightarrow> dict result \<times> 's"
  bd_upsert :: "string option \<Rightarrow> dict \<Rightarrow> string option \<Rightarrow> 's \<Rightarrow> dict result \<times> 's"
  bd_now :: "'s \<Rightarrow> int"
  bd_sleep :: "int \<Rightarrow> 's \<Rightarrow> 's"

record 's world =
  wd_board :: 's
  wd_log :: "call list"

text \<open>
  A tool run: \<open>None\<close> when it does not return within its fuel, and otherwise an exception or a value
  with the world afterwards.
\<close>

type_synonym ('s, 'a) tool = "'s world \<Rightarrow> ('a result \<times> 's world) option"

definition give :: "'a result \<Rightarrow> ('s, 'a) tool" where
  "give r = (\<lambda>s. Some (r, s))"

definition tbind :: "('s, 'a) tool \<Rightarrow> ('a \<Rightarrow> ('s, 'b) tool) \<Rightarrow> ('s, 'b) tool" where
  "tbind m f = (\<lambda>s. case m s of
      None \<Rightarrow> None
    | Some (Inl e, s') \<Rightarrow> Some (Inl e, s')
    | Some (Inr v, s') \<Rightarrow> f v s')"

definition get_card :: "'s board \<Rightarrow> string \<Rightarrow> ('s, dict) tool" where
  "get_card b rid = (\<lambda>s.
     let (r, st) = bd_get b rid (wd_board s)
     in Some (r, s\<lparr>wd_board := st, wd_log := wd_log s @ [Read rid]\<rparr>))"

definition upsert_card :: "'s board \<Rightarrow> string option \<Rightarrow> dict \<Rightarrow> string option \<Rightarrow> ('s, dict) tool" where
  "upsert_card b rid patch token = (\<lambda>s.
     let (r, st) = bd_upsert b rid patch token (wd_board s)
     in Some (r, s\<lparr>wd_board := st, wd_log := wd_log s @ [Write rid patch]\<rparr>))"

definition pause :: "'s board \<Rightarrow> int \<Rightarrow> ('s, unit) tool" where
  "pause b d = (\<lambda>s. Some (Inr (), s\<lparr>wd_board := bd_sleep b d (wd_board s)\<rparr>))"

definition clock :: "'s board \<Rightarrow> ('s, int) tool" where
  "clock b = (\<lambda>s. Some (Inr (bd_now b (wd_board s)), s))"

text \<open>\<^verbatim>\<open>try ... except ValueError\<close>; a \<^verbatim>\<open>GitFactError\<close> is one too.\<close>

definition on_value_error :: "'a result \<Rightarrow> ('s, 'b) tool \<Rightarrow> ('a \<Rightarrow> ('s, 'b) tool) \<Rightarrow> ('s, 'b) tool" where
  "on_value_error r handler cont =
     (case r of
        Inr v \<Rightarrow> cont v
      | Inl (ValueError m) \<Rightarrow> handler
      | Inl (GitFactError m) \<Rightarrow> handler
      | Inl e \<Rightarrow> give (Inl e))"

datatype answer = Failed wf_error | Succeeded success

definition answer_error :: "wf_error result \<Rightarrow> ('s, answer) tool" where
  "answer_error r = give (andthen r (\<lambda>e. Inr (Failed e)))"

definition answer_success :: "success result \<Rightarrow> ('s, answer) tool" where
  "answer_success r = give (andthen r (\<lambda>v. Inr (Succeeded v)))"

section \<open>Waiting for a write to become visible\<close>

definition WRITE_VISIBILITY_TIMEOUT :: int where "WRITE_VISIBILITY_TIMEOUT = 10000"
definition WRITE_VISIBILITY_INITIAL_DELAY :: int where "WRITE_VISIBILITY_INITIAL_DELAY = 250"
definition WRITE_VISIBILITY_MAX_DELAY :: int where "WRITE_VISIBILITY_MAX_DELAY = 1000"

text \<open>\<^verbatim>\<open>_patch_visible\<close>\<close>

definition patch_visible :: "dict \<Rightarrow> dict \<Rightarrow> bool" where
  "patch_visible task patch \<longleftrightarrow> list_all (\<lambda>(f, v). same_value (dget task f) v) patch"

text \<open>The loop of \<^verbatim>\<open>_visible_write\<close>; each round spends one unit of fuel.\<close>

fun reread :: "nat \<Rightarrow> 's board \<Rightarrow> string \<Rightarrow> dict \<Rightarrow> int \<Rightarrow> int \<Rightarrow> dict \<Rightarrow> ('s, dict \<times> bool) tool" where
  "reread 0 b rid patch deadline delay latest = (\<lambda>s. None)"
| "reread (Suc n) b rid patch deadline delay latest =
     tbind (clock b) (\<lambda>now.
       if \<not> now < deadline then give (Inr (latest, False))
       else tbind (pause b delay) (\<lambda>_.
         tbind (get_card b rid) (\<lambda>card.
           if patch_visible card patch then give (Inr (card, True))
           else reread n b rid patch deadline (min (delay * 2) WRITE_VISIBILITY_MAX_DELAY) card)))"

definition reread_fuel :: nat where "reread_fuel = 13"

definition visible_write :: "'s board \<Rightarrow> dict \<Rightarrow> dict \<Rightarrow> ('s, dict \<times> bool) tool" where
  "visible_write b patch written =
     (if patch_visible written patch then give (Inr (written, True))
      else let rid = text_of (dget written ''record_id'') in
        if rid = [] then give (Inr (written, False))
        else tbind (clock b) (\<lambda>now.
          reread reread_fuel b rid patch (now + WRITE_VISIBILITY_TIMEOUT) WRITE_VISIBILITY_INITIAL_DELAY written))"

section \<open>Delivery facts of an action\<close>

definition workspace_of :: "assignment \<Rightarrow> string option" where
  "workspace_of a = Some (as_workspace_root a)"

definition no_input :: "delivery_input \<Rightarrow> bool" where
  "no_input d \<longleftrightarrow> di_mode d = None \<and> di_shas d = [] \<and> di_resources d = None"

definition put_shas :: "(string \<times> string) list \<Rightarrow> dict \<Rightarrow> dict" where
  "put_shas shas patch = fold (\<lambda>(f, v) p. AList.update f (JStr v) p) shas patch"

text \<open>\<^verbatim>\<open>_apply_delivery\<close>, with the patch it leaves in \<^verbatim>\<open>prepared\<close> as its result.\<close>

definition apply_delivery ::
  "git \<Rightarrow> file_system \<Rightarrow> settings_file \<Rightarrow> assignment \<Rightarrow> prepared \<Rightarrow> string \<Rightarrow> dict \<Rightarrow> delivery_input \<Rightarrow> dict result" where
  "apply_delivery git fs settings a p ak task d =
     andthen (resolve_transition_mode settings (pr_definition p) task
                (case di_mode d of None \<Rightarrow> JNull | Some v \<Rightarrow> v) (rl_to (pr_rule p)) ak) (\<lambda>mode.
     let m = (case mode of None \<Rightarrow> [] | Some m \<Rightarrow> m);
         patch = (if m = [] then pr_patch p else AList.update ''delivery_mode'' (JStr m) (pr_patch p)) in
     andthen (reject_repository_only_input (if m = [] then mode_of task else m) d) (\<lambda>_.
     andthen (verify_supplied_shas git fs (workspace_of a) d) (\<lambda>_.
     let patch = put_shas (di_shas d) patch in
     andthen (case di_resources d of
         None \<Rightarrow> Inr patch
       | Some r \<Rightarrow> andthen (append_resources (dget task ''delivery_resources'') (Some r)) (\<lambda>text.
           Inr (AList.update ''delivery_resources'' (JStr text) patch))) (\<lambda>patch.
     if ak = ''claim'' then
       andthen (claim_baseline git (workspace_of a) (AList.merge task patch)) (\<lambda>b. Inr (AList.merge patch b))
     else Inr patch))))"

definition delivery_value :: "delivery_input \<Rightarrow> json" where
  "delivery_value d =
     JObj ((case di_mode d of None \<Rightarrow> [] | Some v \<Rightarrow> [(''delivery_mode'', v)]) @
           map (\<lambda>(f, v). (f, JStr v)) (di_shas d) @
           (case di_resources d of None \<Rightarrow> [] | Some r \<Rightarrow> [(''resources'', resources_value r)]))"

section \<open>One action on an existing card\<close>

text \<open>What the tools need from their surroundings, beside the board.\<close>

record env =
  en_git :: git
  en_fs :: file_system
  en_settings :: settings_file
  en_defs :: "(string \<times> workflow) list"

text \<open>\<^verbatim>\<open>latest != task\<close> on dictionaries: the order of keys does not count.\<close>

definition same_card :: "dict \<Rightarrow> dict \<Rightarrow> bool" where
  "same_card x y \<longleftrightarrow> py_eq (JObj x) (JObj y)"

text \<open>The tail of \<^verbatim>\<open>_execute_existing_action\<close>: gate, write, wait.\<close>

definition commit_patch ::
  "env \<Rightarrow> 's board \<Rightarrow> assignment \<Rightarrow> prepared \<Rightarrow> string \<Rightarrow> string \<Rightarrow> string option \<Rightarrow> dict \<Rightarrow> dict \<Rightarrow> dict \<Rightarrow> string option \<Rightarrow>
   ('s, answer) tool" where
  "commit_patch E b a p ak rid variant task latest patch token =
     tbind (give (completion_failure (en_git E) (en_fs E) (workspace_of a) (pr_definition p) latest patch)) (\<lambda>blocked.
       case blocked of
         Some g \<Rightarrow> answer_error (delivery_incomplete_error a (pr_definition p) ak variant latest g)
       | None \<Rightarrow>
           tbind (upsert_card b (Some rid) patch token) (\<lambda>written0.
           tbind (visible_write b patch written0) (\<lambda>(written, visible).
             if \<not> visible then
               answer_error (write_not_visible_error a (pr_definition p) ak variant patch written)
             else answer_success (action_success a (pr_definition p) ak (pr_rule p) (Some task) written False))))"

definition execute_prepared ::
  "env \<Rightarrow> 's board \<Rightarrow> assignment \<Rightarrow> workflow \<Rightarrow> prepared \<Rightarrow> string \<Rightarrow> string \<Rightarrow> string option \<Rightarrow> dict \<Rightarrow> delivery_input \<Rightarrow>
   string option \<Rightarrow> ('s, answer) tool" where
  "execute_prepared E b a w p ak rid variant task d token =
     (if pr_already_applied p \<and> no_input d then
        answer_success (action_success a (pr_definition p) ak (pr_rule p) (Some task) task True)
      else on_value_error (apply_delivery (en_git E) (en_fs E) (en_settings E) a p ak task d)
        (answer_error (input_error a w ak ''invalid_delivery'' (JObj [(''delivery'', delivery_value d)])))
        (\<lambda>patch. tbind (get_card b rid) (\<lambda>latest.
           if \<not> same_card latest task then
             answer_error (task_changed_error a (pr_definition p) ak variant task latest)
           else commit_patch E b a p ak rid variant task latest patch token)))"

definition execute_existing_action ::
  "env \<Rightarrow> 's board \<Rightarrow> assignment \<Rightarrow> string \<Rightarrow> json \<Rightarrow> dict \<Rightarrow> string option \<Rightarrow> json \<Rightarrow> bool \<Rightarrow> string list \<Rightarrow>
   dict option \<Rightarrow> string option \<Rightarrow> ('s, answer) tool" where
  "execute_existing_action E b a ak record_id payload variant delivery confirmed facts current token =
     tbind (give (normalize_record_id record_id)) (\<lambda>rid.
     tbind (get_card b rid) (\<lambda>task.
     tbind (give (workflow_definition_for_assignment (en_defs E) a)) (\<lambda>w.
       if (case current of None \<Rightarrow> False | Some c \<Rightarrow> \<not> same_card c task) then
         answer_error (task_changed_error a w ak variant (task_dict current) task)
       else on_value_error (normalize_delivery_input (en_fs E) (workspace_of a) delivery)
         (answer_error (input_error a w ak ''invalid_delivery'' (JObj [(''delivery'', delivery)])))
         (\<lambda>d. tbind (give (prepare_existing_action (en_defs E) a ak task payload variant confirmed facts)) (\<lambda>out.
            case out of
              Rejected e \<Rightarrow> give (Inr (Failed e))
            | Prepared p \<Rightarrow> execute_prepared E b a w p ak rid variant task d token)))))"

section \<open>The tools\<close>

definition create_task ::
  "env \<Rightarrow> 's board \<Rightarrow> assignment \<Rightarrow> dict \<Rightarrow> json \<Rightarrow> string option \<Rightarrow> ('s, answer) tool" where
  "create_task E b a given delivery_mode token =
     tbind (give (workflow_definition_for_assignment (en_defs E) a)) (\<lambda>w.
     on_value_error (resolve_create_mode (en_settings E) delivery_mode)
       (answer_error (input_error a w ''create'' ''invalid_delivery_mode'' (JObj [(''delivery_mode'', delivery_mode)])))
       (\<lambda>mode. tbind (give (prepare_create_action (en_defs E) a given)) (\<lambda>out.
          case out of
            Rejected e \<Rightarrow> give (Inr (Failed e))
          | Prepared p \<Rightarrow>
              let patch = (if mode = [] then pr_patch p else AList.update ''delivery_mode'' (JStr mode) (pr_patch p)) in
              tbind (upsert_card b None patch token) (\<lambda>written0.
              tbind (visible_write b patch written0) (\<lambda>(written, visible).
                if \<not> visible then
                  answer_error (write_not_visible_error a (pr_definition p) ''create'' None patch written)
                else answer_success (action_success a (pr_definition p) ''create'' (pr_rule p) None written False))))))"

definition update_task ::
  "env \<Rightarrow> 's board \<Rightarrow> assignment \<Rightarrow> json \<Rightarrow> json \<Rightarrow> json \<Rightarrow> string option \<Rightarrow> ('s, answer) tool" where
  "update_task E b a record_id given delivery token =
     (let payload = as_dict given in
      if payload = [] \<and> \<not> truthy delivery then
        tbind (give (workflow_definition_for_assignment (en_defs E) a)) (\<lambda>w.
          answer_error (input_error a w ''update'' ''fields_required''
            (JObj [(''required'', strs [''fields'', ''delivery''])])))
      else execute_existing_action E b a ''update'' record_id payload None delivery True [] None token)"

definition route_task ::
  "env \<Rightarrow> 's board \<Rightarrow> assignment \<Rightarrow> json \<Rightarrow> json \<Rightarrow> string list \<Rightarrow> dict option \<Rightarrow> string option \<Rightarrow> ('s, answer) tool" where
  "route_task E b a record_id role facts current token =
     execute_existing_action E b a ''route'' record_id [(''role'', role)] None JNull True facts current token"

definition claim_task :: "env \<Rightarrow> 's board \<Rightarrow> assignment \<Rightarrow> json \<Rightarrow> string option \<Rightarrow> ('s, answer) tool" where
  "claim_task E b a record_id token =
     execute_existing_action E b a ''claim'' record_id [] None JNull True [] None token"

definition submit_task ::
  "env \<Rightarrow> 's board \<Rightarrow> assignment \<Rightarrow> json \<Rightarrow> string \<Rightarrow> json \<Rightarrow> json \<Rightarrow> json \<Rightarrow> json \<Rightarrow> string option \<Rightarrow> ('s, answer) tool" where
  "submit_task E b a record_id outcome evidence progress next_action delivery token =
     execute_existing_action E b a ''submit'' record_id
       (provided_fields [(''result_evidence'', evidence), (''progress'', progress), (''next_action'', next_action)])
       (Some outcome) delivery True [] None token"

definition block_task ::
  "env \<Rightarrow> 's board \<Rightarrow> assignment \<Rightarrow> json \<Rightarrow> json \<Rightarrow> json \<Rightarrow> json \<Rightarrow> json \<Rightarrow> string option \<Rightarrow> ('s, answer) tool" where
  "block_task E b a record_id waiting_on reason next_action progress token =
     execute_existing_action E b a ''block'' record_id
       (provided_fields [(''waiting_on'', waiting_on), (''blocked_reason'', reason),
                         (''next_action'', next_action), (''progress'', progress)])
       None JNull True [] None token"

definition review_task ::
  "env \<Rightarrow> 's board \<Rightarrow> assignment \<Rightarrow> json \<Rightarrow> string \<Rightarrow> json \<Rightarrow> json \<Rightarrow> json \<Rightarrow> string option \<Rightarrow> ('s, answer) tool" where
  "review_task E b a record_id decision evidence role next_action token =
     execute_existing_action E b a ''review'' record_id
       (provided_fields [(''result_evidence'', evidence), (''role'', role), (''next_action'', next_action)])
       (Some decision) JNull True [] None token"

definition cancel_task ::
  "env \<Rightarrow> 's board \<Rightarrow> assignment \<Rightarrow> json \<Rightarrow> json \<Rightarrow> bool \<Rightarrow> string list \<Rightarrow> dict option \<Rightarrow> string option \<Rightarrow>
   ('s, answer) tool" where
  "cancel_task E b a record_id evidence confirmed facts current token =
     execute_existing_action E b a ''cancel'' record_id [(''result_evidence'', evidence)] None JNull confirmed
       facts current token"

section \<open>What a run writes\<close>

fun is_write :: "call \<Rightarrow> bool" where
  "is_write (Write rid patch) = True"
| "is_write (Read rid) = False"

definition writes :: "'s world \<Rightarrow> call list" where
  "writes s = filter is_write (wd_log s)"

definition quiet :: "('s, 'a) tool \<Rightarrow> bool" where
  "quiet m \<longleftrightarrow> (\<forall>s r s'. m s = Some (r, s') \<longrightarrow> writes s' = writes s)"

named_theorems quiet_intros \<open>runs that write nothing\<close>

lemma quietD: "quiet m \<Longrightarrow> m s = Some (r, s') \<Longrightarrow> writes s' = writes s"
  by (simp add: quiet_def)

lemma quiet_give [quiet_intros]: "quiet (give r)"
  by (simp add: quiet_def give_def)

lemma quiet_tbind [quiet_intros]: "quiet m \<Longrightarrow> (\<And>v. quiet (f v)) \<Longrightarrow> quiet (tbind m f)"
  by (auto simp: quiet_def tbind_def split: option.splits sum.splits prod.splits)

lemma quiet_get [quiet_intros]: "quiet (get_card b rid)"
  by (auto simp: quiet_def get_card_def writes_def split: prod.splits)

lemma quiet_pause [quiet_intros]: "quiet (pause b d)" "quiet (clock b)"
  by (auto simp: quiet_def pause_def clock_def writes_def)

lemma quiet_answer [quiet_intros]: "quiet (answer_error e)" "quiet (answer_success v)"
  by (auto simp: answer_error_def answer_success_def intro: quiet_intros)

lemma quiet_reread [quiet_intros]: "quiet (reread n b rid patch deadline delay latest)"
  by (induction n arbitrary: delay latest) (auto intro!: quiet_intros simp: quiet_def[of "\<lambda>s. None"])

lemma quiet_visible_write [quiet_intros]: "quiet (visible_write b patch written)"
  by (auto simp: visible_write_def Let_def intro!: quiet_intros)

lemma tbindE:
  assumes "tbind m f s = Some (r, s')"
  obtains (raised) e where "m s = Some (Inl e, s')" "r = Inl e"
  | (went_on) v t where "m s = Some (Inr v, t)" "f v t = Some (r, s')"
  using assms by (auto simp: tbind_def split: option.splits sum.splits prod.splits)

lemma give_run [simp]: "give r s = Some (r', s') \<longleftrightarrow> r' = r \<and> s' = s"
  by (auto simp: give_def)

lemma tbind_give [simp]: "tbind (give (Inr v)) f = f v" "tbind (give (Inl e)) f = give (Inl e)"
  by (auto simp: tbind_def give_def)

lemma answer_error_run:
  "answer_error r s = Some (r', s') \<Longrightarrow> s' = s \<and> (\<forall>v. r' \<noteq> Inr (Succeeded v)) \<and>
     (\<forall>e. r' = Inr (Failed e) \<longrightarrow> r = Inr e)"
  by (auto simp: answer_error_def andthen_eq_Inr)

lemma answer_success_run:
  "answer_success r s = Some (r', s') \<Longrightarrow> s' = s \<and> (\<forall>e. r' \<noteq> Inr (Failed e)) \<and>
     (\<forall>v. r' = Inr (Succeeded v) \<longrightarrow> r = Inr v)"
  by (auto simp: answer_success_def andthen_eq_Inr)

lemma upsert_writes:
  "upsert_card b rid patch token s = Some (r, s') \<Longrightarrow> writes s' = writes s @ [Write rid patch]"
  by (auto simp: upsert_card_def writes_def split: prod.splits)

text \<open>A write that was reported visible is on the card that is reported.\<close>

lemma reread_visible:
  "reread n b rid patch deadline delay latest s = Some (Inr (shown, True), s') \<Longrightarrow> patch_visible shown patch"
proof (induction n arbitrary: delay latest s)
  case (Suc n)
  then show ?case by (auto elim!: tbindE split: if_splits)
qed simp

lemma visible_write_visible:
  "visible_write b patch written s = Some (Inr (shown, True), s') \<Longrightarrow> patch_visible shown patch"
  by (auto simp: visible_write_def Let_def elim!: tbindE split: if_splits dest: reread_visible)

lemma patch_visible_eq: "patch_visible task patch = values_present task patch"
  by (simp add: patch_visible_def values_present_def)

section \<open>What one action does\<close>

text \<open>Gate, write, wait: nothing is written before the gate passes, and success means visible.\<close>

lemma commit_patch_run:
  assumes "commit_patch E b a p ak rid variant task latest patch token s = Some (r, s')"
  shows "(completion_failure (en_git E) (en_fs E) (workspace_of a) (pr_definition p) latest patch \<noteq> Inr None \<and>
            writes s' = writes s \<and> (\<forall>v. r \<noteq> Inr (Succeeded v))) \<or>
         (completion_failure (en_git E) (en_fs E) (workspace_of a) (pr_definition p) latest patch = Inr None \<and>
            writes s' = writes s @ [Write (Some rid) patch] \<and>
            (\<forall>v. r = Inr (Succeeded v) \<longrightarrow> values_present (sc_task v) patch) \<and>
            (\<forall>e. r = Inr (Failed e) \<longrightarrow> we_code e = ''write_not_visible''))"
proof -
  let ?gate = "completion_failure (en_git E) (en_fs E) (workspace_of a) (pr_definition p) latest patch"
  consider (err) e where "?gate = Inl e" | (blocked) g where "?gate = Inr (Some g)" | (passed) "?gate = Inr None"
    by (cases ?gate) auto
  then show ?thesis
  proof cases
    case err
    then show ?thesis using assms by (auto simp: commit_patch_def)
  next
    case blocked
    then show ?thesis using assms by (auto simp: commit_patch_def dest!: answer_error_run)
  next
    case passed
    let ?rest = "\<lambda>written0. tbind (visible_write b patch written0) (\<lambda>(written, visible).
             if \<not> visible then
               answer_error (write_not_visible_error a (pr_definition p) ak variant patch written)
             else answer_success (action_success a (pr_definition p) ak (pr_rule p) (Some task) written False))"
    from passed assms have run: "tbind (upsert_card b (Some rid) patch token) ?rest s = Some (r, s')"
      by (simp add: commit_patch_def)
    then show ?thesis
    proof (cases rule: tbindE)
      case (raised e)
      then show ?thesis using passed upsert_writes by auto
    next
      case (went_on written0 t)
      have w: "writes t = writes s @ [Write (Some rid) patch]" using went_on(1) by (rule upsert_writes)
      from went_on(2) show ?thesis
      proof (cases rule: tbindE)
        case (raised e)
        have "writes s' = writes t" using raised(1) by (rule quietD[OF quiet_visible_write])
        then show ?thesis using passed w raised(2) by simp
      next
        case (went_on v u)
        obtain written visible where v: "v = (written, visible)" by (cases v)
        have u: "writes u = writes s @ [Write (Some rid) patch]"
          using w quietD[OF quiet_visible_write went_on(1)] by simp
        show ?thesis
        proof (cases visible)
          case True
          then have "values_present written patch"
            using visible_write_visible went_on(1) by (simp add: v patch_visible_eq)
          then show ?thesis
            using passed u went_on(2) True
            by (auto simp: v action_success_def andthen_eq_Inr dest!: answer_success_run)
        next
          case False
          then show ?thesis
            using passed u went_on(2)
            by (auto simp: v write_not_visible_error_def dest!: answer_error_run workflow_error_code)
        qed
      qed
    qed
  qed
qed

text \<open>
  A run that wrote: the action was prepared on the card first read, the card read right before the
  write was the same, the gate passed on it, the patch is the engine's with the delivery facts, and
  it was written once.
\<close>

definition wrote_checked ::
  "env \<Rightarrow> 's board \<Rightarrow> assignment \<Rightarrow> string \<Rightarrow> dict \<Rightarrow> string option \<Rightarrow> bool \<Rightarrow> string list \<Rightarrow>
   string \<Rightarrow> dict \<Rightarrow> dict \<Rightarrow> prepared \<Rightarrow> dict \<Rightarrow> bool" where
  "wrote_checked E b a ak payload variant confirmed facts rid task latest p patch \<longleftrightarrow>
     prepare_existing_action (en_defs E) a ak task payload variant confirmed facts = Inr (Prepared p) \<and>
     same_card latest task \<and> (\<exists>st st'. bd_get b rid st = (Inr latest, st')) \<and>
     (\<exists>d. apply_delivery (en_git E) (en_fs E) (en_settings E) a p ak task d = Inr patch) \<and>
     completion_failure (en_git E) (en_fs E) (workspace_of a) (pr_definition p) latest patch = Inr None"

lemma on_value_errorE:
  assumes "on_value_error x h f s = Some (r, s')"
  obtains (normal) v where "x = Inr v" "f v s = Some (r, s')"
  | (handled) "h s = Some (r, s')"
  | (escaped) e where "r = Inl e" "s' = s"
  using assms by (auto simp: on_value_error_def split: sum.splits py_error.splits)

lemma execute_prepared_run:
  assumes run: "execute_prepared E b a w p ak rid variant task d token s = Some (r, s')"
    and prep: "prepare_existing_action (en_defs E) a ak task payload variant confirmed facts = Inr (Prepared p)"
  shows "(writes s' = writes s \<and> (\<forall>v. r = Inr (Succeeded v) \<longrightarrow> pr_already_applied p \<and> sc_task v = task)) \<or>
         (\<exists>latest patch. wrote_checked E b a ak payload variant confirmed facts rid task latest p patch \<and>
            writes s' = writes s @ [Write (Some rid) patch] \<and>
            (\<forall>v. r = Inr (Succeeded v) \<longrightarrow> values_present (sc_task v) patch) \<and>
            (\<forall>e. r = Inr (Failed e) \<longrightarrow> we_code e = ''write_not_visible''))"
proof (cases "pr_already_applied p \<and> no_input d")
  case True
  then show ?thesis using run
    by (auto simp: execute_prepared_def action_success_def andthen_eq_Inr dest!: answer_success_run)
next
  case False
  let ?x = "apply_delivery (en_git E) (en_fs E) (en_settings E) a p ak task d"
  from run False have "on_value_error ?x
        (answer_error (input_error a w ak ''invalid_delivery'' (JObj [(''delivery'', delivery_value d)])))
        (\<lambda>patch. tbind (get_card b rid) (\<lambda>latest.
           if \<not> same_card latest task then
             answer_error (task_changed_error a (pr_definition p) ak variant task latest)
           else commit_patch E b a p ak rid variant task latest patch token)) s = Some (r, s')"
    by (simp add: execute_prepared_def)
  then show ?thesis
  proof (cases rule: on_value_errorE)
    case handled
    then show ?thesis by (auto dest!: answer_error_run)
  next
    case (escaped e)
    then show ?thesis by simp
  next
    case (normal patch)
    from normal(2) show ?thesis
    proof (cases rule: tbindE)
      case (raised e)
      then show ?thesis using quietD[OF quiet_get raised(1)] by simp
    next
      case (went_on latest t)
      have t: "writes t = writes s" using quietD[OF quiet_get went_on(1)] .
      have got: "\<exists>st st'. bd_get b rid st = (Inr latest, st')"
        using went_on(1) by (auto simp: get_card_def split: prod.splits)
      show ?thesis
      proof (cases "same_card latest task")
        case False
        then show ?thesis using went_on(2) t by (auto dest!: answer_error_run)
      next
        case True
        then have "commit_patch E b a p ak rid variant task latest patch token t = Some (r, s')"
          using went_on(2) by simp
        from commit_patch_run[OF this] show ?thesis
          using t True got normal(1) prep unfolding wrote_checked_def by auto
      qed
    qed
  qed
qed

lemma execute_existing_run:
  assumes run: "execute_existing_action E b a ak record_id payload variant delivery confirmed facts current token s = Some (r, s')"
  shows "(writes s' = writes s \<and>
            (\<forall>v. r = Inr (Succeeded v) \<longrightarrow>
               (\<exists>p. prepare_existing_action (en_defs E) a ak (sc_task v) payload variant confirmed facts = Inr (Prepared p) \<and>
                    pr_already_applied p))) \<or>
         (\<exists>rid task latest p patch. wrote_checked E b a ak payload variant confirmed facts rid task latest p patch \<and>
            writes s' = writes s @ [Write (Some rid) patch] \<and>
            (\<forall>v. r = Inr (Succeeded v) \<longrightarrow> values_present (sc_task v) patch) \<and>
            (\<forall>e. r = Inr (Failed e) \<longrightarrow> we_code e = ''write_not_visible''))"
proof -
  define after where "after = (\<lambda>rid task w.
       if (case current of None \<Rightarrow> False | Some c \<Rightarrow> \<not> same_card c task) then
         answer_error (task_changed_error a w ak variant (task_dict current) task)
       else on_value_error (normalize_delivery_input (en_fs E) (workspace_of a) delivery)
         (answer_error (input_error a w ak ''invalid_delivery'' (JObj [(''delivery'', delivery)])))
         (\<lambda>d. tbind (give (prepare_existing_action (en_defs E) a ak task payload variant confirmed facts)) (\<lambda>out.
            case out of
              Rejected e \<Rightarrow> give (Inr (Failed e))
            | Prepared p \<Rightarrow> execute_prepared E b a w p ak rid variant task d token)))"
  have step: ?thesis if "writes t = writes s" "after rid task w t = Some (r, s')" for t rid task w
  proof (cases "case current of None \<Rightarrow> False | Some c \<Rightarrow> \<not> same_card c task")
    case True
    then show ?thesis using that by (auto simp: after_def dest!: answer_error_run)
  next
    case False
    with that(2) have "on_value_error (normalize_delivery_input (en_fs E) (workspace_of a) delivery)
         (answer_error (input_error a w ak ''invalid_delivery'' (JObj [(''delivery'', delivery)])))
         (\<lambda>d. tbind (give (prepare_existing_action (en_defs E) a ak task payload variant confirmed facts)) (\<lambda>out.
            case out of
              Rejected e \<Rightarrow> give (Inr (Failed e))
            | Prepared p \<Rightarrow> execute_prepared E b a w p ak rid variant task d token)) t = Some (r, s')"
      by (simp add: after_def)
    then show ?thesis
    proof (cases rule: on_value_errorE)
      case handled
      then show ?thesis using that(1) by (auto dest!: answer_error_run)
    next
      case (escaped e)
      then show ?thesis using that(1) by simp
    next
      case (normal d)
      from normal(2) show ?thesis
      proof (cases rule: tbindE)
        case (raised e)
        then show ?thesis using that(1) by simp
      next
        case (went_on out u)
        show ?thesis
        proof (cases out)
          case (Rejected e)
          then show ?thesis using went_on that(1) by auto
        next
          case (Prepared p)
          with went_on have u: "u = t"
            and prep: "prepare_existing_action (en_defs E) a ak task payload variant confirmed facts = Inr (Prepared p)"
            and ex: "execute_prepared E b a w p ak rid variant task d token t = Some (r, s')" by auto
          from execute_prepared_run[OF ex prep] show ?thesis using prep that(1) by fastforce
        qed
      qed
    qed
  qed
  have eq: "execute_existing_action E b a ak record_id payload variant delivery confirmed facts current token =
      tbind (give (normalize_record_id record_id)) (\<lambda>rid. tbind (get_card b rid) (\<lambda>task.
        tbind (give (workflow_definition_for_assignment (en_defs E) a)) (\<lambda>w. after rid task w)))"
    by (simp add: execute_existing_action_def after_def)
  from run[unfolded eq] show ?thesis
  proof (cases rule: tbindE)
    case (went_on rid t)
    then have [simp]: "t = s" by simp
    from went_on(2) show ?thesis
    proof (cases rule: tbindE)
      case (raised e)
      then show ?thesis using quietD[OF quiet_get raised(1)] by simp
    next
      case (went_on task u)
      have u: "writes u = writes s" using quietD[OF quiet_get went_on(1)] by simp
      from went_on(2) show ?thesis
      proof (cases rule: tbindE)
        case (raised e)
        then show ?thesis using u by simp
      next
        case (went_on w u')
        then show ?thesis using step[of u rid task w] u by simp
      qed
    qed
  qed simp
qed

section \<open>Every tool returns\<close>

text \<open>What the loop relies on: sleeping takes at least as long as asked, and time does not run back.\<close>

definition steady :: "'s board \<Rightarrow> bool" where
  "steady b \<longleftrightarrow>
     (\<forall>d st. bd_now b st + d \<le> bd_now b (bd_sleep b d st)) \<and>
     (\<forall>rid st. bd_now b st \<le> bd_now b (snd (bd_get b rid st)))"

definition returns :: "('s, 'a) tool \<Rightarrow> bool" where
  "returns m \<longleftrightarrow> (\<forall>s. m s \<noteq> None)"

named_theorems returns_intros \<open>runs that return\<close>

lemma returns_give [returns_intros]: "returns (give r)"
  by (simp add: returns_def give_def)

lemma returns_tbind [returns_intros]: "returns m \<Longrightarrow> (\<And>v. returns (f v)) \<Longrightarrow> returns (tbind m f)"
  by (auto simp: returns_def tbind_def split: option.splits sum.splits prod.splits)

lemma returns_calls [returns_intros]:
  "returns (get_card b rid)" "returns (upsert_card b r patch token)" "returns (pause b d)" "returns (clock b)"
  by (auto simp: returns_def get_card_def upsert_card_def pause_def clock_def split: prod.splits)

lemma returns_answer [returns_intros]: "returns (answer_error e)" "returns (answer_success v)"
  by (auto simp: answer_error_def answer_success_def intro: returns_intros)

lemma returns_on_value_error [returns_intros]:
  "returns h \<Longrightarrow> (\<And>v. returns (f v)) \<Longrightarrow> returns (on_value_error r h f)"
  by (auto simp: on_value_error_def intro: returns_intros split: sum.splits py_error.splits)

lemma returns_cases [returns_intros]:
  "(c \<Longrightarrow> returns m) \<Longrightarrow> (\<not> c \<Longrightarrow> returns m') \<Longrightarrow> returns (if c then m else m')"
  "(\<And>e. returns (f e)) \<Longrightarrow> (\<And>p. returns (g p)) \<Longrightarrow> returns (case out of Rejected e \<Rightarrow> f e | Prepared p \<Rightarrow> g p)"
  "returns n \<Longrightarrow> (\<And>v. returns (h v)) \<Longrightarrow> returns (case opt of None \<Rightarrow> n | Some v \<Rightarrow> h v)"
  "(\<And>x y. returns (k x y)) \<Longrightarrow> returns (case pair of (x, y) \<Rightarrow> k x y)"
  by (auto split: outcome.split option.split prod.split)

text \<open>One round ends the loop or leaves the rest of the time, less the delay, to the next round.\<close>

lemma reread_round:
  assumes b: "steady b"
    and next_round: "\<And>s' shown. deadline - bd_now b (wd_board s') \<le> deadline - bd_now b (wd_board s) - delay \<Longrightarrow>
       reread n b rid patch deadline (min (delay * 2) WRITE_VISIBILITY_MAX_DELAY) shown s' \<noteq> None"
  shows "reread (Suc n) b rid patch deadline delay latest s \<noteq> None"
proof (cases "bd_now b (wd_board s) < deadline")
  case True
  let ?t = "bd_sleep b delay (wd_board s)"
  have "bd_now b (wd_board s) + delay \<le> bd_now b ?t" and "bd_now b ?t \<le> bd_now b (snd (bd_get b rid ?t))"
    using b by (simp_all add: steady_def)
  then have later: "deadline - bd_now b (snd (bd_get b rid ?t)) \<le> deadline - bd_now b (wd_board s) - delay" by linarith
  show ?thesis
    using True next_round later
    by (auto simp: tbind_def clock_def pause_def get_card_def give_def split: sum.splits prod.splits)
next
  case False
  then show ?thesis by (simp add: tbind_def clock_def give_def)
qed

lemma reread_slow:
  assumes b: "steady b"
  shows "deadline - bd_now b (wd_board s) \<le> 1000 * int k \<Longrightarrow>
    reread (Suc k) b rid patch deadline 1000 latest s \<noteq> None"
proof (induction k arbitrary: s latest)
  case 0
  then show ?case by (simp add: tbind_def clock_def give_def)
next
  case (Suc k)
  show ?case
  proof (rule reread_round[OF b])
    fix s' :: "'a world" and shown
    assume "deadline - bd_now b (wd_board s') \<le> deadline - bd_now b (wd_board s) - 1000"
    then show "reread (Suc k) b rid patch deadline (min (1000 * 2) WRITE_VISIBILITY_MAX_DELAY) shown s' \<noteq> None"
      using Suc unfolding WRITE_VISIBILITY_MAX_DELAY_def by simp
  qed
qed

text \<open>
  The delays 250, 500, 1000, 1000, ... exceed ten seconds after twelve rounds; the thirteenth unit
  of fuel is for finding the deadline passed.
\<close>

lemma reread_returns:
  assumes b: "steady b" and time: "deadline \<le> bd_now b (wd_board s) + WRITE_VISIBILITY_TIMEOUT"
  shows "reread reread_fuel b rid patch deadline WRITE_VISIBILITY_INITIAL_DELAY latest s \<noteq> None"
proof -
  have slow: "reread 11 b rid patch deadline 1000 shown t \<noteq> None"
    if "deadline - bd_now b (wd_board t) \<le> 10000" for shown t
    using reread_slow[OF b, of deadline t 10 rid patch shown] that by (simp add: eval_nat_numeral)
  have middle: "reread 12 b rid patch deadline 500 shown t \<noteq> None"
    if "deadline - bd_now b (wd_board t) \<le> 10000" for shown t
  proof -
    have "reread (Suc 11) b rid patch deadline 500 shown t \<noteq> None"
      using that slow by (intro reread_round[OF b]) (simp add: WRITE_VISIBILITY_MAX_DELAY_def)
    then show ?thesis by (simp add: eval_nat_numeral)
  qed
  have "reread (Suc 12) b rid patch deadline 250 latest s \<noteq> None"
    using time middle
    by (intro reread_round[OF b]) (simp add: WRITE_VISIBILITY_MAX_DELAY_def WRITE_VISIBILITY_TIMEOUT_def)
  then show ?thesis by (simp add: reread_fuel_def WRITE_VISIBILITY_INITIAL_DELAY_def eval_nat_numeral)
qed

lemma returns_visible_write [returns_intros]:
  assumes "steady b"
  shows "returns (visible_write b patch written)"
proof -
  have "tbind (clock b) (\<lambda>now. reread reread_fuel b rid patch (now + WRITE_VISIBILITY_TIMEOUT)
      WRITE_VISIBILITY_INITIAL_DELAY written) s \<noteq> None" for rid and s :: "'a world"
    unfolding tbind_def clock_def using reread_returns[OF assms] by simp
  then show ?thesis by (simp add: visible_write_def returns_def Let_def give_def)
qed

lemma returns_execute [returns_intros]:
  "steady b \<Longrightarrow> returns (execute_existing_action E b a ak rid payload variant delivery confirmed facts current token)"
  unfolding execute_existing_action_def execute_prepared_def commit_patch_def
  by (intro returns_intros | assumption)+

lemma returns_create [returns_intros]: "steady b \<Longrightarrow> returns (create_task E b a given mode token)"
  unfolding create_task_def Let_def
  by (intro returns_intros | assumption)+

section \<open>What the delivery facts of a patch are\<close>

lemma map_of_put_shas:
  "f \<notin> fst ` set shas \<Longrightarrow> map_of (put_shas shas patch) f = map_of patch f"
proof (induction shas arbitrary: patch)
  case (Cons x shas)
  then show ?case by (cases x) (simp add: put_shas_def update_conv')
qed (simp add: put_shas_def)

lemma put_shas_Nil [simp]: "put_shas [] patch = patch"
  by (simp add: put_shas_def)

definition chosen_mode :: "string option \<Rightarrow> string" where
  "chosen_mode mode = (case mode of None \<Rightarrow> [] | Some m \<Rightarrow> m)"

definition with_mode :: "string \<Rightarrow> dict \<Rightarrow> dict" where
  "with_mode m patch = (if m = [] then patch else AList.update ''delivery_mode'' (JStr m) patch)"

lemma apply_delivery_parts:
  assumes "apply_delivery git fs settings a p ak task d = Inr patch"
  obtains mode base where
    "resolve_transition_mode settings (pr_definition p) task
       (case di_mode d of None \<Rightarrow> JNull | Some v \<Rightarrow> v) (rl_to (pr_rule p)) ak = Inr mode"
    and "reject_repository_only_input (if chosen_mode mode = [] then mode_of task else chosen_mode mode) d = Inr ()"
    and "verify_supplied_shas git fs (workspace_of a) d = Inr ()"
    and "di_resources d = None \<and> base = put_shas (di_shas d) (with_mode (chosen_mode mode) (pr_patch p)) \<or>
       (\<exists>r text. di_resources d = Some r \<and> append_resources (dget task ''delivery_resources'') (Some r) = Inr text \<and>
          base = AList.update ''delivery_resources'' (JStr text)
            (put_shas (di_shas d) (with_mode (chosen_mode mode) (pr_patch p))))"
    and "ak \<noteq> ''claim'' \<and> patch = base \<or>
       ak = ''claim'' \<and> (\<exists>b. claim_baseline git (workspace_of a) (AList.merge task base) = Inr b \<and> patch = AList.merge base b)"
proof -
  from assms obtain mode base where
    "resolve_transition_mode settings (pr_definition p) task
       (case di_mode d of None \<Rightarrow> JNull | Some v \<Rightarrow> v) (rl_to (pr_rule p)) ak = Inr mode"
    "reject_repository_only_input (if chosen_mode mode = [] then mode_of task else chosen_mode mode) d = Inr ()"
    "verify_supplied_shas git fs (workspace_of a) d = Inr ()"
    "(case di_resources d of
         None \<Rightarrow> Inr (put_shas (di_shas d) (with_mode (chosen_mode mode) (pr_patch p)))
       | Some r \<Rightarrow> andthen (append_resources (dget task ''delivery_resources'') (Some r)) (\<lambda>text.
           Inr (AList.update ''delivery_resources'' (JStr text)
             (put_shas (di_shas d) (with_mode (chosen_mode mode) (pr_patch p)))))) = Inr base"
    "(if ak = ''claim'' then
       andthen (claim_baseline git (workspace_of a) (AList.merge task base)) (\<lambda>b. Inr (AList.merge base b))
     else Inr base) = Inr patch"
    unfolding apply_delivery_def Let_def chosen_mode_def[symmetric] with_mode_def[symmetric]
    by (auto simp: andthen_eq_Inr)
  then show thesis
    by (intro that[of mode base]) (auto simp: andthen_eq_Inr split: option.splits if_splits)
qed

lemma claim_baseline_cases:
  "claim_baseline git ws task = Inr b \<Longrightarrow>
     b = [] \<or> (\<exists>h. b = [(''target_branch'', JStr DEFAULT_TARGET_BRANCH), (''base_sha'', JStr h)])"
  unfolding claim_baseline_def by (simp add: andthen_eq_Inr split: if_splits) (auto split: option.splits)

lemma claim_baseline_keys:
  assumes "claim_baseline git ws task = Inr b" and "f \<notin> {''target_branch'', ''base_sha''}"
  shows "map_of b f = None"
  using claim_baseline_cases[OF assms(1)] assms(2) by auto

lemma normalized_sha_fields: "normalize_shas d fs = Inr shas \<Longrightarrow> fst ` set shas \<subseteq> set fs"
proof (induction fs arbitrary: shas)
  case (Cons f fs)
  then have "\<exists>rest. normalize_shas d fs = Inr rest \<and> (shas = rest \<or> (\<exists>v. shas = (f, v) # rest))"
    by (simp add: Let_def andthen_eq_Inr split: option.splits if_splits) metis
  then show ?case using Cons.IH by fastforce
qed simp

text \<open>The mode a patch carries is the one chosen, or none.\<close>

lemma apply_delivery_mode:
  assumes applied: "apply_delivery git fs settings a p ak task d = Inr patch"
    and engine: "''delivery_mode'' \<notin> dom (map_of (pr_patch p))"
    and shas: "fst ` set (di_shas d) \<subseteq> set AGENT_SHA_FIELDS"
  shows "\<exists>mode. resolve_transition_mode settings (pr_definition p) task
       (case di_mode d of None \<Rightarrow> JNull | Some v \<Rightarrow> v) (rl_to (pr_rule p)) ak = Inr mode \<and>
     dget (AList.merge task patch) ''delivery_mode'' =
       (if chosen_mode mode = [] then dget task ''delivery_mode'' else JStr (chosen_mode mode))"
  using applied
proof (rule apply_delivery_parts)
  fix mode base
  assume mode: "resolve_transition_mode settings (pr_definition p) task
       (case di_mode d of None \<Rightarrow> JNull | Some v \<Rightarrow> v) (rl_to (pr_rule p)) ak = Inr mode"
    and base: "di_resources d = None \<and> base = put_shas (di_shas d) (with_mode (chosen_mode mode) (pr_patch p)) \<or>
       (\<exists>r text. di_resources d = Some r \<and> append_resources (dget task ''delivery_resources'') (Some r) = Inr text \<and>
          base = AList.update ''delivery_resources'' (JStr text)
            (put_shas (di_shas d) (with_mode (chosen_mode mode) (pr_patch p))))"
    and patch: "ak \<noteq> ''claim'' \<and> patch = base \<or>
       ak = ''claim'' \<and> (\<exists>b. claim_baseline git (workspace_of a) (AList.merge task base) = Inr b \<and> patch = AList.merge base b)"
  have fields: "''delivery_mode'' \<notin> fst ` set (di_shas d)" using shas by (auto simp: AGENT_SHA_FIELDS_def)
  have keep: "map_of (put_shas (di_shas d) q) ''delivery_mode'' = map_of q ''delivery_mode''" for q
    using fields by (rule map_of_put_shas)
  have b: "map_of base ''delivery_mode'' =
      (if chosen_mode mode = [] then None else Some (JStr (chosen_mode mode)))"
    using base engine by (auto simp: keep with_mode_def update_conv' domIff)
  have "map_of patch ''delivery_mode'' = map_of base ''delivery_mode''"
    using patch claim_baseline_keys[of _ _ _ _ "''delivery_mode''"] by (auto simp: merge_conv' map_add_def)
  with b have "dget (AList.merge task patch) ''delivery_mode'' =
       (if chosen_mode mode = [] then dget task ''delivery_mode'' else JStr (chosen_mode mode))"
    by (simp add: dget_merge)
  with mode show ?thesis by blast
qed

section \<open>The mode after an action\<close>

lemma strip_delivery_mode: "m \<in> set DELIVERY_MODES \<Longrightarrow> strip m = m \<and> m \<noteq> []"
  by (auto simp: DELIVERY_MODES_def strip_def is_space_def)

lemma resolve_mode_known:
  "resolve_transition_mode settings w task req target ak = Inr (Some m) \<Longrightarrow> m \<in> set DELIVERY_MODES"
  by (auto simp: resolve_transition_mode_def andthen_eq_Inr Let_def DELIVERY_MODES_def split: if_splits)

lemma resolve_mode_ready:
  assumes "resolve_transition_mode settings w task req target ak = Inr mode" and "ak \<noteq> ''cancel''" and "target \<noteq> None"
  shows "(if chosen_mode mode = [] then mode_of task else chosen_mode mode) \<in> set DELIVERY_MODES"
proof (cases mode)
  case (Some m)
  then have "m \<in> set DELIVERY_MODES" using assms(1) resolve_mode_known by simp
  then show ?thesis using Some strip_delivery_mode by (simp add: chosen_mode_def)
next
  case None
  obtain enabled where "version_control_enabled settings = Inr enabled"
    using assms(1) by (auto simp: resolve_transition_mode_def andthen_eq_Inr)
  with assms None have "mode_of task \<in> set DELIVERY_MODES"
    unfolding resolve_transition_mode_def Let_def by (simp split: if_splits)
  then show ?thesis by (simp add: None chosen_mode_def)
qed

lemma resolve_mode_locked:
  assumes "resolve_transition_mode settings w task req target ak = Inr mode" and "mode_of task \<noteq> []"
    and "text_of (dget task ''status'') \<noteq> wf_initial_state w"
  shows "mode = None"
proof -
  obtain enabled where "version_control_enabled settings = Inr enabled"
    using assms(1) by (auto simp: resolve_transition_mode_def andthen_eq_Inr)
  with assms show ?thesis
    unfolding resolve_transition_mode_def Let_def by (simp split: if_splits)
qed

lemma mode_after:
  assumes "apply_delivery git fs settings a p ak task d = Inr patch"
    and "''delivery_mode'' \<notin> dom (map_of (pr_patch p))" and "fst ` set (di_shas d) \<subseteq> set AGENT_SHA_FIELDS"
  obtains mode where "resolve_transition_mode settings (pr_definition p) task
       (case di_mode d of None \<Rightarrow> JNull | Some v \<Rightarrow> v) (rl_to (pr_rule p)) ak = Inr mode"
    and "mode_of (AList.merge task patch) = (if chosen_mode mode = [] then mode_of task else chosen_mode mode)"
proof -
  from apply_delivery_mode[OF assms] obtain mode where
    mode: "resolve_transition_mode settings (pr_definition p) task
       (case di_mode d of None \<Rightarrow> JNull | Some v \<Rightarrow> v) (rl_to (pr_rule p)) ak = Inr mode"
    and m: "dget (AList.merge task patch) ''delivery_mode'' =
       (if chosen_mode mode = [] then dget task ''delivery_mode'' else JStr (chosen_mode mode))" by blast
  have "chosen_mode mode \<noteq> [] \<Longrightarrow> strip (chosen_mode mode) = chosen_mode mode"
    using resolve_mode_known mode strip_delivery_mode by (cases mode) (auto simp: chosen_mode_def)
  then have "mode_of (AList.merge task patch) = (if chosen_mode mode = [] then mode_of task else chosen_mode mode)"
    unfolding mode_of_def m by simp
  with mode show thesis by (rule that)
qed

text \<open>Every commit id that is recorded names a commit of the repository at that moment.\<close>

lemma verify_shas_exist:
  assumes "verify_supplied_shas git fs workspace d = Inr ()" and "(f, sha) \<in> set (di_shas d)"
  shows "commit_exists git (workspace_root fs workspace) sha = Inr True"
proof -
  let ?repo = "workspace_root fs workspace"
  define missing where
    "missing = filter_result (\<lambda>(f, sha). andthen (commit_exists git ?repo sha) (\<lambda>b. Inr (\<not> b))) (di_shas d)"
  define x where "x = andthen (ensure_repository git ?repo) (\<lambda>_. missing)"
  have "di_shas d \<noteq> []" using assms(2) by auto
  then have "(case x of Inl (GitFactError m) \<Rightarrow> Inl (ValueError ''git could not confirm the supplied commit ids'')
        | Inl e \<Rightarrow> Inl e
        | Inr missing \<Rightarrow> ensure (missing = []) ''does not name a commit in this repository'') = Inr ()"
    using assms(1) unfolding verify_supplied_shas_def Let_def x_def missing_def by simp
  then have "x = Inr []"
    by (cases x) (simp split: py_error.splits, simp add: ensure_def split: if_splits)
  then have "missing = Inr []" unfolding x_def by (simp add: andthen_eq_Inr)
  then have "andthen (commit_exists git ?repo sha) (\<lambda>b. Inr (\<not> b)) = Inr False"
    unfolding missing_def filter_result_none using assms(2) by fast
  then show ?thesis by (cases "commit_exists git ?repo sha") simp_all
qed

end
