(* ===== verification/Tool_Properties.thy ===== *)
theory Tool_Properties
  imports Workflow_Engine Teamflow_Tools
begin

text \<open>
  The properties of the mutating tools, with a demo board that holds one card and a clock. A run
  starts from a world and ends in another; \<open>writes\<close> are the write requests sent to the board.
\<close>

definition demo_board :: "(dict \<times> int) board" where
  "demo_board =
     \<lparr>bd_get = (\<lambda>rid (c, t). (Inr c, (c, t))),
      bd_upsert = (\<lambda>rid p token (c, t). (Inr (AList.merge c p), (AList.merge c p, t))),
      bd_now = (\<lambda>(c, t). t), bd_sleep = (\<lambda>d (c, t). (c, t + d))\<rparr>"

definition demo_fs :: file_system where
  "demo_fs = \<lparr>fs_expand = (\<lambda>p. p), fs_resolve = (\<lambda>p. p), fs_exists = (\<lambda>p. False)\<rparr>"

definition demo_env :: env where
  "demo_env = \<lparr>en_git = demo_tip_git, en_fs = demo_fs, en_settings = Missing_File, en_defs = demo_defs\<rparr>"

definition demo_world :: "dict \<Rightarrow> (dict \<times> int) world" where
  "demo_world c = \<lparr>wd_board = (c, 0), wd_log = []\<rparr>"

definition demo_claim_run :: "(answer result \<times> (dict \<times> int) world) option" where
  "demo_claim_run = execute_existing_action demo_env demo_board (demo_agent ''a1'' ''executor'') ''claim''
     (JStr ''r1'') [] None JNull True [] None None (demo_world demo_ready)"

definition demo_claim_answer :: "answer result" where
  "demo_claim_answer = (case demo_claim_run of None \<Rightarrow> Inl TypeError | Some (r, s) \<Rightarrow> r)"

definition demo_claim_world :: "(dict \<times> int) world" where
  "demo_claim_world = (case demo_claim_run of None \<Rightarrow> demo_world [] | Some (r, s) \<Rightarrow> s)"

lemma demo_claim_runs:
  "execute_existing_action demo_env demo_board (demo_agent ''a1'' ''executor'') ''claim''
     (JStr ''r1'') [] None JNull True [] None None (demo_world demo_ready) = Some (demo_claim_answer, demo_claim_world)"
  by code_simp

lemma demo_claim_wrote:
  "writes demo_claim_world =
     [Write (Some ''r1'') [(''agent'', JStr ''a1''), (''agent_id'', JStr ''a1''), (''status'', JStr ''in_progress'')]]"
  by code_simp

section \<open>Properties\<close>



text \<open>A structured error means that nothing was written, with one exception that says so itself: the
  error that the write is not visible yet.\<close>

theorem tool_error_writes_nothing:
  assumes "execute_existing_action E b a ak record_id payload variant delivery confirmed facts current token s
    = Some (Inr (Failed e), s')"
    and "we_code e \<noteq> ''write_not_visible''"
  shows "writes s' = writes s"
  using execute_existing_run[OF assms(1)] assms(2) by blast

definition demo_denied :: wf_error where
  "demo_denied =
     (case claim_task demo_env demo_board (demo_agent ''o1'' ''owner'') (JStr ''r1'') None (demo_world demo_ready) of
        Some (Inr (Failed e), s) \<Rightarrow> e
      | _ \<Rightarrow> \<lparr>we_category = [], we_code = ''write_not_visible'', we_retryable = False, we_action = [],
             we_option = None, we_record_id = JNull, we_task_id = JNull, we_state = JNull, we_details = JNull,
             we_available = []\<rparr>)"

definition demo_denied_world :: "(dict \<times> int) world" where
  "demo_denied_world = (demo_world demo_ready)\<lparr>wd_log := [Read ''r1'']\<rparr>"

lemma demo_denied_runs:
  "execute_existing_action demo_env demo_board (demo_agent ''o1'' ''owner'') ''claim'' (JStr ''r1'') [] None JNull True
     [] None None (demo_world demo_ready) = Some (Inr (Failed demo_denied), demo_denied_world)"
  by code_simp

theorem tool_error_writes_nothing_witness:
  "we_code demo_denied = ''permission_denied'' \<and> writes demo_denied_world = writes (demo_world demo_ready)"
proof
  show code: "we_code demo_denied = ''permission_denied''" by code_simp
  show "writes demo_denied_world = writes (demo_world demo_ready)"
    by (rule tool_error_writes_nothing[OF demo_denied_runs]) (simp add: code)
qed

text \<open>Success is visible: a tool that reports success either found the action already applied on the
  card it reports and wrote nothing, or reports a card read back from the board that holds every field
  of the patch it wrote.\<close>

theorem tool_success_is_visible:
  assumes "execute_existing_action E b a ak record_id payload variant delivery confirmed facts current token s
    = Some (Inr (Succeeded v), s')"
  shows "(writes s' = writes s \<and>
       (\<exists>p. prepare_existing_action (en_defs E) a ak (sc_task v) payload variant confirmed facts = Inr (Prepared p) \<and>
            pr_already_applied p)) \<or>
    (\<exists>rid patch. writes s' = writes s @ [Write (Some rid) patch] \<and> values_present (sc_task v) patch)"
  using execute_existing_run[OF assms] by blast

definition demo_claim_success :: success where
  "demo_claim_success =
     (case demo_claim_answer of
        Inr (Succeeded v) \<Rightarrow> v
      | _ \<Rightarrow> \<lparr>sc_action = [], sc_tool = [], sc_option = None, sc_already_applied = True, sc_from = JNull,
             sc_to = JNull, sc_task = [], sc_available = []\<rparr>)"

lemma demo_claim_succeeded: "demo_claim_answer = Inr (Succeeded demo_claim_success)"
  by code_simp

theorem tool_success_is_visible_witness:
  "values_present (sc_task demo_claim_success)
     [(''agent'', JStr ''a1''), (''agent_id'', JStr ''a1''), (''status'', JStr ''in_progress'')]"
proof -
  have run: "execute_existing_action demo_env demo_board (demo_agent ''a1'' ''executor'') ''claim''
     (JStr ''r1'') [] None JNull True [] None None (demo_world demo_ready)
     = Some (Inr (Succeeded demo_claim_success), demo_claim_world)"
    using demo_claim_runs by (simp add: demo_claim_succeeded)
  have none: "writes (demo_world demo_ready) = []" by (simp add: demo_world_def writes_def)
  from tool_success_is_visible[OF run] show ?thesis by (simp add: none demo_claim_wrote)
qed









text \<open>C9: Every tool on an existing card returns: with a clock that advances by at least what is slept, the
  wait for a visible write ends after at most twelve rereads, so the bounded loop always has an answer.\<close>

theorem tools_return:
  assumes "steady b"
  shows "\<exists>r s'. execute_existing_action E b a ak record_id payload variant delivery confirmed facts current token s
    = Some (r, s')"
  using returns_execute[OF assms] unfolding returns_def by (metis old.prod.exhaust option.exhaust)

lemma demo_steady: "steady demo_board"
  by (simp add: steady_def demo_board_def split_beta)

theorem tools_return_witness:
  "\<exists>r s'. execute_existing_action demo_env demo_board (demo_agent ''x'' ''y'') ''update'' (JStr ''r1'') [] None JNull True []
     None None (demo_world []) = Some (r, s')"
  by (rule tools_return[OF demo_steady])

text \<open>The delivery mode is locked: once a task has a mode and has left the initial state, no accepted
  action changes its mode.\<close>

theorem delivery_mode_locked:
  assumes "apply_delivery git fs settings a p ak task d = Inr patch"
    and "''delivery_mode'' \<notin> dom (map_of (pr_patch p))" and "fst ` set (di_shas d) \<subseteq> set AGENT_SHA_FIELDS"
    and "mode_of task \<noteq> []" and "text_of (dget task ''status'') \<noteq> wf_initial_state (pr_definition p)"
  shows "mode_of (AList.merge task patch) = mode_of task"
  using assms(1-3)
proof (rule mode_after)
  fix mode
  assume "resolve_transition_mode settings (pr_definition p) task
       (case di_mode d of None \<Rightarrow> JNull | Some v \<Rightarrow> v) (rl_to (pr_rule p)) ak = Inr mode"
    and m: "mode_of (AList.merge task patch) = (if chosen_mode mode = [] then mode_of task else chosen_mode mode)"
  then have "mode = None" using assms(4,5) resolve_mode_locked by blast
  with m show ?thesis by (simp add: chosen_mode_def)
qed

definition demo_claim_patch :: dict where
  "demo_claim_patch = [(''agent'', JStr ''a1''), (''agent_id'', JStr ''a1''), (''status'', JStr ''in_progress'')]"

lemma demo_apply:
  "apply_delivery demo_tip_git demo_fs Missing_File (demo_agent ''a1'' ''executor'') demo_claimed ''claim'' demo_ready
     no_delivery_input = Inr demo_claim_patch"
  by code_simp

theorem delivery_mode_locked_witness: "mode_of (AList.merge demo_ready demo_claim_patch) = mode_of demo_ready"
proof (rule delivery_mode_locked[OF demo_apply])
  show "''delivery_mode'' \<notin> dom (map_of (pr_patch demo_claimed))" by (simp add: demo_claimed_facts)
  show "fst ` set (di_shas no_delivery_input) \<subseteq> set AGENT_SHA_FIELDS" by (simp add: no_delivery_input_def)
  show "mode_of demo_ready \<noteq> []" by code_simp
  show "text_of (dget demo_ready ''status'') \<noteq> wf_initial_state (pr_definition demo_claimed)" by code_simp
qed

text \<open>A task does not move without a mode: whenever an action other than a cancellation is accepted for
  a transition, the task is in standard or repository delivery afterwards.\<close>

theorem transition_has_delivery_mode:
  assumes "apply_delivery git fs settings a p ak task d = Inr patch"
    and "''delivery_mode'' \<notin> dom (map_of (pr_patch p))" and "fst ` set (di_shas d) \<subseteq> set AGENT_SHA_FIELDS"
    and "ak \<noteq> ''cancel''" and "rl_to (pr_rule p) \<noteq> None"
  shows "mode_of (AList.merge task patch) \<in> {''standard'', ''repository''}"
  using assms(1-3)
proof (rule mode_after)
  fix mode
  assume "resolve_transition_mode settings (pr_definition p) task
       (case di_mode d of None \<Rightarrow> JNull | Some v \<Rightarrow> v) (rl_to (pr_rule p)) ak = Inr mode"
    and m: "mode_of (AList.merge task patch) = (if chosen_mode mode = [] then mode_of task else chosen_mode mode)"
  from resolve_mode_ready[OF this(1) assms(4,5)] m show ?thesis by (simp add: DELIVERY_MODES_def)
qed

theorem transition_has_delivery_mode_witness:
  "mode_of (AList.merge demo_ready demo_claim_patch) \<in> {''standard'', ''repository''}"
proof (rule transition_has_delivery_mode[OF demo_apply])
  show "''delivery_mode'' \<notin> dom (map_of (pr_patch demo_claimed))" by (simp add: demo_claimed_facts)
  show "fst ` set (di_shas no_delivery_input) \<subseteq> set AGENT_SHA_FIELDS" by (simp add: no_delivery_input_def)
  show "''claim'' \<noteq> ''cancel''" by simp
  show "rl_to (pr_rule demo_claimed) \<noteq> None" using rule_target_Some[OF demo_claimed_facts(3)] by simp
qed

end
