(* ===== verification/Teamflow_Queries.thy ===== *)
theory Teamflow_Queries
  imports Workflow_Responses
begin

text \<open>
  The reading tools of \<^verbatim>\<open>core/teamflow_tools.py\<close>: the coordinator's task list with its
  filters and pages, one card by record id or task id, and the tasks an agent may claim. The board's
  list call answers a page for an offset; the local snapshots of \<^verbatim>\<open>list_available_tasks\<close> are
  the rows of the event database in their order. \<^verbatim>\<open>casefold\<close> is modelled on ASCII letters, which
  task ids consist of.
\<close>

record page =
  pg_tasks :: "dict list"
  pg_more :: bool

record read_error =
  rd_category :: string
  rd_code :: string
  rd_details :: json

text \<open>\<^verbatim>\<open>_read_error\<close>\<close>

definition read_failed :: "string \<Rightarrow> string \<Rightarrow> json \<Rightarrow> read_error" where
  "read_failed category code details = \<lparr>rd_category = category, rd_code = code, rd_details = details\<rparr>"

definition same_task_id :: "json \<Rightarrow> string \<Rightarrow> bool" where
  "same_task_id v expected \<longleftrightarrow> map lower_char (strip (text_of v)) = map lower_char (strip expected)"

definition task_summary :: "dict \<Rightarrow> dict" where
  "task_summary t = map (\<lambda>f. (f, dget t f))
     [''record_id'', ''task_id'', ''title'', ''priority'', ''type'', ''status'', ''role'', ''agent'', ''agent_id'',
      ''delivery_mode'']"

section \<open>The pages of the board\<close>

text \<open>
  The generator \<^verbatim>\<open>_board_tasks\<close>: page after page until one is the last or empty. On a board that
  never ends it does not end.
\<close>

partial_function (option) board_tasks :: "(nat \<Rightarrow> page) \<Rightarrow> nat \<Rightarrow> dict list option" where
  "board_tasks pages off =
     (if \<not> pg_more (pages off) \<or> pg_tasks (pages off) = [] then Some (pg_tasks (pages off))
      else Option.bind (board_tasks pages (off + length (pg_tasks (pages off))))
             (\<lambda>rest. Some (pg_tasks (pages off) @ rest)))"

text \<open>
  The loop of \<^verbatim>\<open>list_tasks\<close> over one page: matching tasks are skipped up to the offset, collected
  up to the limit, and the first one beyond stops the scan.
\<close>

record scan =
  sn_tasks :: "dict list"
  sn_skipped :: nat
  sn_more :: bool

fun scan_page :: "(dict \<Rightarrow> bool) \<Rightarrow> nat \<Rightarrow> nat \<Rightarrow> dict list \<Rightarrow> scan \<Rightarrow> scan" where
  "scan_page matches limit off [] sn = sn"
| "scan_page matches limit off (t # ts) sn =
     (if \<not> matches t then scan_page matches limit off ts sn
      else if sn_skipped sn < off then scan_page matches limit off ts (sn\<lparr>sn_skipped := sn_skipped sn + 1\<rparr>)
      else if length (sn_tasks sn) = limit then sn\<lparr>sn_more := True\<rparr>
      else scan_page matches limit off ts (sn\<lparr>sn_tasks := sn_tasks sn @ [task_summary t]\<rparr>))"

partial_function (option) scan_board ::
  "(dict \<Rightarrow> bool) \<Rightarrow> nat \<Rightarrow> nat \<Rightarrow> (nat \<Rightarrow> page) \<Rightarrow> nat \<Rightarrow> scan \<Rightarrow> scan option" where
  "scan_board matches limit off pages at sn =
     (let sn' = scan_page matches limit off (pg_tasks (pages at)) sn in
      if sn_more sn' \<or> \<not> pg_more (pages at) \<or> pg_tasks (pages at) = [] then Some sn'
      else scan_board matches limit off pages (at + length (pg_tasks (pages at))) sn')"

record task_list =
  tl_tasks :: "dict list"
  tl_limit :: int
  tl_offset :: int
  tl_more :: bool

definition text_filter :: "json \<Rightarrow> string option" where
  "text_filter v = (let s = strip (text_of v) in if s = [] then None else Some s)"

definition matches_filters :: "string option \<Rightarrow> string option \<Rightarrow> string option \<Rightarrow> dict \<Rightarrow> bool" where
  "matches_filters status role task_id t \<longleftrightarrow>
     (case status of None \<Rightarrow> True | Some s \<Rightarrow> dget t ''status'' = JStr s) \<and>
     (case role of None \<Rightarrow> True | Some r \<Rightarrow> dget t ''role'' = JStr r) \<and>
     (case task_id of None \<Rightarrow> True | Some i \<Rightarrow> same_task_id (dget t ''task_id'') i)"

definition empty_scan :: scan where
  "empty_scan = \<lparr>sn_tasks = [], sn_skipped = 0, sn_more = False\<rparr>"

text \<open>The answer of a reading tool: \<open>None\<close> when the board never ends.\<close>

definition list_tasks ::
  "assignment \<Rightarrow> workflow \<Rightarrow> (nat \<Rightarrow> page) \<Rightarrow> json \<Rightarrow> json \<Rightarrow> json \<Rightarrow> int \<Rightarrow> int \<Rightarrow> (read_error + task_list) option" where
  "list_tasks a w pages status0 role0 task_id0 limit off =
     (let status = text_filter status0; role = text_filter role0; task_id = text_filter task_id0 in
      if as_role_key a \<noteq> wf_coordinator_role w then
        Some (Inl (read_failed ''permission'' ''coordinator_required''
          (JObj [(''coordinator_role'', JStr (wf_coordinator_role w)), (''caller_role'', JStr (as_role_key a))])))
      else if (case status of None \<Rightarrow> False | Some s \<Rightarrow> s \<notin> set (state_keys w)) then
        Some (Inl (read_failed ''validation'' ''invalid_status''
          (JObj [(''allowed_values'', strs (state_keys w)), (''received'', JStr (strip (text_of status0)))])))
      else if (case role of None \<Rightarrow> False | Some r \<Rightarrow> r \<notin> set (map fst (wf_roles w))) then
        Some (Inl (read_failed ''validation'' ''invalid_role''
          (JObj [(''allowed_values'', strs (map fst (wf_roles w))), (''received'', JStr (strip (text_of role0)))])))
      else if \<not> (1 \<le> limit \<and> limit \<le> 200) \<or> off < 0 then
        Some (Inl (read_failed ''validation'' ''invalid_pagination''
          (JObj [(''limit'', JInt limit), (''offset'', JInt off)])))
      else map_option (\<lambda>sn. Inr \<lparr>tl_tasks = sn_tasks sn, tl_limit = limit, tl_offset = off, tl_more = sn_more sn\<rparr>)
             (scan_board (matches_filters status role task_id) (nat limit) (nat off) pages 0 empty_scan))"

section \<open>One card, and the claimable ones\<close>

text \<open>\<open>by_record\<close> is the board's answer for a record id.\<close>

record task_view =
  tv_task :: dict
  tv_available :: "available_action list"

definition view_task :: "assignment \<Rightarrow> workflow \<Rightarrow> dict \<Rightarrow> (read_error + task_view) result" where
  "view_task a w t = andthen (available_task_actions a w t) (\<lambda>available.
     Inr (Inr \<lparr>tv_task = t, tv_available = available\<rparr>))"

definition get_task ::
  "assignment \<Rightarrow> workflow \<Rightarrow> (nat \<Rightarrow> page) \<Rightarrow> (string \<Rightarrow> dict result) \<Rightarrow> json \<Rightarrow> json \<Rightarrow>
   (read_error + task_view) result option" where
  "get_task a w pages by_record record_id0 task_id0 =
     (let rid = strip (text_of record_id0); tid = strip (text_of task_id0) in
      if (rid \<noteq> []) = (tid \<noteq> []) then
        Some (Inr (Inl (read_failed ''validation'' ''task_reference_required''
          (JObj [(''provided'', strs ((if rid \<noteq> [] then [''record_id''] else []) @ (if tid \<noteq> [] then [''task_id''] else [])))]))))
      else if rid \<noteq> [] then Some (andthen (by_record rid) (view_task a w))
      else map_option (\<lambda>tasks.
        let hits = filter (\<lambda>t. same_task_id (dget t ''task_id'') tid) tasks in
        (case hits of
           [] \<Rightarrow> Inr (Inl (read_failed ''validation'' ''task_not_found'' (JObj [(''task_id'', JStr tid)])))
         | [t] \<Rightarrow> view_task a w t
         | _ \<Rightarrow> Inr (Inl (read_failed ''validation'' ''task_id_not_unique''
             (JObj [(''task_id'', JStr tid), (''record_ids'', JList (map (\<lambda>t. dget t ''record_id'') hits))])))))
        (board_tasks pages 0))"

definition claim_states :: "assignment \<Rightarrow> workflow \<Rightarrow> string list" where
  "claim_states a w =
     sorted_set (concat (map rl_from (filter (rule_role_applicable a w) (action_rules w ''claim''))))"

definition claim_summary :: "dict \<Rightarrow> dict" where
  "claim_summary t = map (\<lambda>f. (f, dget t f))
     [''record_id'', ''task_id'', ''title'', ''priority'', ''type'', ''status'', ''role'']"

text \<open>A snapshot row: the \<^verbatim>\<open>status\<close> column and the parsed card.\<close>

definition list_available_tasks :: "assignment \<Rightarrow> workflow \<Rightarrow> (string \<times> dict) list \<Rightarrow> dict list result" where
  "list_available_tasks a w rows =
     (if claim_states a w = [] then Inr []
      else andthen (filter_result (\<lambda>t. andthen (available_task_actions a w t) (\<lambda>xs.
               Inr (list_ex (\<lambda>x. aa_tool x = ''claim_task'') xs)))
             (map snd (filter (\<lambda>(status, t). status \<in> set (claim_states a w)) rows)))
             (\<lambda>ts. Inr (map claim_summary ts)))"

section \<open>Paging\<close>

lemma scan_page_spec:
  assumes "length (sn_tasks sn) \<le> limit" and "sn_skipped sn \<le> off" and "sn_skipped sn < off \<Longrightarrow> sn_tasks sn = []"
    and "\<not> sn_more sn"
  shows "scan_page matches limit off ts sn =
     (let hits = filter matches ts; rest = drop (off - sn_skipped sn) hits; room = limit - length (sn_tasks sn)
      in \<lparr>sn_tasks = sn_tasks sn @ map task_summary (take room rest),
          sn_skipped = sn_skipped sn + min (off - sn_skipped sn) (length hits),
          sn_more = (room < length rest)\<rparr>)"
  using assms
proof (induction matches limit off ts sn rule: scan_page.induct)
  case (1 matches limit off sn)
  then show ?case by simp
next
  case (2 matches limit off t ts sn)
  show ?case
  proof (cases "matches t")
    case False
    then show ?thesis using 2 by simp
  next
    case m: True
    show ?thesis
    proof (cases "sn_skipped sn < off")
      case True
      then obtain k where k: "off = sn_skipped sn + Suc k" by (metis less_iff_Suc_add add_Suc_right)
      show ?thesis using 2 m True by (simp add: k Let_def)
    next
      case False
      then have off: "off = sn_skipped sn" using 2 by simp
      show ?thesis
      proof (cases "length (sn_tasks sn) = limit")
        case True
        then show ?thesis using m False by (simp add: off Let_def)
      next
        case room: False
        then obtain k where k: "limit = length (sn_tasks sn) + Suc k"
          using 2(4) by (metis le_neq_implies_less less_iff_Suc_add add_Suc_right)
        then show ?thesis using 2 m False room by (simp add: off Let_def)
      qed
    qed
  qed
qed

text \<open>
  A board that holds the cards \<open>ts\<close> and serves them in pages of at most \<open>sz\<close> cards. The list call
  asks for pages of 200.
\<close>

definition paged :: "nat \<Rightarrow> dict list \<Rightarrow> nat \<Rightarrow> page" where
  "paged sz ts off = \<lparr>pg_tasks = take sz (drop off ts), pg_more = (off + sz < length ts)\<rparr>"

lemma board_tasks_paged: "0 < sz \<Longrightarrow> off \<le> length ts \<Longrightarrow> board_tasks (paged sz ts) off = Some (drop off ts)"
proof (induction "length ts - off" arbitrary: off rule: less_induct)
  case less
  show ?case
  proof (cases "off + sz < length ts")
    case False
    then show ?thesis by (subst board_tasks.simps) (simp add: paged_def)
  next
    case True
    then have "length (take sz (drop off ts)) = sz" by simp
    moreover have "board_tasks (paged sz ts) (off + sz) = Some (drop (off + sz) ts)"
      using less True by simp
    moreover have "take sz (drop off ts) @ drop (off + sz) ts = drop off ts"
      by (metis append_take_drop_id drop_drop add.commute)
    ultimately show ?thesis using True less.prems by (subst board_tasks.simps) (simp add: paged_def)
  qed
qed

lemma scan_page_append:
  "\<not> sn_more (scan_page matches limit off xs sn) \<Longrightarrow> \<not> sn_more sn \<Longrightarrow>
     scan_page matches limit off (xs @ ys) sn = scan_page matches limit off ys (scan_page matches limit off xs sn)"
  by (induction matches limit off xs sn rule: scan_page.induct) auto

lemma scan_page_stopped:
  "sn_more (scan_page matches limit off xs sn) \<Longrightarrow> \<not> sn_more sn \<Longrightarrow>
     scan_page matches limit off (xs @ ys) sn = scan_page matches limit off xs sn"
  by (induction matches limit off xs sn rule: scan_page.induct) auto

lemma scan_board_paged:
  "0 < sz \<Longrightarrow> at \<le> length ts \<Longrightarrow> \<not> sn_more sn \<Longrightarrow>
     scan_board matches limit off (paged sz ts) at sn = Some (scan_page matches limit off (drop at ts) sn)"
proof (induction "length ts - at" arbitrary: at sn rule: less_induct)
  case less
  have split: "drop at ts = take sz (drop at ts) @ drop (at + sz) ts"
    by (metis append_take_drop_id drop_drop add.commute)
  let ?sn = "scan_page matches limit off (take sz (drop at ts)) sn"
  show ?case
  proof (cases "sn_more ?sn")
    case True
    then have "scan_page matches limit off (drop at ts) sn = ?sn"
      using scan_page_stopped less.prems(3) split by metis
    then show ?thesis using True by (subst scan_board.simps) (simp add: paged_def Let_def)
  next
    case go: False
    show ?thesis
    proof (cases "at + sz < length ts")
      case False
      then show ?thesis by (subst scan_board.simps) (simp add: paged_def Let_def)
    next
      case True
      then have "scan_board matches limit off (paged sz ts) (at + sz) ?sn =
          Some (scan_page matches limit off (drop (at + sz) ts) ?sn)"
        using less go by simp
      moreover have "scan_page matches limit off (drop at ts) sn = scan_page matches limit off (drop (at + sz) ts) ?sn"
        using scan_page_append[OF go less.prems(3)] split by metis
      ultimately show ?thesis using go True less.prems by (subst scan_board.simps) (simp add: paged_def Let_def)
    qed
  qed
qed

lemma list_tasks_paged:
  assumes "as_role_key a = wf_coordinator_role w"
    and "\<forall>s. text_filter status = Some s \<longrightarrow> s \<in> set (state_keys w)"
    and "\<forall>r. text_filter role = Some r \<longrightarrow> r \<in> set (map fst (wf_roles w))"
    and "1 \<le> limit" "limit \<le> 200" "0 \<le> off"
  shows "list_tasks a w (paged 200 ts) status role task_id limit off =
    (let hits = drop (nat off) (filter (matches_filters (text_filter status) (text_filter role) (text_filter task_id)) ts)
     in Some (Inr \<lparr>tl_tasks = map task_summary (take (nat limit) hits), tl_limit = limit, tl_offset = off,
                   tl_more = nat limit < length hits\<rparr>))"
proof -
  let ?m = "matches_filters (text_filter status) (text_filter role) (text_filter task_id)"
  have "scan_board ?m (nat limit) (nat off) (paged 200 ts) 0 empty_scan =
      Some (scan_page ?m (nat limit) (nat off) ts empty_scan)"
    using scan_board_paged[of 200 0 ts empty_scan ?m "nat limit" "nat off"] by (simp add: empty_scan_def)
  moreover have "scan_page ?m (nat limit) (nat off) ts empty_scan =
     (let hits = drop (nat off) (filter ?m ts)
      in \<lparr>sn_tasks = map task_summary (take (nat limit) hits), sn_skipped = min (nat off) (length (filter ?m ts)),
          sn_more = nat limit < length hits\<rparr>)"
    using scan_page_spec[of empty_scan "nat limit" "nat off" ?m ts] by (simp add: empty_scan_def Let_def)
  ultimately show ?thesis
    using assms unfolding list_tasks_def Let_def by (auto split: option.splits)
qed

end
