(* ===== verification/Event_Database.thy ===== *)
theory Event_Database
  imports Workflow_Values Json_Text Append_Only
begin

text \<open>
  The tables of the workspace database that the delivery pipeline works on, as lists of records in
  row-id order (\<^verbatim>\<open>core/migrations/017\<close> to \<^verbatim>\<open>024\<close>), and SQL's \<^verbatim>\<open>UPDATE ... WHERE\<close> and
  \<^verbatim>\<open>INSERT OR IGNORE\<close> on them. A snapshot column holds the JSON text of a card; the model holds the
  card itself. The rows of the single workspace, its board and its current workflow are three fields of
  the database. A timestamp is the number of microseconds since the epoch: the ISO texts of
  \<^verbatim>\<open>now()\<close> compare in the same order. A role is known by its workflow and its key, and its name is part of the agent row.
\<close>

record task_event =
  ev_key :: string
  ev_board :: string
  ev_workflow :: string
  ev_table :: string
  ev_record :: string
  ev_source :: "string option"
  ev_revision :: string
  ev_type :: string
  ev_before :: "dict option"
  ev_after :: "dict option"
  ev_routing :: string
  ev_note :: "string option"
  ev_routed :: "int option"
  ev_created :: int

datatype dstatus =
    Pending | Retry | Processing | Waiting_Permission | Waiting_Session
  | Completed | Failed_Delivery | Canceled

record delivery =
  dl_id :: nat
  dl_event :: string
  dl_agent :: string
  dl_revision :: int
  dl_harness :: string
  dl_session :: string
  dl_prompt :: string
  dl_status :: dstatus
  dl_attempts :: nat
  dl_turn :: "string option"
  dl_turn_status :: "string option"
  dl_error :: "string option"
  dl_next :: "int option"
  dl_created :: int
  dl_started :: "int option"
  dl_completed :: "int option"
  dl_delivered :: "int option"
  dl_client :: "string option"

record turn_row =
  tn_delivery :: nat
  tn_turn :: string
  tn_created :: int
  tn_acknowledged :: "int option"

record task_state =
  ts_board :: string
  ts_table :: string
  ts_record :: string
  ts_status :: "string option"
  ts_revision :: "string option"
  ts_snapshot :: dict
  ts_hash :: string
  ts_event :: "string option"
  ts_updated :: int

datatype exec_state = Active | Stopped

record execution =
  ex_record :: string
  ex_agent :: string
  ex_session :: string
  ex_turn :: "string option"
  ex_state :: exec_state
  ex_stop_status :: "string option"
  ex_stopped_by :: "string option"
  ex_reason :: "string option"
  ex_updated :: int
  ex_stopped :: "int option"

record agent =
  ag_id :: string
  ag_workspace :: string
  ag_workflow :: string
  ag_role :: string
  ag_role_name :: string
  ag_harness :: string
  ag_session :: string
  ag_revision :: int
  ag_created :: int

record role_row =
  rw_workflow :: string
  rw_workflow_key :: string
  rw_key :: string
  rw_name :: string
  rw_multiple :: bool

record db =
  db_events :: "task_event list"
  db_deliveries :: "delivery list"
  db_turns :: "turn_row list"
  db_states :: "task_state list"
  db_executions :: "execution list"
  db_agents :: "agent list"
  db_roles :: "role_row list"
  db_workflows :: "(string \<times> string) list"
  db_workspace :: string
  db_board :: "string option"
  db_current_workflow :: "string option"
  db_next_id :: nat
  db_uuids :: nat

text \<open>\<^verbatim>\<open>current_workflow\<close> of \<^verbatim>\<open>core/db.py\<close>: the workspace's workflow, or the default one.\<close>

definition DEFAULT_WORKFLOW_KEY :: string where
  "DEFAULT_WORKFLOW_KEY = ''software-development''"

definition chosen_row :: "(string \<times> string) list \<Rightarrow> string option \<Rightarrow> (string \<times> string) option" where
  "chosen_row rows current =
     (let default = List.find (\<lambda>w. snd w = DEFAULT_WORKFLOW_KEY) rows in
      case current of
        Some (c # cs) \<Rightarrow> (case List.find (\<lambda>w. fst w = c # cs) rows of Some w \<Rightarrow> Some w | None \<Rightarrow> default)
      | _ \<Rightarrow> default)"

definition current_workflow :: "db \<Rightarrow> (string \<times> string) option" where
  "current_workflow d = chosen_row (db_workflows d) (db_current_workflow d)"

section \<open>Statements\<close>

definition update_where :: "('a \<Rightarrow> bool) \<Rightarrow> ('a \<Rightarrow> 'a) \<Rightarrow> 'a list \<Rightarrow> 'a list" where
  "update_where p f xs = map (\<lambda>x. if p x then f x else x) xs"

text \<open>\<^verbatim>\<open>cursor.rowcount\<close> of such an update.\<close>

definition rowcount :: "('a \<Rightarrow> bool) \<Rightarrow> 'a list \<Rightarrow> nat" where
  "rowcount p xs = length (filter p xs)"

definition update_deliveries :: "(delivery \<Rightarrow> bool) \<Rightarrow> (delivery \<Rightarrow> delivery) \<Rightarrow> db \<Rightarrow> db" where
  "update_deliveries p f d = d\<lparr>db_deliveries := update_where p f (db_deliveries d)\<rparr>"

definition update_events :: "(task_event \<Rightarrow> bool) \<Rightarrow> (task_event \<Rightarrow> task_event) \<Rightarrow> db \<Rightarrow> db" where
  "update_events p f d = d\<lparr>db_events := update_where p f (db_events d)\<rparr>"

definition update_executions :: "(execution \<Rightarrow> bool) \<Rightarrow> (execution \<Rightarrow> execution) \<Rightarrow> db \<Rightarrow> db" where
  "update_executions p f d = d\<lparr>db_executions := update_where p f (db_executions d)\<rparr>"

definition find_event :: "db \<Rightarrow> string \<Rightarrow> task_event option" where
  "find_event d k = List.find (\<lambda>e. ev_key e = k) (db_events d)"

definition find_delivery :: "db \<Rightarrow> nat \<Rightarrow> delivery option" where
  "find_delivery d i = List.find (\<lambda>x. dl_id x = i) (db_deliveries d)"

definition find_state_row :: "db \<Rightarrow> string \<Rightarrow> string \<Rightarrow> string \<Rightarrow> task_state option" where
  "find_state_row d board tbl rid =
     List.find (\<lambda>s. ts_board s = board \<and> ts_table s = tbl \<and> ts_record s = rid) (db_states d)"

definition find_agent :: "db \<Rightarrow> string \<Rightarrow> agent option" where
  "find_agent d i = List.find (\<lambda>a. ag_id a = i) (db_agents d)"

definition find_execution :: "db \<Rightarrow> string \<Rightarrow> execution option" where
  "find_execution d rid = List.find (\<lambda>x. ex_record x = rid) (db_executions d)"

text \<open>\<^verbatim>\<open>next_attempt_at IS NULL OR next_attempt_at <= ?\<close>\<close>

definition due :: "int option \<Rightarrow> int \<Rightarrow> bool" where
  "due next_at t \<longleftrightarrow> (case next_at of None \<Rightarrow> True | Some n \<Rightarrow> n \<le> t)"

definition coalesce :: "'a option \<Rightarrow> 'a option \<Rightarrow> 'a option" where
  "coalesce x y = (case x of None \<Rightarrow> y | Some v \<Rightarrow> Some v)"

section \<open>The log of events and the turns of deliveries\<close>

text \<open>Both tables are insert-only on their primary key: a second insert of a known key is ignored.\<close>

definition insert_event :: "task_event \<Rightarrow> db \<Rightarrow> db" where
  "insert_event e d = (if ev_key e \<in> ev_key ` set (db_events d) then d
     else d\<lparr>db_events := db_events d @ [e]\<rparr>)"

definition insert_turn :: "nat \<times> string \<Rightarrow> int \<Rightarrow> db \<Rightarrow> db" where
  "insert_turn k t d =
     (if k \<in> (\<lambda>x. (tn_delivery x, tn_turn x)) ` set (db_turns d) then d
      else d\<lparr>db_turns := db_turns d @
        [\<lparr>tn_delivery = fst k, tn_turn = snd k, tn_created = t, tn_acknowledged = None\<rparr>]\<rparr>)"

definition turn_keys :: "db \<Rightarrow> (nat \<times> string) list" where
  "turn_keys d = map (\<lambda>x. (tn_delivery x, tn_turn x)) (db_turns d)"

interpretation turn_log: append_only turn_keys "\<lambda>k. insert_turn k t" for t
  by unfold_locales (auto simp: turn_keys_def insert_turn_def)

section \<open>Facts about statements\<close>

lemma length_update_where [simp]: "length (update_where p f xs) = length xs"
  by (simp add: update_where_def)

lemma map_update_where: "(\<And>x. g (f x) = g x) \<Longrightarrow> map g (update_where p f xs) = map g xs"
  by (simp add: update_where_def)

lemma update_where_none: "rowcount p xs = 0 \<Longrightarrow> update_where p f xs = xs"
  unfolding update_where_def rowcount_def by (induction xs) (auto split: if_splits)

lemma rowcount_1: "rowcount p xs = 1 \<Longrightarrow> \<exists>x \<in> set xs. p x \<and> filter p xs = [x]"
  unfolding rowcount_def by (cases "filter p xs") (auto dest: filter_eq_ConsD)

lemma set_update_where: "y \<in> set (update_where p f xs) \<longleftrightarrow> (\<exists>x \<in> set xs. y = (if p x then f x else x))"
  by (auto simp: update_where_def)

lemma update_deliveries_simps [simp]:
  "db_deliveries (update_deliveries p f d) = update_where p f (db_deliveries d)"
  "db_events (update_deliveries p f d) = db_events d" "db_turns (update_deliveries p f d) = db_turns d"
  "db_states (update_deliveries p f d) = db_states d" "db_executions (update_deliveries p f d) = db_executions d"
  "db_agents (update_deliveries p f d) = db_agents d" "db_next_id (update_deliveries p f d) = db_next_id d"
  by (simp_all add: update_deliveries_def)

lemma update_executions_simps [simp]:
  "db_executions (update_executions p f d) = update_where p f (db_executions d)"
  "db_deliveries (update_executions p f d) = db_deliveries d" "db_events (update_executions p f d) = db_events d"
  "db_turns (update_executions p f d) = db_turns d" "db_next_id (update_executions p f d) = db_next_id d"
  by (simp_all add: update_executions_def)

lemma update_events_simps [simp]:
  "db_events (update_events p f d) = update_where p f (db_events d)"
  "db_deliveries (update_events p f d) = db_deliveries d" "db_turns (update_events p f d) = db_turns d"
  "db_executions (update_events p f d) = db_executions d" "db_next_id (update_events p f d) = db_next_id d"
  by (simp_all add: update_events_def)

lemma insert_turn_simps [simp]:
  "db_deliveries (insert_turn k t d) = db_deliveries d" "db_next_id (insert_turn k t d) = db_next_id d"
  "db_events (insert_turn k t d) = db_events d"
  by (simp_all add: insert_turn_def)

end
