(* ===== verification/Task_Events.thy ===== *)
theory Task_Events
  imports Event_Database "HOL-Library.List_Lexorder" "HOL-Library.Char_ord"
begin

text \<open>
  The event log of \<^verbatim>\<open>core/lark_events.py\<close>: a change notification of the board names cards; the
  service reads each card again and \<^verbatim>\<open>save_task_snapshot\<close> compares it with the saved snapshot, derives
  the events of the change, logs them and replaces the snapshot. SHA-256 is a parameter. An exception
  rolls the transaction back: the result is \<open>Inl\<close> and there is no new database.
\<close>

section \<open>The context and the snapshot of a card\<close>

record event_context =
  cx_workspace_root :: string
  cx_file_token :: string
  cx_table :: string
  cx_workflow_key :: string
  cx_board_url :: string

text \<open>\<^verbatim>\<open>json.dumps(task, ensure_ascii=False, sort_keys=True, separators=(",", ":"))\<close>\<close>

fun sort_keys :: "json \<Rightarrow> json" where
  "sort_keys (JList xs) = JList (map sort_keys xs)"
| "sort_keys (JObj d) = JObj (sort_key fst (map (\<lambda>(k, v). (k, sort_keys v)) d))"
| "sort_keys v = v"

fun compact :: "json \<Rightarrow> string" where
  "compact (JList xs) = ''['' @ join '','' (map compact xs) @ '']''"
| "compact (JObj kvs) = ''{'' @ join '','' (map (\<lambda>(k, v). dump_string k @ '':'' @ compact v) kvs) @ ''}''"
| "compact v = dumps v"

definition snapshot_json :: "dict \<Rightarrow> string" where
  "snapshot_json task = compact (sort_keys (JObj task))"

text \<open>The card that \<^verbatim>\<open>json.loads\<close> of the stored text gives back: its keys are sorted.\<close>

definition stored_card :: "dict \<Rightarrow> dict" where
  "stored_card task = as_dict (sort_keys (JObj task))"

definition snapshot_hash :: "(string \<Rightarrow> string) \<Rightarrow> string \<Rightarrow> string" where
  "snapshot_hash sha256 s = sha256 s"

section \<open>Revisions\<close>

text \<open>\<^verbatim>\<open>int(text)\<close>: blanks around, a sign, digits with single underscores between them.\<close>

fun int_digits :: "int \<Rightarrow> string \<Rightarrow> int option" where
  "int_digits acc [] = Some acc"
| "int_digits acc (c # cs) =
     (if is_digit c then int_digits (10 * acc + (of_char c - 48)) cs
      else if c = CHR ''_'' \<and> cs \<noteq> [] \<and> is_digit (hd cs) then int_digits acc cs
      else None)"

definition unsigned_int :: "string \<Rightarrow> int option" where
  "unsigned_int s = (if s \<noteq> [] \<and> is_digit (hd s) then int_digits 0 s else None)"

definition py_int :: "string \<Rightarrow> int option" where
  "py_int text =
     (case strip text of
        [] \<Rightarrow> None
      | c # cs \<Rightarrow>
          if c = CHR ''-'' then map_option uminus (unsigned_int cs)
          else if c = CHR ''+'' then unsigned_int cs
          else unsigned_int (c # cs))"

definition older_revision :: "string option \<Rightarrow> string option \<Rightarrow> bool" where
  "older_revision candidate current =
     (case (candidate, current) of
        (Some a, Some b) \<Rightarrow>
          (case (py_int a, py_int b) of (Some i, Some j) \<Rightarrow> i < j | _ \<Rightarrow> False)
      | _ \<Rightarrow> False)"

section \<open>The events of a change\<close>

fun task_event_types :: "dict option \<Rightarrow> dict option \<Rightarrow> string list" where
  "task_event_types None None = []"
| "task_event_types None (Some after) =
     ''task_created'' #
     (if after \<noteq> [] \<and> truthy (dget after ''status'') then [py_str (dget after ''status'') @ ''_entered''] else [])"
| "task_event_types (Some before) None = [''task_deleted'']"
| "task_event_types (Some before) (Some after) =
     (let before_status = dget before ''status''; after_status = dget after ''status'' in
      if \<not> py_eq before_status after_status then
        (let result =
           (if truthy before_status then [py_str before_status @ ''_left''] else []) @
           (if truthy after_status then [py_str after_status @ ''_entered''] else [])
         in if result = [] then [''task_updated''] else result)
      else if truthy after_status then [py_str after_status @ ''_updated''] else [''task_updated''])"

definition event_key :: "string \<Rightarrow> string \<Rightarrow> string \<Rightarrow> string \<Rightarrow> string" where
  "event_key tbl revision rid event_type = tbl @ '':'' @ revision @ '':'' @ rid @ '':'' @ event_type"

text \<open>\<^verbatim>\<open>INSERT OR IGNORE\<close> for each event type; the types whose row is new.\<close>

fun log_events :: "(string \<Rightarrow> task_event) \<Rightarrow> string list \<Rightarrow> db \<Rightarrow> string list \<times> db" where
  "log_events row [] d = ([], d)"
| "log_events row (ty # tys) d =
     (let new = ev_key (row ty) \<notin> ev_key ` set (db_events d);
          (rest, d') = log_events row tys (insert_event (row ty) d)
      in (if new then ty # rest else rest, d'))"

section \<open>The saved snapshots\<close>

text \<open>How SQLite stores a status in its text column; a list or an object cannot be bound.\<close>

fun status_column :: "json \<Rightarrow> string option result" where
  "status_column JNull = Inr None"
| "status_column (JStr s) = Inr (Some s)"
| "status_column (JInt i) = Inr (Some (int_str i))"
| "status_column (JBool b) = Inr (Some (if b then ''1'' else ''0''))"
| "status_column _ = Inl (RuntimeError ''type is not supported'')"

definition state_at :: "string \<Rightarrow> string \<Rightarrow> string \<Rightarrow> task_state \<Rightarrow> bool" where
  "state_at board tbl rid s \<longleftrightarrow> ts_board s = board \<and> ts_table s = tbl \<and> ts_record s = rid"

text \<open>\<^verbatim>\<open>INSERT ... ON CONFLICT DO UPDATE\<close> and \<^verbatim>\<open>DELETE\<close> on the primary key.\<close>

definition put_state :: "task_state \<Rightarrow> db \<Rightarrow> db" where
  "put_state s d =
     (let at = state_at (ts_board s) (ts_table s) (ts_record s) in
      if \<exists>x \<in> set (db_states d). at x then d\<lparr>db_states := update_where at (\<lambda>_. s) (db_states d)\<rparr>
      else d\<lparr>db_states := db_states d @ [s]\<rparr>)"

definition delete_state :: "string \<Rightarrow> string \<Rightarrow> string \<Rightarrow> db \<Rightarrow> db" where
  "delete_state board tbl rid d = d\<lparr>db_states := filter (\<lambda>s. \<not> state_at board tbl rid s) (db_states d)\<rparr>"

definition touch_state :: "string \<Rightarrow> string \<Rightarrow> string \<Rightarrow> string option \<Rightarrow> string option \<Rightarrow> int \<Rightarrow> db \<Rightarrow> db" where
  "touch_state board tbl rid revision source t d = d\<lparr>db_states :=
     update_where (state_at board tbl rid)
       (\<lambda>s. s\<lparr>ts_revision := coalesce revision (ts_revision s), ts_event := coalesce source (ts_event s),
              ts_updated := t\<rparr>) (db_states d)\<rparr>"

definition task_event_scope :: "db \<Rightarrow> (string \<times> string) result" where
  "task_event_scope d =
     (case (db_board d, current_workflow d) of
        (None, _) \<Rightarrow> Inl (ValueError ''the TeamFlow workspace has no configured Lark Bitable'')
      | (Some b, None) \<Rightarrow> Inl (ValueError ''the TeamFlow workspace has no configured workflow'')
      | (Some b, Some w) \<Rightarrow> Inr (b, fst w))"

text \<open>\<^verbatim>\<open>str(source_revision or f"snapshot-{hash[:16]}")\<close>\<close>

definition revision_key :: "(string \<Rightarrow> string) \<Rightarrow> string option \<Rightarrow> string option \<Rightarrow> string option \<Rightarrow> string" where
  "revision_key sha256 revision after_hash before_json =
     (case revision of
        Some (c # cs) \<Rightarrow> c # cs
      | _ \<Rightarrow> ''snapshot-'' @ take 16 (case after_hash of
               Some (c # cs) \<Rightarrow> c # cs
             | _ \<Rightarrow> snapshot_hash sha256 (case before_json of Some (c # cs) \<Rightarrow> c # cs | _ \<Rightarrow> ''null'')))"

definition changed_event ::
  "event_context \<Rightarrow> string \<Rightarrow> string \<Rightarrow> string \<Rightarrow> string option \<Rightarrow> string \<Rightarrow> dict option \<Rightarrow> dict option \<Rightarrow>
   int \<Rightarrow> string \<Rightarrow> task_event" where
  "changed_event c board workflow_id rid source revision before after t ty =
     \<lparr>ev_key = event_key (cx_table c) revision rid ty, ev_board = board, ev_workflow = workflow_id,
      ev_table = cx_table c, ev_record = rid, ev_source = source, ev_revision = revision, ev_type = ty,
      ev_before = before, ev_after = after, ev_routing = ''pending'', ev_note = None, ev_routed = None,
      ev_created = t\<rparr>"

definition save_task_snapshot ::
  "(string \<Rightarrow> string) \<Rightarrow> event_context \<Rightarrow> int \<Rightarrow> string \<Rightarrow> dict option \<Rightarrow> string option \<Rightarrow> string option \<Rightarrow>
   db \<Rightarrow> (string list \<times> db) result" where
  "save_task_snapshot sha256 c t rid task source revision d =
     andthen (task_event_scope d) (\<lambda>(board, workflow_id).
       let previous = find_state_row d board (cx_table c) rid;
           after_json = map_option snapshot_json task;
           after_hash = map_option (snapshot_hash sha256) after_json;
           before = map_option ts_snapshot previous
       in if (case previous of None \<Rightarrow> False | Some p \<Rightarrow> older_revision revision (ts_revision p)) then Inr ([], d)
          else if (case previous of None \<Rightarrow> False | Some p \<Rightarrow> after_hash = Some (ts_hash p)) then
            Inr ([], touch_state board (cx_table c) rid revision source t d)
          else
            let key = revision_key sha256 revision after_hash (map_option (\<lambda>b. compact (JObj b)) before);
                (inserted, d') = log_events
                  (changed_event c board workflow_id rid source key before (map_option stored_card task) t)
                  (task_event_types before task) d
            in (case task of
                  None \<Rightarrow> Inr (inserted, delete_state board (cx_table c) rid d')
                | Some snapshot \<Rightarrow> andthen (status_column (dget snapshot ''status'')) (\<lambda>status.
                    Inr (inserted, put_state
                      \<lparr>ts_board = board, ts_table = cx_table c, ts_record = rid, ts_status = status,
                       ts_revision = revision, ts_snapshot = stored_card snapshot,
                       ts_hash = snapshot_hash sha256 (snapshot_json snapshot), ts_event = source, ts_updated = t\<rparr> d'))))"

definition saved_task_record_ids :: "event_context \<Rightarrow> db \<Rightarrow> string list" where
  "saved_task_record_ids c d =
     (case db_board d of None \<Rightarrow> []
      | Some b \<Rightarrow> map ts_record (filter (\<lambda>s. ts_board s = b \<and> ts_table s = cx_table c) (db_states d)))"

definition saved_task_snapshot :: "event_context \<Rightarrow> string \<Rightarrow> db \<Rightarrow> dict option" where
  "saved_task_snapshot c rid d =
     (case db_board d of None \<Rightarrow> None
      | Some b \<Rightarrow> map_option ts_snapshot (find_state_row d b (cx_table c) rid))"

definition save_board_schema_event ::
  "event_context \<Rightarrow> int \<Rightarrow> string \<Rightarrow> string option \<Rightarrow> db \<Rightarrow> (bool \<times> db) result" where
  "save_board_schema_event c t source revision d =
     andthen (task_event_scope d) (\<lambda>(board, workflow_id).
       let key = (case revision of Some (x # xs) \<Rightarrow> x # xs | _ \<Rightarrow> source);
           e = changed_event c board workflow_id [] (Some source) key None None t ''board_schema_changed''
       in Inr (ev_key e \<notin> ev_key ` set (db_events d), insert_event e d))"

section \<open>Board notifications\<close>

text \<open>A payload is a dictionary, and so is its \<^verbatim>\<open>event\<close> where there is one.\<close>

text \<open>\<^verbatim>\<open>payload.get("event") or payload\<close>\<close>

definition event_body :: "dict \<Rightarrow> dict" where
  "event_body payload = (if truthy (dget payload ''event'') then as_dict (dget payload ''event'') else payload)"

definition event_matches_board :: "dict \<Rightarrow> event_context \<Rightarrow> bool" where
  "event_matches_board payload c =
     (let event = event_body payload in
      dget event ''file_token'' = JStr (cx_file_token c) \<and>
      (cx_table c = [] \<or> \<not> truthy (dget event ''table_id'') \<or> dget event ''table_id'' = JStr (cx_table c)))"

definition event_record_ids :: "dict \<Rightarrow> string list" where
  "event_record_ids payload =
     (let event = event_body payload in
      dedup ((if truthy (dget event ''record_id'') then [py_str (dget event ''record_id'')] else []) @
        map (\<lambda>a. py_str (dget (as_dict a) ''record_id''))
          (filter (\<lambda>a. is_dict a \<and> truthy (dget (as_dict a) ''record_id'')) (as_items (dget event ''action_list'')))))"

text \<open>\<^verbatim>\<open>payload["event"] if isinstance(payload.get("event"), dict) else payload\<close>\<close>

definition event_or_payload :: "dict \<Rightarrow> dict" where
  "event_or_payload payload =
     (if is_dict (dget payload ''event'') then as_dict (dget payload ''event'') else payload)"

record event_metadata =
  em_event_id :: string
  em_event_type :: string
  em_file_token :: "string option"
  em_table :: "string option"
  em_revision :: "string option"

definition nonempty_text :: "json \<Rightarrow> string option" where
  "nonempty_text v = (if text_of v = [] then None else Some (text_of v))"

definition lark_event_metadata :: "dict \<Rightarrow> event_metadata result" where
  "lark_event_metadata payload =
     (let header = as_dict (dget payload ''header'');
          event = event_or_payload payload;
          event_id = strip (text_of (dget header ''event_id''));
          event_type = strip (text_of (dget header ''event_type''))
      in if event_id = [] \<or> event_type = [] then
           Inl (ValueError ''Lark event is missing header.event_id or header.event_type'')
         else Inr \<lparr>em_event_id = event_id, em_event_type = event_type,
                   em_file_token = nonempty_text (dget event ''file_token''),
                   em_table = nonempty_text (dget event ''table_id''),
                   em_revision = (case dget event ''revision'' of JNull \<Rightarrow> None | v \<Rightarrow> Some (py_str v))\<rparr>)"

definition event_record_actions :: "dict \<Rightarrow> (string \<times> string) list" where
  "event_record_actions payload =
     (let event = event_or_payload payload;
          items = map as_dict (filter (\<lambda>a. is_dict a \<and> truthy (dget (as_dict a) ''record_id''))
            (as_items (dget event ''action_list'')));
          actions = foldl (\<lambda>d a. AList.update (py_str (dget a ''record_id''))
            (text_of (if truthy (dget a ''action'') then dget a ''action'' else dget a ''action_type'')) d) [] items;
          rid = py_str (dget event ''record_id'')
      in if truthy (dget event ''record_id'') \<and> map_of actions rid = None
         then actions @ [(rid, text_of (dget event ''action''))] else actions)"

section \<open>Facts about the log and the snapshots\<close>

definition event_keys :: "db \<Rightarrow> string list" where
  "event_keys d = map ev_key (db_events d)"

interpretation event_log: append_only event_keys "\<lambda>k. insert_event (e\<lparr>ev_key := k\<rparr>)" for e
  by unfold_locales (auto simp: event_keys_def insert_event_def)

lemma insert_event_keys: "event_keys (insert_event e d) = add_once (ev_key e) (event_keys d)"
proof -
  have "event_keys (insert_event (e\<lparr>ev_key := ev_key e\<rparr>) d) = add_once (ev_key e) (event_keys d)"
    by (rule event_log.entries_record)
  then show ?thesis by simp
qed

lemma insert_event_prefix: "prefix (db_events d) (db_events (insert_event e d))"
  by (simp add: insert_event_def)

lemma insert_event_states [simp]: "db_states (insert_event e d) = db_states d"
  "db_board (insert_event e d) = db_board d" "current_workflow (insert_event e d) = current_workflow d"
  by (simp_all add: insert_event_def current_workflow_def)

lemma log_events_run:
  "log_events row tys d = (new, d') \<Longrightarrow>
     prefix (db_events d) (db_events d') \<and> (distinct (event_keys d) \<longrightarrow> distinct (event_keys d')) \<and>
     db_states d' = db_states d \<and> db_board d' = db_board d \<and> current_workflow d' = current_workflow d \<and>
     set (event_keys d') = set (event_keys d) \<union> (\<lambda>ty. ev_key (row ty)) ` set tys"
proof (induction tys arbitrary: d new)
  case (Cons ty tys)
  obtain rest where more: "log_events row tys (insert_event (row ty) d) = (rest, d')"
    using Cons.prems by (auto simp: Let_def split: prod.splits)
  have keys: "event_keys (insert_event (row ty) d) = add_once (ev_key (row ty)) (event_keys d)"
    by (rule insert_event_keys)
  from Cons.IH[OF more] keys insert_event_prefix[of d "row ty"] show ?case
    by (auto simp: add_once_def intro: prefix_order.trans split: if_splits)
qed simp_all

lemmas log_events_facts =
  log_events_run[THEN conjunct1]
  log_events_run[THEN conjunct2, THEN conjunct1, rule_format]
  log_events_run[THEN conjunct2, THEN conjunct2, THEN conjunct1]
  log_events_run[THEN conjunct2, THEN conjunct2, THEN conjunct2, THEN conjunct1]
  log_events_run[THEN conjunct2, THEN conjunct2, THEN conjunct2, THEN conjunct2, THEN conjunct1]
  log_events_run[THEN conjunct2, THEN conjunct2, THEN conjunct2, THEN conjunct2, THEN conjunct2]

lemma find_update_where: "\<exists>x \<in> set xs. p x \<Longrightarrow> (\<And>x. p x \<Longrightarrow> p (f x)) \<Longrightarrow>
   List.find p (update_where p f xs) = map_option f (List.find p xs)"
  by (induction xs) (auto simp: update_where_def)

lemma find_state_row_at: "find_state_row d board tbl rid = List.find (state_at board tbl rid) (db_states d)"
  by (simp add: find_state_row_def state_at_def[abs_def])

lemma find_put_state:
  "find_state_row (put_state s d) (ts_board s) (ts_table s) (ts_record s) = Some s"
proof (cases "\<exists>x \<in> set (db_states d). state_at (ts_board s) (ts_table s) (ts_record s) x")
  case True
  then obtain y where "List.find (state_at (ts_board s) (ts_table s) (ts_record s)) (db_states d) = Some y"
    by (metis find_eq_None not_None_eq)
  moreover have "state_at (ts_board s) (ts_table s) (ts_record s) s" by (simp add: state_at_def)
  ultimately show ?thesis using True
    by (simp add: put_state_def find_state_row_at find_update_where)
next
  case False
  have "List.find p (xs @ [s]) = Some s" if "\<not> (\<exists>x \<in> set xs. p x)" "p s" for p and xs :: "task_state list"
    using that by (induction xs) auto
  then show ?thesis using False by (simp add: put_state_def find_state_row_at) (simp add: state_at_def)
qed

lemma find_touch_state:
  "find_state_row d board tbl rid = Some p \<Longrightarrow>
   find_state_row (touch_state board tbl rid revision source t d) board tbl rid =
     Some (p\<lparr>ts_revision := coalesce revision (ts_revision p), ts_event := coalesce source (ts_event p),
             ts_updated := t\<rparr>)"
proof -
  assume p: "find_state_row d board tbl rid = Some p"
  then have "\<exists>x \<in> set (db_states d). state_at board tbl rid x"
    by (auto simp: find_state_row_at dest: find_SomeD)
  moreover have "state_at board tbl rid (x\<lparr>ts_revision := r, ts_event := e, ts_updated := u\<rparr>) = state_at board tbl rid x"
    for x r e u by (simp add: state_at_def)
  ultimately show ?thesis using p by (simp add: touch_state_def find_state_row_at find_update_where)
qed

lemma find_delete_state: "find_state_row (delete_state board tbl rid d) board tbl rid = None"
  by (simp add: delete_state_def find_state_row_at find_eq_None)

lemma state_writes_simps [simp]:
  "db_events (put_state s d) = db_events d" "db_board (put_state s d) = db_board d"
  "current_workflow (put_state s d) = current_workflow d"
  "db_events (delete_state a b r d) = db_events d" "db_board (delete_state a b r d) = db_board d"
  "current_workflow (delete_state a b r d) = current_workflow d"
  "db_events (touch_state a b r x y t d) = db_events d" "db_board (touch_state a b r x y t d) = db_board d"
  "current_workflow (touch_state a b r x y t d) = current_workflow d"
  by (simp_all add: put_state_def delete_state_def touch_state_def current_workflow_def Let_def)

lemma older_revision_irrefl [simp]: "\<not> older_revision r (coalesce r s)" "\<not> older_revision r r" "\<not> older_revision None s"
  by (auto simp: older_revision_def coalesce_def split: option.splits)

text \<open>The four ways a save ends, as one case rule.\<close>

lemma save_cases:
  assumes "save_task_snapshot sha256 c t rid task source revision d = Inr (new, d')"
  obtains (older) board workflow_id p where "task_event_scope d = Inr (board, workflow_id)"
      "find_state_row d board (cx_table c) rid = Some p" "older_revision revision (ts_revision p)"
      "new = []" "d' = d"
  | (same) board workflow_id p snapshot where "task_event_scope d = Inr (board, workflow_id)"
      "find_state_row d board (cx_table c) rid = Some p" "task = Some snapshot"
      "ts_hash p = snapshot_hash sha256 (snapshot_json snapshot)" "\<not> older_revision revision (ts_revision p)"
      "new = []" "d' = touch_state board (cx_table c) rid revision source t d"
  | (deleted) board workflow_id key where "task_event_scope d = Inr (board, workflow_id)"
      "\<And>p. find_state_row d board (cx_table c) rid = Some p \<Longrightarrow> \<not> older_revision revision (ts_revision p)" "task = None"
      "d' = delete_state board (cx_table c) rid (snd (log_events (changed_event c board workflow_id rid source key
         (map_option ts_snapshot (find_state_row d board (cx_table c) rid)) None t)
         (task_event_types (map_option ts_snapshot (find_state_row d board (cx_table c) rid)) None) d))"
  | (stored) board workflow_id key snapshot s where "task_event_scope d = Inr (board, workflow_id)"
      "\<And>p. find_state_row d board (cx_table c) rid = Some p \<Longrightarrow> \<not> older_revision revision (ts_revision p)"
      "task = Some snapshot" "status_column (dget snapshot ''status'') = Inr (ts_status s)"
      "ts_board s = board" "ts_table s = cx_table c" "ts_record s = rid" "ts_revision s = revision"
      "ts_snapshot s = stored_card snapshot" "ts_hash s = snapshot_hash sha256 (snapshot_json snapshot)"
      "d' = put_state s (snd (log_events (changed_event c board workflow_id rid source key
         (map_option ts_snapshot (find_state_row d board (cx_table c) rid)) (Some (stored_card snapshot)) t)
         (task_event_types (map_option ts_snapshot (find_state_row d board (cx_table c) rid)) task) d))"
proof -
  from assms obtain board workflow_id where scope: "task_event_scope d = Inr (board, workflow_id)"
    unfolding save_task_snapshot_def by (auto simp: andthen_eq_Inr)
  note run = assms[unfolded save_task_snapshot_def scope andthen_Inr split Let_def]
  let ?p = "find_state_row d board (cx_table c) rid"
  show thesis
  proof (cases "case ?p of None \<Rightarrow> False | Some p \<Rightarrow> older_revision revision (ts_revision p)")
    case True
    then obtain p where p: "?p = Some p" "older_revision revision (ts_revision p)" by (auto split: option.splits)
    from run True have "new = []" "d' = d" by simp_all
    then show thesis by (rule older[OF scope p])
  next
    case fresh: False
    then have newer: "\<And>p. ?p = Some p \<Longrightarrow> \<not> older_revision revision (ts_revision p)" by simp
    show thesis
    proof (cases "case ?p of None \<Rightarrow> False
        | Some p \<Rightarrow> map_option (snapshot_hash sha256) (map_option snapshot_json task) = Some (ts_hash p)")
      case True
      then obtain p snapshot where p: "?p = Some p" "task = Some snapshot"
        "ts_hash p = snapshot_hash sha256 (snapshot_json snapshot)" by (auto split: option.splits)
      from run[unfolded if_not_P[OF fresh] if_P[OF True]]
      have "new = []" "d' = touch_state board (cx_table c) rid revision source t d" by simp_all
      then show thesis by (rule same[OF scope p newer[OF p(1)]])
    next
      case False
      let ?key = "revision_key sha256 revision (map_option (snapshot_hash sha256) (map_option snapshot_json task))
          (map_option (\<lambda>b. compact (JObj b)) (map_option ts_snapshot ?p))"
      note run' = run[unfolded if_not_P[OF fresh] if_not_P[OF False]]
      show thesis
      proof (cases task)
        case None
        obtain tys d1 where logged: "log_events (changed_event c board workflow_id rid source ?key
            (map_option ts_snapshot ?p) None t) (task_event_types (map_option ts_snapshot ?p) None) d = (tys, d1)"
          by (meson surj_pair)
        from run' None logged have "d' = delete_state board (cx_table c) rid d1" by simp
        then show thesis using logged by (intro deleted[OF scope newer None, of ?key]) simp_all
      next
        case (Some snapshot)
        obtain tys d1 where logged: "log_events (changed_event c board workflow_id rid source ?key
            (map_option ts_snapshot ?p) (Some (stored_card snapshot)) t)
            (task_event_types (map_option ts_snapshot ?p) task) d = (tys, d1)"
          by (meson surj_pair)
        with run' Some obtain status where status: "status_column (dget snapshot ''status'') = Inr status"
          and d': "d' = put_state \<lparr>ts_board = board, ts_table = cx_table c, ts_record = rid, ts_status = status,
             ts_revision = revision, ts_snapshot = stored_card snapshot,
             ts_hash = snapshot_hash sha256 (snapshot_json snapshot), ts_event = source, ts_updated = t\<rparr> d1"
          by (simp add: andthen_eq_Inr) blast
        show thesis
          by (rule stored[OF scope newer Some, of "\<lparr>ts_board = board, ts_table = cx_table c, ts_record = rid,
             ts_status = status, ts_revision = revision, ts_snapshot = stored_card snapshot,
             ts_hash = snapshot_hash sha256 (snapshot_json snapshot), ts_event = source, ts_updated = t\<rparr>" ?key])
            (use status d' logged in simp_all)
      qed
    qed
  qed
qed

lemma map_option_Some_iff: "map_option f x = Some y \<longleftrightarrow> (\<exists>z. x = Some z \<and> y = f z)"
  by (cases x) auto

lemma save_keeps_scope:
  assumes "save_task_snapshot sha256 c t rid task source revision d = Inr (new, d')"
  shows "task_event_scope d' = task_event_scope d"
proof -
  have "db_board d' = db_board d \<and> current_workflow d' = current_workflow d"
    using assms
  proof (cases rule: save_cases)
    case (deleted board workflow_id key)
    then show ?thesis using log_events_facts(4,5)[OF surjective_pairing] by simp
  next
    case (stored board workflow_id key snapshot s)
    then show ?thesis using log_events_facts(4,5)[OF surjective_pairing] by simp
  qed simp_all
  then show ?thesis by (simp add: task_event_scope_def)
qed

section \<open>Properties\<close>

definition demo_context :: event_context where
  "demo_context = \<lparr>cx_workspace_root = ''/w'', cx_file_token = ''base'', cx_table = ''tbl'',
     cx_workflow_key = ''demo'', cx_board_url = ''url''\<rparr>"

definition empty_db :: db where
  "empty_db = \<lparr>db_events = [], db_deliveries = [], db_turns = [], db_states = [], db_executions = [], db_agents = [],
     db_roles = [\<lparr>rw_workflow = ''w1'', rw_workflow_key = ''demo'', rw_key = ''executor'', rw_name = ''Executor'',
       rw_multiple = True\<rparr>],
     db_workflows = [(''w1'', ''demo'')], db_workspace = ''ws'', db_board = Some ''b1'',
     db_current_workflow = Some ''w1'', db_next_id = 1, db_uuids = 0\<rparr>"

definition ready_card :: dict where
  "ready_card = [(''record_id'', JStr ''r1''), (''status'', JStr ''ready''), (''role'', JStr ''executor'')]"

definition saved :: "dict option \<Rightarrow> string \<Rightarrow> db \<Rightarrow> string list \<times> db" where
  "saved task revision d =
     (case save_task_snapshot (\<lambda>s. s) demo_context 5 ''r1'' task (Some ''e1'') (Some revision) d of
        Inr r \<Rightarrow> r | Inl e \<Rightarrow> ([], d))"

definition backlog_db :: db where
  "backlog_db = snd (saved (Some [(''record_id'', JStr ''r1''), (''status'', JStr ''backlog'')]) ''7'' empty_db)"

definition ready_db :: db where
  "ready_db = snd (saved (Some ready_card) ''8'' backlog_db)"

text \<open>The state after both saves written out, so that later evaluations start from it.\<close>

definition backlog_card :: dict where
  "backlog_card = [(''record_id'', JStr ''r1''), (''status'', JStr ''backlog'')]"

definition sorted_ready_card :: dict where
  "sorted_ready_card = [(''record_id'', JStr ''r1''), (''role'', JStr ''executor''), (''status'', JStr ''ready'')]"

definition card_event :: "string \<Rightarrow> string \<Rightarrow> dict option \<Rightarrow> dict \<Rightarrow> string \<Rightarrow> string option \<Rightarrow> int option \<Rightarrow> task_event" where
  "card_event revision kind before after routing reason routed =
     \<lparr>ev_key = ''tbl:'' @ revision @ '':r1:'' @ kind, ev_board = ''b1'', ev_workflow = ''w1'', ev_table = ''tbl'',
      ev_record = ''r1'', ev_source = Some ''e1'', ev_revision = revision, ev_type = kind, ev_before = before,
      ev_after = Some after, ev_routing = routing, ev_note = reason, ev_routed = routed, ev_created = 5\<rparr>"

definition logged_events :: "task_event list" where
  "logged_events =
     [card_event ''7'' ''task_created'' None backlog_card ''pending'' None None,
      card_event ''7'' ''backlog_entered'' None backlog_card ''pending'' None None,
      card_event ''8'' ''backlog_left'' (Some backlog_card) sorted_ready_card ''pending'' None None,
      card_event ''8'' ''ready_entered'' (Some backlog_card) sorted_ready_card ''pending'' None None]"

definition quoted :: "string \<Rightarrow> string" where
  "quoted s = CHR 0x22 # s @ [CHR 0x22]"

definition ready_state :: task_state where
  "ready_state = \<lparr>ts_board = ''b1'', ts_table = ''tbl'', ts_record = ''r1'', ts_status = Some ''ready'', ts_revision = Some ''8'',
     ts_snapshot = sorted_ready_card,
     ts_hash = ''{'' @ quoted ''record_id'' @ '':'' @ quoted ''r1'' @ '','' @ quoted ''role'' @ '':'' @ quoted ''executor'' @ '','' @
       quoted ''status'' @ '':'' @ quoted ''ready'' @ ''}'',
     ts_event = Some ''e1'', ts_updated = 5\<rparr>"

lemma ready_db_written [code]:
  "ready_db = empty_db\<lparr>db_events := logged_events, db_states := [ready_state]\<rparr>"
  by code_simp

lemma saves_backlog:
  "save_task_snapshot (\<lambda>s. s) demo_context 5 ''r1'' (Some [(''record_id'', JStr ''r1''), (''status'', JStr ''backlog'')])
     (Some ''e1'') (Some ''7'') empty_db = Inr ([''task_created'', ''backlog_entered''], backlog_db)"
  by code_simp

lemma saves_ready:
  "save_task_snapshot (\<lambda>s. s) demo_context 5 ''r1'' (Some ready_card) (Some ''e1'') (Some ''8'') backlog_db
     = Inr ([''backlog_left'', ''ready_entered''], ready_db)"
  by code_simp

text \<open>C20: The event log is append-only: saving a snapshot keeps every logged event, in its place, and never
  logs two events under one key.\<close>

theorem event_log_append_only:
  assumes "save_task_snapshot sha256 c t rid task source revision d = Inr (new, d')"
  shows "prefix (db_events d) (db_events d') \<and> (distinct (event_keys d) \<longrightarrow> distinct (event_keys d'))"
  using assms
proof (cases rule: save_cases)
  case (deleted board workflow_id key)
  then show ?thesis using log_events_facts(1,2)[OF surjective_pairing] by (simp add: event_keys_def)
next
  case (stored board workflow_id key snapshot s)
  then show ?thesis using log_events_facts(1,2)[OF surjective_pairing] by (simp add: event_keys_def)
qed (simp_all add: event_keys_def)

theorem event_log_append_only_witness: "prefix (db_events backlog_db) (db_events ready_db)"
  using event_log_append_only[OF saves_ready] by simp

text \<open>Read your writes: unless the notification is older than the saved revision, the snapshot read back
  is the card that was saved, and none after a deletion. The hash must tell the saved card from the new one.\<close>

theorem saved_snapshot_read_back:
  assumes "save_task_snapshot sha256 c t rid task source revision d = Inr (new, d')"
    and "\<And>board p. db_board d = Some board \<Longrightarrow> find_state_row d board (cx_table c) rid = Some p \<Longrightarrow>
       \<not> older_revision revision (ts_revision p) \<and>
       (\<forall>snapshot. task = Some snapshot \<and> ts_hash p = snapshot_hash sha256 (snapshot_json snapshot) \<longrightarrow>
          ts_snapshot p = stored_card snapshot)"
  shows "saved_task_snapshot c rid d' = map_option stored_card task"
proof -
  from save_keeps_scope[OF assms(1)] have scope: "task_event_scope d' = task_event_scope d" .
  have board: "db_board x = Some board" if "task_event_scope x = Inr (board, w)" for x board w
    using that by (auto simp: task_event_scope_def split: option.splits)
  from assms(1) show ?thesis
  proof (cases rule: save_cases)
    case (older board workflow_id p)
    then show ?thesis using assms(2)[OF board] by blast
  next
    case (same board workflow_id p snapshot)
    then show ?thesis using assms(2)[OF board] board[of d' board] scope find_touch_state[OF same(2)]
      by (simp add: saved_task_snapshot_def)
  next
    case (deleted board workflow_id key)
    then show ?thesis using board[of d' board] scope by (simp add: saved_task_snapshot_def find_delete_state)
  next
    case (stored board workflow_id key snapshot s)
    then show ?thesis using board[of d' board] scope find_put_state[of s] by (simp add: saved_task_snapshot_def)
  qed
qed

theorem saved_snapshot_read_back_witness: "saved_task_snapshot demo_context ''r1'' ready_db = Some (stored_card ready_card)"
proof -
  have row: "find_state_row backlog_db ''b1'' ''tbl'' ''r1'' =
    Some \<lparr>ts_board = ''b1'', ts_table = ''tbl'', ts_record = ''r1'', ts_status = Some ''backlog'',
      ts_revision = Some ''7'', ts_snapshot = [(''record_id'', JStr ''r1''), (''status'', JStr ''backlog'')],
      ts_hash = snapshot_json [(''record_id'', JStr ''r1''), (''status'', JStr ''backlog'')],
      ts_event = Some ''e1'', ts_updated = 5\<rparr>" by code_simp
  have "db_board backlog_db = Some ''b1''" by code_simp
  moreover have "\<not> older_revision (Some ''8'') (Some ''7'')" by code_simp
  moreover have "snapshot_json [(''record_id'', JStr ''r1''), (''status'', JStr ''backlog'')] \<noteq> snapshot_json ready_card"
    by code_simp
  ultimately have "saved_task_snapshot demo_context ''r1'' ready_db = map_option stored_card (Some ready_card)"
    by (intro saved_snapshot_read_back[OF saves_ready])
      (auto simp: demo_context_def row snapshot_hash_def)
  then show ?thesis by simp
qed

text \<open>A redelivered notification logs nothing: saving the same card under the same revision again, at
  any time and from any source event, returns no new event and leaves the log as it is.\<close>

theorem snapshot_saved_once:
  assumes "save_task_snapshot sha256 c t rid (Some snapshot) source revision d = Inr (new, d')"
  shows "\<exists>d''. save_task_snapshot sha256 c t' rid (Some snapshot) source' revision d' = Inr ([], d'') \<and>
    db_events d'' = db_events d'"
proof -
  have scope: "task_event_scope d' = task_event_scope d" by (rule save_keeps_scope[OF assms])
  have again: ?thesis
    if row: "find_state_row d' board (cx_table c) rid = Some p" and sc: "task_event_scope d' = Inr (board, w)"
      and "older_revision revision (ts_revision p) \<or> ts_hash p = snapshot_hash sha256 (snapshot_json snapshot)"
    for board w p
  proof (cases "older_revision revision (ts_revision p)")
    case True
    then show ?thesis by (simp add: save_task_snapshot_def sc row)
  next
    case False
    with that(3) show ?thesis by (simp add: save_task_snapshot_def sc row)
  qed
  from assms show ?thesis
  proof (cases rule: save_cases)
    case (older board workflow_id p)
    then show ?thesis by (intro again[OF _ _ disjI1]) simp_all
  next
    case (same board workflow_id p snap)
    have "find_state_row d' board (cx_table c) rid = Some (p\<lparr>ts_revision := coalesce revision (ts_revision p),
        ts_event := coalesce source (ts_event p), ts_updated := t\<rparr>)"
      using find_touch_state[OF same(2)] same(7) by simp
    then show ?thesis by (rule again[OF _ _ disjI2]) (use same scope in simp_all)
  next
    case (stored board workflow_id key snap s)
    have "find_state_row d' board (cx_table c) rid = Some s" using find_put_state[of s] stored by simp
    then show ?thesis by (rule again[OF _ _ disjI2]) (use stored scope in simp_all)
  qed simp
qed

theorem snapshot_saved_once_witness:
  "\<exists>d''. save_task_snapshot (\<lambda>s. s) demo_context 9 ''r1'' (Some ready_card) (Some ''e2'') (Some ''8'') ready_db
     = Inr ([], d'') \<and> db_events d'' = db_events ready_db"
  by (rule snapshot_saved_once[OF saves_ready])

text \<open>Every state change is in the log: when a saved card moves from one state to another, the log holds
  the event that it left the one and the event that it entered the other, under one revision.\<close>

theorem status_change_logged:
  assumes "save_task_snapshot sha256 c t rid (Some snapshot) source revision d = Inr (new, d')"
    and "db_board d = Some board" and "find_state_row d board (cx_table c) rid = Some p"
    and "\<not> older_revision revision (ts_revision p)"
    and "ts_hash p \<noteq> snapshot_hash sha256 (snapshot_json snapshot)"
    and "dget (ts_snapshot p) ''status'' = JStr a" and "dget snapshot ''status'' = JStr b"
    and "a \<noteq> []" and "b \<noteq> []" and "a \<noteq> b"
  shows "\<exists>key. {event_key (cx_table c) key rid (a @ ''_left''), event_key (cx_table c) key rid (b @ ''_entered'')}
    \<subseteq> set (event_keys d')"
  using assms(1)
proof (cases rule: save_cases)
  case (older bd workflow_id q)
  then show ?thesis using assms(2-4) by (auto simp: task_event_scope_def split: option.splits)
next
  case (same bd workflow_id q snap)
  then show ?thesis using assms(2-5) by (auto simp: task_event_scope_def split: option.splits)
next
  case (stored bd workflow_id key snap s)
  have bd: "bd = board" using stored(1) assms(2) by (auto simp: task_event_scope_def split: option.splits)
  have types: "task_event_types (Some (ts_snapshot p)) (Some snapshot) = [a @ ''_left'', b @ ''_entered'']"
    using assms(6-10) by (simp add: Let_def)
  have "event_keys d' = event_keys (snd (log_events (changed_event c board workflow_id rid source key
      (Some (ts_snapshot p)) (Some (stored_card snapshot)) t) [a @ ''_left'', b @ ''_entered''] d))"
    using stored(3,11) assms(3) types by (simp add: bd event_keys_def)
  moreover have "ev_key (changed_event c board workflow_id rid source key x y t ty) = event_key (cx_table c) key rid ty"
    for x y ty by (simp add: changed_event_def)
  ultimately have "{event_key (cx_table c) key rid (a @ ''_left''), event_key (cx_table c) key rid (b @ ''_entered'')}
      \<subseteq> set (event_keys d')"
    by (simp add: insert_event_keys add_once_def)
  then show ?thesis by blast
qed simp

theorem status_change_logged_witness:
  "\<exists>key. {event_key ''tbl'' key ''r1'' ''backlog_left'', event_key ''tbl'' key ''r1'' ''ready_entered''}
    \<subseteq> set (event_keys ready_db)"
proof -
  define p where "p = the (find_state_row backlog_db ''b1'' ''tbl'' ''r1'')"
  have p: "p = \<lparr>ts_board = ''b1'', ts_table = ''tbl'', ts_record = ''r1'', ts_status = Some ''backlog'',
      ts_revision = Some ''7'', ts_snapshot = [(''record_id'', JStr ''r1''), (''status'', JStr ''backlog'')],
      ts_hash = snapshot_json [(''record_id'', JStr ''r1''), (''status'', JStr ''backlog'')],
      ts_event = Some ''e1'', ts_updated = 5\<rparr>" unfolding p_def by code_simp
  have row: "find_state_row backlog_db ''b1'' (cx_table demo_context) ''r1'' = Some p" unfolding p by code_simp
  have fresh: "\<not> older_revision (Some ''8'') (ts_revision p)" unfolding p by code_simp
  have hash: "ts_hash p \<noteq> snapshot_hash (\<lambda>s. s) (snapshot_json ready_card)" unfolding p by code_simp
  have board: "db_board backlog_db = Some ''b1''" by code_simp
  from status_change_logged[OF saves_ready board row fresh hash, of "''backlog''" "''ready''"] show ?thesis
    by (simp add: p ready_card_def dget_def demo_context_def)
qed

end
