(* ===== verification/Task_Routing.thy ===== *)
theory Task_Routing
  imports Task_Events
begin

text \<open>
  \<^verbatim>\<open>core/task_routing.py\<close>: which logged event is the one that dispatches a card in its current
  state, which role it targets, and the insertion of a delivery. A workflow definition is loaded by its
  key; loading may raise. The texts of the prompts come out of the prompt catalog, whose templates are
  Chinese: rendering is a parameter, given the values the sources put in.
\<close>

section \<open>Workflows and prompts\<close>

type_synonym loader = "string \<Rightarrow> workflow result"

record prompt_catalog =
  pc_render :: "string \<Rightarrow> (string \<times> string) list \<Rightarrow> string"
  pc_instruction :: "workflow \<Rightarrow> string option \<Rightarrow> string"
  pc_snapshot_fields :: "(string \<times> string) list"
  pc_untitled :: string
  pc_separator :: string

record runtime =
  rt_load :: loader
  rt_catalog :: prompt_catalog
  rt_uuid :: "nat \<Rightarrow> string"

text \<open>\<^verbatim>\<open>value in (None, "", [])\<close>: skipped in the snapshot of a prompt.\<close>

definition snapshot_value :: "json \<Rightarrow> string option" where
  "snapshot_value v =
     (if py_eq v JNull \<or> py_eq v (JStr []) \<or> py_eq v (JList []) then None
      else Some (if is_dict v \<or> is_list v then compact v else py_str v))"

definition task_snapshot :: "prompt_catalog \<Rightarrow> dict \<Rightarrow> string" where
  "task_snapshot pc task = concat (map (\<lambda>(label, key).
     case snapshot_value (dget task key) of
       None \<Rightarrow> [] | Some text \<Rightarrow> label @ pc_separator pc @ text @ [CHR 0x0A]) (pc_snapshot_fields pc))"

text \<open>\<^verbatim>\<open>str(first or second or "-")\<close>\<close>

definition first_text :: "json list \<Rightarrow> string" where
  "first_text vs = (case List.find truthy vs of None \<Rightarrow> ''-'' | Some v \<Rightarrow> py_str v)"

definition status_state :: "workflow \<Rightarrow> json \<Rightarrow> state_def option" where
  "status_state w v = (case v of JStr s \<Rightarrow> find_state w s | _ \<Rightarrow> None)"

definition render_task_prompt ::
  "runtime \<Rightarrow> event_context \<Rightarrow> string \<Rightarrow> string \<Rightarrow> string \<Rightarrow> string \<Rightarrow> dict \<Rightarrow> string result" where
  "render_task_prompt R c event_type ekey workflow_key role_name task =
     andthen (rt_load R workflow_key) (\<lambda>w.
       let pc = rt_catalog R in
       Inr (pc_render pc ''task-event.dispatch''
         [(''workflow_key'', workflow_key), (''event_type'', event_type), (''event_key'', ekey),
          (''role_name'', role_name), (''task_id'', first_text [dget task ''task_id'', dget task ''record_id'']),
          (''title'', if truthy (dget task ''title'') then py_str (dget task ''title'') else pc_untitled pc),
          (''record_id'', first_text [dget task ''record_id'']), (''status'', first_text [dget task ''status'']),
          (''current_role'', first_text [dget task ''role'']), (''board_url'', cx_board_url c),
          (''snapshot'', task_snapshot pc task),
          (''instruction'', pc_instruction pc w (map_option sd_key (status_state w (dget task ''status''))))]))"

definition render_task_continuation_prompt ::
  "runtime \<Rightarrow> event_context \<Rightarrow> string \<Rightarrow> string \<Rightarrow> dict \<Rightarrow> string" where
  "render_task_continuation_prompt R c workflow_key role_name task =
     (let pc = rt_catalog R in
      pc_render pc ''task-execution.continuation''
        [(''workflow_key'', workflow_key), (''role_name'', role_name),
         (''task_id'', first_text [dget task ''task_id'', dget task ''record_id'']),
         (''title'', if truthy (dget task ''title'') then py_str (dget task ''title'') else pc_untitled pc),
         (''record_id'', first_text [dget task ''record_id'']), (''status'', first_text [dget task ''status'']),
         (''board_url'', cx_board_url c), (''snapshot'', task_snapshot pc task)])"

section \<open>Targets\<close>

definition task_dispatch_target :: "workflow \<Rightarrow> dict \<Rightarrow> string option" where
  "task_dispatch_target w task =
     (case status_state w (dget task ''status'') of
        None \<Rightarrow> None
      | Some s \<Rightarrow>
          (case sd_dispatch s of
             Dispatch_None \<Rightarrow> None
           | Dispatch_Task_Role \<Rightarrow> nonempty_text (dget task ''role'')
           | Dispatch_Coordinator \<Rightarrow> Some (wf_coordinator_role w)))"

definition target_role :: "workflow \<Rightarrow> string option \<Rightarrow> dict \<Rightarrow> string option" where
  "target_role w state_key task =
     task_dispatch_target w
       (AList.update ''status'' (case state_key of None \<Rightarrow> JNull | Some k \<Rightarrow> JStr k) task)"

definition dispatch_states :: "workflow \<Rightarrow> state_def list" where
  "dispatch_states w = filter (\<lambda>s. sd_dispatch s \<noteq> Dispatch_None) (wf_states w)"

definition actionable_states :: "workflow \<Rightarrow> (string \<times> string) list" where
  "actionable_states w = map (\<lambda>s. (sd_key s, sd_key s @ ''_entered'')) (dispatch_states w)"

section \<open>The event that dispatches a card\<close>

definition card_content :: "dict option \<Rightarrow> dict" where
  "card_content snapshot = (case snapshot of None \<Rightarrow> [] | Some d \<Rightarrow> d)"

fun dispatch_event_state :: "state_def list \<Rightarrow> task_event \<Rightarrow> state_def option" where
  "dispatch_event_state [] e = None"
| "dispatch_event_state (s # ss) e =
     (if ev_type e = sd_key s @ ''_entered'' then Some s
      else if ev_type e \<noteq> sd_key s @ ''_updated'' \<or> sd_dispatch s \<noteq> Dispatch_Task_Role
        then dispatch_event_state ss e
      else if \<not> py_eq (dget (card_content (ev_before e)) ''role'') (dget (card_content (ev_after e)) ''role'') then Some s
      else dispatch_event_state ss e)"

record dispatch_now =
  cd_state :: state_def
  cd_event :: task_event
  cd_task :: dict

definition dispatch_candidates :: "db \<Rightarrow> task_event \<Rightarrow> state_def \<Rightarrow> task_event list" where
  "dispatch_candidates d e s =
     rev (filter (\<lambda>x. ev_board x = ev_board e \<and> ev_table x = ev_table e \<and> ev_record x = ev_record e \<and>
       ev_type x \<in> set [sd_key s @ ''_entered'', sd_key s @ ''_updated'']) (db_events d))"

definition current_dispatch :: "db \<Rightarrow> task_event \<Rightarrow> state_def list \<Rightarrow> dispatch_now option" where
  "current_dispatch d e states =
     (case find_state_row d (ev_board e) (ev_table e) (ev_record e) of
        None \<Rightarrow> None
      | Some row \<Rightarrow>
          (case List.find (\<lambda>s. ts_status row = Some (sd_key s)) states of
             None \<Rightarrow> None
           | Some s \<Rightarrow>
               map_option (\<lambda>trigger. \<lparr>cd_state = s, cd_event = trigger, cd_task = ts_snapshot row\<rparr>)
                 (List.find (\<lambda>x. map_option sd_key (dispatch_event_state states x) = Some (sd_key s))
                   (dispatch_candidates d e s))))"

text \<open>\<^verbatim>\<open>current and current["event"]["event_key"] == key\<close>\<close>

definition dispatched_by :: "dispatch_now option \<Rightarrow> string \<Rightarrow> bool" where
  "dispatched_by current k = (case current of None \<Rightarrow> False | Some x \<Rightarrow> ev_key (cd_event x) = k)"

definition current_task_status :: "db \<Rightarrow> task_event \<Rightarrow> string option" where
  "current_task_status d e =
     (case find_state_row d (ev_board e) (ev_table e) (ev_record e) of
        None \<Rightarrow> None
      | Some row \<Rightarrow> (case ts_status row of Some (c # cs) \<Rightarrow> Some (c # cs) | _ \<Rightarrow> None))"

section \<open>Writes\<close>

definition finish_routing :: "string \<Rightarrow> string \<Rightarrow> string option \<Rightarrow> int \<Rightarrow> db \<Rightarrow> db" where
  "finish_routing k status note t d =
     update_events (\<lambda>e. ev_key e = k) (\<lambda>e. e\<lparr>ev_routing := status, ev_note := note, ev_routed := Some t\<rparr>) d"

definition delivery_key :: "delivery \<Rightarrow> string \<times> string \<times> int" where
  "delivery_key x = (dl_event x, dl_agent x, dl_revision x)"

definition new_delivery :: "nat \<Rightarrow> task_event \<Rightarrow> agent \<Rightarrow> string \<Rightarrow> int \<Rightarrow> delivery" where
  "new_delivery i e a prompt t =
     \<lparr>dl_id = i, dl_event = ev_key e, dl_agent = ag_id a, dl_revision = ag_revision a,
      dl_harness = ag_harness a, dl_session = ag_session a, dl_prompt = prompt, dl_status = Pending,
      dl_attempts = 0, dl_turn = None, dl_turn_status = None, dl_error = None, dl_next = None,
      dl_created = t, dl_started = None, dl_completed = None, dl_delivered = None, dl_client = None\<rparr>"

definition insert_delivery :: "task_event \<Rightarrow> agent \<Rightarrow> string \<Rightarrow> int \<Rightarrow> db \<Rightarrow> nat \<times> db" where
  "insert_delivery e a prompt t d =
     (let x = new_delivery (db_next_id d) e a prompt t in
      if delivery_key x \<in> delivery_key ` set (db_deliveries d) then (0, d)
      else (1, d\<lparr>db_deliveries := db_deliveries d @ [x], db_next_id := Suc (db_next_id d)\<rparr>))"

section \<open>Facts\<close>

lemma dispatch_event_state_member: "dispatch_event_state states e = Some s \<Longrightarrow> s \<in> set states"
  by (induction states) (auto split: if_splits)

lemma dispatch_event_state_type:
  "dispatch_event_state states e = Some s \<Longrightarrow> ev_type e \<in> {sd_key s @ ''_entered'', sd_key s @ ''_updated''}"
  by (induction states) (auto split: if_splits)

lemma current_dispatch_Some:
  assumes "current_dispatch d e states = Some x"
  shows "cd_state x \<in> set states" "cd_event x \<in> set (db_events d)"
    "ev_record (cd_event x) = ev_record e" "ev_board (cd_event x) = ev_board e" "ev_table (cd_event x) = ev_table e"
    "map_option sd_key (dispatch_event_state states (cd_event x)) = Some (sd_key (cd_state x))"
    "\<exists>row. find_state_row d (ev_board e) (ev_table e) (ev_record e) = Some row \<and>
       ts_status row = Some (sd_key (cd_state x)) \<and> cd_task x = ts_snapshot row"
proof -
  obtain row s trigger where row: "find_state_row d (ev_board e) (ev_table e) (ev_record e) = Some row"
    and s: "List.find (\<lambda>s. ts_status row = Some (sd_key s)) states = Some s"
    and trigger: "List.find (\<lambda>x. map_option sd_key (dispatch_event_state states x) = Some (sd_key s))
      (dispatch_candidates d e s) = Some trigger"
    and x: "x = \<lparr>cd_state = s, cd_event = trigger, cd_task = ts_snapshot row\<rparr>"
    using assms unfolding current_dispatch_def by (auto split: option.splits)
  note found = find_SomeD[OF s] find_SomeD[OF trigger]
  show "cd_state x \<in> set states" "cd_event x \<in> set (db_events d)"
    "ev_record (cd_event x) = ev_record e" "ev_board (cd_event x) = ev_board e" "ev_table (cd_event x) = ev_table e"
    "map_option sd_key (dispatch_event_state states (cd_event x)) = Some (sd_key (cd_state x))"
    "\<exists>row. find_state_row d (ev_board e) (ev_table e) (ev_record e) = Some row \<and>
       ts_status row = Some (sd_key (cd_state x)) \<and> cd_task x = ts_snapshot row"
    using found row by (simp_all add: x dispatch_candidates_def)
qed

text \<open>No later event of the card dispatches it in its state.\<close>

lemma find_rev_latest:
  "List.find p (rev xs) = Some x \<Longrightarrow> \<exists>us vs. xs = us @ x # vs \<and> p x \<and> (\<forall>y \<in> set vs. \<not> p y)"
proof (induction xs rule: rev_induct)
  case (snoc y xs)
  show ?case
  proof (cases "p y")
    case True
    with snoc.prems have "x = y" by simp
    with True show ?thesis by (intro exI[of _ xs] exI[of _ "[]"]) simp
  next
    case False
    with snoc.prems have "List.find p (rev xs) = Some x" by simp
    from snoc.IH[OF this] obtain us vs where "xs = us @ x # vs" "p x" "\<forall>y \<in> set vs. \<not> p y" by blast
    with False show ?thesis by (intro exI[of _ us] exI[of _ "vs @ [y]"]) auto
  qed
qed simp

lemma filter_eq_append:
  "filter p xs = us @ x # vs \<Longrightarrow> \<exists>as bs. xs = as @ x # bs \<and> filter p bs = vs"
proof (induction us arbitrary: xs)
  case Nil
  then show ?case by (auto simp: filter_eq_Cons_iff)
next
  case (Cons u us)
  then obtain as bs where "xs = as @ u # bs" "filter p bs = us @ x # vs" by (auto simp: filter_eq_Cons_iff)
  moreover from Cons.IH[OF this(2)] obtain as' bs' where "bs = as' @ x # bs'" "filter p bs' = vs" by blast
  ultimately show ?case by (intro exI[of _ "as @ u # as'"] exI[of _ bs']) simp
qed

definition dispatches :: "state_def list \<Rightarrow> task_event \<Rightarrow> string \<Rightarrow> task_event \<Rightarrow> bool" where
  "dispatches states e k x \<longleftrightarrow> ev_board x = ev_board e \<and> ev_table x = ev_table e \<and> ev_record x = ev_record e \<and>
     map_option sd_key (dispatch_event_state states x) = Some k"

lemma current_dispatch_latest:
  assumes "current_dispatch d e states = Some x"
  shows "\<exists>as bs. db_events d = as @ cd_event x # bs \<and>
    (\<forall>y \<in> set bs. \<not> dispatches states e (sd_key (cd_state x)) y)"
proof -
  let ?s = "cd_state x"
  let ?of = "\<lambda>y. ev_board y = ev_board e \<and> ev_table y = ev_table e \<and> ev_record y = ev_record e \<and>
       ev_type y \<in> set [sd_key ?s @ ''_entered'', sd_key ?s @ ''_updated'']"
  let ?p = "\<lambda>y. map_option sd_key (dispatch_event_state states y) = Some (sd_key ?s)"
  have "List.find ?p (rev (filter ?of (db_events d))) = Some (cd_event x)"
    using assms unfolding current_dispatch_def dispatch_candidates_def by (auto split: option.splits)
  from find_rev_latest[OF this] obtain us vs where fs: "filter ?of (db_events d) = us @ cd_event x # vs"
    and none: "\<forall>y \<in> set vs. \<not> ?p y" by blast
  from filter_eq_append[OF fs] obtain as bs where ev: "db_events d = as @ cd_event x # bs"
    and bs: "filter ?of bs = vs" by blast
  have "\<not> dispatches states e (sd_key ?s) y" if "y \<in> set bs" for y
  proof
    assume y: "dispatches states e (sd_key ?s) y"
    then obtain s where s: "dispatch_event_state states y = Some s" "sd_key s = sd_key ?s"
      by (auto simp: dispatches_def)
    from dispatch_event_state_type[OF s(1)] s(2) y have "?of y" by (auto simp: dispatches_def)
    with that bs have "y \<in> set vs" by auto
    with none y show False by (auto simp: dispatches_def)
  qed
  with ev show ?thesis by blast
qed

lemma target_role_state:
  "target_role w (Some k) task = Some r \<Longrightarrow> \<exists>s. find_state w k = Some s \<and> sd_dispatch s \<noteq> Dispatch_None \<and>
     (sd_dispatch s = Dispatch_Task_Role \<longrightarrow> r = text_of (dget task ''role'') \<and> r \<noteq> []) \<and>
     (sd_dispatch s = Dispatch_Coordinator \<longrightarrow> r = wf_coordinator_role w)"
  by (auto simp: target_role_def task_dispatch_target_def status_state_def nonempty_text_def dict_simps
      split: option.splits dispatch.splits if_splits)

lemma finish_routing_simps [simp]:
  "db_deliveries (finish_routing k s n t d) = db_deliveries d" "db_next_id (finish_routing k s n t d) = db_next_id d"
  "db_turns (finish_routing k s n t d) = db_turns d" "db_agents (finish_routing k s n t d) = db_agents d"
  by (simp_all add: finish_routing_def update_events_def)

lemma finish_routing_keys [simp]: "event_keys (finish_routing k s n t d) = event_keys d"
  by (simp add: finish_routing_def event_keys_def map_update_where)

end
