(* ===== verification/Delivery_Execution.thy ===== *)
theory Delivery_Execution
  imports Task_Routing
begin

text \<open>
  \<^verbatim>\<open>core/task_delivery_execution.py\<close>: whether a delivery's turn is still executing its card, binding
  a continuation's turn to the execution, and stopping it.
\<close>

record active_execution =
  ae_record :: string
  ae_agent :: string
  ae_session :: string
  ae_turn :: string
  ae_task :: dict

definition execution_states :: "workflow \<Rightarrow> string list" where
  "execution_states w =
     (case map_of (wf_runtime_actions w) ''stop_execution'' of None \<Rightarrow> [] | Some a \<Rightarrow> ra_states a)"

text \<open>\<^verbatim>\<open>bool(text)\<close> of an optional text.\<close>

definition given :: "string option \<Rightarrow> bool" where
  "given x \<longleftrightarrow> x \<noteq> None \<and> x \<noteq> Some []"

text \<open>The card still shows the execution, or its snapshot is not newer than the execution's record.\<close>

definition snapshot_confirms :: "workflow \<Rightarrow> task_state option \<Rightarrow> string \<Rightarrow> bool" where
  "snapshot_confirms w row agent_id =
     (let status = (case row of None \<Rightarrow> None | Some s \<Rightarrow> ts_status s);
          holder = text_of (dget (card_content (map_option ts_snapshot row)) ''agent_id'')
      in (case status of None \<Rightarrow> False | Some k \<Rightarrow> k \<in> set (execution_states w)) \<and>
         (holder = [] \<or> holder = agent_id))"

definition snapshot_predates :: "task_state option \<Rightarrow> execution \<Rightarrow> bool" where
  "snapshot_predates row ex = (case row of None \<Rightarrow> True | Some s \<Rightarrow> ts_updated s \<le> ex_updated ex)"

text \<open>The rows of the query, when the execution is active and runs the delivery's turn.\<close>

definition bound_execution :: "nat \<Rightarrow> string option \<Rightarrow> db \<Rightarrow> (delivery \<times> task_event \<times> execution) option" where
  "bound_execution delivery_id turn d =
     (case find_delivery d delivery_id of
        None \<Rightarrow> None
      | Some x \<Rightarrow>
     (case find_event d (dl_event x) of
        None \<Rightarrow> None
      | Some e \<Rightarrow>
     (case find_execution d (ev_record e) of
        None \<Rightarrow> None
      | Some ex \<Rightarrow>
          let expected = coalesce turn (dl_turn x) in
          if ex_state ex \<noteq> Active then None
          else if ex_agent ex \<noteq> dl_agent x \<or> ex_session ex \<noteq> dl_session x \<or> \<not> given expected \<or>
                  ex_turn ex \<noteq> expected then None
          else Some (x, e, ex))))"

definition active_delivery_execution_in ::
  "workflow \<Rightarrow> nat \<Rightarrow> string option \<Rightarrow> db \<Rightarrow> active_execution option" where
  "active_delivery_execution_in w delivery_id turn d =
     (case bound_execution delivery_id turn d of
        None \<Rightarrow> None
      | Some (x, e, ex) \<Rightarrow>
          let row = find_state_row d (ev_board e) (ev_table e) (ev_record e) in
          if \<not> snapshot_confirms w row (dl_agent x) \<and> \<not> snapshot_predates row ex then None
          else Some \<lparr>ae_record = ev_record e, ae_agent = ex_agent ex, ae_session = ex_session ex,
                     ae_turn = (case ex_turn ex of None \<Rightarrow> [] | Some u \<Rightarrow> u),
                     ae_task = card_content (map_option ts_snapshot row)\<rparr>)"

text \<open>The workflow is loaded only once an active execution is found.\<close>

definition active_delivery_execution ::
  "runtime \<Rightarrow> event_context \<Rightarrow> nat \<Rightarrow> string option \<Rightarrow> db \<Rightarrow> active_execution option result" where
  "active_delivery_execution R c delivery_id turn d =
     (case bound_execution delivery_id turn d of
        None \<Rightarrow> Inr None
      | Some _ \<Rightarrow> andthen (rt_load R (cx_workflow_key c)) (\<lambda>w. Inr (active_delivery_execution_in w delivery_id turn d)))"

section \<open>Writes\<close>

text \<open>The execution row a delivery's turn owns: the \<^verbatim>\<open>WHERE\<close> of both updates.\<close>

definition owned_execution :: "string \<Rightarrow> string \<Rightarrow> string \<Rightarrow> string \<Rightarrow> execution \<Rightarrow> bool" where
  "owned_execution rid agent_id session turn ex \<longleftrightarrow>
     ex_record ex = rid \<and> ex_agent ex = agent_id \<and> ex_session ex = session \<and> ex_turn ex = Some turn \<and>
     ex_state ex = Active"

definition delivery_record :: "db \<Rightarrow> nat \<Rightarrow> (delivery \<times> task_event) option" where
  "delivery_record d delivery_id =
     (case find_delivery d delivery_id of
        None \<Rightarrow> None
      | Some x \<Rightarrow> map_option (Pair x) (find_event d (dl_event x)))"

definition rebind_active_delivery_execution :: "nat \<Rightarrow> string \<Rightarrow> string \<Rightarrow> int \<Rightarrow> db \<Rightarrow> db result" where
  "rebind_active_delivery_execution delivery_id previous turn t d =
     (case delivery_record d delivery_id of
        None \<Rightarrow> Inl (ValueError ''TeamFlow delivery no longer exists'')
      | Some (x, e) \<Rightarrow>
          let owns = owned_execution (ev_record e) (dl_agent x) (dl_session x) previous in
          if rowcount owns (db_executions d) \<noteq> 1
          then Inl (ValueError ''TeamFlow active execution changed before continuation started'')
          else Inr (update_executions owns (\<lambda>ex. ex\<lparr>ex_turn := Some turn, ex_updated := t\<rparr>) d))"

definition stop_active_delivery_execution :: "nat \<Rightarrow> string \<Rightarrow> string \<Rightarrow> int \<Rightarrow> db \<Rightarrow> bool \<times> db" where
  "stop_active_delivery_execution delivery_id turn reason t d =
     (case delivery_record d delivery_id of
        None \<Rightarrow> (False, d)
      | Some (x, e) \<Rightarrow>
          let owns = owned_execution (ev_record e) (dl_agent x) (dl_session x) turn in
          (rowcount owns (db_executions d) = 1,
           update_executions owns (\<lambda>ex. ex\<lparr>ex_state := Stopped, ex_stop_status := Some ''continuation_exhausted'',
             ex_reason := Some reason, ex_updated := t, ex_stopped := Some t\<rparr>) d))"

section \<open>Facts\<close>

text \<open>Both writes touch the executions only.\<close>

definition same_but_executions :: "db \<Rightarrow> db \<Rightarrow> bool" where
  "same_but_executions d d' \<longleftrightarrow> (\<exists>xs. d' = d\<lparr>db_executions := xs\<rparr>)"

lemma same_but_executions_simps:
  "same_but_executions d d' \<Longrightarrow> db_deliveries d' = db_deliveries d"
  "same_but_executions d d' \<Longrightarrow> db_events d' = db_events d"
  "same_but_executions d d' \<Longrightarrow> db_turns d' = db_turns d"
  "same_but_executions d d' \<Longrightarrow> db_next_id d' = db_next_id d"
  "same_but_executions d d' \<Longrightarrow> db_states d' = db_states d"
  "same_but_executions d d' \<Longrightarrow> db_agents d' = db_agents d"
  by (auto simp: same_but_executions_def)

lemma same_but_executions_refl [simp]: "same_but_executions d d"
  unfolding same_but_executions_def by (rule exI[of _ "db_executions d"]) simp

lemma stop_same: "same_but_executions d (snd (stop_active_delivery_execution i turn reason t d))"
  by (auto simp: stop_active_delivery_execution_def update_executions_def same_but_executions_def Let_def
      split: option.splits intro: exI[of _ "db_executions d"])

lemma rebind_same: "rebind_active_delivery_execution i previous turn t d = Inr d' \<Longrightarrow> same_but_executions d d'"
  by (auto simp: rebind_active_delivery_execution_def update_executions_def same_but_executions_def Let_def
      split: option.splits if_splits)

lemma active_execution_Some:
  assumes "active_delivery_execution_in w i turn d = Some ae"
  obtains x e ex where "find_delivery d i = Some x" "find_event d (dl_event x) = Some e"
    "find_execution d (ev_record e) = Some ex" "ex_state ex = Active" "ex_agent ex = dl_agent x"
    "ex_session ex = dl_session x" "ex_turn ex = Some (ae_turn ae)" "ae_turn ae \<noteq> []"
    "coalesce turn (dl_turn x) = Some (ae_turn ae)"
proof -
  from assms obtain x e ex where b: "bound_execution i turn d = Some (x, e, ex)"
    and u: "ae_turn ae = (case ex_turn ex of None \<Rightarrow> [] | Some u \<Rightarrow> u)"
    by (auto simp: active_delivery_execution_in_def Let_def split: option.splits if_splits)
  from b have rows: "find_delivery d i = Some x" "find_event d (dl_event x) = Some e"
    "find_execution d (ev_record e) = Some ex"
    and run: "ex_state ex = Active" "ex_agent ex = dl_agent x" "ex_session ex = dl_session x"
      "given (coalesce turn (dl_turn x))" "ex_turn ex = coalesce turn (dl_turn x)"
    by (auto simp: bound_execution_def Let_def split: option.splits if_splits)
  from run(4) obtain v where "coalesce turn (dl_turn x) = Some v" "v \<noteq> []" by (auto simp: given_def)
  with run u that[OF rows] show thesis by simp
qed

end
