(* ===== verification/Delivery_Planner.thy ===== *)
theory Delivery_Planner
  imports Task_Routing "HOL-Library.Product_Lexorder"
begin

text \<open>
  \<^verbatim>\<open>core/task_delivery_planner.py\<close>: from the logged events to the deliveries for agents. One pass
  routes every pending event; a second kind of pass gives agents that registered later the deliveries
  of the cards that already wait for their role. A pass is one transaction.
\<close>

text \<open>A loop whose body may raise.\<close>

fun run_all :: "('a \<Rightarrow> 's \<Rightarrow> 's result) \<Rightarrow> 'a list \<Rightarrow> 's \<Rightarrow> 's result" where
  "run_all f [] s = Inr s"
| "run_all f (x # xs) s = andthen (f x s) (run_all f xs)"

lemma run_all_invariant:
  assumes "run_all f xs s = Inr s'" and "P s"
    and "\<And>x s s'. x \<in> set xs \<Longrightarrow> P s \<Longrightarrow> f x s = Inr s' \<Longrightarrow> P s'"
  shows "P s'"
  using assms by (induction xs arbitrary: s) (auto simp: andthen_eq_Inr)

section \<open>Agents of a role\<close>

definition agents_for :: "db \<Rightarrow> string \<Rightarrow> string \<Rightarrow> agent list" where
  "agents_for d workflow_id role =
     sort_key (\<lambda>a. (ag_created a, ag_id a))
       (filter (\<lambda>a. ag_workspace a = db_workspace d \<and> ag_workflow a = workflow_id \<and> ag_role a = role) (db_agents d))"

definition workflow_key_of :: "db \<Rightarrow> string \<Rightarrow> string result" where
  "workflow_key_of d workflow_id =
     (case map_of (db_workflows d) workflow_id of None \<Rightarrow> Inl TypeError | Some k \<Rightarrow> Inr k)"

definition role_label :: "agent \<Rightarrow> string" where
  "role_label a = (if ag_role_name a = [] then ag_role a else ag_role_name a)"

definition deliver_to ::
  "runtime \<Rightarrow> event_context \<Rightarrow> int \<Rightarrow> string \<Rightarrow> task_event \<Rightarrow> dict \<Rightarrow> agent \<Rightarrow> nat \<times> db \<Rightarrow> (nat \<times> db) result" where
  "deliver_to R c t event_type e task a = (\<lambda>(n, d).
     andthen (workflow_key_of d (ev_workflow e)) (\<lambda>key.
     andthen (render_task_prompt R c event_type (ev_key e) key (role_label a) task) (\<lambda>prompt.
       let (k, d') = insert_delivery e a prompt t d in Inr (n + k, d'))))"

section \<open>Routing the pending events\<close>

datatype routing_result = Not_Required | Waiting | Routed

record routing_outcome =
  ro_source :: "string option"
  ro_type :: string
  ro_record :: string
  ro_task :: dict
  ro_result :: routing_result
  ro_target :: "string option"

record plan =
  pl_db :: db
  pl_routed :: nat
  pl_waiting :: nat
  pl_ignored :: nat
  pl_deliveries :: nat
  pl_outcomes :: "routing_outcome list"

definition event_outcome :: "task_event \<Rightarrow> dict \<Rightarrow> routing_result \<Rightarrow> string option \<Rightarrow> routing_outcome" where
  "event_outcome e task r target =
     \<lparr>ro_source = ev_source e, ro_type = ev_type e, ro_record = ev_record e, ro_task = task, ro_result = r,
      ro_target = target\<rparr>"

text \<open>A queued turn of the card is looked at again at once.\<close>

definition requeue :: "task_event \<Rightarrow> db \<Rightarrow> db" where
  "requeue e d = update_deliveries
     (\<lambda>x. dl_status x = Processing \<and> dl_turn_status x \<in> Some ` set [''queueing'', ''queued''] \<and>
        (\<exists>q \<in> set (db_events d). ev_key q = dl_event x \<and> ev_board q = ev_board e \<and> ev_table q = ev_table e \<and>
           ev_record q = ev_record e))
     (\<lambda>x. x\<lparr>dl_next := None\<rparr>) d"

definition ignore_event :: "task_event \<Rightarrow> string \<Rightarrow> dict \<Rightarrow> int \<Rightarrow> plan \<Rightarrow> plan" where
  "ignore_event e note task t p =
     p\<lparr>pl_db := finish_routing (ev_key e) ''ignored'' (Some note) t (pl_db p),
       pl_outcomes := pl_outcomes p @ [event_outcome e task Not_Required None], pl_ignored := Suc (pl_ignored p)\<rparr>"

definition stale_note :: "db \<Rightarrow> task_event \<Rightarrow> state_def \<Rightarrow> dispatch_now option \<Rightarrow> string" where
  "stale_note d e s current =
     (let status = (case current of None \<Rightarrow> current_task_status d e | Some x \<Rightarrow> Some (sd_key (cd_state x))) in
      if status \<noteq> Some (sd_key s) then ''task is no longer '' @ sd_key s
      else ''task has a newer '' @ sd_key s @ '' dispatch event'')"

definition notify_agents ::
  "runtime \<Rightarrow> event_context \<Rightarrow> int \<Rightarrow> task_event \<Rightarrow> dict \<Rightarrow> string \<Rightarrow> plan \<Rightarrow> plan result" where
  "notify_agents R c t e task target p =
     (let d = pl_db p; agents = agents_for d (ev_workflow e) target in
      if agents = [] then
        Inr (p\<lparr>pl_db := update_events (\<lambda>x. ev_key x = ev_key e)
                 (\<lambda>x. x\<lparr>ev_note := Some (''no registered agent for role '' @ target)\<rparr>) d,
               pl_outcomes := pl_outcomes p @ [event_outcome e task Waiting (Some target)],
               pl_waiting := Suc (pl_waiting p)\<rparr>)
      else andthen (run_all (deliver_to R c t (ev_type e) e task) agents (pl_deliveries p, d)) (\<lambda>(n, d').
        Inr (p\<lparr>pl_db := finish_routing (ev_key e) ''routed'' None t d', pl_deliveries := n,
               pl_outcomes := pl_outcomes p @ [event_outcome e task Routed (Some target)],
               pl_routed := Suc (pl_routed p)\<rparr>)))"

text \<open>Whom the card notifies in the event's state; an event of no dispatch state has no state.\<close>

definition notify_target ::
  "runtime \<Rightarrow> event_context \<Rightarrow> workflow \<Rightarrow> int \<Rightarrow> task_event \<Rightarrow> string option \<Rightarrow> dict \<Rightarrow> plan \<Rightarrow> plan result" where
  "notify_target R c w t e state_key task p =
     (case target_role w state_key task of
        None \<Rightarrow> Inr (ignore_event e ''event does not notify an agent'' task t p)
      | Some target \<Rightarrow> notify_agents R c t e task target p)"

definition route_event ::
  "runtime \<Rightarrow> event_context \<Rightarrow> workflow \<Rightarrow> int \<Rightarrow> task_event \<Rightarrow> plan \<Rightarrow> plan result" where
  "route_event R c w t e p0 =
     (let states = dispatch_states w;
          p = p0\<lparr>pl_db := requeue e (pl_db p0)\<rparr>;
          d = pl_db p;
          task = (case ev_after e of Some a \<Rightarrow> a | None \<Rightarrow> card_content (ev_before e))
      in case dispatch_event_state states e of
           None \<Rightarrow> notify_target R c w t e None task p
         | Some s \<Rightarrow>
             let current = current_dispatch d e states;
                 task = (case current of None \<Rightarrow> task | Some x \<Rightarrow> cd_task x)
             in if \<not> dispatched_by current (ev_key e) then Inr (ignore_event e (stale_note d e s current) task t p)
                else notify_target R c w t e (Some (sd_key s)) task p)"

definition pending_events :: "db \<Rightarrow> task_event list" where
  "pending_events d =
     sort_key (\<lambda>e. (ev_created e, ev_key e)) (filter (\<lambda>e. ev_routing e = ''pending'') (db_events d))"

definition prepare_task_deliveries :: "runtime \<Rightarrow> event_context \<Rightarrow> int \<Rightarrow> db \<Rightarrow> plan result" where
  "prepare_task_deliveries R c t d =
     andthen (rt_load R (cx_workflow_key c)) (\<lambda>w.
       run_all (route_event R c w t) (pending_events d)
         \<lparr>pl_db = d, pl_routed = 0, pl_waiting = 0, pl_ignored = 0, pl_deliveries = 0, pl_outcomes = []\<rparr>)"

section \<open>Catching up\<close>

text \<open>The newest \<^verbatim>\<open><state>_entered\<close> event of a card: by time, then by row.\<close>

definition entered_event :: "db \<Rightarrow> task_state \<Rightarrow> string \<Rightarrow> task_event option" where
  "entered_event d s event_type =
     (case rev (sort_key ev_created (filter (\<lambda>e. ev_board e = ts_board s \<and> ev_table e = ts_table s \<and>
             ev_record e = ts_record s \<and> ev_type e = event_type) (db_events d))) of
        [] \<Rightarrow> None | e # es \<Rightarrow> Some e)"

definition catch_up ::
  "runtime \<Rightarrow> event_context \<Rightarrow> workflow \<Rightarrow> int \<Rightarrow> task_state \<Rightarrow> nat \<times> db \<Rightarrow> (nat \<times> db) result" where
  "catch_up R c w t s = (\<lambda>(n, d).
     case (case ts_status s of None \<Rightarrow> None | Some k \<Rightarrow> map_of (actionable_states w) k) of
       None \<Rightarrow> Inr (n, d)
     | Some event_type \<Rightarrow>
         (case entered_event d s event_type of
            None \<Rightarrow> Inr (n, d)
          | Some e \<Rightarrow>
              (case target_role w (ts_status s) (ts_snapshot s) of
                 None \<Rightarrow> Inr (n, d)
               | Some target \<Rightarrow>
                   run_all (deliver_to R c t event_type e (ts_snapshot s)) (agents_for d (ev_workflow e) target) (n, d))))"

definition prepare_agent_catchup_deliveries :: "runtime \<Rightarrow> event_context \<Rightarrow> int \<Rightarrow> db \<Rightarrow> (nat \<times> db) result" where
  "prepare_agent_catchup_deliveries R c t d =
     andthen (rt_load R (cx_workflow_key c)) (\<lambda>w.
       run_all (catch_up R c w t)
         (filter (\<lambda>s. ts_status s \<in> Some ` fst ` set (actionable_states w)) (db_states d)) (0, d))"

end
