(* ===== verification/Delivery_Store.thy ===== *)
theory Delivery_Store
  imports Delivery_Execution "HOL-Library.Option_ord" "HOL-Library.Product_Lexorder"
begin

text \<open>
  \<^verbatim>\<open>core/task_delivery_store.py\<close>: the life of a delivery in the database. Every operation is one
  transaction; it reads the clock once, as the argument \<open>t\<close> (microseconds). An operation that raises
  returns \<open>Inl\<close> and leaves the database as it was.
\<close>

definition seconds :: "int \<Rightarrow> int" where
  "seconds n = n * 1000000"

section \<open>What the statements set\<close>

definition set_canceled :: "string \<Rightarrow> int \<Rightarrow> delivery \<Rightarrow> delivery" where
  "set_canceled reason t x = x\<lparr>dl_status := Canceled, dl_error := Some reason, dl_completed := Some t\<rparr>"

definition set_retry_now :: "delivery \<Rightarrow> delivery" where
  "set_retry_now x = x\<lparr>dl_status := Retry, dl_next := None, dl_error := None\<rparr>"

definition set_parked :: "dstatus \<Rightarrow> string \<Rightarrow> delivery \<Rightarrow> delivery" where
  "set_parked status err x =
     x\<lparr>dl_status := status, dl_error := Some err, dl_next := None, dl_started := None, dl_completed := None,
       dl_delivered := None\<rparr>"

definition open_delivery :: "delivery \<Rightarrow> bool" where
  "open_delivery x \<longleftrightarrow> dl_status x = Pending \<or> dl_status x = Retry"

definition of_agent :: "string \<Rightarrow> string \<Rightarrow> delivery \<Rightarrow> bool" where
  "of_agent ekey agent_id x \<longleftrightarrow> dl_event x = ekey \<and> dl_agent x = agent_id"

section \<open>Recovery after a restart\<close>

definition recover_task_deliveries :: "int \<Rightarrow> db \<Rightarrow> db" where
  "recover_task_deliveries t d =
     update_deliveries
       (\<lambda>x. dl_status x = Processing \<and> (dl_turn x \<noteq> None \<or> dl_client x \<noteq> None))
       (\<lambda>x. x\<lparr>dl_next := coalesce (dl_next x) (Some t)\<rparr>)
     (update_deliveries
       (\<lambda>x. dl_status x = Processing \<and> dl_turn x = None \<and> dl_client x = None)
       (\<lambda>x. x\<lparr>dl_status := Pending, dl_started := None, dl_next := None\<rparr>) d)"

definition task_delivery_turn_count :: "nat \<Rightarrow> db \<Rightarrow> nat" where
  "task_delivery_turn_count delivery_id d = length (filter (\<lambda>y. tn_delivery y = delivery_id) (db_turns d))"

definition nonempty :: "string option \<Rightarrow> string option" where
  "nonempty x = (if given x then x else None)"

definition failed_interrupted :: "delivery \<Rightarrow> bool" where
  "failed_interrupted x \<longleftrightarrow> dl_status x = Failed_Delivery \<and>
     dl_turn_status x \<in> Some ` set [''interrupted'', ''cancelled'', ''canceled'', ''unconfirmed'']"

definition no_longer_needed :: "delivery \<Rightarrow> string" where
  "no_longer_needed row =
     (case dl_error row of Some (c # cs) \<Rightarrow> c # cs | _ \<Rightarrow> ''delivery failed'') @
     ''; task no longer needs this delivery''"

definition recover_row :: "workflow \<Rightarrow> nat \<Rightarrow> int \<Rightarrow> delivery \<Rightarrow> nat \<times> db \<Rightarrow> nat \<times> db" where
  "recover_row w max_turn_attempts t row = (\<lambda>(n, d).
     let current = (case find_event d (dl_event row) of
           None \<Rightarrow> None | Some e \<Rightarrow> current_dispatch d e (dispatch_states w));
         still_failed = (\<lambda>x. dl_id x = dl_id row \<and> dl_status x = Failed_Delivery)
     in if \<not> dispatched_by current (dl_event row) then
          let reason = no_longer_needed row;
              d' = (case nonempty (dl_turn row) of
                      None \<Rightarrow> d
                    | Some turn \<Rightarrow> snd (stop_active_delivery_execution (dl_id row) turn reason t d))
          in (n, update_deliveries still_failed
                (\<lambda>x. x\<lparr>dl_status := Canceled, dl_error := Some reason, dl_next := None,
                       dl_completed := coalesce (dl_completed x) (Some t)\<rparr>) d')
        else if max_turn_attempts \<le> task_delivery_turn_count (dl_id row) d then (n, d)
        else if active_delivery_execution_in w (dl_id row) (nonempty (dl_turn row)) d \<noteq> None then (n, d)
        else (n + rowcount still_failed (db_deliveries d),
              update_deliveries still_failed
                (\<lambda>x. x\<lparr>dl_status := Retry, dl_next := None, dl_completed := None, dl_delivered := None\<rparr>) d))"

definition recover_retryable_failed_task_deliveries ::
  "runtime \<Rightarrow> event_context \<Rightarrow> nat \<Rightarrow> int \<Rightarrow> db \<Rightarrow> (nat \<times> db) result" where
  "recover_retryable_failed_task_deliveries R c max_turn_attempts t d =
     andthen (rt_load R (cx_workflow_key c)) (\<lambda>w.
       Inr (fold (recover_row w max_turn_attempts t)
         (sort_key (\<lambda>x. (dl_completed x, dl_id x)) (filter failed_interrupted (db_deliveries d))) (0, d)))"

section \<open>Claiming\<close>

record claim_row =
  cr_delivery :: delivery
  cr_event :: task_event
  cr_agent :: agent

record claimed_delivery =
  cl_row :: claim_row
  cl_attempts :: nat
  cl_prompt :: string
  cl_client :: string
  cl_continuation :: "string option"
  cl_task :: dict

definition processing_sessions :: "db \<Rightarrow> string list" where
  "processing_sessions d = dedup (map dl_session (filter (\<lambda>x. dl_status x = Processing) (db_deliveries d)))"

text \<open>The joined rows of the deliveries that may be claimed, in order.\<close>

definition claimable_rows :: "int \<Rightarrow> nat \<Rightarrow> db \<Rightarrow> claim_row list" where
  "claimable_rows t limit d =
     take (max (limit * 4) limit)
       (sort_key (\<lambda>r. (dl_created (cr_delivery r), dl_event (cr_delivery r), dl_agent (cr_delivery r)))
         (concat (map (\<lambda>x.
            case (find_event d (dl_event x), find_agent d (dl_agent x)) of
              (Some e, Some a) \<Rightarrow> [\<lparr>cr_delivery = x, cr_event = e, cr_agent = a\<rparr>]
            | _ \<Rightarrow> [])
          (filter (\<lambda>x. open_delivery x \<and> due (dl_next x) t) (db_deliveries d)))))"

definition cancel_open :: "string \<Rightarrow> string \<Rightarrow> string \<Rightarrow> int \<Rightarrow> db \<Rightarrow> db" where
  "cancel_open ekey agent_id reason t d =
     update_deliveries (\<lambda>x. of_agent ekey agent_id x \<and> open_delivery x) (set_canceled reason t) d"

definition claim_continuation :: "workflow \<Rightarrow> db \<Rightarrow> delivery \<Rightarrow> active_execution option" where
  "claim_continuation w d x =
     (if dl_status x = Retry \<and> given (dl_turn x)
      then active_delivery_execution_in w (dl_id x) (nonempty (dl_turn x)) d else None)"

definition stale_reason :: "state_def list \<Rightarrow> task_event \<Rightarrow> dispatch_now option \<Rightarrow> string" where
  "stale_reason states e current =
     (let expected = (case dispatch_event_state states e of
            None \<Rightarrow> ''an actionable state''
          | Some s \<Rightarrow> if sd_key s = [] then ''an actionable state'' else sd_key s)
      in case current of
           None \<Rightarrow> ''task is no longer '' @ expected
         | Some x \<Rightarrow> if sd_key (cd_state x) \<noteq> expected then ''task is no longer '' @ expected
                    else ''task has a newer '' @ expected @ '' dispatch event'')"

text \<open>What a row calls for: a cancellation with its reason, or a turn on a card.\<close>

datatype claim_choice = Cancel_Claim string | Run_Turn "active_execution option" dict

definition claim_decision :: "workflow \<Rightarrow> db \<Rightarrow> claim_row \<Rightarrow> claim_choice" where
  "claim_decision w d r =
     (let states = dispatch_states w; x = cr_delivery r; role = ag_role (cr_agent r);
          current = current_dispatch d (cr_event r) states in
      case claim_continuation w d x of
        Some ae \<Rightarrow> Run_Turn (Some ae) (ae_task ae)
      | None \<Rightarrow>
          (case current of
             None \<Rightarrow> Cancel_Claim (stale_reason states (cr_event r) current)
           | Some cur \<Rightarrow>
               if ev_key (cd_event cur) \<noteq> dl_event x
               then Cancel_Claim (stale_reason states (cr_event r) current)
               else let target = target_role w (Some (sd_key (cd_state cur))) (cd_task cur) in
                 if target \<noteq> Some role
                 then Cancel_Claim (''task now targets role '' @
                   (case target of Some (c # cs) \<Rightarrow> c # cs | _ \<Rightarrow> ''none''))
                 else Run_Turn None (cd_task cur)))"

definition claim_prompt ::
  "runtime \<Rightarrow> event_context \<Rightarrow> claim_row \<Rightarrow> active_execution option \<Rightarrow> dict \<Rightarrow> string result" where
  "claim_prompt R c r continuation task =
     (let a = cr_agent r; label = (if ag_role_name a = [] then ag_role a else ag_role_name a) in
      if continuation \<noteq> None
      then Inr (render_task_continuation_prompt R c (cx_workflow_key c) label task)
      else render_task_prompt R c (ev_type (cr_event r)) (dl_event (cr_delivery r)) (cx_workflow_key c) label task)"

definition claim_target :: "claim_row \<Rightarrow> int \<Rightarrow> delivery \<Rightarrow> bool" where
  "claim_target r t x \<longleftrightarrow>
     of_agent (dl_event (cr_delivery r)) (dl_agent (cr_delivery r)) x \<and> open_delivery x \<and> due (dl_next x) t"

definition set_processing :: "bool \<Rightarrow> int \<Rightarrow> string \<Rightarrow> string \<Rightarrow> delivery \<Rightarrow> delivery" where
  "set_processing continuation t prompt client x =
     x\<lparr>dl_status := Processing, dl_attempts := dl_attempts x + 1,
       dl_turn := (if continuation then dl_turn x else None), dl_turn_status := None, dl_error := None,
       dl_next := None, dl_started := Some t, dl_completed := None, dl_prompt := prompt, dl_client := Some client\<rparr>"

text \<open>An old client message id is kept until a turn carries it.\<close>

definition claim_client :: "runtime \<Rightarrow> delivery \<Rightarrow> db \<Rightarrow> string \<times> db" where
  "claim_client R x d =
     (if given (dl_client x) \<and> dl_turn x = None
      then (case dl_client x of None \<Rightarrow> [] | Some m \<Rightarrow> m, d)
      else (rt_uuid R (db_uuids d), d\<lparr>db_uuids := Suc (db_uuids d)\<rparr>))"

record claim_state =
  cs_claimed :: "claimed_delivery list"
  cs_reserved :: "string list"
  cs_db :: db

definition claim_row_step ::
  "runtime \<Rightarrow> event_context \<Rightarrow> workflow \<Rightarrow> int \<Rightarrow> claim_row \<Rightarrow> claim_state \<Rightarrow> claim_state result" where
  "claim_row_step R c w t r s =
     (let d = cs_db s; x = cr_delivery r in
      case claim_decision w d r of
        Cancel_Claim reason \<Rightarrow> Inr (s\<lparr>cs_db := cancel_open (dl_event x) (dl_agent x) reason t d\<rparr>)
      | Run_Turn continuation task \<Rightarrow>
          if dl_session x \<in> set (cs_reserved s) then Inr s
          else andthen (claim_prompt R c r continuation task) (\<lambda>prompt.
            let (client, d1) = claim_client R x d;
                d2 = update_deliveries (claim_target r t) (set_processing (continuation \<noteq> None) t prompt client) d1
            in if rowcount (claim_target r t) (db_deliveries d1) = 1 then
                 Inr (s\<lparr>cs_claimed := cs_claimed s @
                   [\<lparr>cl_row = r, cl_attempts = dl_attempts x + 1, cl_prompt = prompt, cl_client = client,
                     cl_continuation = map_option ae_turn continuation, cl_task = task\<rparr>],
                   cs_reserved := cs_reserved s @ [dl_session x], cs_db := d2\<rparr>)
               else Inr (s\<lparr>cs_db := d2\<rparr>)))"

text \<open>The loop ends early when a claim fills the limit.\<close>

fun claim_rows ::
  "runtime \<Rightarrow> event_context \<Rightarrow> workflow \<Rightarrow> int \<Rightarrow> nat \<Rightarrow> claim_row list \<Rightarrow> claim_state \<Rightarrow> claim_state result" where
  "claim_rows R c w t limit [] s = Inr s"
| "claim_rows R c w t limit (r # rs) s =
     andthen (claim_row_step R c w t r s) (\<lambda>s'.
       if length (cs_claimed s') \<noteq> length (cs_claimed s) \<and> limit \<le> length (cs_claimed s') then Inr s'
       else claim_rows R c w t limit rs s')"

definition claim_task_deliveries ::
  "runtime \<Rightarrow> event_context \<Rightarrow> int \<Rightarrow> nat \<Rightarrow> string list \<Rightarrow> db \<Rightarrow> (claimed_delivery list \<times> db) result" where
  "claim_task_deliveries R c t limit exclude d =
     andthen (rt_load R (cx_workflow_key c)) (\<lambda>w.
     andthen (claim_rows R c w t limit (claimable_rows t limit d)
         \<lparr>cs_claimed = [], cs_reserved = exclude @ processing_sessions d, cs_db = d\<rparr>) (\<lambda>s.
       Inr (cs_claimed s, cs_db s)))"

end
