(* ===== verification/Delivery_Turns.thy ===== *)
theory Delivery_Turns
  imports Delivery_Store
begin

text \<open>
  The second half of \<^verbatim>\<open>core/task_delivery_store.py\<close>: finishing, failing, parking and resuming a claimed
  delivery, its turns and their acknowledgment, and the queries the runtime decides by.
\<close>

section \<open>Finishing\<close>

text \<open>Exponential backoff: two seconds doubled per attempt, at most sixty.\<close>

definition retry_delay :: "nat \<Rightarrow> int" where
  "retry_delay attempts = min 60 (2 ^ min attempts 6)"

definition retry_at :: "nat \<Rightarrow> int \<Rightarrow> db \<Rightarrow> int" where
  "retry_at delivery_id t d =
     t + seconds (retry_delay (case find_delivery d delivery_id of None \<Rightarrow> 1 | Some x \<Rightarrow> dl_attempts x))"

definition optional_text :: "json \<Rightarrow> string option" where
  "optional_text v = (case v of JNull \<Rightarrow> None | _ \<Rightarrow> Some (py_str v))"

definition finish_task_delivery ::
  "nat \<Rightarrow> dict option \<Rightarrow> string option \<Rightarrow> bool \<Rightarrow> bool \<Rightarrow> int \<Rightarrow> db \<Rightarrow> db" where
  "finish_task_delivery delivery_id result err retry reset_client t d =
     (let r = card_content result;
          status = (if retry then Retry
                    else if err = None \<and> truthy (dget_or r ''ok'' (JBool True)) then Completed
                    else Failed_Delivery)
      in update_deliveries (\<lambda>x. dl_id x = delivery_id)
           (\<lambda>x. x\<lparr>dl_status := status,
                  dl_turn_status := coalesce (optional_text (dget r ''status'')) (dl_turn_status x),
                  dl_error := (case err of Some m \<Rightarrow> Some m | None \<Rightarrow> optional_text (dget r ''error'')),
                  dl_next := (if retry then Some (retry_at delivery_id t d) else None),
                  dl_completed := (if retry then None else Some t),
                  dl_delivered := (if status = Completed then Some t else None),
                  dl_client := (if reset_client then None else dl_client x)\<rparr>) d)"

text \<open>The execution that runs the delivery's own turn, as the \<^verbatim>\<open>EXISTS\<close> of the update asks for it.\<close>

definition runs_execution :: "db \<Rightarrow> delivery \<Rightarrow> bool" where
  "runs_execution d x \<longleftrightarrow>
     (\<exists>e \<in> set (db_events d). ev_key e = dl_event x \<and>
       (\<exists>ex \<in> set (db_executions d). ex_record ex = ev_record e \<and> ex_agent ex = dl_agent x \<and>
          ex_session ex = dl_session x \<and> dl_turn x \<noteq> None \<and> ex_turn ex = dl_turn x \<and> ex_state ex = Active))"

definition fail_claimed_task_delivery ::
  "nat \<Rightarrow> string \<Rightarrow> string \<Rightarrow> string \<Rightarrow> int \<Rightarrow> db \<Rightarrow> (bool \<times> db) result" where
  "fail_claimed_task_delivery delivery_id turn turn_status reason t d =
     (let p = (\<lambda>x. dl_id x = delivery_id \<and> dl_status x = Processing \<and> dl_turn x = Some turn \<and> runs_execution d x)
      in if rowcount p (db_deliveries d) \<noteq> 1 then Inr (False, d)
         else
           let (stopped, d') = stop_active_delivery_execution delivery_id turn reason t
                 (update_deliveries p
                   (\<lambda>x. x\<lparr>dl_status := Failed_Delivery, dl_turn_status := Some turn_status, dl_error := Some reason,
                          dl_next := None, dl_completed := Some t, dl_delivered := None\<rparr>) d)
           in if stopped then Inr (True, d')
              else Inl (RuntimeError ''TeamFlow active execution changed during finalization''))"

section \<open>Parking and resuming\<close>

definition park :: "dstatus \<Rightarrow> nat \<Rightarrow> string \<Rightarrow> bool \<Rightarrow> db \<Rightarrow> db" where
  "park status delivery_id err continuation d =
     update_deliveries (\<lambda>x. dl_id x = delivery_id \<and> dl_status x = Processing \<and> (dl_turn x = None \<or> continuation))
       (set_parked status err) d"

definition mark_task_delivery_waiting_for_permission :: "nat \<Rightarrow> string \<Rightarrow> bool \<Rightarrow> db \<Rightarrow> db" where
  "mark_task_delivery_waiting_for_permission = park Waiting_Permission"

definition mark_task_delivery_waiting_for_session :: "nat \<Rightarrow> string \<Rightarrow> bool \<Rightarrow> db \<Rightarrow> db" where
  "mark_task_delivery_waiting_for_session = park Waiting_Session"

definition task_delivery_sessions_waiting_for_owner :: "db \<Rightarrow> string list" where
  "task_delivery_sessions_waiting_for_owner d =
     sort (dedup (map dl_session (filter (\<lambda>x. dl_status x = Waiting_Session) (db_deliveries d))))"

definition resume_task_deliveries_waiting_for_session :: "string \<Rightarrow> db \<Rightarrow> db" where
  "resume_task_deliveries_waiting_for_session session d =
     update_deliveries (\<lambda>x. dl_status x = Waiting_Session \<and> dl_session x = session) set_retry_now d"

definition has_task_deliveries_waiting_for_permission :: "db \<Rightarrow> bool" where
  "has_task_deliveries_waiting_for_permission d \<longleftrightarrow> (\<exists>x \<in> set (db_deliveries d). dl_status x = Waiting_Permission)"

definition resume_task_deliveries_waiting_for_permission :: "db \<Rightarrow> nat \<times> db" where
  "resume_task_deliveries_waiting_for_permission d =
     (rowcount (\<lambda>x. dl_status x = Waiting_Permission) (db_deliveries d),
      update_deliveries (\<lambda>x. dl_status x = Waiting_Permission) set_retry_now d)"

section \<open>Turns\<close>

definition turn_begins :: "nat \<Rightarrow> string option \<Rightarrow> delivery \<Rightarrow> bool" where
  "turn_begins delivery_id previous x \<longleftrightarrow>
     dl_id x = delivery_id \<and> dl_status x = Processing \<and> (previous = None \<or> dl_turn x = previous)"

definition mark_task_delivery_turn_started ::
  "nat \<Rightarrow> string \<Rightarrow> string option \<Rightarrow> bool \<Rightarrow> int \<Rightarrow> db \<Rightarrow> (int \<times> db) result" where
  "mark_task_delivery_turn_started delivery_id turn previous require_rebind t d =
     andthen
       (if require_rebind then
          (case nonempty previous of
             None \<Rightarrow> Inl (ValueError ''TeamFlow continuation needs its previous turn ID'')
           | Some p \<Rightarrow> rebind_active_delivery_execution delivery_id p turn t d)
        else Inr d)
       (\<lambda>d1.
         if rowcount (turn_begins delivery_id previous) (db_deliveries d1) \<noteq> 1
         then Inl (ValueError ''TeamFlow delivery changed before its turn started'')
         else Inr (t, insert_turn (delivery_id, turn) t
           (update_deliveries (turn_begins delivery_id previous)
             (\<lambda>x. x\<lparr>dl_turn := Some turn, dl_turn_status := Some ''inProgress'', dl_started := Some t,
                    dl_next := Some (t + seconds 5)\<rparr>) d1)))"

text \<open>\<^verbatim>\<open>(? IS NULL AND turn_id IS NULL) OR (? IS NOT NULL AND turn_id = ?)\<close>\<close>

definition at_turn :: "nat \<Rightarrow> string option \<Rightarrow> delivery \<Rightarrow> bool" where
  "at_turn delivery_id previous x \<longleftrightarrow> dl_id x = delivery_id \<and> dl_status x = Processing \<and> dl_turn x = previous"

definition mark_task_delivery_queue_state :: "nat \<Rightarrow> string \<Rightarrow> string option \<Rightarrow> int \<Rightarrow> db \<Rightarrow> db result" where
  "mark_task_delivery_queue_state delivery_id state previous t d =
     (if rowcount (at_turn delivery_id previous) (db_deliveries d) \<noteq> 1
      then Inl (ValueError ''TeamFlow delivery changed before queue acceptance'')
      else Inr (update_deliveries (at_turn delivery_id previous)
        (\<lambda>x. x\<lparr>dl_turn_status := Some state, dl_next := Some (t + seconds 5)\<rparr>) d))"

definition mark_task_delivery_queueing :: "nat \<Rightarrow> string option \<Rightarrow> int \<Rightarrow> db \<Rightarrow> db result" where
  "mark_task_delivery_queueing delivery_id = mark_task_delivery_queue_state delivery_id ''queueing''"

definition mark_task_delivery_queued :: "nat \<Rightarrow> string option \<Rightarrow> int \<Rightarrow> db \<Rightarrow> db result" where
  "mark_task_delivery_queued delivery_id = mark_task_delivery_queue_state delivery_id ''queued''"

definition clear_task_delivery_queueing :: "nat \<Rightarrow> string option \<Rightarrow> db \<Rightarrow> db" where
  "clear_task_delivery_queueing delivery_id previous d =
     update_deliveries (\<lambda>x. at_turn delivery_id previous x \<and> dl_turn_status x = Some ''queueing'')
       (\<lambda>x. x\<lparr>dl_turn_status := None\<rparr>) d"

text \<open>The last delivery, by id, that the acknowledged turn runs.\<close>

definition acknowledged_delivery :: "string \<Rightarrow> string \<Rightarrow> string \<Rightarrow> db \<Rightarrow> nat option" where
  "acknowledged_delivery turn agent_id record_id d =
     (case rev (sort (map dl_id (filter (\<lambda>x. dl_status x = Processing \<and> dl_turn x = Some turn \<and>
             dl_agent x = agent_id \<and> (\<exists>e \<in> set (db_events d). ev_key e = dl_event x \<and> ev_record e = record_id))
           (db_deliveries d)))) of
        [] \<Rightarrow> None | i # is \<Rightarrow> Some i)"

definition acknowledge_task_delivery_turn :: "string \<Rightarrow> string \<Rightarrow> string \<Rightarrow> int \<Rightarrow> db \<Rightarrow> bool \<times> db" where
  "acknowledge_task_delivery_turn turn agent_id record_id t d =
     (if turn = [] \<or> agent_id = [] \<or> record_id = [] then (False, d)
      else
        let p = (\<lambda>y. tn_turn y = turn \<and> Some (tn_delivery y) = acknowledged_delivery turn agent_id record_id d)
        in (rowcount p (db_turns d) = 1,
            d\<lparr>db_turns := update_where p (\<lambda>y. y\<lparr>tn_acknowledged := coalesce (tn_acknowledged y) (Some t)\<rparr>)
                 (db_turns d)\<rparr>))"

definition task_delivery_turn_acknowledged :: "nat \<Rightarrow> string \<Rightarrow> db \<Rightarrow> bool" where
  "task_delivery_turn_acknowledged delivery_id turn d \<longleftrightarrow>
     turn \<noteq> [] \<and>
     (case List.find (\<lambda>y. tn_delivery y = delivery_id \<and> tn_turn y = turn) (db_turns d) of
        None \<Rightarrow> False | Some y \<Rightarrow> tn_acknowledged y \<noteq> None)"

section \<open>What is due\<close>

record delivery_row =
  dr_delivery :: delivery
  dr_record :: string
  dr_source :: "string option"
  dr_after :: "dict option"
  dr_before :: "dict option"
  dr_agent :: "agent option"

definition joined_row :: "db \<Rightarrow> delivery \<Rightarrow> delivery_row list" where
  "joined_row d x =
     (case find_event d (dl_event x) of
        None \<Rightarrow> []
      | Some e \<Rightarrow>
          [\<lparr>dr_delivery = x, dr_record = ev_record e, dr_source = ev_source e,
            dr_after = coalesce (map_option ts_snapshot
              (find_state_row d (ev_board e) (ev_table e) (ev_record e))) (ev_after e),
            dr_before = ev_before e, dr_agent = find_agent d (dl_agent x)\<rparr>])"

definition due_processing_task_deliveries :: "int \<Rightarrow> db \<Rightarrow> delivery_row list" where
  "due_processing_task_deliveries t d =
     sort_key (\<lambda>r. (dl_started (dr_delivery r), dl_event (dr_delivery r), dl_agent (dr_delivery r)))
       (concat (map (joined_row d) (filter (\<lambda>x. dl_status x = Processing \<and>
          (dl_turn x \<noteq> None \<or> dl_client x \<noteq> None) \<and> due (dl_next x) t) (db_deliveries d))))"

definition processing_task_delivery :: "nat \<Rightarrow> db \<Rightarrow> delivery_row option" where
  "processing_task_delivery delivery_id d =
     (case concat (map (joined_row d) (filter (\<lambda>x. dl_id x = delivery_id \<and> dl_status x = Processing)
          (db_deliveries d))) of
        [] \<Rightarrow> None | r # rs \<Rightarrow> Some r)"

definition processing_task_delivery_sessions_for_workspace :: "bool \<Rightarrow> db \<Rightarrow> string list" where
  "processing_task_delivery_sessions_for_workspace exists d =
     (if exists then filter (\<lambda>s. s \<noteq> []) (processing_sessions d) else [])"

section \<open>Which delivery a turn runs\<close>

definition runs_turn :: "db \<Rightarrow> string \<Rightarrow> string \<Rightarrow> delivery \<Rightarrow> bool" where
  "runs_turn d turn agent_id x \<longleftrightarrow>
     (dl_turn x = Some turn \<or> (dl_id x, turn) \<in> set (turn_keys d)) \<and> dl_agent x = agent_id \<and>
     find_event d (dl_event x) \<noteq> None"

text \<open>\<^verbatim>\<open>ORDER BY started_at DESC, id DESC LIMIT 1\<close>\<close>

definition latest_started :: "delivery list \<Rightarrow> delivery option" where
  "latest_started xs =
     (case rev (sort_key (\<lambda>x. (dl_started x, dl_id x)) xs) of [] \<Rightarrow> None | x # _ \<Rightarrow> Some x)"

definition task_delivery_record_id :: "string \<Rightarrow> string \<Rightarrow> db \<Rightarrow> string option" where
  "task_delivery_record_id turn agent_id d =
     (case latest_started (filter (runs_turn d turn agent_id) (db_deliveries d)) of
        None \<Rightarrow> None
      | Some x \<Rightarrow> map_option ev_record (find_event d (dl_event x)))"

definition task_delivery_for_turn_in :: "string \<Rightarrow> string \<Rightarrow> string option \<Rightarrow> db \<Rightarrow> delivery option" where
  "task_delivery_for_turn_in turn agent_id session d =
     latest_started (filter (\<lambda>x. runs_turn d turn agent_id x \<and> (session = None \<or> session = Some (dl_session x)))
       (db_deliveries d))"

definition task_delivery_is_current :: "runtime \<Rightarrow> event_context \<Rightarrow> nat \<Rightarrow> db \<Rightarrow> bool result" where
  "task_delivery_is_current R c delivery_id d =
     andthen (rt_load R (cx_workflow_key c)) (\<lambda>w.
       Inr (case delivery_record d delivery_id of
              None \<Rightarrow> False
            | Some (x, e) \<Rightarrow> dispatched_by (current_dispatch d e (dispatch_states w)) (ev_key e)))"

definition task_delivery_has_active_execution ::
  "runtime \<Rightarrow> event_context \<Rightarrow> nat \<Rightarrow> string option \<Rightarrow> db \<Rightarrow> bool result" where
  "task_delivery_has_active_execution R c delivery_id turn d =
     andthen (active_delivery_execution R c delivery_id turn d) (\<lambda>ae. Inr (ae \<noteq> None))"

text \<open>The answer for a turn that is bound to a delivery; \<open>None\<close> for a turn of no delivery.\<close>

definition bound_turn_is_current ::
  "runtime \<Rightarrow> event_context \<Rightarrow> string \<Rightarrow> string \<Rightarrow> string option \<Rightarrow> db \<Rightarrow> bool option result" where
  "bound_turn_is_current R c turn agent_id session d =
     (case task_delivery_for_turn_in turn agent_id session d of
        None \<Rightarrow> Inr None
      | Some x \<Rightarrow>
          if (case dl_turn x of None \<Rightarrow> [] | Some u \<Rightarrow> u) \<noteq> turn then Inr (Some False)
          else andthen (active_delivery_execution R c (dl_id x) (Some turn) d) (\<lambda>ae.
            if ae \<noteq> None then Inr (Some True)
            else if dl_status x \<noteq> Processing then Inr (Some False)
            else andthen (task_delivery_is_current R c (dl_id x) d) (\<lambda>b. Inr (Some b))))"

text \<open>A queued delivery of the session whose turn has not been bound yet.\<close>

definition pending_queued :: "string \<Rightarrow> string \<Rightarrow> db \<Rightarrow> delivery option" where
  "pending_queued agent_id session d =
     latest_started (filter (\<lambda>x. dl_status x = Processing \<and>
       dl_turn_status x \<in> Some ` set [''queueing'', ''queued''] \<and> dl_agent x = agent_id \<and> dl_session x = session \<and>
       dl_client x \<noteq> None) (db_deliveries d))"

text \<open>The start of a turn whose \<^verbatim>\<open>ValueError\<close> is swallowed.\<close>

definition try_turn_started :: "nat \<Rightarrow> string \<Rightarrow> string option \<Rightarrow> bool \<Rightarrow> int \<Rightarrow> db \<Rightarrow> db result" where
  "try_turn_started delivery_id turn previous rebind t d =
     (case mark_task_delivery_turn_started delivery_id turn previous rebind t d of
        Inl (ValueError _) \<Rightarrow> Inr d
      | Inl e \<Rightarrow> Inl e
      | Inr (_, d') \<Rightarrow> Inr d')"

definition bind_queued_turn ::
  "runtime \<Rightarrow> event_context \<Rightarrow> string \<Rightarrow> string \<Rightarrow> string \<Rightarrow> (string \<Rightarrow> string \<Rightarrow> string option) \<Rightarrow> delivery \<Rightarrow>
   int \<Rightarrow> db \<Rightarrow> (bool option \<times> db) result" where
  "bind_queued_turn R c turn agent_id session turn_of x t d =
     (let previous = nonempty (dl_turn x); i = dl_id x in
      andthen (task_delivery_is_current R c i d) (\<lambda>fresh.
      andthen (if \<not> fresh \<and> previous \<noteq> None then task_delivery_has_active_execution R c i previous d
               else Inr fresh) (\<lambda>current.
      if \<not> current then Inr (Some False, d)
      else if turn_of session (case dl_client x of None \<Rightarrow> [] | Some m \<Rightarrow> m) \<noteq> Some turn then Inr (None, d)
      else andthen (if previous \<noteq> None then task_delivery_has_active_execution R c i previous d else Inr False) (\<lambda>rebind.
           andthen (try_turn_started i turn (if rebind then previous else None) rebind t d) (\<lambda>d'.
           andthen (bound_turn_is_current R c turn agent_id (Some session) d') (\<lambda>b. Inr (b, d')))))))"

text \<open>
  \<^verbatim>\<open>task_delivery_turn_is_current\<close>: the callable that finds the turn of a client message asks the
  agent's harness. The operation may bind a queued turn, so it returns the database too.
\<close>

definition task_delivery_turn_is_current ::
  "runtime \<Rightarrow> event_context \<Rightarrow> string \<Rightarrow> string \<Rightarrow> string option \<Rightarrow> (string \<Rightarrow> string \<Rightarrow> string option) option \<Rightarrow>
   int \<Rightarrow> db \<Rightarrow> (bool option \<times> db) result" where
  "task_delivery_turn_is_current R c turn agent_id session turn_of t d =
     (case (task_delivery_for_turn_in turn agent_id session d, nonempty session, turn_of) of
        (None, Some s, Some f) \<Rightarrow>
          (case pending_queued agent_id s d of
             None \<Rightarrow> Inr (None, d)
           | Some x \<Rightarrow> bind_queued_turn R c turn agent_id s f x t d)
      | _ \<Rightarrow> andthen (bound_turn_is_current R c turn agent_id session d) (\<lambda>b. Inr (b, d)))"

section \<open>Deferring and canceling\<close>

definition defer_task_delivery_reconciliation :: "nat \<Rightarrow> string option \<Rightarrow> int \<Rightarrow> db \<Rightarrow> db" where
  "defer_task_delivery_reconciliation delivery_id err t d =
     update_deliveries (\<lambda>x. dl_id x = delivery_id \<and> dl_status x = Processing)
       (\<lambda>x. x\<lparr>dl_error := err, dl_next := Some (t + seconds 5)\<rparr>) d"

definition cancel_task_delivery :: "nat \<Rightarrow> string \<Rightarrow> int \<Rightarrow> db \<Rightarrow> db" where
  "cancel_task_delivery delivery_id reason t d =
     update_deliveries (\<lambda>x. dl_id x = delivery_id \<and> dl_status x = Processing \<and> dl_turn x = None)
       (set_canceled reason t) d"

text \<open>Some turn of the delivery's agent and session is executing its card.\<close>

definition executes_card :: "db \<Rightarrow> delivery \<Rightarrow> bool" where
  "executes_card d x \<longleftrightarrow>
     (\<exists>e \<in> set (db_events d). ev_key e = dl_event x \<and>
       (\<exists>ex \<in> set (db_executions d). ex_record ex = ev_record e \<and> ex_agent ex = dl_agent x \<and>
          ex_session ex = dl_session x \<and> ex_state ex = Active))"

definition cancel_reconciled_task_delivery ::
  "nat \<Rightarrow> string \<Rightarrow> dstatus \<Rightarrow> string option \<Rightarrow> string option \<Rightarrow> string \<Rightarrow> bool \<Rightarrow> int \<Rightarrow> db \<Rightarrow> bool \<times> db" where
  "cancel_reconciled_task_delivery delivery_id reason status turn expected_turn_status turn_status allow_stop t d =
     (let p = (\<lambda>x. dl_id x = delivery_id \<and> dl_status x = status \<and> dl_turn x = turn \<and>
              dl_turn_status x = expected_turn_status \<and> (allow_stop \<or> \<not> executes_card d x));
          d' = update_deliveries p
            (\<lambda>x. x\<lparr>dl_status := Canceled, dl_turn_status := Some turn_status, dl_error := Some reason,
                   dl_next := None, dl_completed := Some t\<rparr>) d
      in if rowcount p (db_deliveries d) \<noteq> 1 then (False, d')
         else (True, case nonempty turn of
                 Some u \<Rightarrow> if allow_stop then snd (stop_active_delivery_execution delivery_id u reason t d') else d'
               | None \<Rightarrow> d'))"

definition refresh_task_delivery_prompt :: "nat \<Rightarrow> string \<Rightarrow> db \<Rightarrow> db" where
  "refresh_task_delivery_prompt delivery_id prompt d =
     update_deliveries (\<lambda>x. dl_id x = delivery_id \<and> dl_status x = Processing \<and> dl_turn x = None)
       (\<lambda>x. x\<lparr>dl_prompt := prompt\<rparr>) d"

end
