(* ===== verification/Delivery_Invariants.thy ===== *)
theory Delivery_Invariants
  imports Delivery_Turns Delivery_Planner
begin

text \<open>
  The invariant of the delivery tables and what every statement keeps of it. A statement on the
  deliveries is an update of rows; the laws an update needs are the locales \<open>row_update\<close> and
  \<open>releasing_update\<close>, interpreted for the \<^verbatim>\<open>SET\<close> clauses of the operations.
\<close>

section \<open>The invariant\<close>

definition processing :: "delivery \<Rightarrow> bool" where
  "processing x \<longleftrightarrow> dl_status x = Processing"

text \<open>What no statement changes of a row.\<close>

definition identity :: "delivery \<Rightarrow> nat \<times> (string \<times> string \<times> int) \<times> string" where
  "identity x = (dl_id x, delivery_key x, dl_session x)"

definition identities :: "db \<Rightarrow> (nat \<times> (string \<times> string \<times> int) \<times> string) list" where
  "identities d = map identity (db_deliveries d)"

definition processing_once :: "db \<Rightarrow> bool" where
  "processing_once d \<longleftrightarrow> distinct (map dl_session (filter processing (db_deliveries d)))"

definition rows_ok :: "db \<Rightarrow> bool" where
  "rows_ok d \<longleftrightarrow>
     distinct (map fst (identities d)) \<and> (\<forall>i \<in> set (identities d). fst i < db_next_id d) \<and>
     distinct (map (\<lambda>i. fst (snd i)) (identities d)) \<and>
     (\<forall>i \<in> set (identities d). fst (fst (snd i)) \<in> set (event_keys d))"

definition store_ok :: "db \<Rightarrow> bool" where
  "store_ok d \<longleftrightarrow> rows_ok d \<and> processing_once d"

text \<open>Agents have an id each, and every delivery was made under the assignment its agent still has.\<close>

definition assigned :: "db \<Rightarrow> bool" where
  "assigned d \<longleftrightarrow> distinct (map ag_id (db_agents d)) \<and>
    (\<forall>x \<in> set (db_deliveries d). \<forall>a \<in> set (db_agents d). ag_id a = dl_agent x \<longrightarrow>
     ag_revision a = dl_revision x)"

text \<open>What a transaction keeps: the rows it does not insert, the agents, the unique assignment.\<close>

definition keeps_store :: "db \<Rightarrow> db \<Rightarrow> bool" where
  "keeps_store d d' \<longleftrightarrow> (store_ok d \<longrightarrow> store_ok d') \<and> identities d' = identities d \<and> db_agents d' = db_agents d \<and>
     event_keys d' = event_keys d \<and> db_next_id d' = db_next_id d \<and> prefix (turn_keys d) (turn_keys d')"

lemma keeps_store_refl [simp]: "keeps_store d d"
  by (simp add: keeps_store_def)

lemma keeps_store_trans: "keeps_store a b \<Longrightarrow> keeps_store b c \<Longrightarrow> keeps_store a c"
  by (auto simp: keeps_store_def intro: prefix_order.trans)

section \<open>Updates of rows\<close>

locale row_update =
  fixes f :: "delivery \<Rightarrow> delivery"
  assumes same_identity: "identity (f x) = identity x"
begin

lemma same_session: "dl_session (f x) = dl_session x"
  using same_identity[of x] by (simp add: identity_def)

lemma identities_update: "identities (update_deliveries p f d) = identities d"
  by (simp add: identities_def update_where_def same_identity)

lemma rows_ok_update: "rows_ok d \<Longrightarrow> rows_ok (update_deliveries p f d)"
  by (simp add: rows_ok_def identities_update event_keys_def)

lemma assigned_update: "assigned d \<Longrightarrow> assigned (update_deliveries p f d)"
proof -
  have "dl_agent (f x) = dl_agent x" "dl_revision (f x) = dl_revision x" for x
    using same_identity[of x] by (simp_all add: identity_def delivery_key_def)
  then show "assigned d \<Longrightarrow> assigned (update_deliveries p f d)"
    by (auto simp: assigned_def set_update_where)
qed

end

locale releasing_update = row_update +
  assumes no_start: "processing (f x) \<Longrightarrow> processing x"
begin

lemma sessions_shrink:
  "distinct (map dl_session (filter processing xs)) \<Longrightarrow>
     distinct (map dl_session (filter processing (update_where p f xs))) \<and>
     dl_session ` set (filter processing (update_where p f xs)) \<subseteq> dl_session ` set (filter processing xs)"
proof (induction xs)
  case (Cons x xs)
  let ?y = "if p x then f x else x"
  have y: "dl_session ?y = dl_session x" "processing ?y \<Longrightarrow> processing x"
    using same_session no_start by (auto split: if_splits)
  have IH: "distinct (map dl_session (filter processing (update_where p f xs)))"
    "dl_session ` set (filter processing (update_where p f xs)) \<subseteq> dl_session ` set (filter processing xs)"
    using Cons by (auto split: if_splits)
  have step: "update_where p f (x # xs) = ?y # update_where p f xs" by (simp add: update_where_def)
  show ?case
  proof (cases "processing ?y")
    case True
    with y(2) have x: "processing x" .
    with Cons.prems have "dl_session x \<notin> dl_session ` set (filter processing xs)" by auto
    with IH have "dl_session x \<notin> dl_session ` set (filter processing (update_where p f xs))" by blast
    with IH True x y(1) show ?thesis unfolding step by auto
  next
    case False
    with IH show ?thesis unfolding step by auto
  qed
qed (simp add: update_where_def)

lemma store_ok_update: "store_ok d \<Longrightarrow> store_ok (update_deliveries p f d)"
  using rows_ok_update sessions_shrink by (simp add: store_ok_def processing_once_def)

lemma keeps_update: "keeps_store d (update_deliveries p f d)"
  using store_ok_update identities_update by (simp add: keeps_store_def event_keys_def turn_keys_def)

lemma processing_sessions_update:
  "processing_once d \<Longrightarrow> set (processing_sessions (update_deliveries p f d)) \<subseteq> set (processing_sessions d)"
  using sessions_shrink[of "db_deliveries d" p]
  by (simp add: processing_once_def processing_sessions_def processing_def[abs_def])

end

named_theorems row_simps \<open>what a SET clause keeps of a row\<close>

lemma identity_simps [row_simps]:
  "identity (x\<lparr>dl_status := a\<rparr>) = identity x" "identity (x\<lparr>dl_error := b\<rparr>) = identity x"
  "identity (x\<lparr>dl_completed := c\<rparr>) = identity x" "identity (x\<lparr>dl_next := c\<rparr>) = identity x"
  "identity (x\<lparr>dl_started := c\<rparr>) = identity x" "identity (x\<lparr>dl_delivered := c\<rparr>) = identity x"
  "identity (x\<lparr>dl_turn := b\<rparr>) = identity x" "identity (x\<lparr>dl_turn_status := b\<rparr>) = identity x"
  "identity (x\<lparr>dl_client := b\<rparr>) = identity x" "identity (x\<lparr>dl_prompt := s\<rparr>) = identity x"
  "identity (x\<lparr>dl_attempts := n\<rparr>) = identity x"
  by (simp_all add: identity_def delivery_key_def)

interpretation canceled: releasing_update "set_canceled reason t" for reason t
  by unfold_locales (simp_all add: set_canceled_def row_simps processing_def)

interpretation retried: releasing_update set_retry_now
  by unfold_locales (simp_all add: set_retry_now_def row_simps processing_def)

interpretation parked_permission: releasing_update "set_parked Waiting_Permission err" for err
  by unfold_locales (simp_all add: set_parked_def row_simps processing_def)

interpretation parked_session: releasing_update "set_parked Waiting_Session err" for err
  by unfold_locales (simp_all add: set_parked_def row_simps processing_def)

interpretation requeued: releasing_update "\<lambda>x. x\<lparr>dl_next := g x\<rparr>" for g
  by unfold_locales (simp_all add: row_simps processing_def)

interpretation reset: releasing_update "\<lambda>x. x\<lparr>dl_status := Pending, dl_started := None, dl_next := None\<rparr>"
  by unfold_locales (simp_all add: row_simps processing_def)

interpretation given_up: releasing_update "\<lambda>x. x\<lparr>dl_status := Canceled, dl_error := e, dl_next := None,
    dl_completed := g x\<rparr>" for e g
  by unfold_locales (simp_all add: row_simps processing_def)

interpretation revived: releasing_update "\<lambda>x. x\<lparr>dl_status := Retry, dl_next := None, dl_completed := None,
    dl_delivered := None\<rparr>"
  by unfold_locales (simp_all add: row_simps processing_def)

interpretation finished: releasing_update "\<lambda>x. x\<lparr>dl_status := (if retry then Retry else if b then Completed
    else Failed_Delivery), dl_turn_status := g x, dl_error := e, dl_next := n, dl_completed := c, dl_delivered := v,
    dl_client := m x\<rparr>" for retry b g e n c v m
  by unfold_locales (auto simp: row_simps processing_def split: if_splits)

interpretation failed: releasing_update "\<lambda>x. x\<lparr>dl_status := Failed_Delivery, dl_turn_status := a, dl_error := e,
    dl_next := None, dl_completed := c, dl_delivered := None\<rparr>" for a e c
  by unfold_locales (simp_all add: row_simps processing_def)

interpretation started: releasing_update "\<lambda>x. x\<lparr>dl_turn := a, dl_turn_status := b, dl_started := c, dl_next := n\<rparr>"
  for a b c n
  by unfold_locales (simp_all add: row_simps processing_def)

interpretation queued: releasing_update "\<lambda>x. x\<lparr>dl_turn_status := b, dl_next := n\<rparr>" for b n
  by unfold_locales (simp_all add: row_simps processing_def)

interpretation unqueued: releasing_update "\<lambda>x. x\<lparr>dl_turn_status := b\<rparr>" for b
  by unfold_locales (simp_all add: row_simps processing_def)

interpretation deferred: releasing_update "\<lambda>x. x\<lparr>dl_error := b, dl_next := n\<rparr>" for b n
  by unfold_locales (simp_all add: row_simps processing_def)

interpretation reconciled: releasing_update "\<lambda>x. x\<lparr>dl_status := Canceled, dl_turn_status := a, dl_error := e,
    dl_next := None, dl_completed := c\<rparr>" for a e c
  by unfold_locales (simp_all add: row_simps processing_def)

interpretation refreshed: releasing_update "\<lambda>x. x\<lparr>dl_prompt := s\<rparr>" for s
  by unfold_locales (simp_all add: row_simps processing_def)

interpretation claimed: row_update "set_processing b t prompt client" for b t prompt client
  by unfold_locales (simp add: set_processing_def row_simps)

section \<open>The store's operations keep the invariant\<close>

lemma assigned_identities:
  assumes "identities d' = identities d" and "db_agents d' = db_agents d" and "assigned d"
  shows "assigned d'"
  unfolding assigned_def
proof (intro conjI ballI impI)
  show "distinct (map ag_id (db_agents d'))" using assms(2,3) by (simp add: assigned_def)
next
  fix x a
  assume x: "x \<in> set (db_deliveries d')" and a: "a \<in> set (db_agents d')" "ag_id a = dl_agent x"
  from x have "identity x \<in> set (identities d)" using assms(1) by (metis identities_def image_eqI set_map)
  then obtain y where y: "y \<in> set (db_deliveries d)" "identity y = identity x" by (auto simp: identities_def)
  then have "dl_agent y = dl_agent x" "dl_revision y = dl_revision x" by (simp_all add: identity_def delivery_key_def)
  with assms a y(1) show "ag_revision a = dl_revision x" unfolding assigned_def by metis
qed

lemma keeps_store_assigned: "keeps_store d d' \<Longrightarrow> assigned d \<Longrightarrow> assigned d'"
  using assigned_identities by (auto simp: keeps_store_def)

lemma keeps_executions: "same_but_executions d d' \<Longrightarrow> keeps_store d d'"
  by (auto simp: same_but_executions_def keeps_store_def store_ok_def rows_ok_def processing_once_def identities_def
      event_keys_def turn_keys_def)

lemma keeps_stop: "keeps_store d (snd (stop_active_delivery_execution i turn reason t d))"
  by (rule keeps_executions[OF stop_same])

lemma keeps_turn: "keeps_store d (insert_turn k t d)"
  by (auto simp: insert_turn_def keeps_store_def store_ok_def rows_ok_def processing_once_def identities_def event_keys_def
      turn_keys_def)

lemma keeps_recover: "keeps_store d (recover_task_deliveries t d)"
  unfolding recover_task_deliveries_def by (rule keeps_store_trans[OF reset.keeps_update requeued.keeps_update])

lemma keeps_recover_row: "keeps_store d (snd (recover_row w m t row (n, d)))"
proof -
  have given_up: "keeps_store d (update_deliveries p (\<lambda>x. x\<lparr>dl_status := Canceled, dl_error := e, dl_next := None,
      dl_completed := g x\<rparr>) (case u of None \<Rightarrow> d | Some turn \<Rightarrow> snd (stop_active_delivery_execution i turn r t d)))"
    for p e g u i r
    by (cases u) (simp_all add: given_up.keeps_update keeps_store_trans[OF keeps_stop given_up.keeps_update])
  show ?thesis
    unfolding recover_row_def by (simp add: Let_def given_up revived.keeps_update)
qed

lemma keeps_recover_rows: "keeps_store d (snd (fold (recover_row w m t) rows (n, d)))"
proof (induction rows arbitrary: n d)
  case (Cons r rows)
  obtain n1 d1 where r: "recover_row w m t r (n, d) = (n1, d1)" by (rule prod.exhaust)
  then have "keeps_store d d1" using keeps_recover_row[of d w m t r n] by simp
  with Cons.IH keeps_store_trans r show ?case by simp
qed simp

lemma keeps_retryable:
  "recover_retryable_failed_task_deliveries R c m t d = Inr (n, d') \<Longrightarrow> keeps_store d d'"
  unfolding recover_retryable_failed_task_deliveries_def andthen_eq_Inr
  using keeps_recover_rows by (metis Inr_inject snd_conv)

lemma keeps_finish: "keeps_store d (finish_task_delivery i result err retry rc t d)"
  unfolding finish_task_delivery_def Let_def by (rule finished.keeps_update)

lemma keeps_fail:
  assumes "fail_claimed_task_delivery i turn ts reason t d = Inr (b, d')"
  shows "keeps_store d d'"
proof -
  let ?p = "\<lambda>x. dl_id x = i \<and> dl_status x = Processing \<and> dl_turn x = Some turn \<and> runs_execution d x"
  let ?d = "update_deliveries ?p (\<lambda>x. x\<lparr>dl_status := Failed_Delivery, dl_turn_status := Some ts, dl_error := Some reason,
      dl_next := None, dl_completed := Some t, dl_delivered := None\<rparr>) d"
  have "d' = d \<or> d' = snd (stop_active_delivery_execution i turn reason t ?d)"
    using assms unfolding fail_claimed_task_delivery_def Let_def by (auto split: if_splits prod.splits)
  moreover have "keeps_store d (snd (stop_active_delivery_execution i turn reason t ?d))"
    by (rule keeps_store_trans[OF failed.keeps_update keeps_stop])
  ultimately show ?thesis by auto
qed

lemma keeps_park:
  "keeps_store d (mark_task_delivery_waiting_for_permission i err k d)"
  "keeps_store d (mark_task_delivery_waiting_for_session i err k d)"
  unfolding mark_task_delivery_waiting_for_permission_def mark_task_delivery_waiting_for_session_def park_def
  by (rule parked_permission.keeps_update parked_session.keeps_update)+

lemma keeps_resume:
  "keeps_store d (resume_task_deliveries_waiting_for_session s d)"
  "keeps_store d (snd (resume_task_deliveries_waiting_for_permission d))"
  unfolding resume_task_deliveries_waiting_for_session_def resume_task_deliveries_waiting_for_permission_def snd_conv
  by (rule retried.keeps_update)+

lemma keeps_turn_started:
  assumes "mark_task_delivery_turn_started i turn previous rebind t d = Inr (u, d')"
  shows "keeps_store d d'"
proof -
  obtain d1 where d1: "(if rebind then
          (case nonempty previous of None \<Rightarrow> Inl (ValueError ''TeamFlow continuation needs its previous turn ID'')
           | Some p \<Rightarrow> rebind_active_delivery_execution i p turn t d)
        else Inr d) = Inr d1"
    and d': "d' = insert_turn (i, turn) t (update_deliveries (turn_begins i previous)
       (\<lambda>x. x\<lparr>dl_turn := Some turn, dl_turn_status := Some ''inProgress'', dl_started := Some t,
              dl_next := Some (t + seconds 5)\<rparr>) d1)"
    using assms unfolding mark_task_delivery_turn_started_def andthen_eq_Inr by (auto split: if_splits)
  from d1 have "keeps_store d d1"
    by (auto split: if_splits option.splits dest!: rebind_same keeps_executions)
  moreover have "keeps_store d1 d'"
    unfolding d' by (rule keeps_store_trans[OF started.keeps_update keeps_turn])
  ultimately show ?thesis by (rule keeps_store_trans)
qed

lemma keeps_queue_state: "mark_task_delivery_queue_state i s previous t d = Inr d' \<Longrightarrow> keeps_store d d'"
  unfolding mark_task_delivery_queue_state_def by (auto split: if_splits simp: queued.keeps_update)

lemma keeps_clear: "keeps_store d (clear_task_delivery_queueing i previous d)"
  unfolding clear_task_delivery_queueing_def by (rule unqueued.keeps_update)

lemma keeps_acknowledge: "keeps_store d (snd (acknowledge_task_delivery_turn turn a r t d))"
  unfolding acknowledge_task_delivery_turn_def
  by (simp add: Let_def keeps_store_def store_ok_def rows_ok_def processing_once_def identities_def event_keys_def
      turn_keys_def map_update_where)

lemma keeps_defer: "keeps_store d (defer_task_delivery_reconciliation i e t d)"
  unfolding defer_task_delivery_reconciliation_def by (rule deferred.keeps_update)

lemma keeps_cancel: "keeps_store d (cancel_task_delivery i reason t d)"
  unfolding cancel_task_delivery_def by (rule canceled.keeps_update)

lemma keeps_reconciled: "keeps_store d (snd (cancel_reconciled_task_delivery i reason st turn ets ts allow t d))"
  unfolding cancel_reconciled_task_delivery_def Let_def
  using reconciled.keeps_update keeps_store_trans[OF reconciled.keeps_update keeps_stop]
  by (auto split: option.splits)

lemma keeps_refresh: "keeps_store d (refresh_task_delivery_prompt i s d)"
  unfolding refresh_task_delivery_prompt_def by (rule refreshed.keeps_update)

lemma keeps_cancel_open: "keeps_store d (cancel_open k a reason t d)"
  unfolding cancel_open_def by (rule canceled.keeps_update)

lemma keeps_try: "try_turn_started i turn previous rebind t d = Inr d' \<Longrightarrow> keeps_store d d'"
  unfolding try_turn_started_def by (auto split: sum.splits py_error.splits dest: keeps_turn_started)

lemma keeps_bind:
  assumes "bind_queued_turn R c turn agent_id session turn_of x t d = Inr (b, d')"
  shows "keeps_store d d'"
proof -
  have "d' = d \<or> (\<exists>i previous rebind. try_turn_started i turn previous rebind t d = Inr d')"
    using assms unfolding bind_queued_turn_def Let_def andthen_eq_Inr by (auto simp: andthen_eq_Inr split: if_splits)
  with keeps_try show ?thesis by auto
qed

lemma keeps_turn_is_current:
  assumes "task_delivery_turn_is_current R c turn agent_id session turn_of t d = Inr (b, d')"
  shows "keeps_store d d'"
  using assms keeps_bind unfolding task_delivery_turn_is_current_def
  by (auto simp: andthen_eq_Inr split: option.splits)

section \<open>Claiming keeps the invariant\<close>

lemma distinct_start:
  assumes "distinct (map s (filter P xs))" and "rowcount p xs \<le> 1"
    and "\<And>x. p x \<Longrightarrow> \<not> P x" and "\<And>x. s (f x) = s x"
    and "\<And>x. x \<in> set xs \<Longrightarrow> p x \<Longrightarrow> s x \<notin> s ` set (filter P xs)"
  shows "distinct (map s (filter P (update_where p f xs)))"
proof (cases "filter p xs")
  case Nil
  then have "update_where p f xs = xs" by (intro update_where_none) (simp add: rowcount_def)
  with assms(1) show ?thesis by simp
next
  case (Cons x rest)
  with assms(2) have one: "filter p xs = [x]" by (simp add: rowcount_def)
  then obtain as bs where xs: "xs = as @ x # bs" and no: "filter p as = []" "filter p bs = []" and x: "p x"
    by (metis (no_types, lifting) filter_eq_ConsD append_is_Nil_conv filter_append filter_False)
  have up: "update_where p f xs = as @ f x # bs"
    using no x by (simp add: xs update_where_def filter_empty_conv map_idI)
  have "\<not> P x" using assms(3) x by blast
  with assms(1,4) assms(5)[of x] x show ?thesis unfolding up by (auto simp: xs)
qed

text \<open>The open rows of an event and agent: at most one while the assignment stands.\<close>

lemma remdups_replicate_le: "length (remdups (replicate n k)) \<le> 1"
  by (induction n) auto

lemma rowcount_key:
  assumes "distinct (map g xs)" and "\<And>x. x \<in> set xs \<Longrightarrow> p x \<Longrightarrow> g x = k"
  shows "rowcount p xs \<le> 1"
proof -
  have "distinct (map g (filter p xs))" using assms(1) by (simp add: distinct_map_filter)
  then have "length (filter p xs) = length (remdups (map g (filter p xs)))" by (simp add: distinct_remdups_id)
  also have "\<dots> = length (remdups (map (\<lambda>_. k) (filter p xs)))"
    using assms(2) by (intro arg_cong[of _ _ "\<lambda>ys. length (remdups ys)"]) simp
  also have "\<dots> \<le> 1" using remdups_replicate_le by (simp add: map_replicate_const)
  finally show ?thesis by (simp add: rowcount_def)
qed

definition known_row :: "db \<Rightarrow> claim_row \<Rightarrow> bool" where
  "known_row d r \<longleftrightarrow> cr_agent r \<in> set (db_agents d) \<and> ag_id (cr_agent r) = dl_agent (cr_delivery r) \<and>
     identity (cr_delivery r) \<in> set (identities d)"

lemma claimable_known: "r \<in> set (claimable_rows t limit d) \<Longrightarrow> known_row d r"
proof -
  assume "r \<in> set (claimable_rows t limit d)"
  then obtain x e a where "x \<in> set (db_deliveries d)" "find_agent d (dl_agent x) = Some a"
    "r = \<lparr>cr_delivery = x, cr_event = e, cr_agent = a\<rparr>"
    unfolding claimable_rows_def by (auto dest!: in_set_takeD split: option.splits)
  then show ?thesis by (auto simp: known_row_def find_agent_def identities_def dest: find_SomeD)
qed

lemma known_key:
  assumes "rows_ok d" and "assigned d" and "known_row d r"
    and "x \<in> set (db_deliveries d)" and "of_agent (dl_event (cr_delivery r)) (dl_agent (cr_delivery r)) x"
  shows "identity x = identity (cr_delivery r)"
proof -
  let ?y = "cr_delivery r"
  from assms(3) obtain y where y: "y \<in> set (db_deliveries d)" "identity y = identity ?y"
    by (auto simp: known_row_def identities_def)
  from assms(2-5) have "dl_revision x = ag_revision (cr_agent r)"
    by (auto simp: assigned_def known_row_def of_agent_def)
  moreover from assms(2,3) y have "dl_revision y = ag_revision (cr_agent r)"
    by (auto simp: assigned_def known_row_def identity_def delivery_key_def)
  ultimately have "delivery_key x = delivery_key y"
    using assms(5) y(2) by (simp add: of_agent_def delivery_key_def identity_def)
  moreover have "distinct (map delivery_key (db_deliveries d))"
    using assms(1) by (simp add: rows_ok_def identities_def identity_def comp_def)
  ultimately have "x = y" using assms(4) y(1) by (auto simp: distinct_map dest: inj_onD)
  with y(2) show ?thesis by simp
qed

lemma claim_client_same:
  assumes "claim_client R x d = (m, d1)"
  shows "db_deliveries d1 = db_deliveries d" "db_agents d1 = db_agents d" "db_events d1 = db_events d"
    "db_next_id d1 = db_next_id d" "db_turns d1 = db_turns d" "db_states d1 = db_states d"
  using assms by (auto simp: claim_client_def split: if_splits)

lemma rowcount_target:
  assumes "rows_ok d" and "assigned d" and "known_row d r"
  shows "rowcount (claim_target r t) (db_deliveries d) \<le> 1"
proof (rule rowcount_key)
  show "distinct (map identity (db_deliveries d))"
    using assms(1) distinct_map[of fst "identities d"] by (simp add: rows_ok_def flip: identities_def)
  show "identity x = identity (cr_delivery r)" if "x \<in> set (db_deliveries d)" "claim_target r t x" for x
    using known_key[OF assms that(1)] that(2) by (simp add: claim_target_def)
qed

lemma set_processing_start:
  assumes "store_ok d" and "assigned d" and "known_row d r" and "dl_session (cr_delivery r) \<notin> set (processing_sessions d)"
  shows "keeps_store d (update_deliveries (claim_target r t) (set_processing b t prompt client) d)"
    and "set (processing_sessions (update_deliveries (claim_target r t) (set_processing b t prompt client) d))
      \<subseteq> insert (dl_session (cr_delivery r)) (set (processing_sessions d))"
proof -
  let ?x = "cr_delivery r"
  have ok: "rows_ok d" "processing_once d" using assms(1) by (simp_all add: store_ok_def)
  have target: "\<not> processing x \<and> dl_session x = dl_session ?x"
    if "x \<in> set (db_deliveries d)" "claim_target r t x" for x
    using known_key[OF ok(1) assms(2,3) that(1)] that(2)
    by (auto simp: claim_target_def open_delivery_def processing_def identity_def)
  have sess: "set (processing_sessions d) = dl_session ` set (filter processing (db_deliveries d))"
    by (simp add: processing_sessions_def processing_def[abs_def])
  have "distinct (map dl_session (filter processing
      (update_where (claim_target r t) (set_processing b t prompt client) (db_deliveries d))))"
  proof (rule distinct_start)
    show "distinct (map dl_session (filter processing (db_deliveries d)))" using ok(2) by (simp add: processing_once_def)
    show "rowcount (claim_target r t) (db_deliveries d) \<le> 1" by (rule rowcount_target[OF ok(1) assms(2,3)])
    show "\<not> processing x" if "claim_target r t x" for x
      using that by (auto simp: claim_target_def open_delivery_def processing_def)
    show "dl_session (set_processing b t prompt client x) = dl_session x" for x by (rule claimed.same_session)
    show "dl_session x \<notin> dl_session ` set (filter processing (db_deliveries d))"
      if "x \<in> set (db_deliveries d)" "claim_target r t x" for x
      using target[OF that] assms(4) sess by simp
  qed
  then show "keeps_store d (update_deliveries (claim_target r t) (set_processing b t prompt client) d)"
    using ok claimed.rows_ok_update claimed.identities_update
    by (simp add: keeps_store_def store_ok_def processing_once_def event_keys_def turn_keys_def)
  show "set (processing_sessions (update_deliveries (claim_target r t) (set_processing b t prompt client) d))
      \<subseteq> insert (dl_session ?x) (set (processing_sessions d))"
  proof
    fix s
    assume "s \<in> set (processing_sessions (update_deliveries (claim_target r t) (set_processing b t prompt client) d))"
    then obtain y where y: "y \<in> set (db_deliveries d)"
      "s = dl_session (if claim_target r t y then set_processing b t prompt client y else y)"
      "processing (if claim_target r t y then set_processing b t prompt client y else y)"
      by (auto simp: processing_sessions_def processing_def set_update_where)
    show "s \<in> insert (dl_session ?x) (set (processing_sessions d))"
    proof (cases "claim_target r t y")
      case True
      with target[OF y(1)] y(2) show ?thesis by (simp add: claimed.same_session)
    next
      case False
      with y show ?thesis by (auto simp: sess)
    qed
  qed
qed

text \<open>A claimed delivery is a processing row of the database, with its prompt and its client message.\<close>

definition holds_claim :: "db \<Rightarrow> claimed_delivery \<Rightarrow> bool" where
  "holds_claim d c \<longleftrightarrow> (\<exists>x \<in> set (db_deliveries d). identity x = identity (cr_delivery (cl_row c)) \<and> processing x \<and>
     dl_client x = Some (cl_client c) \<and> dl_prompt x = cl_prompt c)"

definition claim_session :: "claimed_delivery \<Rightarrow> string" where
  "claim_session c = dl_session (cr_delivery (cl_row c))"

lemma holds_claim_update:
  assumes "\<And>x. p x \<Longrightarrow> \<not> processing x" and "holds_claim d c"
  shows "holds_claim (update_deliveries p f d) c"
proof -
  from assms(2) obtain x where x: "x \<in> set (db_deliveries d)" "processing x"
    "identity x = identity (cr_delivery (cl_row c))" "dl_client x = Some (cl_client c)" "dl_prompt x = cl_prompt c"
    by (auto simp: holds_claim_def)
  with assms(1) have "x \<in> set (update_where p f (db_deliveries d))" by (auto simp: set_update_where)
  with x show ?thesis by (auto simp: holds_claim_def)
qed

definition claim_inv :: "db \<Rightarrow> string list \<Rightarrow> claim_state \<Rightarrow> bool" where
  "claim_inv d reserved s \<longleftrightarrow> keeps_store d (cs_db s) \<and>
     set (processing_sessions (cs_db s)) \<subseteq> set (cs_reserved s) \<and>
     cs_reserved s = reserved @ map claim_session (cs_claimed s) \<and>
     distinct (map claim_session (cs_claimed s)) \<and>
     set (map claim_session (cs_claimed s)) \<inter> set reserved = {} \<and>
     (\<forall>c \<in> set (cs_claimed s). holds_claim (cs_db s) c \<and> known_row d (cl_row c))"

lemma open_not_processing: "open_delivery x \<Longrightarrow> \<not> processing x"
  by (auto simp: open_delivery_def processing_def)

lemma claim_inv_cancel:
  assumes "claim_inv d reserved s" and "store_ok d"
  shows "claim_inv d reserved (s\<lparr>cs_db := cancel_open k a reason t (cs_db s)\<rparr>)"
proof -
  from assms have ok: "processing_once (cs_db s)" by (simp add: claim_inv_def keeps_store_def store_ok_def)
  have "set (processing_sessions (cancel_open k a reason t (cs_db s))) \<subseteq> set (processing_sessions (cs_db s))"
    unfolding cancel_open_def by (rule canceled.processing_sessions_update[OF ok])
  moreover have "holds_claim (cancel_open k a reason t (cs_db s)) c" if "holds_claim (cs_db s) c" for c
    unfolding cancel_open_def by (rule holds_claim_update[OF _ that]) (auto simp: open_not_processing)
  moreover have "keeps_store d (cancel_open k a reason t (cs_db s))"
    using assms(1) keeps_cancel_open keeps_store_trans by (auto simp: claim_inv_def)
  ultimately show ?thesis using assms(1) by (auto simp: claim_inv_def)
qed

lemma claim_inv_step:
  assumes "claim_inv d reserved s" and "store_ok d" and "assigned d" and "known_row d r"
    and "claim_row_step R c w t r s = Inr s'"
  shows "claim_inv d reserved s'"
proof (cases "claim_decision w (cs_db s) r")
  case (Cancel_Claim reason)
  with assms(5) claim_inv_cancel[OF assms(1,2)] show ?thesis by (auto simp: claim_row_step_def Let_def)
next
  case (Run_Turn continuation task)
  let ?x = "cr_delivery r"
  show ?thesis
  proof (cases "dl_session ?x \<in> set (cs_reserved s)")
    case True
    with assms(1,5) Run_Turn show ?thesis by (simp add: claim_row_step_def Let_def)
  next
    case free: False
    from assms(5) Run_Turn free obtain prompt where prompt: "claim_prompt R c r continuation task = Inr prompt"
      by (auto simp: claim_row_step_def Let_def andthen_eq_Inr)
    obtain client d1 where client: "claim_client R ?x (cs_db s) = (client, d1)" by (rule prod.exhaust)
    note same = claim_client_same[OF client]
    let ?d2 = "update_deliveries (claim_target r t) (set_processing (continuation \<noteq> None) t prompt client) d1"
    have keeps1: "keeps_store d d1"
      using assms(1) same
      by (simp add: claim_inv_def keeps_store_def store_ok_def rows_ok_def processing_once_def identities_def event_keys_def
          turn_keys_def)
    have sessions1: "processing_sessions d1 = processing_sessions (cs_db s)" by (simp add: processing_sessions_def same)
    have known1: "known_row d1 r" using keeps1 assms(4) by (simp add: known_row_def keeps_store_def)
    have ok1: "store_ok d1" "assigned d1"
      using keeps1 assms(2,3) keeps_store_assigned by (auto simp: keeps_store_def)
    have free1: "dl_session ?x \<notin> set (processing_sessions d1)"
      using free sessions1 assms(1) by (auto simp: claim_inv_def)
    note start = set_processing_start[OF ok1 known1 free1, of t "continuation \<noteq> None" prompt client]
    have keeps2: "keeps_store d ?d2" by (rule keeps_store_trans[OF keeps1 start(1)])
    have holds2: "holds_claim ?d2 k" if "holds_claim (cs_db s) k" for k
    proof (rule holds_claim_update)
      show "holds_claim d1 k" using that by (simp add: holds_claim_def same)
    qed (auto simp: claim_target_def open_not_processing)
    show ?thesis
    proof (cases "rowcount (claim_target r t) (db_deliveries d1) = 1")
      case one: True
      let ?k = "\<lparr>cl_row = r, cl_attempts = dl_attempts ?x + 1, cl_prompt = prompt, cl_client = client,
         cl_continuation = map_option ae_turn continuation, cl_task = task\<rparr>"
      have s': "s' = s\<lparr>cs_claimed := cs_claimed s @ [?k], cs_reserved := cs_reserved s @ [dl_session ?x], cs_db := ?d2\<rparr>"
        using assms(5) Run_Turn free prompt client one by (simp add: claim_row_step_def Let_def)
      from rowcount_1[OF one] obtain x where x: "x \<in> set (db_deliveries d1)" "claim_target r t x" by blast
      have "identity x = identity ?x"
        using known_key[OF _ ok1(2) known1 x(1)] ok1(1) x(2) by (simp add: store_ok_def claim_target_def)
      moreover have "set_processing (continuation \<noteq> None) t prompt client x \<in> set (db_deliveries ?d2)"
        using x by (auto simp: set_update_where)
      ultimately have "holds_claim ?d2 ?k"
        unfolding holds_claim_def
        by (intro bexI[of _ "set_processing (continuation \<noteq> None) t prompt client x"])
          (simp_all add: claimed.same_identity, simp_all add: set_processing_def processing_def)
      moreover have "claim_session ?k = dl_session ?x" by (simp add: claim_session_def)
      moreover have "dl_session ?x \<notin> set reserved" "dl_session ?x \<notin> set (map claim_session (cs_claimed s))"
        using free assms(1) by (auto simp: claim_inv_def)
      ultimately show ?thesis
        using assms(1,4) keeps2 holds2 start(2) sessions1 unfolding s' claim_inv_def by auto
    next
      case False
      then have none: "rowcount (claim_target r t) (db_deliveries d1) = 0"
        using rowcount_target[OF _ ok1(2) known1, of t] ok1(1) by (simp add: store_ok_def)
      then have "db_deliveries ?d2 = db_deliveries d1" by (simp add: update_where_none)
      then have "processing_sessions ?d2 = processing_sessions (cs_db s)" by (simp add: processing_sessions_def same)
      moreover have s': "s' = s\<lparr>cs_db := ?d2\<rparr>"
        using assms(5) Run_Turn free prompt client False by (simp add: claim_row_step_def Let_def)
      ultimately show ?thesis using assms(1) keeps2 holds2 unfolding s' claim_inv_def by auto
    qed
  qed
qed

lemma claim_inv_rows:
  "claim_inv d reserved s \<Longrightarrow> store_ok d \<Longrightarrow> assigned d \<Longrightarrow> \<forall>r \<in> set rows. known_row d r \<Longrightarrow>
   claim_rows R c w t limit rows s = Inr s' \<Longrightarrow> claim_inv d reserved s'"
proof (induction rows arbitrary: s)
  case (Cons r rows)
  from Cons.prems(5) obtain s1 where s1: "claim_row_step R c w t r s = Inr s1"
    and rest: "s' = s1 \<or> claim_rows R c w t limit rows s1 = Inr s'"
    by (auto simp: andthen_eq_Inr split: if_splits)
  have "claim_inv d reserved s1" using claim_inv_step[OF Cons.prems(1-3) _ s1] Cons.prems(4) by simp
  with rest Cons.IH Cons.prems show ?case by auto
qed simp

text \<open>One claim adds at most one delivery, so the limit holds.\<close>

lemma claim_step_length:
  assumes "claim_row_step R c w t r s = Inr s'"
  shows "length (cs_claimed s') \<le> Suc (length (cs_claimed s)) \<and> length (cs_claimed s) \<le> length (cs_claimed s')"
proof (cases "claim_client R (cr_delivery r) (cs_db s)")
  case (Pair m d1)
  with assms show ?thesis
    by (auto simp: claim_row_step_def Let_def andthen_eq_Inr split: claim_choice.splits if_splits)
qed

lemma claim_rows_length:
  "claim_rows R c w t limit rows s = Inr s' \<Longrightarrow> length (cs_claimed s) < limit \<Longrightarrow> length (cs_claimed s') \<le> limit"
proof (induction rows arbitrary: s)
  case (Cons r rows)
  then obtain s1 where s1: "claim_row_step R c w t r s = Inr s1"
    and rest: "(if length (cs_claimed s1) \<noteq> length (cs_claimed s) \<and> limit \<le> length (cs_claimed s1) then Inr s1
       else claim_rows R c w t limit rows s1) = Inr s'"
    by (auto simp: andthen_eq_Inr)
  from claim_step_length[OF s1] Cons.prems(2) rest Cons.IH show ?case
    by (cases "length (cs_claimed s1) \<noteq> length (cs_claimed s) \<and> limit \<le> length (cs_claimed s1)") auto
qed simp

lemma claim_inv_start:
  "claim_inv d (exclude @ processing_sessions d) \<lparr>cs_claimed = [], cs_reserved = exclude @ processing_sessions d, cs_db = d\<rparr>"
  by (auto simp: claim_inv_def)

lemma claim_run:
  assumes "claim_task_deliveries R c t limit exclude d = Inr (claims, d')" and "store_ok d" and "assigned d"
  shows "keeps_store d d'" "distinct (map claim_session claims)"
    "claim_session ` set claims \<inter> (set exclude \<union> set (processing_sessions d)) = {}"
    "\<forall>k \<in> set claims. holds_claim d' k \<and> known_row d (cl_row k)" "0 < limit \<Longrightarrow> length claims \<le> limit"
proof -
  from assms(1) obtain w s where rows: "claim_rows R c w t limit (claimable_rows t limit d)
      \<lparr>cs_claimed = [], cs_reserved = exclude @ processing_sessions d, cs_db = d\<rparr> = Inr s"
    and out: "claims = cs_claimed s" "d' = cs_db s"
    by (auto simp: claim_task_deliveries_def andthen_eq_Inr)
  have "claim_inv d (exclude @ processing_sessions d) s"
    by (rule claim_inv_rows[OF claim_inv_start assms(2,3) _ rows]) (simp add: claimable_known)
  then show "keeps_store d d'" "distinct (map claim_session claims)"
    "claim_session ` set claims \<inter> (set exclude \<union> set (processing_sessions d)) = {}"
    "\<forall>k \<in> set claims. holds_claim d' k \<and> known_row d (cl_row k)"
    by (auto simp: claim_inv_def out)
  show "0 < limit \<Longrightarrow> length claims \<le> limit" using claim_rows_length[OF rows] by (simp add: out)
qed

end
