(* ===== verification/Agent_Assignments.thy ===== *)
theory Agent_Assignments
  imports Delivery_Turns
begin

text \<open>
  The agent assignments of \<^verbatim>\<open>core/db.py\<close>: registering, rebinding and removing an agent, as far as they
  touch the tables of the model. A role is a row of \<^verbatim>\<open>roles\<close>; workspace initialisation and the health
  check around the transaction are not part of the model.
\<close>

section \<open>Keys and roles\<close>

definition normalize_key :: "string \<Rightarrow> string \<Rightarrow> string result" where
  "normalize_key text name =
     (let normalized = map lower_char (strip text) in
      if normalized = [] then Inl (ValueError (name @ '' is required'')) else Inr normalized)"

definition SUPPORTED_HARNESS_TYPES :: "string list" where
  "SUPPORTED_HARNESS_TYPES = [''codex'']"

definition role_for_key :: "runtime \<Rightarrow> db \<Rightarrow> string \<Rightarrow> string \<Rightarrow> role_row result" where
  "role_for_key R d workflow_key role_key =
     andthen (rt_load R workflow_key) (\<lambda>w.
       if role_key \<notin> set (map fst (wf_roles w)) then Inl (ValueError ''unsupported role'')
       else (case List.find (\<lambda>r. rw_workflow_key r = workflow_key \<and> rw_key r = role_key) (db_roles d) of
               None \<Rightarrow> Inl (ValueError ''unsupported role'')
             | Some r \<Rightarrow> Inr r))"

definition current_workflow_key :: "db \<Rightarrow> string result" where
  "current_workflow_key d =
     (case current_workflow d of None \<Rightarrow> Inl (ValueError ''no workflow is configured'') | Some w \<Rightarrow> Inr (snd w))"

text \<open>\<^verbatim>\<open>normalize_key(workflow or current_workflow_key(conn, workspace_id), "workflow")\<close>\<close>

definition chosen_workflow :: "db \<Rightarrow> string \<Rightarrow> string result" where
  "chosen_workflow d workflow =
     andthen (if workflow = [] then current_workflow_key d else Inr workflow) (\<lambda>k. normalize_key k ''workflow'')"

definition in_role :: "db \<Rightarrow> role_row \<Rightarrow> agent \<Rightarrow> bool" where
  "in_role d r a \<longleftrightarrow> ag_workspace a = db_workspace d \<and> ag_workflow a = rw_workflow r \<and> ag_role a = rw_key r"

definition busy :: "db \<Rightarrow> (string \<Rightarrow> bool) \<Rightarrow> bool" where
  "busy d who \<longleftrightarrow> (\<exists>x \<in> set (db_deliveries d). who (dl_agent x) \<and> dl_status x = Processing)"

text \<open>\<^verbatim>\<open>status IN ('pending', 'retry', 'waiting_session')\<close>\<close>

definition cancelable :: "delivery \<Rightarrow> bool" where
  "cancelable x \<longleftrightarrow> dl_status x \<in> {Pending, Retry, Waiting_Session}"

section \<open>Registering\<close>

definition assert_single_agent_role_available :: "db \<Rightarrow> role_row \<Rightarrow> string \<Rightarrow> string \<Rightarrow> unit result" where
  "assert_single_agent_role_available d r harness session =
     (if \<exists>a \<in> set (db_agents d). in_role d r a \<and> \<not> (ag_harness a = harness \<and> ag_session a = session)
      then Inl (ValueError ''role allows only one agent'') else Inr ())"

definition upsert_agent :: "runtime \<Rightarrow> role_row \<Rightarrow> string \<Rightarrow> string \<Rightarrow> int \<Rightarrow> db \<Rightarrow> (string \<times> db) result" where
  "upsert_agent R r harness session t d =
     (case List.find (\<lambda>a. in_role d r a \<and> ag_harness a = harness \<and> ag_session a = session) (db_agents d) of
        Some a \<Rightarrow> Inr (ag_id a, d)
      | None \<Rightarrow>
          let i = ''agent_'' @ rt_uuid R (db_uuids d) in
          if i \<in> ag_id ` set (db_agents d) then Inl (RuntimeError ''UNIQUE constraint failed'')
          else Inr (i, d\<lparr>db_agents := db_agents d @
             [\<lparr>ag_id = i, ag_workspace = db_workspace d, ag_workflow = rw_workflow r, ag_role = rw_key r,
               ag_role_name = rw_name r, ag_harness = harness, ag_session = session, ag_revision = 1,
               ag_created = t\<rparr>], db_uuids := Suc (db_uuids d)\<rparr>))"

definition replace_role_agents :: "role_row \<Rightarrow> int \<Rightarrow> db \<Rightarrow> db result" where
  "replace_role_agents r t d =
     (let member = (\<lambda>i. \<exists>a \<in> set (db_agents d). in_role d r a \<and> ag_id a = i) in
      if busy d member then Inl (ValueError ''an agent in this role is currently processing a TeamFlow delivery'')
      else
        let d' = update_deliveries (\<lambda>x. member (dl_agent x) \<and> cancelable x)
              (set_canceled ''agent role was replaced'' t) d
        in Inr (d'\<lparr>db_agents := filter (\<lambda>a. \<not> in_role d r a) (db_agents d')\<rparr>))"

definition register_agent ::
  "runtime \<Rightarrow> string \<Rightarrow> string \<Rightarrow> string \<Rightarrow> string \<Rightarrow> bool \<Rightarrow> int \<Rightarrow> db \<Rightarrow> (string \<times> db) result" where
  "register_agent R role workflow harness_type session_id replace t d =
     andthen (normalize_key role ''role'') (\<lambda>role_key.
     andthen (normalize_key harness_type ''harness_type'') (\<lambda>harness.
     let session = strip session_id in
     if harness \<notin> set SUPPORTED_HARNESS_TYPES then Inl (ValueError ''unsupported harness type'')
     else if session = [] then Inl (ValueError ''session_id is required'')
     else
       andthen (chosen_workflow d workflow) (\<lambda>workflow_key.
       andthen (role_for_key R d workflow_key role_key) (\<lambda>r.
       if \<exists>a \<in> set (db_agents d). ag_workspace a = db_workspace d \<and> ag_harness a = harness \<and> ag_session a = session \<and>
            \<not> (ag_workflow a = rw_workflow r \<and> ag_role a = rw_key r)
       then Inl (ValueError ''this session is already registered in the workspace'')
       else
         andthen
           (if replace then replace_role_agents r t d
            else if \<not> rw_multiple r then
              andthen (assert_single_agent_role_available d r harness session) (\<lambda>_. Inr d)
            else Inr d)
           (upsert_agent R r harness session t)))))"

section \<open>Rebinding and removing\<close>

definition require_expected_revision :: "agent \<Rightarrow> int option \<Rightarrow> unit result" where
  "require_expected_revision a expected =
     (case expected of
        None \<Rightarrow> Inr ()
      | Some n \<Rightarrow> if ag_revision a \<noteq> n then Inl (ValueError ''agent assignment changed since it was read'') else Inr ())"

definition find_assignment :: "db \<Rightarrow> string \<Rightarrow> agent option" where
  "find_assignment d agent_id =
     List.find (\<lambda>a. ag_workspace a = db_workspace d \<and> ag_id a = agent_id) (db_agents d)"

definition update_agent :: "string \<Rightarrow> string \<Rightarrow> int option \<Rightarrow> int \<Rightarrow> db \<Rightarrow> db result" where
  "update_agent agent_id session_id expected t d =
     (let session = strip session_id in
      if session = [] then Inl (ValueError ''session_id is required'')
      else case find_assignment d agent_id of
        None \<Rightarrow> Inl (ValueError ''agent not found'')
      | Some agent \<Rightarrow>
          andthen (require_expected_revision agent expected) (\<lambda>_.
          if \<exists>a \<in> set (db_agents d). ag_workspace a = db_workspace d \<and> ag_harness a = ag_harness agent \<and>
               ag_session a = session \<and> ag_id a \<noteq> agent_id
          then Inl (ValueError ''this session is already registered in the workspace'')
          else if busy d (\<lambda>i. i = agent_id)
          then Inl (ValueError ''the agent is currently processing a TeamFlow delivery'')
          else Inr (update_deliveries
            (\<lambda>x. dl_agent x = agent_id \<and> dl_revision x = ag_revision agent \<and> cancelable x)
            (set_canceled ''agent session was replaced'' t)
            (d\<lparr>db_agents := update_where (\<lambda>a. ag_id a = agent_id)
                 (\<lambda>a. a\<lparr>ag_session := session, ag_revision := ag_revision a + 1\<rparr>) (db_agents d)\<rparr>))))"

definition remove_agents :: "(agent \<Rightarrow> bool) \<Rightarrow> int \<Rightarrow> db \<Rightarrow> nat \<times> db" where
  "remove_agents who t d =
     (let gone = (\<lambda>i. \<exists>a \<in> set (db_agents d). who a \<and> ag_id a = i);
          d' = update_deliveries (\<lambda>x. gone (dl_agent x) \<and> cancelable x) (set_canceled ''agent was removed'' t) d
      in (rowcount who (db_agents d), d'\<lparr>db_agents := filter (\<lambda>a. \<not> who a) (db_agents d')\<rparr>))"

text \<open>
  \<^verbatim>\<open>unregister_agent\<close> with an agent id. The deliveries of the id are canceled whether or not an agent
  has it.
\<close>

definition unregister_agent :: "string \<Rightarrow> int option \<Rightarrow> int \<Rightarrow> db \<Rightarrow> (nat \<times> db) result" where
  "unregister_agent agent_id expected t d =
     andthen
       (case expected of
          None \<Rightarrow> Inr ()
        | Some n \<Rightarrow>
            (case find_assignment d agent_id of
               None \<Rightarrow> Inl (ValueError ''agent assignment changed since it was read'')
             | Some a \<Rightarrow> require_expected_revision a expected))
       (\<lambda>_.
         if busy d (\<lambda>i. i = agent_id) then Inl (ValueError ''the agent is currently processing a TeamFlow delivery'')
         else
           let d' = update_deliveries (\<lambda>x. dl_agent x = agent_id \<and> cancelable x) (set_canceled ''agent was removed'' t) d;
               mine = (\<lambda>a. ag_workspace a = db_workspace d \<and> ag_id a = agent_id)
           in Inr (rowcount mine (db_agents d), d'\<lparr>db_agents := filter (\<lambda>a. \<not> mine a) (db_agents d')\<rparr>))"

text \<open>\<^verbatim>\<open>unregister_agent\<close> by role, harness and session.\<close>

definition unregister_matching ::
  "runtime \<Rightarrow> string \<Rightarrow> string \<Rightarrow> string \<Rightarrow> string \<Rightarrow> int \<Rightarrow> db \<Rightarrow> (nat \<times> db) result" where
  "unregister_matching R role workflow harness_type session_id t d =
     (if role = [] \<or> harness_type = [] \<or> session_id = []
      then Inl (ValueError ''agent_id or role+harness_type+session_id is required'')
      else
        andthen (chosen_workflow d workflow) (\<lambda>workflow_key.
        andthen (normalize_key role ''role'') (\<lambda>role_key.
        andthen (role_for_key R d workflow_key role_key) (\<lambda>r.
        andthen (normalize_key harness_type ''harness_type'') (\<lambda>harness.
          let who = (\<lambda>a. in_role d r a \<and> ag_harness a = harness \<and> ag_session a = strip session_id) in
          if busy d (\<lambda>i. \<exists>a \<in> set (db_agents d). who a \<and> ag_id a = i)
          then Inl (ValueError ''the agent is currently processing a TeamFlow delivery'')
          else Inr (remove_agents who t d))))))"

end
