(* ===== verification/Delivery_System.thy ===== *)
theory Delivery_System
  imports Delivery_Invariants Agent_Assignments
begin

text \<open>
  The delivery pipeline as one transition system: a step is one transaction of the event log, the
  planner or the store. The invariant of the tables holds in every state a run reaches.
\<close>

section \<open>Planning keeps the invariant\<close>

text \<open>What a planning transaction keeps: it may add deliveries of logged events, for known agents.\<close>

definition extends_store :: "db \<Rightarrow> db \<Rightarrow> bool" where
  "extends_store d d' \<longleftrightarrow> (store_ok d \<and> assigned d \<longrightarrow> store_ok d' \<and> assigned d') \<and>
     prefix (identities d) (identities d') \<and> db_agents d' = db_agents d \<and> event_keys d' = event_keys d \<and>
     prefix (turn_keys d) (turn_keys d')"

lemma extends_refl [simp]: "extends_store d d"
  by (simp add: extends_store_def)

lemma extends_trans: "extends_store a b \<Longrightarrow> extends_store b c \<Longrightarrow> extends_store a c"
  unfolding extends_store_def using prefix_order.trans by (metis (no_types, lifting))

lemma keeps_extends: "keeps_store d d' \<Longrightarrow> extends_store d d'"
  using keeps_store_assigned by (auto simp: extends_store_def keeps_store_def)

lemma keeps_events: "(\<And>e. ev_key (f e) = ev_key e) \<Longrightarrow> keeps_store d (update_events p f d)"
  by (auto simp: keeps_store_def store_ok_def rows_ok_def processing_once_def identities_def event_keys_def map_update_where
      update_events_def turn_keys_def)

lemma keeps_finish_routing: "keeps_store d (finish_routing k status note t d)"
  unfolding finish_routing_def by (rule keeps_events) simp

lemma keeps_requeue: "keeps_store d (requeue e d)"
  unfolding requeue_def by (rule requeued.keeps_update)

lemma insert_delivery_extends:
  assumes "ev_key e \<in> set (event_keys d)" and "a \<in> set (db_agents d)" and "insert_delivery e a prompt t d = (n, d')"
  shows "extends_store d d'"
proof -
  let ?x = "new_delivery (db_next_id d) e a prompt t"
  show ?thesis
  proof (cases "delivery_key ?x \<in> delivery_key ` set (db_deliveries d)")
    case True
    with assms(3) show ?thesis by (simp add: insert_delivery_def Let_def)
  next
    case False
    with assms(3) have d': "d' = d\<lparr>db_deliveries := db_deliveries d @ [?x], db_next_id := Suc (db_next_id d)\<rparr>"
      by (simp add: insert_delivery_def Let_def)
    have ids: "identities d' = identities d @ [identity ?x]" by (simp add: identities_def d')
    have keys: "(\<lambda>i. fst (snd i)) ` set (identities d) = delivery_key ` set (db_deliveries d)"
      by (auto simp: identities_def identity_def image_iff)
    have x: "fst (identity ?x) = db_next_id d" "fst (snd (identity ?x)) = delivery_key ?x"
      "fst (delivery_key ?x) = ev_key e" "\<not> processing ?x"
      by (simp_all add: identity_def new_delivery_def delivery_key_def processing_def)
    have "rows_ok d'" if "rows_ok d"
      using that assms(1) False x keys unfolding rows_ok_def ids
      by (auto simp: d' event_keys_def image_iff less_Suc_eq)
    moreover have "processing_once d'" if "processing_once d"
      using that x(4) by (simp add: processing_once_def d')
    moreover have "assigned d'" if "assigned d"
      using that assms(2) unfolding assigned_def
      by (auto simp: d' new_delivery_def dest: map_of_SomeD) (metis distinct_map inj_onD)
    ultimately show ?thesis using ids by (auto simp: extends_store_def store_ok_def d' event_keys_def turn_keys_def)
  qed
qed

lemma agents_for_members: "set (agents_for d w r) \<subseteq> set (db_agents d)"
  by (auto simp: agents_for_def)

lemma deliver_all_extends:
  assumes "run_all (deliver_to R c t ty e task) agents (n, d) = Inr (n', d')"
    and "ev_key e \<in> set (event_keys d)" and "set agents \<subseteq> set (db_agents d)"
  shows "extends_store d d'"
proof -
  have "extends_store d (snd (n', d'))"
  proof (rule run_all_invariant[OF assms(1)])
    fix a s s'
    assume a: "a \<in> set agents" and s: "extends_store d (snd s)" and run: "deliver_to R c t ty e task a s = Inr s'"
    obtain m d1 where sp: "s = (m, d1)" by (rule prod.exhaust)
    from run sp obtain prompt where
      "(case insert_delivery e a prompt t d1 of (k, d2) \<Rightarrow> (Inr (m + k, d2) :: (nat \<times> db) result)) = Inr s'"
      by (auto simp: deliver_to_def andthen_eq_Inr Let_def)
    then obtain k d2 where "insert_delivery e a prompt t d1 = (k, d2)" "s' = (m + k, d2)"
      by (cases "insert_delivery e a prompt t d1") simp
    moreover have "ev_key e \<in> set (event_keys d1)" "a \<in> set (db_agents d1)"
      using assms(2,3) a s sp by (auto simp: extends_store_def)
    ultimately show "extends_store d (snd s')" using insert_delivery_extends extends_trans s sp by auto
  qed simp
  then show ?thesis by simp
qed

lemma notify_agents_extends:
  assumes "notify_agents R c t e task target p = Inr p'" and "ev_key e \<in> set (event_keys (pl_db p))"
  shows "extends_store (pl_db p) (pl_db p')"
proof (cases "agents_for (pl_db p) (ev_workflow e) target = []")
  case True
  with assms(1) show ?thesis by (auto simp: notify_agents_def intro!: keeps_extends keeps_events)
next
  case False
  with assms(1) obtain n d' where run: "run_all (deliver_to R c t (ev_type e) e task)
      (agents_for (pl_db p) (ev_workflow e) target) (pl_deliveries p, pl_db p) = Inr (n, d')"
    and p': "pl_db p' = finish_routing (ev_key e) ''routed'' None t d'"
    by (auto simp: notify_agents_def andthen_eq_Inr Let_def)
  from deliver_all_extends[OF run assms(2) agents_for_members] show ?thesis
    unfolding p' by (rule extends_trans[OF _ keeps_extends[OF keeps_finish_routing]])
qed

lemma route_event_extends:
  assumes "route_event R c w t e p = Inr p'" and "ev_key e \<in> set (event_keys (pl_db p))"
  shows "extends_store (pl_db p) (pl_db p')"
proof -
  let ?p = "p\<lparr>pl_db := requeue e (pl_db p)\<rparr>"
  have first: "extends_store (pl_db p) (pl_db ?p)" by (simp add: keeps_extends keeps_requeue)
  have known: "ev_key e \<in> set (event_keys (pl_db ?p))" using first assms(2) by (simp add: extends_store_def)
  have ign: "extends_store (pl_db ?p) (pl_db (ignore_event e msg task t ?p))" for msg task
    by (simp add: ignore_event_def keeps_extends keeps_finish_routing)
  have target: "extends_store (pl_db ?p) (pl_db q)" if "notify_target R c w t e k task ?p = Inr q" for k task q
    using that ign notify_agents_extends[OF _ known] by (auto simp: notify_target_def split: option.splits)
  have "extends_store (pl_db ?p) (pl_db p')"
  proof (cases "dispatch_event_state (dispatch_states w) e")
    case None
    with assms(1) have "notify_target R c w t e None
        (case ev_after e of Some a \<Rightarrow> a | None \<Rightarrow> card_content (ev_before e)) ?p = Inr p'"
      by (simp add: route_event_def Let_def)
    then show ?thesis by (rule target)
  next
    case (Some s)
    with assms(1) ign target show ?thesis unfolding route_event_def Let_def by (auto split: if_splits)
  qed
  with first show ?thesis by (rule extends_trans)
qed

lemma prepare_extends:
  assumes "prepare_task_deliveries R c t d = Inr p"
  shows "extends_store d (pl_db p)"
proof -
  from assms obtain w where run: "run_all (route_event R c w t) (pending_events d)
      \<lparr>pl_db = d, pl_routed = 0, pl_waiting = 0, pl_ignored = 0, pl_deliveries = 0, pl_outcomes = []\<rparr> = Inr p"
    by (auto simp: prepare_task_deliveries_def andthen_eq_Inr)
  show ?thesis
  proof (rule run_all_invariant[OF run])
    fix e s s'
    assume e: "e \<in> set (pending_events d)" and s: "extends_store d (pl_db s)" and step: "route_event R c w t e s = Inr s'"
    from e s have "ev_key e \<in> set (event_keys (pl_db s))"
      by (auto simp: pending_events_def extends_store_def event_keys_def)
    from extends_trans[OF s route_event_extends[OF step this]] show "extends_store d (pl_db s')" .
  qed simp
qed

lemma catchup_extends:
  assumes "prepare_agent_catchup_deliveries R c t d = Inr (n, d')"
  shows "extends_store d d'"
proof -
  from assms obtain w where run: "run_all (catch_up R c w t)
      (filter (\<lambda>s. ts_status s \<in> Some ` fst ` set (actionable_states w)) (db_states d)) (0, d) = Inr (n, d')"
    by (auto simp: prepare_agent_catchup_deliveries_def andthen_eq_Inr)
  have "extends_store d (snd (n, d'))"
  proof (rule run_all_invariant[OF run])
    fix s m m'
    assume m: "extends_store d (snd m)" and step: "catch_up R c w t s m = Inr m'"
    obtain k d1 where mp: "m = (k, d1)" by (rule prod.exhaust)
    have entered: "ev_key e \<in> set (event_keys d1)" if "entered_event d1 s ty = Some e" for ty e
    proof -
      let ?es = "sort_key ev_created (filter (\<lambda>e. ev_board e = ts_board s \<and> ev_table e = ts_table s \<and>
             ev_record e = ts_record s \<and> ev_type e = ty) (db_events d1))"
      from that obtain rest where "rev ?es = e # rest"
        unfolding entered_event_def by (cases "rev ?es") simp_all
      then have "e \<in> set (rev ?es)" by (metis list.set_intros(1))
      then have "e \<in> set (db_events d1)" by (simp only: set_rev set_sort set_filter) simp
      then show ?thesis by (simp add: event_keys_def)
    qed
    have "extends_store d1 (snd m')"
      using step mp deliver_all_extends entered agents_for_members
      by (cases m') (fastforce simp: catch_up_def split: option.splits)
    with m mp extends_trans show "extends_store d (snd m')" by auto
  qed simp
  then show ?thesis by simp
qed

section \<open>The transition system\<close>

text \<open>
  One transaction of the event log, the planner or the store, under one runtime and context. Rebinding,
  registering and removing agents are no steps of this system: a run is what happens under one set of
  assignments.
\<close>

inductive store_step :: "runtime \<Rightarrow> event_context \<Rightarrow> db \<Rightarrow> db \<Rightarrow> bool" for R c where
  snapshot_saved: "save_task_snapshot sha256 c t rid task source revision d = Inr (new, d') \<Longrightarrow> store_step R c d d'"
| schema_logged: "save_board_schema_event c t source revision d = Inr (b, d') \<Longrightarrow> store_step R c d d'"
| planned: "prepare_task_deliveries R c t d = Inr p \<Longrightarrow> store_step R c d (pl_db p)"
| caught_up: "prepare_agent_catchup_deliveries R c t d = Inr (n, d') \<Longrightarrow> store_step R c d d'"
| recovered: "store_step R c d (recover_task_deliveries t d)"
| retryable: "recover_retryable_failed_task_deliveries R c m t d = Inr (n, d') \<Longrightarrow> store_step R c d d'"
| claims: "claim_task_deliveries R c t limit exclude d = Inr (claims, d') \<Longrightarrow> store_step R c d d'"
| finishes: "store_step R c d (finish_task_delivery i result err retry rc t d)"
| fails: "fail_claimed_task_delivery i turn ts reason t d = Inr (b, d') \<Longrightarrow> store_step R c d d'"
| waits_permission: "store_step R c d (mark_task_delivery_waiting_for_permission i err k d)"
| waits_session: "store_step R c d (mark_task_delivery_waiting_for_session i err k d)"
| resumes_session: "store_step R c d (resume_task_deliveries_waiting_for_session s d)"
| resumes_permission: "store_step R c d (snd (resume_task_deliveries_waiting_for_permission d))"
| turn_starts: "mark_task_delivery_turn_started i turn previous rebind t d = Inr (u, d') \<Longrightarrow> store_step R c d d'"
| queueing: "mark_task_delivery_queueing i previous t d = Inr d' \<Longrightarrow> store_step R c d d'"
| queued: "mark_task_delivery_queued i previous t d = Inr d' \<Longrightarrow> store_step R c d d'"
| unqueued: "store_step R c d (clear_task_delivery_queueing i previous d)"
| acknowledges: "store_step R c d (snd (acknowledge_task_delivery_turn turn agent_id rid t d))"
| binds: "task_delivery_turn_is_current R c turn agent_id session turn_of t d = Inr (b, d') \<Longrightarrow> store_step R c d d'"
| defers: "store_step R c d (defer_task_delivery_reconciliation i e t d)"
| cancels: "store_step R c d (cancel_task_delivery i reason t d)"
| reconciles: "store_step R c d (snd (cancel_reconciled_task_delivery i reason st turn ets ts allow t d))"
| refreshes: "store_step R c d (refresh_task_delivery_prompt i s d)"

inductive store_run :: "runtime \<Rightarrow> event_context \<Rightarrow> db \<Rightarrow> db \<Rightarrow> bool" for R c where
  start: "store_run R c d d"
| step: "store_run R c d d' \<Longrightarrow> store_step R c d' d'' \<Longrightarrow> store_run R c d d''"

section \<open>The invariant holds in every reachable state\<close>

lemma store_ok_cong:
  assumes "db_deliveries d' = db_deliveries d" and "db_next_id d' = db_next_id d"
    and "set (event_keys d) \<subseteq> set (event_keys d')" and "store_ok d"
  shows "store_ok d'"
  using assms by (auto simp: store_ok_def rows_ok_def processing_once_def identities_def)

lemma log_events_deliveries:
  "log_events row tys d = (new, d') \<Longrightarrow> db_deliveries d' = db_deliveries d \<and> db_next_id d' = db_next_id d \<and>
     db_agents d' = db_agents d"
  by (induction tys arbitrary: d new) (fastforce simp: Let_def insert_event_def split: prod.splits if_splits)+

lemma state_writes_deliveries [simp]:
  "db_deliveries (put_state s d) = db_deliveries d" "db_next_id (put_state s d) = db_next_id d"
  "db_agents (put_state s d) = db_agents d" "db_deliveries (delete_state a b r d) = db_deliveries d"
  "db_next_id (delete_state a b r d) = db_next_id d" "db_agents (delete_state a b r d) = db_agents d"
  "db_deliveries (touch_state a b r x y t d) = db_deliveries d"
  "db_next_id (touch_state a b r x y t d) = db_next_id d" "db_agents (touch_state a b r x y t d) = db_agents d"
  "db_turns (put_state s d) = db_turns d" "db_turns (delete_state a b r d) = db_turns d"
  "db_turns (touch_state a b r x y t d) = db_turns d" "event_keys (put_state s d) = event_keys d"
  "event_keys (delete_state a b r d) = event_keys d" "event_keys (touch_state a b r x y t d) = event_keys d"
  by (simp_all add: put_state_def delete_state_def touch_state_def Let_def event_keys_def)

lemma save_deliveries:
  assumes "save_task_snapshot sha256 c t rid task source revision d = Inr (new, d')"
  shows "db_deliveries d' = db_deliveries d \<and> db_next_id d' = db_next_id d \<and> db_agents d' = db_agents d \<and>
    set (event_keys d) \<subseteq> set (event_keys d')"
  using assms
proof (cases rule: save_cases)
  case (deleted board workflow_id key)
  then show ?thesis
    using log_events_deliveries[OF surjective_pairing] log_events_facts(6)[OF surjective_pairing]
    by (simp add: event_keys_def)
next
  case (stored board workflow_id key snapshot s)
  then show ?thesis
    using log_events_deliveries[OF surjective_pairing] log_events_facts(6)[OF surjective_pairing]
    by (simp add: event_keys_def)
qed (simp_all add: event_keys_def)

lemma log_events_turns:
  "log_events row tys d = (new, d') \<Longrightarrow> db_turns d' = db_turns d \<and> prefix (event_keys d) (event_keys d')"
proof (induction tys arbitrary: d new)
  case (Cons ty tys)
  obtain rest where more: "log_events row tys (insert_event (row ty) d) = (rest, d')"
    using Cons.prems by (auto simp: Let_def split: prod.splits)
  have "prefix (event_keys d) (event_keys (insert_event (row ty) d))"
    unfolding insert_event_keys by (simp add: add_once_def)
  moreover have "db_turns (insert_event (row ty) d) = db_turns d" by (simp add: insert_event_def)
  ultimately show ?case using Cons.IH[OF more] prefix_order.trans by auto
qed simp

definition system_ok :: "db \<Rightarrow> bool" where
  "system_ok d \<longleftrightarrow> store_ok d \<and> assigned d"

lemma assigned_cong: "db_deliveries d' = db_deliveries d \<Longrightarrow> db_agents d' = db_agents d \<Longrightarrow> assigned d \<Longrightarrow> assigned d'"
  by (simp add: assigned_def)

lemma keeps_system: "keeps_store d d' \<Longrightarrow> system_ok d \<Longrightarrow> system_ok d'"
  using keeps_store_assigned by (auto simp: system_ok_def keeps_store_def)

lemma extends_system: "extends_store d d' \<Longrightarrow> system_ok d \<Longrightarrow> system_ok d'"
  by (auto simp: system_ok_def extends_store_def)

lemma save_system:
  "save_task_snapshot sha256 c t rid task source revision d = Inr (new, d') \<Longrightarrow> system_ok d \<Longrightarrow> system_ok d'"
  using save_deliveries store_ok_cong assigned_cong unfolding system_ok_def by metis

lemma schema_system: "save_board_schema_event c t source revision d = Inr (b, d') \<Longrightarrow> system_ok d \<Longrightarrow> system_ok d'"
proof -
  assume "save_board_schema_event c t source revision d = Inr (b, d')"
  then obtain e where d': "d' = insert_event e d"
    by (auto simp: save_board_schema_event_def andthen_eq_Inr Let_def)
  have "set (event_keys d) \<subseteq> set (event_keys d')" unfolding d' insert_event_keys by (auto simp: add_once_def)
  moreover have "db_deliveries d' = db_deliveries d" "db_next_id d' = db_next_id d" "db_agents d' = db_agents d"
    by (auto simp: d' insert_event_def)
  ultimately show "system_ok d \<Longrightarrow> system_ok d'"
    using store_ok_cong assigned_cong unfolding system_ok_def by metis
qed

lemma store_step_ok: "store_step R c d d' \<Longrightarrow> system_ok d \<Longrightarrow> system_ok d'"
proof (induction rule: store_step.induct)
  case (claims t limit exclude d claims d')
  then have "keeps_store d d'" by (intro claim_run(1)) (simp_all add: system_ok_def)
  then show ?case using claims.prems by (rule keeps_system)
qed (auto intro: save_system schema_system extends_system prepare_extends catchup_extends keeps_system
    keeps_recover keeps_retryable keeps_finish keeps_fail keeps_park keeps_resume keeps_turn_started
    keeps_queue_state keeps_clear keeps_acknowledge keeps_turn_is_current keeps_defer keeps_cancel keeps_reconciled
    keeps_refresh simp: mark_task_delivery_queueing_def mark_task_delivery_queued_def)

lemma store_run_ok: "store_run R c d d' \<Longrightarrow> system_ok d \<Longrightarrow> system_ok d'"
  by (induction rule: store_run.induct) (auto dest: store_step_ok)

end
