(* ===== verification/Delivery_Properties.thy ===== *)
theory Delivery_Properties
  imports Delivery_System Workflow_Engine
begin

text \<open>
  The properties of the delivery pipeline, with a run of it on the demo workflow: a card becomes ready,
  one agent of its role is registered, the planner makes a delivery, the agent's session claims it.
\<close>

section \<open>Histories\<close>

lemma store_step_history:
  "store_step R c d d' \<Longrightarrow> system_ok d \<Longrightarrow>
     prefix (event_keys d) (event_keys d') \<and> prefix (identities d) (identities d') \<and> prefix (turn_keys d) (turn_keys d')"
proof -
  have keeps: "prefix (event_keys d) (event_keys d') \<and> prefix (identities d) (identities d') \<and>
      prefix (turn_keys d) (turn_keys d')" if "keeps_store d d'" for d d'
    using that by (simp add: keeps_store_def)
  have extends: "prefix (event_keys d) (event_keys d') \<and> prefix (identities d) (identities d') \<and>
      prefix (turn_keys d) (turn_keys d')" if "extends_store d d'" for d d'
    using that by (simp add: extends_store_def)
  assume "store_step R c d d'" and "system_ok d"
  then show ?thesis
  proof (induction rule: store_step.induct)
    case (snapshot_saved sha256 t rid task source revision d new d')
    have "db_turns d' = db_turns d \<and> prefix (event_keys d) (event_keys d')"
      using snapshot_saved(1)
    proof (cases rule: save_cases)
      case (deleted board workflow_id key)
      then show ?thesis using log_events_turns[OF surjective_pairing] by simp
    next
      case (stored board workflow_id key snapshot s)
      then show ?thesis using log_events_turns[OF surjective_pairing] by simp
    qed simp_all
    then show ?case using save_deliveries[OF snapshot_saved(1)] by (simp add: identities_def turn_keys_def)
  next
    case (schema_logged t source revision d b d')
    then obtain e where "d' = insert_event e d"
      by (auto simp: save_board_schema_event_def andthen_eq_Inr Let_def)
    then show ?case by (simp add: insert_event_def identities_def turn_keys_def event_keys_def)
  next
    case (claims t limit exclude d claims d')
    then show ?case by (intro keeps claim_run(1)) (simp_all add: system_ok_def)
  next
    case (planned t d p)
    then show ?case by (intro extends prepare_extends)
  next
    case (caught_up t d n d')
    then show ?case by (intro extends catchup_extends)
  qed (auto intro!: keeps intro: keeps_recover keeps_retryable keeps_finish keeps_fail keeps_park keeps_resume keeps_turn_started
    keeps_queue_state keeps_clear keeps_acknowledge keeps_turn_is_current keeps_defer keeps_cancel keeps_reconciled
    keeps_refresh simp: mark_task_delivery_queueing_def mark_task_delivery_queued_def)
qed

lemma store_run_history:
  "store_run R c d d' \<Longrightarrow> system_ok d \<Longrightarrow>
     prefix (event_keys d) (event_keys d') \<and> prefix (identities d) (identities d') \<and> prefix (turn_keys d) (turn_keys d')"
proof (induction rule: store_run.induct)
  case (step d d' d'')
  then show ?case using store_step_history[OF step.hyps(2) store_run_ok[OF step.hyps(1) step.prems]]
    by (meson prefix_order.trans)
qed simp

section \<open>What a claim was decided on\<close>








section \<open>Progress of a claim\<close>




section \<open>Backoff\<close>

lemma retry_delay_bounds: "1 \<le> retry_delay n \<and> retry_delay n \<le> 60"
  by (simp add: retry_delay_def)

lemma retry_delay_doubles: "retry_delay (Suc n) = min 60 (2 * retry_delay n)"
proof (cases "n < 6")
  case True
  then have "n \<in> {0, 1, 2, 3, 4, 5}" by auto
  then show ?thesis by (auto simp: retry_delay_def)
qed (simp add: retry_delay_def)

lemma find_delivery_row:
  assumes "store_ok d" and "x \<in> set (db_deliveries d)"
  shows "find_delivery d (dl_id x) = Some x"
proof -
  have "distinct (map dl_id (db_deliveries d))"
    using assms(1) by (simp add: store_ok_def rows_ok_def identities_def identity_def comp_def)
  from find_key_unique[OF this assms(2)] show ?thesis by (simp add: find_delivery_def)
qed

section \<open>A run on the demo workflow\<close>

definition demo_catalog :: prompt_catalog where
  "demo_catalog = \<lparr>pc_render = (\<lambda>i vs. i), pc_instruction = (\<lambda>w k. []), pc_snapshot_fields = [],
     pc_untitled = ''untitled'', pc_separator = '': ''\<rparr>"

definition demo_runtime :: runtime where
  "demo_runtime = \<lparr>rt_load = (\<lambda>k. if k = ''demo'' then Inr demo_workflow else Inl (ValueError ''not installed'')),
     rt_catalog = demo_catalog, rt_uuid = (\<lambda>n. ''m'' @ replicate n (CHR ''m''))\<rparr>"

definition registered_db :: db where
  "registered_db =
     (case register_agent demo_runtime ''executor'' ''demo'' ''codex'' ''s1'' False 6 ready_db of
        Inr (i, d) \<Rightarrow> d | Inl e \<Rightarrow> ready_db)"

definition planned_db :: db where
  "planned_db = (case prepare_task_deliveries demo_runtime demo_context 7 registered_db of
     Inr p \<Rightarrow> pl_db p | Inl e \<Rightarrow> registered_db)"

definition demo_claims :: "claimed_delivery list \<times> db" where
  "demo_claims = (case claim_task_deliveries demo_runtime demo_context 8 5 [] planned_db of
     Inr r \<Rightarrow> r | Inl e \<Rightarrow> ([], planned_db))"

definition claimed_db :: db where
  "claimed_db = snd demo_claims"

text \<open>The same states written out, so that later evaluations start from them.\<close>

definition routed_events :: "task_event list" where
  "routed_events =
     [card_event ''7'' ''task_created'' None backlog_card ''ignored'' (Some ''event does not notify an agent'') (Some 7),
      card_event ''7'' ''backlog_entered'' None backlog_card ''ignored'' (Some ''event does not notify an agent'') (Some 7),
      card_event ''8'' ''backlog_left'' (Some backlog_card) sorted_ready_card ''ignored''
        (Some ''event does not notify an agent'') (Some 7),
      card_event ''8'' ''ready_entered'' (Some backlog_card) sorted_ready_card ''routed'' None (Some 7)]"

definition registered_agent :: agent where
  "registered_agent = \<lparr>ag_id = ''agent_m'', ag_workspace = ''ws'', ag_workflow = ''w1'', ag_role = ''executor'',
     ag_role_name = ''Executor'', ag_harness = ''codex'', ag_session = ''s1'', ag_revision = 1, ag_created = 6\<rparr>"

definition planned_delivery :: delivery where
  "planned_delivery = \<lparr>dl_id = 1, dl_event = ''tbl:8:r1:ready_entered'', dl_agent = ''agent_m'', dl_revision = 1,
     dl_harness = ''codex'', dl_session = ''s1'', dl_prompt = ''task-event.dispatch'', dl_status = Pending, dl_attempts = 0,
     dl_turn = None, dl_turn_status = None, dl_error = None, dl_next = None, dl_created = 7, dl_started = None,
     dl_completed = None, dl_delivered = None, dl_client = None\<rparr>"

lemma registered_db_written [code]:
  "registered_db = empty_db\<lparr>db_events := logged_events, db_states := [ready_state], db_agents := [registered_agent],
     db_uuids := 1\<rparr>"
  by code_simp

lemma planned_db_written [code]:
  "planned_db = empty_db\<lparr>db_events := routed_events, db_deliveries := [planned_delivery], db_states := [ready_state],
     db_agents := [registered_agent], db_next_id := 2, db_uuids := 1\<rparr>"
  by code_simp

lemma claimed_db_written [code]:
  "claimed_db = planned_db\<lparr>db_deliveries := [planned_delivery\<lparr>dl_status := Processing, dl_attempts := 1, dl_started := Some 8,
     dl_client := Some ''mm''\<rparr>], db_uuids := 2\<rparr>"
  by code_simp

lemma demo_claims_written [code]:
  "demo_claims = ([\<lparr>cl_row = \<lparr>cr_delivery = planned_delivery,
       cr_event = card_event ''8'' ''ready_entered'' (Some backlog_card) sorted_ready_card ''routed'' None (Some 7),
       cr_agent = registered_agent\<rparr>, cl_attempts = 1, cl_prompt = ''task-event.dispatch'', cl_client = ''mm'',
     cl_continuation = None, cl_task = sorted_ready_card\<rparr>], claimed_db)"
  by code_simp

lemma demo_planned: "prepare_task_deliveries demo_runtime demo_context 7 registered_db =
    Inr (projr (prepare_task_deliveries demo_runtime demo_context 7 registered_db)) \<and>
  pl_db (projr (prepare_task_deliveries demo_runtime demo_context 7 registered_db)) = planned_db"
  by code_simp

lemma demo_claimed_run:
  "claim_task_deliveries demo_runtime demo_context 8 5 [] planned_db = Inr (fst demo_claims, claimed_db)"
  by code_simp


lemma planned_ok: "system_ok planned_db"
  by code_simp

lemma registered_ok: "system_ok registered_db"
  by code_simp

lemma demo_store_run: "store_run demo_runtime demo_context registered_db claimed_db"
proof -
  have "store_step demo_runtime demo_context registered_db planned_db"
    using store_step.planned demo_planned by metis
  moreover have "store_step demo_runtime demo_context planned_db claimed_db"
    by (rule store_step.claims[OF demo_claimed_run])
  ultimately show ?thesis by (meson store_run.intros)
qed

lemma demo_deliveries: "map (\<lambda>x. (dl_session x, dl_status x)) (db_deliveries claimed_db) = [(''s1'', Processing)]"
  by code_simp

section \<open>Properties\<close>

text \<open>C2: At most one turn per session: in every state that transactions of the event log, the planner and
  the store reach under one set of assignments, no two deliveries of one agent session are processing.\<close>

theorem one_delivery_per_session:
  assumes "store_run R c d d'" and "system_ok d"
  shows "distinct (map dl_session (filter processing (db_deliveries d')))"
  using store_run_ok[OF assms] by (simp add: system_ok_def store_ok_def processing_once_def)

theorem one_delivery_per_session_witness:
  "distinct (map dl_session (filter processing (db_deliveries claimed_db)))"
  by (rule one_delivery_per_session[OF demo_store_run registered_ok])

text \<open>C6: Nothing is delivered twice: in every reachable state there is at most one delivery per event, agent
  and assignment revision, delivery ids are unique, and every delivery belongs to a logged event.\<close>

theorem delivered_at_most_once:
  assumes "store_run R c d d'" and "system_ok d"
  shows "distinct (map delivery_key (db_deliveries d')) \<and> distinct (map dl_id (db_deliveries d')) \<and>
    (\<forall>x \<in> set (db_deliveries d'). dl_event x \<in> set (event_keys d') \<and> dl_id x < db_next_id d')"
  using store_run_ok[OF assms]
  by (auto simp: system_ok_def store_ok_def rows_ok_def identities_def identity_def delivery_key_def[abs_def] comp_def)

theorem delivered_at_most_once_witness: "distinct (map delivery_key (db_deliveries claimed_db))"
  using delivered_at_most_once[OF demo_store_run registered_ok] by blast

text \<open>The history only grows: along every run the logged events, the deliveries with their session and
  assignment, and the turns of deliveries keep their place; no transaction removes or reorders one.\<close>

theorem delivery_history_append_only:
  assumes "store_run R c d d'" and "system_ok d"
  shows "prefix (event_keys d) (event_keys d') \<and> prefix (identities d) (identities d') \<and>
    prefix (turn_keys d) (turn_keys d')"
  using store_run_history[OF assms] .

theorem delivery_history_append_only_witness: "prefix (event_keys registered_db) (event_keys claimed_db)"
  using delivery_history_append_only[OF demo_store_run registered_ok] by blast

text \<open>C7: A claim is exclusive: the claimed deliveries are of pairwise different sessions, none of which was
  excluded or busy, they are at most as many as asked for, and each is now a processing row with the
  prompt and the client message id that were handed out.\<close>

theorem claim_is_exclusive:
  assumes "claim_task_deliveries R c t limit exclude d = Inr (claims, d')" and "system_ok d" and "0 < limit"
  shows "distinct (map claim_session claims) \<and>
    claim_session ` set claims \<inter> (set exclude \<union> set (processing_sessions d)) = {} \<and>
    length claims \<le> limit \<and> (\<forall>k \<in> set claims. holds_claim d' k)"
  using claim_run[OF assms(1)] assms(2,3) by (auto simp: system_ok_def)

theorem claim_is_exclusive_witness: "list_all (holds_claim claimed_db) (fst demo_claims)"
  using claim_is_exclusive[OF demo_claimed_run planned_ok] by (simp add: list_all_iff)






text \<open>C19: Retries back off: a delivery finished with a retry is open again, no earlier than one and no later
  than sixty seconds from now, and another attempt doubles the wait up to the bound; until then no claim
  looks at it.\<close>

theorem retry_backs_off:
  assumes "store_ok d" and "x \<in> set (db_deliveries d)" and "t' < t + seconds (retry_delay (dl_attempts x))"
  shows "(\<exists>y \<in> set (db_deliveries (finish_task_delivery (dl_id x) result err True rc t d)).
      dl_id y = dl_id x \<and> dl_status y = Retry \<and> dl_next y = Some (t + seconds (retry_delay (dl_attempts x))) \<and>
      \<not> claim_target r t' y) \<and>
    1 \<le> retry_delay (dl_attempts x) \<and> retry_delay (dl_attempts x) \<le> 60 \<and>
    retry_delay (Suc (dl_attempts x)) = min 60 (2 * retry_delay (dl_attempts x))"
proof -
  define f where "f y = y\<lparr>dl_status := Retry,
      dl_turn_status := coalesce (optional_text (dget (card_content result) ''status'')) (dl_turn_status y),
      dl_error := (case err of Some m \<Rightarrow> Some m | None \<Rightarrow> optional_text (dget (card_content result) ''error'')),
      dl_next := Some (retry_at (dl_id x) t d), dl_completed := None, dl_delivered := None,
      dl_client := (if rc then None else dl_client y)\<rparr>" for y :: delivery
  have rows: "db_deliveries (finish_task_delivery (dl_id x) result err True rc t d) =
      update_where (\<lambda>y. dl_id y = dl_id x) f (db_deliveries d)"
    by (simp add: finish_task_delivery_def Let_def f_def[abs_def])
  have at: "retry_at (dl_id x) t d = t + seconds (retry_delay (dl_attempts x))"
    by (simp add: retry_at_def find_delivery_row[OF assms(1,2)])
  have "f x \<in> set (db_deliveries (finish_task_delivery (dl_id x) result err True rc t d))"
    unfolding rows using assms(2) by (auto simp: set_update_where)
  moreover have "dl_id (f x) = dl_id x" "dl_status (f x) = Retry"
      "dl_next (f x) = Some (t + seconds (retry_delay (dl_attempts x)))"
    by (simp_all add: f_def at)
  moreover from this(3) assms(3) have "\<not> claim_target r t' (f x)" by (simp add: claim_target_def due_def)
  ultimately show ?thesis using retry_delay_bounds retry_delay_doubles by blast
qed

theorem retry_backs_off_witness:
  "\<exists>y \<in> set (db_deliveries (finish_task_delivery 1 None (Some ''lost'') True False 9 claimed_db)).
    dl_status y = Retry \<and> dl_next y = Some (9 + seconds 2)"
proof -
  have "store_ok claimed_db" by code_simp
  moreover have "hd (db_deliveries claimed_db) \<in> set (db_deliveries claimed_db)" by code_simp
  moreover have row: "dl_id (hd (db_deliveries claimed_db)) = 1" "dl_attempts (hd (db_deliveries claimed_db)) = 1"
    by code_simp+
  moreover have delay: "t + seconds (retry_delay (dl_attempts (hd (db_deliveries claimed_db)))) = t + seconds 2" for t
    by (simp add: row retry_delay_def)
  moreover have "0 < 9 + seconds (retry_delay (dl_attempts (hd (db_deliveries claimed_db))))"
    unfolding delay by (simp add: seconds_def)
  ultimately show ?thesis
    using retry_backs_off[of claimed_db "hd (db_deliveries claimed_db)" 0 9 None "Some ''lost''" False] by auto
qed

text \<open>Recovery after a restart: every delivery left processing has reached its harness (it has a turn or a
  client message) and is due for reconciliation, and every other one that was processing is pending again.\<close>

theorem recovery_leaves_no_orphan:
  assumes "x \<in> set (db_deliveries (recover_task_deliveries t d))" and "processing x"
  shows "(dl_turn x \<noteq> None \<or> dl_client x \<noteq> None) \<and>
    (\<exists>y \<in> set (db_deliveries d). identity y = identity x \<and> processing y \<and> dl_next x = coalesce (dl_next y) (Some t))"
proof -
  let ?idle = "\<lambda>x. dl_status x = Processing \<and> dl_turn x = None \<and> dl_client x = None"
  let ?sent = "\<lambda>x. dl_status x = Processing \<and> (dl_turn x \<noteq> None \<or> dl_client x \<noteq> None)"
  from assms(1) obtain z where z: "z \<in> set (update_where ?idle
      (\<lambda>x. x\<lparr>dl_status := Pending, dl_started := None, dl_next := None\<rparr>) (db_deliveries d))"
    and x: "x = (if ?sent z then z\<lparr>dl_next := coalesce (dl_next z) (Some t)\<rparr> else z)"
    by (auto simp: recover_task_deliveries_def set_update_where[of x])
  from z obtain y where y: "y \<in> set (db_deliveries d)"
    and zy: "z = (if ?idle y then y\<lparr>dl_status := Pending, dl_started := None, dl_next := None\<rparr> else y)"
    by (auto simp: set_update_where[of z])
  show ?thesis
  proof (cases "?idle y")
    case True
    with zy x assms(2) show ?thesis by (simp add: processing_def)
  next
    case False
    then have zy': "z = y" using zy by (simp only: if_False)
    show ?thesis
    proof (cases "?sent y")
      case True
      with x zy' have x': "x = y\<lparr>dl_next := coalesce (dl_next y) (Some t)\<rparr>" by simp
      with True y show ?thesis by (auto simp: row_simps processing_def)
    next
      case unsent: False
      from x have "x = y" unfolding zy' using unsent by (simp only: if_False)
      with assms(2) False unsent show ?thesis by (auto simp: processing_def)
    qed
  qed
qed

theorem recovery_leaves_no_orphan_witness:
  "dl_next (hd (db_deliveries (recover_task_deliveries 20 claimed_db))) = Some 20"
proof -
  have "hd (db_deliveries (recover_task_deliveries 20 claimed_db)) \<in> set (db_deliveries (recover_task_deliveries 20 claimed_db))"
    by code_simp
  moreover have "processing (hd (db_deliveries (recover_task_deliveries 20 claimed_db)))" by code_simp
  ultimately have "\<exists>y \<in> set (db_deliveries claimed_db).
      dl_next (hd (db_deliveries (recover_task_deliveries 20 claimed_db))) = coalesce (dl_next y) (Some 20)"
    using recovery_leaves_no_orphan by blast
  moreover have "\<forall>y \<in> set (db_deliveries claimed_db). dl_next y = None" by code_simp
  ultimately show ?thesis by (auto simp: coalesce_def)
qed





end
