(* ===== verification/Planner_Properties.thy ===== *)
theory Planner_Properties
  imports Delivery_Properties
begin

text \<open>
  What the planner delivers: only pending events that dispatch their card now, to agents of the role the
  card targets. Routing an event changes its routing fields only, so what dispatches a card does not
  change during a pass.
\<close>

definition unrouted :: "task_event \<Rightarrow> task_event" where
  "unrouted e = e\<lparr>ev_routing := [], ev_note := None, ev_routed := None\<rparr>"

definition same_history :: "db \<Rightarrow> db \<Rightarrow> bool" where
  "same_history d d' \<longleftrightarrow> db_states d' = db_states d \<and> map unrouted (db_events d') = map unrouted (db_events d) \<and>
     db_agents d' = db_agents d \<and> db_workspace d' = db_workspace d"

lemma same_history_refl [simp]: "same_history d d"
  by (simp add: same_history_def)

lemma same_history_trans: "same_history a b \<Longrightarrow> same_history b c \<Longrightarrow> same_history a c"
  by (simp add: same_history_def)

lemma find_map_option: "(\<And>x. p (f x) = p x) \<Longrightarrow> List.find p (map f xs) = map_option f (List.find p xs)"
  by (induction xs) auto

lemma filter_map_same: "(\<And>x. p (f x) = p x) \<Longrightarrow> filter p (map f xs) = map f (filter p xs)"
  by (induction xs) auto

lemma dispatch_event_state_unrouted [simp]: "dispatch_event_state ss (unrouted e) = dispatch_event_state ss e"
  by (induction ss) (simp_all add: unrouted_def)

lemma candidates_same:
  assumes "same_history d d'"
  shows "map unrouted (dispatch_candidates d' e s) = map unrouted (dispatch_candidates d e s)"
proof -
  have "map unrouted (dispatch_candidates x e s) = rev (filter (\<lambda>y. ev_board y = ev_board e \<and> ev_table y = ev_table e \<and>
      ev_record y = ev_record e \<and> ev_type y \<in> set [sd_key s @ ''_entered'', sd_key s @ ''_updated''])
      (map unrouted (db_events x)))" for x
    unfolding dispatch_candidates_def by (subst filter_map_same) (simp_all add: unrouted_def rev_map)
  with assms show ?thesis by (simp add: same_history_def)
qed

lemma current_dispatch_history:
  assumes "same_history d d'" and "current_dispatch d' e states = Some cur'"
  shows "\<exists>cur. current_dispatch d e states = Some cur \<and> cd_state cur = cd_state cur' \<and> cd_task cur = cd_task cur' \<and>
    ev_key (cd_event cur) = ev_key (cd_event cur')"
proof -
  obtain row s trigger' where row: "find_state_row d' (ev_board e) (ev_table e) (ev_record e) = Some row"
    and s: "List.find (\<lambda>s. ts_status row = Some (sd_key s)) states = Some s"
    and trigger: "List.find (\<lambda>x. map_option sd_key (dispatch_event_state states x) = Some (sd_key s))
      (dispatch_candidates d' e s) = Some trigger'"
    and cur': "cur' = \<lparr>cd_state = s, cd_event = trigger', cd_task = ts_snapshot row\<rparr>"
    using assms(2) unfolding current_dispatch_def by (auto split: option.splits)
  let ?p = "\<lambda>x. map_option sd_key (dispatch_event_state states x) = Some (sd_key s)"
  have find: "map_option unrouted (List.find ?p (dispatch_candidates x e s)) =
      List.find ?p (map unrouted (dispatch_candidates x e s))" for x
    by (subst find_map_option) simp_all
  from find[of d'] find[of d] candidates_same[OF assms(1)] trigger
  have "map_option unrouted (List.find ?p (dispatch_candidates d e s)) = Some (unrouted trigger')" by simp
  then obtain trigger where t: "List.find ?p (dispatch_candidates d e s) = Some trigger"
    and same: "unrouted trigger = unrouted trigger'" by auto
  have "find_state_row d (ev_board e) (ev_table e) (ev_record e) = Some row"
    using row assms(1) by (simp add: find_state_row_def same_history_def)
  then have "current_dispatch d e states = Some \<lparr>cd_state = s, cd_event = trigger, cd_task = ts_snapshot row\<rparr>"
    using s t by (simp add: current_dispatch_def)
  moreover have "ev_key trigger = ev_key trigger'" using arg_cong[OF same, of ev_key] by (simp add: unrouted_def)
  ultimately show ?thesis by (simp add: cur')
qed

text \<open>A delivery of a pending event that dispatches its card now, for an agent of the targeted role.\<close>

definition warranted :: "workflow \<Rightarrow> db \<Rightarrow> delivery \<Rightarrow> bool" where
  "warranted w d x \<longleftrightarrow> (\<exists>e s cur a. e \<in> set (db_events d) \<and> ev_routing e = ''pending'' \<and> ev_key e = dl_event x \<and>
     dispatch_event_state (dispatch_states w) e = Some s \<and>
     current_dispatch d e (dispatch_states w) = Some cur \<and> ev_key (cd_event cur) = ev_key e \<and>
     a \<in> set (db_agents d) \<and> ag_id a = dl_agent x \<and> ag_session a = dl_session x \<and>
     target_role w (Some (sd_key s)) (cd_task cur) = Some (ag_role a))"

definition only_warranted :: "workflow \<Rightarrow> db \<Rightarrow> db \<Rightarrow> bool" where
  "only_warranted w d d' \<longleftrightarrow> same_history d d' \<and>
     (\<forall>x \<in> set (db_deliveries d'). identity x \<in> set (identities d) \<or> warranted w d x)"

lemma only_warranted_keeps:
  assumes "only_warranted w d d1" and "same_history d1 d2" and "identities d2 = identities d1"
    and "\<And>x. x \<in> set (db_deliveries d2) \<Longrightarrow> \<exists>y \<in> set (db_deliveries d1). identity y = identity x"
  shows "only_warranted w d d2"
proof -
  have same: "warranted w d y \<Longrightarrow> identity y = identity x \<Longrightarrow> warranted w d x" for x y
    by (simp add: warranted_def identity_def delivery_key_def)
  have "identity x \<in> set (identities d) \<or> warranted w d x" if "x \<in> set (db_deliveries d2)" for x
  proof -
    from assms(4)[OF that] obtain y where y: "y \<in> set (db_deliveries d1)" "identity y = identity x" by blast
    from assms(1) y(1) have "identity y \<in> set (identities d) \<or> warranted w d y" by (simp add: only_warranted_def)
    with y(2) same[of y x] show ?thesis by auto
  qed
  moreover have "same_history d d2" using assms(1,2) same_history_trans by (auto simp: only_warranted_def)
  ultimately show ?thesis by (simp add: only_warranted_def)
qed

lemma only_warranted_events:
  assumes "only_warranted w d d1" and "\<And>e. unrouted (f e) = unrouted e"
  shows "only_warranted w d (update_events p f d1)"
proof (rule only_warranted_keeps[OF assms(1)])
  show "same_history d1 (update_events p f d1)"
    using assms(2) by (simp add: same_history_def update_events_def map_update_where)
qed (auto simp: identities_def)

lemma only_warranted_requeue:
  assumes "only_warranted w d d1"
  shows "only_warranted w d (requeue e d1)"
proof (rule only_warranted_keeps[OF assms])
  show "same_history d1 (requeue e d1)" by (simp add: requeue_def same_history_def update_deliveries_def)
  show "identities (requeue e d1) = identities d1" using keeps_requeue by (simp add: keeps_store_def)
  show "\<exists>y \<in> set (db_deliveries d1). identity y = identity x" if "x \<in> set (db_deliveries (requeue e d1))" for x
    using that by (auto simp: requeue_def set_update_where row_simps)
qed

lemma only_warranted_insert:
  assumes "only_warranted w d d1" and "insert_delivery e a prompt t d1 = (n, d2)"
    and "\<And>i. warranted w d (new_delivery i e a prompt t)"
  shows "only_warranted w d d2"
  using assms by (auto simp: only_warranted_def insert_delivery_def Let_def same_history_def split: if_splits)

lemma only_warranted_deliver:
  assumes "only_warranted w d d1" and "run_all (deliver_to R c t ty e task) agents (n, d1) = Inr (n', d2)"
    and "\<And>i a prompt. a \<in> set agents \<Longrightarrow> warranted w d (new_delivery i e a prompt t)"
  shows "only_warranted w d d2"
proof -
  have "only_warranted w d (snd (n', d2))"
  proof (rule run_all_invariant[OF assms(2)])
    fix a s s'
    assume a: "a \<in> set agents" and s: "only_warranted w d (snd s)" and run: "deliver_to R c t ty e task a s = Inr s'"
    obtain m d3 where sp: "s = (m, d3)" by (rule prod.exhaust)
    from run sp obtain prompt where
      "(case insert_delivery e a prompt t d3 of (k, d4) \<Rightarrow> (Inr (m + k, d4) :: (nat \<times> db) result)) = Inr s'"
      by (auto simp: deliver_to_def andthen_eq_Inr Let_def)
    then obtain k d4 where "insert_delivery e a prompt t d3 = (k, d4)" "s' = (m + k, d4)"
      by (cases "insert_delivery e a prompt t d3") simp
    then show "only_warranted w d (snd s')" using only_warranted_insert s sp assms(3)[OF a] by auto
  qed (simp add: assms(1))
  then show ?thesis by simp
qed

lemma only_warranted_route:
  assumes "only_warranted w d (pl_db p)" and "route_event R c w t e p = Inr p'"
    and "e \<in> set (db_events d)" and "ev_routing e = ''pending''"
  shows "only_warranted w d (pl_db p')"
proof -
  let ?p = "p\<lparr>pl_db := requeue e (pl_db p)\<rparr>"
  have first: "only_warranted w d (pl_db ?p)" using only_warranted_requeue[OF assms(1)] by simp
  have routed: "only_warranted w d (finish_routing k status m t d1)" if "only_warranted w d d1" for k status m d1
    unfolding finish_routing_def by (rule only_warranted_events[OF that]) (simp add: unrouted_def)
  have ign: "only_warranted w d (pl_db (ignore_event e msg task t ?p))" for msg task
    using routed[OF first] by (simp add: ignore_event_def)
  have no_state: "target_role w None task = None" for task
    by (simp add: target_role_def task_dispatch_target_def status_state_def dict_simps)
  show ?thesis
  proof (cases "dispatch_event_state (dispatch_states w) e")
    case None
    with assms(2) ign show ?thesis by (auto simp: route_event_def Let_def notify_target_def no_state)
  next
    case (Some s)
    let ?current = "current_dispatch (pl_db ?p) e (dispatch_states w)"
    show ?thesis
    proof (cases "dispatched_by ?current (ev_key e)")
      case False
      with assms(2) Some ign show ?thesis by (auto simp: route_event_def Let_def)
    next
      case True
      then obtain cur1 where cur1: "?current = Some cur1" "ev_key (cd_event cur1) = ev_key e"
        by (auto simp: dispatched_by_def split: option.splits)
      have run: "notify_target R c w t e (Some (sd_key s)) (cd_task cur1) ?p = Inr p'"
        using assms(2) Some True cur1 by (simp add: route_event_def Let_def)
      show ?thesis
      proof (cases "target_role w (Some (sd_key s)) (cd_task cur1)")
        case None
        with run ign show ?thesis by (auto simp: notify_target_def)
      next
        case target: (Some role)
        with run have run: "notify_agents R c t e (cd_task cur1) role ?p = Inr p'" by (simp add: notify_target_def)
        have hist: "same_history d (pl_db ?p)" using first by (simp add: only_warranted_def)
        from current_dispatch_history[OF hist cur1(1)] cur1(2) obtain cur
          where cur: "current_dispatch d e (dispatch_states w) = Some cur" "cd_task cur = cd_task cur1"
            "ev_key (cd_event cur) = ev_key e" by metis
        have good: "warranted w d (new_delivery i e a prompt t)"
          if "a \<in> set (agents_for (pl_db ?p) (ev_workflow e) role)" for i a prompt
        proof -
          have "a \<in> set (db_agents d)" "ag_role a = role" using that hist by (auto simp: agents_for_def same_history_def)
          with assms(3,4) Some cur target show ?thesis
            unfolding warranted_def by (intro exI[of _ e] exI[of _ s] exI[of _ cur] exI[of _ a]) (simp add: new_delivery_def)
        qed
        show ?thesis
        proof (cases "agents_for (pl_db ?p) (ev_workflow e) role = []")
          case True
          have "only_warranted w d (update_events (\<lambda>x. ev_key x = ev_key e) (\<lambda>x. x\<lparr>ev_note := Some m\<rparr>) (pl_db ?p))" for m
            by (rule only_warranted_events[OF first]) (simp add: unrouted_def)
          with True run show ?thesis by (auto simp: notify_agents_def)
        next
          case False
          with run obtain n d2 where run': "run_all (deliver_to R c t (ev_type e) e (cd_task cur1))
              (agents_for (pl_db ?p) (ev_workflow e) role) (pl_deliveries ?p, pl_db ?p) = Inr (n, d2)"
            and p': "pl_db p' = finish_routing (ev_key e) ''routed'' None t d2"
            by (auto simp: notify_agents_def andthen_eq_Inr Let_def)
          show ?thesis unfolding p' by (rule routed[OF only_warranted_deliver[OF first run' good]])
        qed
      qed
    qed
  qed
qed

section \<open>Property\<close>

text \<open>The planner delivers what is due and nothing else: every delivery a routing pass adds is of a pending
  event that dispatches its card in the card's present state, and goes to the session of an agent that has
  the role the card targets.\<close>

theorem planner_delivers_current_events:
  assumes "prepare_task_deliveries R c t d = Inr p" and "rt_load R (cx_workflow_key c) = Inr w"
    and "x \<in> set (db_deliveries (pl_db p))" and "identity x \<notin> set (identities d)"
  shows "warranted w d x"
proof -
  from assms(1,2) have run: "run_all (route_event R c w t) (pending_events d)
      \<lparr>pl_db = d, pl_routed = 0, pl_waiting = 0, pl_ignored = 0, pl_deliveries = 0, pl_outcomes = []\<rparr> = Inr p"
    by (simp add: prepare_task_deliveries_def)
  have "only_warranted w d (pl_db p)"
  proof (rule run_all_invariant[OF run])
    fix e s s'
    assume e: "e \<in> set (pending_events d)" and s: "only_warranted w d (pl_db s)" and step: "route_event R c w t e s = Inr s'"
    from e have "e \<in> set (db_events d)" "ev_routing e = ''pending''" by (simp_all add: pending_events_def)
    then show "only_warranted w d (pl_db s')" by (rule only_warranted_route[OF s step])
  qed (auto simp: only_warranted_def identities_def)
  with assms(3,4) show ?thesis by (auto simp: only_warranted_def)
qed

theorem planner_delivers_current_events_witness:
  "warranted demo_workflow registered_db (hd (db_deliveries planned_db))"
proof -
  obtain p where run: "prepare_task_deliveries demo_runtime demo_context 7 registered_db = Inr p"
    and db: "pl_db p = planned_db" using demo_planned by blast
  have load: "rt_load demo_runtime (cx_workflow_key demo_context) = Inr demo_workflow"
    by (simp add: demo_runtime_def demo_context_def)
  have "hd (db_deliveries planned_db) \<in> set (db_deliveries planned_db)" by code_simp
  then have row: "hd (db_deliveries planned_db) \<in> set (db_deliveries (pl_db p))" by (simp only: db)
  have "identity (hd (db_deliveries planned_db)) \<notin> set (identities registered_db)" by code_simp
  then show ?thesis by (rule planner_delivers_current_events[OF run load row])
qed

end
