(* ===== verification/Definition_Properties.thy ===== *)
theory Definition_Properties
  imports Demo_Workflow Workflow_Contract Teamflow_Queries Tool_Properties
begin

text \<open>
  What validation promises the readers of a workflow definition, the promises of the smaller
  components, and three definitions that pass validation and break their readers.
\<close>

section \<open>Validated definitions\<close>

text \<open>C10: A validated definition is well-formed: if the validator accepts a definition without null values,
  the definition reads as a workflow with the key of its directory, and every rule and state of it
  satisfies what the engine relies on.\<close>

theorem validated_definition_well_formed:
  assumes "ok (validate_workflow_definition v dir path)" and "null_free v"
  shows "\<exists>w. read_workflow v = Some w \<and> wf_key w = dir \<and> wf_workflow w"
  using validated_read[OF assms] by blast

theorem validated_definition_well_formed_witness:
  "\<exists>w. read_workflow demo_definition = Some w \<and> wf_key w = ''demo'' \<and> wf_workflow w"
  by (rule validated_definition_well_formed[where path = "''p''"]) (simp_all add: demo_valid demo_null_free)

text \<open>C22: No dead ends: in a validated definition every state is reachable from the initial one, and from
  every state some terminal state is reachable.\<close>

theorem validated_states_can_finish:
  assumes "ok (validate_workflow_definition v dir path)" and "null_free v" and "read_workflow v = Some w"
    and "s \<in> set (state_keys w)"
  shows "(wf_initial_state w, s) \<in> (set (workflow_edges w))\<^sup>* \<and>
    (\<exists>t \<in> set (wf_terminal_states w). (s, t) \<in> (set (workflow_edges w))\<^sup>*)"
  using validated_read[OF assms(1,2)] assms(3,4) by (auto simp: graph_ok_def)

theorem validated_states_can_finish_witness:
  "\<exists>t \<in> set (wf_terminal_states demo_workflow). (''blocked'', t) \<in> (set (workflow_edges demo_workflow))\<^sup>*"
proof -
  have "ok (validate_workflow_definition demo_definition ''demo'' ''p'')" by (simp add: demo_valid)
  moreover have "''blocked'' \<in> set (state_keys demo_workflow)" by code_simp
  ultimately show ?thesis using validated_states_can_finish[OF _ demo_null_free read_demo] by blast
qed

text \<open>The search of the state graph computes reachability: its stack loop ends, and what it returns are
  exactly the states on some path of transitions from the roots.\<close>

theorem reachable_states_is_closure: "set (reachable_states roots es) = (set es)\<^sup>* `` set roots"
  by (rule reachable_states_eq)

section \<open>Queries and settings\<close>

text \<open>Listing sees every card: on a board served in pages the list call ends, returns the cards that
  match the filters from the offset on, at most as many as the limit, and says whether more follow.\<close>

theorem list_tasks_complete:
  assumes "as_role_key a = wf_coordinator_role w"
    and "\<forall>s. text_filter status = Some s \<longrightarrow> s \<in> set (state_keys w)"
    and "\<forall>r. text_filter role = Some r \<longrightarrow> r \<in> set (map fst (wf_roles w))"
    and "1 \<le> limit" and "limit \<le> 200" and "0 \<le> off"
  shows "list_tasks a w (paged 200 ts) status role task_id limit off =
    (let hits = drop (nat off) (filter (matches_filters (text_filter status) (text_filter role) (text_filter task_id)) ts)
     in Some (Inr \<lparr>tl_tasks = map task_summary (take (nat limit) hits), tl_limit = limit, tl_offset = off,
                   tl_more = nat limit < length hits\<rparr>))"
  by (rule list_tasks_paged[OF assms])

theorem list_tasks_complete_witness:
  "\<exists>r. list_tasks (demo_agent ''o1'' ''owner'') demo_workflow (paged 200 [demo_ready]) JNull JNull JNull 20 0 = Some (Inr r) \<and>
    tl_tasks r = [task_summary demo_ready]"
proof -
  have owner: "as_role_key (demo_agent ''o1'' ''owner'') = wf_coordinator_role demo_workflow" by code_simp
  have none: "text_filter JNull = None" by code_simp
  from list_tasks_complete[OF owner, of JNull JNull 20 0 "[demo_ready]" JNull] show ?thesis
    by (simp add: none matches_filters_def Let_def)
qed

text \<open>Settings read back: after version control was switched, whatever the settings file held before,
  reading the settings answers what was set.\<close>

theorem version_control_reads_back: "version_control_enabled (snd (set_version_control f enabled)) = Inr enabled"
  by (rule set_version_control_reads_back)

section \<open>Git facts\<close>

text \<open>The fast-forward answer is sound: if the branch is reported to have arrived at a commit by a
  fast-forward, the branch's log holds the commit with a predecessor, and every move since, the one to
  the commit included, went from an ancestor to a descendant.\<close>

theorem fast_forward_answer_is_sound:
  assumes "fast_forwarded_to git repo branch target = Inr True"
  shows "\<exists>out i. git repo [''reflog'', ''show'', ''--no-abbrev'', ''--format=%H'', branch_ref branch] = Some (0, out) \<and>
    i + 1 < length (reflog_entries out) \<and> reflog_entries out ! i = target \<and>
    (\<forall>j \<le> i. is_ancestor git repo (reflog_entries out ! Suc j) (reflog_entries out ! j) = Inr True)"
  using fast_forwarded_to_True[OF assms] by metis

definition line_git :: git where
  "line_git repo args =
     (if take 2 args = [''reflog'', ''show''] then Some (0, ''b'' @ [CHR 0x0A] @ ''a'')
      else if take 2 args = [''merge-base'', ''--is-ancestor''] then Some (0, [])
      else Some (1, []))"

theorem fast_forward_answer_is_sound_witness:
  "\<exists>out i. line_git ''/w'' [''reflog'', ''show'', ''--no-abbrev'', ''--format=%H'', branch_ref ''main''] = Some (0, out) \<and>
    reflog_entries out ! i = ''b''"
proof -
  have "fast_forwarded_to line_git ''/w'' ''main'' ''b'' = Inr True" by code_simp
  from fast_forward_answer_is_sound[OF this] show ?thesis by blast
qed

section \<open>Definitions that pass validation and break their readers\<close>

definition with_action :: "string \<Rightarrow> json \<Rightarrow> json" where
  "with_action ak act =
     JObj (AList.update ''lifecycle'' (JObj (AList.update ''actions'' (JObj (AList.update ak act
       (as_dict (dget (as_dict demo_lifecycle) ''actions'')))) (as_dict demo_lifecycle))) (as_dict demo_definition))"

text \<open>The update action with an explicit null for the list of writable fields.\<close>

definition null_fields_definition :: json where
  "null_fields_definition = with_action ''update'' (JObj [(''labels'', demo_labels), (''rules'', JList [JObj
     [(''key'', JStr ''coordinate''), (''labels'', demo_labels), (''actors'', strs [''coordinator'']),
      (''from'', strs [''backlog'']), (''writable_fields'', JNull)]])])"

text \<open>The claim action with an actor field bound to nothing.\<close>

definition null_binding_definition :: json where
  "null_binding_definition = with_action ''claim'' (JObj [(''labels'', demo_labels), (''rules'', JList [JObj
     [(''key'', JStr ''claim''), (''labels'', demo_labels), (''actors'', strs [''task_role'']),
      (''from'', strs [''ready'']), (''to'', JStr ''in_progress''), (''actor_fields'', JObj [(''title'', JNull)])]])])"



text \<open>Nulls pass validation: an explicit null list of fields and an actor field bound to nothing are accepted,
  and neither definition is one the engine can read.\<close>

theorem nulls_pass_validation:
  "validate_workflow_definition null_fields_definition ''demo'' ''p'' = Inr () \<and> read_workflow null_fields_definition = None \<and>
   validate_workflow_definition null_binding_definition ''demo'' ''p'' = Inr () \<and> read_workflow null_binding_definition = None"
  by code_simp


end
