(* ===== verification/Agent_Properties.thy ===== *)
theory Agent_Properties
  imports Agent_Assignments Delivery_Properties
begin

text \<open>
  The registry of agents keeps a session to one agent and a single-agent role to one agent, whatever is
  registered, rebound or removed.
\<close>

definition agents_ok :: "db \<Rightarrow> bool" where
  "agents_ok d \<longleftrightarrow> distinct (map ag_id (db_agents d)) \<and>
     (\<forall>a \<in> set (db_agents d). \<forall>b \<in> set (db_agents d).
        ag_workspace a = ag_workspace b \<and> ag_harness a = ag_harness b \<and> ag_session a = ag_session b \<longrightarrow> a = b) \<and>
     distinct (map (\<lambda>r. (rw_workflow r, rw_key r)) (db_roles d)) \<and>
     (\<forall>r \<in> set (db_roles d). \<not> rw_multiple r \<longrightarrow>
        (\<forall>a \<in> set (db_agents d). \<forall>b \<in> set (db_agents d). in_role d r a \<and> in_role d r b \<longrightarrow> a = b))"

inductive agent_step :: "runtime \<Rightarrow> db \<Rightarrow> db \<Rightarrow> bool" for R where
  registers: "register_agent R role workflow harness session replace t d = Inr (i, d') \<Longrightarrow> agent_step R d d'"
| rebinds: "update_agent i session expected t d = Inr d' \<Longrightarrow> agent_step R d d'"
| removes: "unregister_agent i expected t d = Inr (n, d') \<Longrightarrow> agent_step R d d'"
| removes_matching: "unregister_matching R role workflow harness session t d = Inr (n, d') \<Longrightarrow> agent_step R d d'"

inductive agent_run :: "runtime \<Rightarrow> db \<Rightarrow> db \<Rightarrow> bool" for R where
  start: "agent_run R d d"
| step: "agent_run R d d' \<Longrightarrow> agent_step R d' d'' \<Longrightarrow> agent_run R d d''"

text \<open>Removing agents keeps the registry in order.\<close>

lemma agents_ok_subset:
  assumes "agents_ok d" and "db_agents d' = filter p (db_agents d)" and "db_roles d' = db_roles d"
    and "db_workspace d' = db_workspace d"
  shows "agents_ok d'"
  using assms unfolding agents_ok_def in_role_def by (simp add: distinct_map_filter)

lemma update_deliveries_registry [simp]:
  "db_roles (update_deliveries p f d) = db_roles d" "db_workspace (update_deliveries p f d) = db_workspace d"
  by (simp_all add: update_deliveries_def)

lemma replace_role_ok:
  assumes "replace_role_agents r t d = Inr d'" and "agents_ok d"
  shows "agents_ok d' \<and> db_agents d' = filter (\<lambda>a. \<not> in_role d r a) (db_agents d) \<and> db_roles d' = db_roles d \<and>
    db_workspace d' = db_workspace d"
proof -
  have d': "db_agents d' = filter (\<lambda>a. \<not> in_role d r a) (db_agents d)" "db_roles d' = db_roles d"
    "db_workspace d' = db_workspace d"
    using assms(1) by (auto simp: replace_role_agents_def Let_def split: if_splits)
  with agents_ok_subset[OF assms(2) this] show ?thesis by simp
qed

lemma agreeing:
  assumes "\<And>x y. x \<in> set xs \<Longrightarrow> y \<in> set xs \<Longrightarrow> R x y \<Longrightarrow> x = y" and "\<And>x. x \<in> set xs \<Longrightarrow> \<not> R x a"
    and "\<And>x. x \<in> set xs \<Longrightarrow> \<not> R a x" and "x \<in> set (xs @ [a])" "y \<in> set (xs @ [a])" and "R x y"
  shows "x = y"
proof (cases "x = a")
  case True
  show ?thesis
  proof (rule ccontr)
    assume "x \<noteq> y"
    with True assms(5) have "y \<in> set xs" by simp
    from assms(3)[OF this] True assms(6) show False by simp
  qed
next
  case False
  then have x: "x \<in> set xs" using assms(4) by simp
  show ?thesis
  proof (cases "y = a")
    case True
    with assms(2)[OF x] assms(6) show ?thesis by simp
  next
    case False
    then have "y \<in> set xs" using assms(5) by simp
    from assms(1)[OF x this assms(6)] show ?thesis .
  qed
qed

text \<open>A new agent fits when nobody has its session and, in a single-agent role, nobody has its role.\<close>

lemma agents_ok_insert:
  assumes "agents_ok d" and "ag_id a \<notin> ag_id ` set (db_agents d)"
    and "\<And>b. b \<in> set (db_agents d) \<Longrightarrow>
      \<not> (ag_workspace b = ag_workspace a \<and> ag_harness b = ag_harness a \<and> ag_session b = ag_session a)"
    and "\<And>r b. r \<in> set (db_roles d) \<Longrightarrow> \<not> rw_multiple r \<Longrightarrow> in_role d r a \<Longrightarrow> b \<in> set (db_agents d) \<Longrightarrow> \<not> in_role d r b"
  shows "agents_ok (d\<lparr>db_agents := db_agents d @ [a], db_uuids := n\<rparr>)"
proof -
  have role: "in_role (d\<lparr>db_agents := x, db_uuids := n\<rparr>) = in_role d" for x by (simp add: in_role_def fun_eq_iff)
  have old: "x = y" if "x \<in> set (db_agents d)" "y \<in> set (db_agents d)" "ag_workspace x = ag_workspace y"
      "ag_harness x = ag_harness y" "ag_session x = ag_session y" for x y
    using that assms(1) unfolding agents_ok_def by blast
  have old_role: "x = y" if "r \<in> set (db_roles d)" "\<not> rw_multiple r" "x \<in> set (db_agents d)" "y \<in> set (db_agents d)"
      "in_role d r x" "in_role d r y" for r x y
    using that assms(1) unfolding agents_ok_def by blast
  have apart: "\<not> (ag_workspace a = ag_workspace x \<and> ag_harness a = ag_harness x \<and> ag_session a = ag_session x)"
    if "x \<in> set (db_agents d)" for x using assms(3)[OF that] by metis
  have session: "x = y" if "x \<in> set (db_agents d @ [a])" "y \<in> set (db_agents d @ [a])"
      "ag_workspace x = ag_workspace y" "ag_harness x = ag_harness y" "ag_session x = ag_session y" for x y
    by (rule agreeing[where xs = "db_agents d" and a = a and R = "\<lambda>x y. ag_workspace x = ag_workspace y \<and> ag_harness x = ag_harness y \<and> ag_session x = ag_session y"])
      (use that old assms(3) apart in blast)+
  have one: "x = y" if "r \<in> set (db_roles d)" "\<not> rw_multiple r" "x \<in> set (db_agents d @ [a])"
      "y \<in> set (db_agents d @ [a])" "in_role d r x" "in_role d r y" for r x y
    by (rule agreeing[where xs = "db_agents d" and a = a and R = "\<lambda>x y. in_role d r x \<and> in_role d r y"]) (use that old_role assms(4) in blast)+
  have ids: "distinct (map ag_id (db_agents d @ [a]))" and keys: "distinct (map (\<lambda>r. (rw_workflow r, rw_key r)) (db_roles d))"
    using assms(1,2) by (simp_all add: agents_ok_def)
  have agents: "db_agents (d\<lparr>db_agents := x, db_uuids := n\<rparr>) = x" "db_roles (d\<lparr>db_agents := x, db_uuids := n\<rparr>) = db_roles d"
    for x by simp_all
  show ?thesis unfolding agents_ok_def role agents using ids keys by (intro conjI ballI impI) (assumption | rule session one; blast)+
qed

lemma role_for_key_row: "role_for_key R d wk rk = Inr r \<Longrightarrow> r \<in> set (db_roles d)"
  by (auto simp: role_for_key_def andthen_eq_Inr split: if_splits option.splits dest: find_SomeD)

lemma upsert_ok:
  assumes "upsert_agent R r harness session t d = Inr (i, d')" and "agents_ok d" and "r \<in> set (db_roles d)"
    and "\<And>a. a \<in> set (db_agents d) \<Longrightarrow> ag_workspace a = db_workspace d \<Longrightarrow> ag_harness a = harness \<Longrightarrow>
      ag_session a = session \<Longrightarrow> in_role d r a"
    and "\<And>a. \<not> rw_multiple r \<Longrightarrow> a \<in> set (db_agents d) \<Longrightarrow> in_role d r a \<Longrightarrow> ag_harness a = harness \<and> ag_session a = session"
  shows "agents_ok d'"
proof (cases "List.find (\<lambda>a. in_role d r a \<and> ag_harness a = harness \<and> ag_session a = session) (db_agents d)")
  case (Some a)
  with assms(1,2) show ?thesis by (simp add: upsert_agent_def)
next
  case None
  then have none: "\<not> (in_role d r a \<and> ag_harness a = harness \<and> ag_session a = session)" if "a \<in> set (db_agents d)" for a
    using that by (simp add: find_eq_None)
  let ?a = "\<lparr>ag_id = ''agent_'' @ rt_uuid R (db_uuids d), ag_workspace = db_workspace d, ag_workflow = rw_workflow r,
      ag_role = rw_key r, ag_role_name = rw_name r, ag_harness = harness, ag_session = session, ag_revision = 1,
      ag_created = t\<rparr>"
  from assms(1) None have new: "ag_id ?a \<notin> ag_id ` set (db_agents d)"
    and d': "d' = d\<lparr>db_agents := db_agents d @ [?a], db_uuids := Suc (db_uuids d)\<rparr>"
    by (auto simp: upsert_agent_def Let_def split: if_splits)
  show ?thesis unfolding d'
  proof (rule agents_ok_insert[OF assms(2) new])
    fix b assume "b \<in> set (db_agents d)"
    then show "\<not> (ag_workspace b = ag_workspace ?a \<and> ag_harness b = ag_harness ?a \<and> ag_session b = ag_session ?a)"
      using none assms(4) by auto
  next
    fix q b
    assume q: "q \<in> set (db_roles d)" "\<not> rw_multiple q" "in_role d q ?a" and b: "b \<in> set (db_agents d)"
    from q(3) have "(rw_workflow q, rw_key q) = (rw_workflow r, rw_key r)" by (simp add: in_role_def)
    with q(1) assms(2,3) have "q = r" by (auto simp: agents_ok_def distinct_map dest: inj_onD)
    with q(2) b none assms(5) show "\<not> in_role d q b" by auto
  qed
qed

lemma register_ok:
  assumes "register_agent R role workflow harness session_id replace t d = Inr (i, d')" and "agents_ok d"
  shows "agents_ok d'"
proof -
  define session where "session = strip session_id"
  from assms(1) obtain h r d1 where r: "r \<in> set (db_roles d)"
    and other: "\<not> (\<exists>a \<in> set (db_agents d). ag_workspace a = db_workspace d \<and> ag_harness a = h \<and> ag_session a = session \<and>
         \<not> (ag_workflow a = rw_workflow r \<and> ag_role a = rw_key r))"
    and d1: "(if replace then replace_role_agents r t d
            else if \<not> rw_multiple r then
              andthen (assert_single_agent_role_available d r h session) (\<lambda>_. Inr d)
            else Inr d) = Inr d1"
    and up: "upsert_agent R r h session t d1 = Inr (i, d')"
    unfolding register_agent_def session_def
    by (auto simp: andthen_eq_Inr Let_def split: if_splits dest!: role_for_key_row)
  show ?thesis
  proof (cases replace)
    case True
    then have "replace_role_agents r t d = Inr d1" using d1 by simp
    from replace_role_ok[OF this assms(2)] have ok: "agents_ok d1"
      and rest: "db_agents d1 = filter (\<lambda>a. \<not> in_role d r a) (db_agents d)" "db_roles d1 = db_roles d"
        "db_workspace d1 = db_workspace d" by auto
    have same: "in_role d1 = in_role d" using rest(3) by (simp add: in_role_def fun_eq_iff)
    show ?thesis
    proof (rule upsert_ok[OF up ok])
      show "r \<in> set (db_roles d1)" using r rest by simp
    next
      fix a assume "a \<in> set (db_agents d1)" "ag_workspace a = db_workspace d1" "ag_harness a = h" "ag_session a = session"
      then show "in_role d1 r a" using other rest by (auto simp: in_role_def)
    next
      fix a assume "a \<in> set (db_agents d1)" "in_role d1 r a"
      then show "ag_harness a = h \<and> ag_session a = session" using rest same by auto
    qed
  next
    case False
    have d1': "d1 = d" using d1 False by (auto simp: andthen_eq_Inr split: if_splits)
    show ?thesis
    proof (rule upsert_ok[OF up[unfolded d1'] assms(2) r])
      fix a assume "a \<in> set (db_agents d)" "ag_workspace a = db_workspace d" "ag_harness a = h" "ag_session a = session"
      then show "in_role d r a" using other by (auto simp: in_role_def)
    next
      fix a assume "\<not> rw_multiple r" "a \<in> set (db_agents d)" "in_role d r a"
      then show "ag_harness a = h \<and> ag_session a = session"
        using d1 False by (auto simp: andthen_eq_Inr assert_single_agent_role_available_def split: if_splits)
    qed
  qed
qed

lemma update_ok:
  assumes "update_agent i session_id expected t d = Inr d'" and "agents_ok d"
  shows "agents_ok d'"
proof -
  define session where "session = strip session_id"
  from assms(1) obtain agent where agent: "find_assignment d i = Some agent"
    and free: "\<not> (\<exists>a \<in> set (db_agents d). ag_workspace a = db_workspace d \<and> ag_harness a = ag_harness agent \<and>
               ag_session a = session \<and> ag_id a \<noteq> i)"
    and d': "db_agents d' = update_where (\<lambda>a. ag_id a = i) (\<lambda>a. a\<lparr>ag_session := session, ag_revision := ag_revision a + 1\<rparr>)
        (db_agents d)" "db_roles d' = db_roles d" "db_workspace d' = db_workspace d"
    unfolding update_agent_def session_def by (auto simp: andthen_eq_Inr Let_def split: if_splits option.splits)
  define f where "f a = (if ag_id a = i then a\<lparr>ag_session := session, ag_revision := ag_revision a + 1\<rparr> else a)" for a :: agent
  have agents: "db_agents d' = map f (db_agents d)" by (simp add: d' update_where_def f_def[abs_def])
  have f: "ag_id (f a) = ag_id a" "ag_workspace (f a) = ag_workspace a" "ag_harness (f a) = ag_harness a"
    "ag_workflow (f a) = ag_workflow a" "ag_role (f a) = ag_role a" for a by (simp_all add: f_def)
  have me: "agent \<in> set (db_agents d)" "ag_id agent = i" "ag_workspace agent = db_workspace d"
    using agent by (auto simp: find_assignment_def dest: find_SomeD)
  have ids: "a = b" if "a \<in> set (db_agents d)" "b \<in> set (db_agents d)" "ag_id a = ag_id b" for a b
    using that assms(2) by (auto simp: agents_ok_def distinct_map dest: inj_onD)
  have role: "in_role d' r (f a) = in_role d r a" for r a by (simp add: in_role_def f d')
  have "f a = f b" if ab: "a \<in> set (db_agents d)" "b \<in> set (db_agents d)" "ag_workspace a = ag_workspace b"
    "ag_harness a = ag_harness b" "ag_session (f a) = ag_session (f b)" for a b
  proof -
    have one: "ag_id y = i" if "x \<in> set (db_agents d)" "y \<in> set (db_agents d)" "ag_id x = i"
      "ag_workspace x = ag_workspace y" "ag_harness x = ag_harness y" "ag_session (f x) = ag_session (f y)" for x y
    proof (rule ccontr)
      assume "ag_id y \<noteq> i"
      moreover from this that(3,6) have "ag_session y = session" by (simp add: f_def)
      moreover have "x = agent" using ids[OF that(1) me(1)] that(3) me(2) by simp
      ultimately show False using free that me by metis
    qed
    have both: "ag_id a = i \<longleftrightarrow> ag_id b = i" using one[of a b] one[of b a] ab by auto
    have "a = b"
    proof (cases "ag_id a = i")
      case True
      then show ?thesis using ids[OF ab(1,2)] both by simp
    next
      case False
      then have "ag_session a = ag_session b" using both ab(5) by (simp add: f_def)
      with ab assms(2) show ?thesis unfolding agents_ok_def by blast
    qed
    then show ?thesis by simp
  qed
  moreover have "distinct (map ag_id (db_agents d'))"
    using assms(2) by (simp add: agents agents_ok_def comp_def f)
  moreover have "f a = f b" if "r \<in> set (db_roles d)" "\<not> rw_multiple r" "a \<in> set (db_agents d)" "b \<in> set (db_agents d)"
    "in_role d r a" "in_role d r b" for a b r
  proof -
    have "a = b" using that assms(2) unfolding agents_ok_def by blast
    then show ?thesis by simp
  qed
  moreover have "distinct (map (\<lambda>r. (rw_workflow r, rw_key r)) (db_roles d'))" using assms(2) by (simp add: agents_ok_def d'(2))
  ultimately show ?thesis unfolding agents_ok_def by (simp only: agents d'(2) role f set_map ball_simps) blast
qed

lemma agent_step_ok: "agent_step R d d' \<Longrightarrow> agents_ok d \<Longrightarrow> agents_ok d'"
proof (induction rule: agent_step.induct)
  case (removes i expected t d n d')
  then have "db_agents d' = filter (\<lambda>a. \<not> (ag_workspace a = db_workspace d \<and> ag_id a = i)) (db_agents d)"
    "db_roles d' = db_roles d" "db_workspace d' = db_workspace d"
    by (auto simp: unregister_agent_def andthen_eq_Inr Let_def split: if_splits)
  then show ?case by (rule agents_ok_subset[OF removes(2)])
next
  case (removes_matching role workflow harness session t d n d')
  then have "\<exists>who. remove_agents who t d = (n, d')"
    unfolding unregister_matching_def Let_def
    by (simp add: andthen_eq_Inr split: if_splits) blast
  then obtain who where d': "remove_agents who t d = (n, d')" ..
  have "db_agents d' = filter (\<lambda>a. \<not> who a) (db_agents d)" "db_roles d' = db_roles d" "db_workspace d' = db_workspace d"
    using d' by (auto simp: remove_agents_def Let_def)
  then show ?case by (rule agents_ok_subset[OF removes_matching(2)])
qed (rule register_ok update_ok, assumption+)+

section \<open>Property\<close>

text \<open>C21: One agent per session and per single-agent role: whatever agents are registered, rebound or removed,
  no two agents of the workspace share a harness session, and a role that does not allow several agents
  has at most one.\<close>

theorem registry_stays_exclusive:
  assumes "agent_run R d d'" and "agents_ok d"
  shows "agents_ok d'"
  using assms by (induction rule: agent_run.induct) (auto dest: agent_step_ok)

theorem registry_stays_exclusive_witness: "agents_ok registered_db"
proof -
  have reg: "register_agent demo_runtime ''executor'' ''demo'' ''codex'' ''s1'' False 6 ready_db =
      Inr (''agent_m'', registered_db)" by code_simp
  have "agent_run demo_runtime ready_db registered_db"
    by (rule agent_run.step[OF agent_run.start agent_step.registers[OF reg]])
  moreover have "agents_ok ready_db" by code_simp
  ultimately show ?thesis by (rule registry_stays_exclusive)
qed

end
