(* ===== verification/Effects.thy ===== *)
theory Effects
  imports Prelude
begin

text \<open>
  Code that talks to the outside: an effect takes the state of the world and gives an exception or a
  value with the state afterwards. The state belongs to the component that uses it; what an outside call
  does to it is a parameter there, so that other processes may change it during the call.
\<close>

named_theorems preserves_intros \<open>effects that keep a predicate of the state\<close>

type_synonym ('s, 'a) eff = "'s \<Rightarrow> 'a result \<times> 's"

definition of_result :: "'a result \<Rightarrow> ('s, 'a) eff" where
  "of_result r = (\<lambda>s. (r, s))"

definition bind_eff :: "('s, 'a) eff \<Rightarrow> ('a \<Rightarrow> ('s, 'b) eff) \<Rightarrow> ('s, 'b) eff" where
  "bind_eff m f = (\<lambda>s. case m s of (Inl e, s') \<Rightarrow> (Inl e, s') | (Inr v, s') \<Rightarrow> f v s')"

text \<open>\<^verbatim>\<open>try: m except Exception as e: h(e)\<close>; what \<open>m\<close> did to the state before it raised stays done.\<close>

definition catch_eff :: "('s, 'a) eff \<Rightarrow> (py_error \<Rightarrow> ('s, 'a) eff) \<Rightarrow> ('s, 'a) eff" where
  "catch_eff m h = (\<lambda>s. case m s of (Inl e, s') \<Rightarrow> h e s' | (Inr v, s') \<Rightarrow> (Inr v, s'))"

definition read_eff :: "('s \<Rightarrow> 'a) \<Rightarrow> ('s, 'a) eff" where
  "read_eff f = (\<lambda>s. (Inr (f s), s))"

definition write_eff :: "('s \<Rightarrow> 's) \<Rightarrow> ('s, unit) eff" where
  "write_eff f = (\<lambda>s. (Inr (), f s))"

text \<open>A \<^verbatim>\<open>for\<close> loop over a list: the first exception ends it.\<close>

fun for_each :: "('a \<Rightarrow> ('s, unit) eff) \<Rightarrow> 'a list \<Rightarrow> ('s, unit) eff" where
  "for_each f [] = of_result (Inr ())"
| "for_each f (x # xs) = bind_eff (f x) (\<lambda>_. for_each f xs)"

text \<open>The same for a loop that collects a result of every round.\<close>

fun collect :: "('a \<Rightarrow> ('s, 'b) eff) \<Rightarrow> 'a list \<Rightarrow> ('s, 'b list) eff" where
  "collect f [] = of_result (Inr [])"
| "collect f (x # xs) =
     bind_eff (f x) (\<lambda>y. bind_eff (collect f xs) (\<lambda>ys. of_result (Inr (y # ys))))"

section \<open>Running effects\<close>

lemma run_of_result [simp]: "of_result r s = (r, s)"
  by (simp add: of_result_def)

lemma run_read [simp]: "read_eff f s = (Inr (f s), s)"
  by (simp add: read_eff_def)

lemma run_write [simp]: "write_eff f s = (Inr (), f s)"
  by (simp add: write_eff_def)

lemma run_bind: "bind_eff m f s = (case m s of (Inl e, s') \<Rightarrow> (Inl e, s') | (Inr v, s') \<Rightarrow> f v s')"
  by (simp add: bind_eff_def)

lemma run_catch: "catch_eff m h s = (case m s of (Inl e, s') \<Rightarrow> h e s' | (Inr v, s') \<Rightarrow> (Inr v, s'))"
  by (simp add: catch_eff_def)

lemma bind_of_result [simp]:
  "bind_eff (of_result (Inr v)) f = f v" "bind_eff (of_result (Inl e)) f = of_result (Inl e)"
  by (simp_all add: bind_eff_def fun_eq_iff)

lemma bind_read [simp]: "bind_eff (read_eff g) f s = f (g s) s"
  by (simp add: run_bind)

lemma bind_write [simp]: "bind_eff (write_eff g) f s = f () (g s)"
  by (simp add: run_bind)

lemma bind_Inr:
  "bind_eff m f s = (Inr v, s') \<longleftrightarrow> (\<exists>u s1. m s = (Inr u, s1) \<and> f u s1 = (Inr v, s'))"
  by (auto simp: run_bind split: prod.splits sum.splits)

lemma catch_Inr:
  "catch_eff m h s = (Inr v, s') \<longleftrightarrow>
     m s = (Inr v, s') \<or> (\<exists>e s1. m s = (Inl e, s1) \<and> h e s1 = (Inr v, s'))"
  by (auto simp: run_catch split: prod.splits sum.splits)

section \<open>What effects keep\<close>

definition preserves :: "('s \<Rightarrow> bool) \<Rightarrow> ('s, 'a) eff \<Rightarrow> bool" where
  "preserves P m \<longleftrightarrow> (\<forall>s. P s \<longrightarrow> P (snd (m s)))"

lemma preservesD: "preserves P m \<Longrightarrow> m s = (r, s') \<Longrightarrow> P s \<Longrightarrow> P s'"
  unfolding preserves_def by (metis snd_conv)

lemma preserves_of_result [preserves_intros]: "preserves P (of_result r)"
  by (simp add: preserves_def)

lemma preserves_read [preserves_intros]: "preserves P (read_eff f)"
  by (simp add: preserves_def)

lemma preserves_write: "(\<And>s. P s \<Longrightarrow> P (f s)) \<Longrightarrow> preserves P (write_eff f)"
  by (simp add: preserves_def)

lemma preserves_bind [preserves_intros]:
  "preserves P m \<Longrightarrow> (\<And>v. preserves P (f v)) \<Longrightarrow> preserves P (bind_eff m f)"
  by (auto simp: preserves_def run_bind split: prod.splits sum.splits)

lemma preserves_catch [preserves_intros]:
  "preserves P m \<Longrightarrow> (\<And>e. preserves P (h e)) \<Longrightarrow> preserves P (catch_eff m h)"
  by (auto simp: preserves_def run_catch split: prod.splits sum.splits)

lemma preserves_for_each [preserves_intros]:
  "(\<And>x. preserves P (f x)) \<Longrightarrow> preserves P (for_each f xs)"
  by (induction xs) (auto intro: preserves_intros)

lemma preserves_collect [preserves_intros]:
  "(\<And>x. preserves P (f x)) \<Longrightarrow> preserves P (collect f xs)"
  by (induction xs) (auto intro: preserves_intros)

lemma preserves_if [preserves_intros]: "preserves P m \<Longrightarrow> preserves P n \<Longrightarrow> preserves P (if b then m else n)"
  by simp

lemma preserves_option [preserves_intros]:
  "preserves P m \<Longrightarrow> (\<And>v. preserves P (f v)) \<Longrightarrow> preserves P (case x of None \<Rightarrow> m | Some v \<Rightarrow> f v)"
  by (cases x) simp_all

section \<open>What effects end in\<close>

text \<open>Whatever the state was, a value is returned only in a state that goes with it.\<close>

named_theorems yields_intros \<open>effects that return with a postcondition\<close>

definition yields :: "('a \<Rightarrow> 's \<Rightarrow> bool) \<Rightarrow> ('s, 'a) eff \<Rightarrow> bool" where
  "yields Q m \<longleftrightarrow> (\<forall>s v s'. m s = (Inr v, s') \<longrightarrow> Q v s')"

lemma yieldsD: "yields Q m \<Longrightarrow> m s = (Inr v, s') \<Longrightarrow> Q v s'"
  by (simp add: yields_def)

lemma yields_bind [yields_intros]: "(\<And>v. yields Q (f v)) \<Longrightarrow> yields Q (bind_eff m f)"
  by (auto simp: yields_def bind_Inr)

lemma yields_seq: "yields P m \<Longrightarrow> (\<And>v s w s'. P v s \<Longrightarrow> f v s = (Inr w, s') \<Longrightarrow> Q w s') \<Longrightarrow> yields Q (bind_eff m f)"
  unfolding yields_def bind_Inr by blast

lemma yields_raise [yields_intros]: "yields Q (of_result (Inl e))"
  by (simp add: yields_def)

lemma yields_if [yields_intros]: "yields Q m \<Longrightarrow> yields Q n \<Longrightarrow> yields Q (if b then m else n)"
  by simp

end
