(* ===== verification/Task_Executions.thy ===== *)
theory Task_Executions
  imports Delivery_Execution Workflow_Lifecycle Effects
begin

text \<open>
  \<^verbatim>\<open>core/task_execution.py\<close>: which turn works on a card, stopping it, and the facts about an execution
  that the guards of the workflow rules ask for. The board, the harness and its thread reader are a
  record of effects on the outside state and the database: an outside call may change the database, as
  other processes do in the meantime. The transactions are the accesses between two outside calls.
\<close>

record 's harness =
  hs_get :: "string \<Rightarrow> ('s \<times> db, dict) eff"
  hs_stop :: "string \<Rightarrow> string \<Rightarrow> ('s \<times> db, dict) eff"
  hs_read :: "string \<Rightarrow> ('s \<times> db, unit) eff"
  hs_gone :: "py_error \<Rightarrow> bool"
  hs_active :: "'s \<times> db \<Rightarrow> string list"
  hs_now :: "'s \<times> db \<Rightarrow> int"

text \<open>\<^verbatim>\<open>task.get("status") in states\<close>, for a set of states: an unhashable value raises.\<close>

definition status_in :: "dict \<Rightarrow> string list \<Rightarrow> bool result" where
  "status_in task states =
     (let v = dget task ''status'' in if hashable v then Inr (member_str v states) else Inl TypeError)"

section \<open>Activity\<close>

text \<open>The row after the \<^verbatim>\<open>INSERT ... ON CONFLICT\<close>.\<close>

definition activate :: "string \<Rightarrow> string \<Rightarrow> string option \<Rightarrow> int \<Rightarrow> execution \<Rightarrow> execution" where
  "activate agent_id session turn t ex =
     ex\<lparr>ex_agent := agent_id, ex_session := session, ex_turn := coalesce turn (ex_turn ex), ex_state := Active,
        ex_stop_status := None, ex_stopped_by := None, ex_reason := None, ex_updated := t, ex_stopped := None\<rparr>"

definition put_execution :: "string \<Rightarrow> string \<Rightarrow> string \<Rightarrow> string option \<Rightarrow> int \<Rightarrow> db \<Rightarrow> db" where
  "put_execution rid agent_id session turn t d =
     (if find_execution d rid = None
      then d\<lparr>db_executions := db_executions d @
        [\<lparr>ex_record = rid, ex_agent = agent_id, ex_session = session, ex_turn = turn, ex_state = Active,
          ex_stop_status = None, ex_stopped_by = None, ex_reason = None, ex_updated = t, ex_stopped = None\<rparr>]\<rparr>
      else update_executions (\<lambda>ex. ex_record ex = rid) (activate agent_id session turn t) d)"

definition drop_execution :: "string \<Rightarrow> db \<Rightarrow> db" where
  "drop_execution rid d = d\<lparr>db_executions := filter (\<lambda>ex. ex_record ex \<noteq> rid) (db_executions d)\<rparr>"

text \<open>
  \<^verbatim>\<open>sync_activity\<close>. The result of a tool is a dictionary; record ids and agent ids of a card are
  texts.
\<close>

definition sync_activity ::
  "(string \<Rightarrow> workflow result) \<Rightarrow> assignment \<Rightarrow> string \<Rightarrow> dict \<Rightarrow> string \<Rightarrow> string option \<Rightarrow> int \<Rightarrow> db \<Rightarrow> db result" where
  "sync_activity load a tool_name answer session turn t d =
     (if tool_name = ''stop_task_execution'' \<or> \<not> truthy (dget answer ''ok'') then Inr d
      else case dget answer ''task'' of
        JObj task \<Rightarrow>
          let rid = dget task ''record_id'' in
          if \<not> truthy rid then Inr d
          else andthen (load (as_workflow_key a)) (\<lambda>w.
               andthen (status_in task (execution_states w)) (\<lambda>working.
                 Inr (if working \<and> dget task ''agent_id'' = JStr (as_agent_id a)
                      then put_execution (py_str rid) (as_agent_id a) session turn t d
                      else if \<not> working then drop_execution (py_str rid) d
                      else d)))
      | _ \<Rightarrow> Inr d)"

section \<open>Stopping\<close>

record stop_report =
  so_prepared :: runtime_prepared
  so_already :: bool
  so_stop :: dict
  so_available :: "available_action list"

datatype stop_answer = Stop_Refused wf_error | Stopped_Turn stop_report

text \<open>\<^verbatim>\<open>runtime_action_error\<close> of \<^verbatim>\<open>core/workflow_runtime.py\<close>.\<close>

definition runtime_action_error ::
  "(string \<times> workflow) list \<Rightarrow> assignment \<Rightarrow> string \<Rightarrow> dict \<Rightarrow> string \<Rightarrow> string \<Rightarrow> json \<Rightarrow> bool \<Rightarrow> wf_error result" where
  "runtime_action_error defs a ak task category code details retryable =
     andthen (workflow_definition_for_assignment defs a) (\<lambda>w.
       workflow_error a w ak None (Some task) category code details retryable)"

definition refuse :: "wf_error result \<Rightarrow> ('s, stop_answer) eff" where
  "refuse r = of_result (andthen r (\<lambda>e. Inr (Stop_Refused e)))"

text \<open>The execution row of a card, an agent and its session.\<close>

definition session_execution :: "string \<Rightarrow> string \<Rightarrow> string \<Rightarrow> execution \<Rightarrow> bool" where
  "session_execution rid agent_id session ex \<longleftrightarrow> ex_record ex = rid \<and> ex_agent ex = agent_id \<and> ex_session ex = session"

definition record_stop ::
  "string \<Rightarrow> string \<Rightarrow> string \<Rightarrow> string \<Rightarrow> string \<Rightarrow> string \<Rightarrow> string \<Rightarrow> int \<Rightarrow> db \<Rightarrow> db" where
  "record_stop rid agent_id session turn stopper status reason t d =
     update_executions (owned_execution rid agent_id session turn)
       (\<lambda>ex. ex\<lparr>ex_state := Stopped, ex_stop_status := Some status, ex_stopped_by := Some stopper,
                ex_reason := Some reason, ex_updated := t, ex_stopped := Some t\<rparr>) d"

text \<open>The end of \<^verbatim>\<open>stop_execution\<close>: the turn is stopped, and the card is read again.\<close>

definition confirm_stop ::
  "'s harness \<Rightarrow> (string \<times> workflow) list \<Rightarrow> assignment \<Rightarrow> string \<Rightarrow> dict \<Rightarrow> runtime_prepared \<Rightarrow> string \<Rightarrow> string \<Rightarrow>
   string \<Rightarrow> string \<Rightarrow> dict \<Rightarrow> ('s \<times> db, stop_answer) eff" where
  "confirm_stop h defs a rid task p agent_id session turn reason stopped =
     bind_eff (hs_get h rid) (\<lambda>latest.
       if \<not> py_eq (dget latest ''status'') (dget task ''status'') \<or>
          \<not> py_eq (dget latest ''agent_id'') (dget task ''agent_id'')
       then refuse (runtime_action_error defs a ''stop_execution'' latest ''conflict'' ''task_changed_after_stop''
         (JObj [(''previous_state'', dget task ''status''), (''current_state'', dget latest ''status''),
                (''previous_agent_id'', dget task ''agent_id''), (''current_agent_id'', dget latest ''agent_id''),
                (''stop'', JObj stopped)]) True)
       else bind_eff (read_eff (\<lambda>(s, d). d)) (\<lambda>d.
         let status = (let v = dget stopped ''status'' in if truthy v then py_str v else ''stopped'') in
         bind_eff (write_eff (\<lambda>(s, d). (s, record_stop rid agent_id session turn (as_agent_id a) status (strip reason)
                                            (hs_now h (s, d)) d))) (\<lambda>_.
         if rowcount (owned_execution rid agent_id session turn) (db_executions d) \<noteq> 1
         then refuse (runtime_action_error defs a ''stop_execution'' latest ''conflict'' ''execution_changed_after_stop''
           (JObj [(''expected_turn_id'', JStr turn), (''stop'', JObj stopped)]) True)
         else of_result (andthen (workflow_definition_for_assignment defs a) (\<lambda>w.
              andthen (available_task_actions a w task) (\<lambda>available.
              Inr (Stopped_Turn \<lparr>so_prepared = p, so_already = False, so_stop = stopped, so_available = available\<rparr>)))))))"

definition stop_turn_of ::
  "'s harness \<Rightarrow> (string \<times> workflow) list \<Rightarrow> assignment \<Rightarrow> string \<Rightarrow> dict \<Rightarrow> runtime_prepared \<Rightarrow> string \<Rightarrow> string \<Rightarrow>
   string \<Rightarrow> ('s \<times> db, stop_answer) eff" where
  "stop_turn_of h defs a rid task p agent_id session reason =
     bind_eff (read_eff (\<lambda>(s, d). List.find (session_execution rid agent_id session) (db_executions d))) (\<lambda>row.
       case row of
         None \<Rightarrow> refuse (runtime_action_error defs a ''stop_execution'' task ''runtime'' ''execution_turn_unknown'' JNull True)
       | Some ex \<Rightarrow>
         let turn = (case ex_turn ex of None \<Rightarrow> [] | Some u \<Rightarrow> u) in
         if strip turn = []
         then refuse (runtime_action_error defs a ''stop_execution'' task ''runtime'' ''execution_turn_unknown'' JNull True)
         else if ex_state ex = Stopped
         then of_result (andthen (workflow_definition_for_assignment defs a) (\<lambda>w.
              andthen (available_task_actions a w task) (\<lambda>available.
              Inr (Stopped_Turn \<lparr>so_prepared = p, so_already = True,
                so_stop = [(''thread_id'', JStr session), (''turn_id'', JStr turn),
                  (''status'', case ex_stop_status ex of None \<Rightarrow> JNull | Some v \<Rightarrow> JStr v), (''already_stopped'', JBool True)],
                so_available = available\<rparr>))))
         else bind_eff (catch_eff (bind_eff (hs_stop h session turn) (\<lambda>stopped. of_result (Inr (Some stopped))))
                                  (\<lambda>e. of_result (Inr None))) (\<lambda>stopped.
           case stopped of
             None \<Rightarrow> refuse (runtime_action_error defs a ''stop_execution'' task ''runtime'' ''stop_failed'' JNull True)
           | Some r \<Rightarrow> confirm_stop h defs a rid task p agent_id session turn reason r))"

definition stop_execution ::
  "'s harness \<Rightarrow> (string \<times> workflow) list \<Rightarrow> assignment \<Rightarrow> dict \<Rightarrow> ('s \<times> db, stop_answer) eff" where
  "stop_execution h defs a arguments =
     (let rid = text_of (dget arguments ''record_id''); reason = text_of (dget arguments ''reason'') in
      bind_eff (hs_get h rid) (\<lambda>task.
      bind_eff (of_result (prepare_runtime_action defs a ''stop_execution'' task [(''reason'', JStr reason)]
                  (truthy (dget arguments ''confirmed'')))) (\<lambda>out.
        case out of
          Runtime_Rejected e \<Rightarrow> of_result (Inr (Stop_Refused e))
        | Runtime_Prepared p \<Rightarrow>
          (case map_of task ''agent_id'' of
             None \<Rightarrow> of_result (Inl (KeyError ''agent_id''))
           | Some holder \<Rightarrow>
             bind_eff (read_eff (\<lambda>(s, d). find_agent d (py_str holder))) (\<lambda>row.
               case row of
                 None \<Rightarrow> refuse (runtime_action_error defs a ''stop_execution'' task ''business_rule'' ''executor_unavailable''
                            JNull False)
               | Some ag \<Rightarrow>
                   if ag_harness ag \<noteq> ''codex''
                   then refuse (runtime_action_error defs a ''stop_execution'' task ''runtime'' ''unsupported_harness'' JNull False)
                   else stop_turn_of h defs a rid task p (py_str holder) (ag_session ag) reason)))))"

section \<open>Facts for the guards\<close>

definition guarded_states :: "workflow \<Rightarrow> string list" where
  "guarded_states w = concat (map (\<lambda>(ak, act). concat (map (\<lambda>r. if rl_guards r \<noteq> [] then rl_from r else []) (ac_rules act)))
     (wf_actions w))"

text \<open>\<^verbatim>\<open>runtime_facts\<close>. A card without a record id matches no execution.\<close>

definition runtime_facts ::
  "'s harness \<Rightarrow> (string \<Rightarrow> workflow result) \<Rightarrow> assignment \<Rightarrow> dict \<Rightarrow> ('s \<times> db, string list) eff" where
  "runtime_facts h load a task =
     bind_eff (of_result (andthen (load (as_workflow_key a)) (\<lambda>w. status_in task (guarded_states w)))) (\<lambda>guarded.
       if \<not> guarded then of_result (Inr [])
       else let holder = text_of (dget task ''agent_id'');
                mine = (\<lambda>ex. dget task ''record_id'' = JStr (ex_record ex)) in
         if holder = [] then read_eff (\<lambda>(s, d).
           if \<exists>ex \<in> set (db_executions d). mine ex \<and> ex_state ex = Active then []
           else [''executor_unavailable'', ''execution_stopped''])
         else bind_eff (read_eff (\<lambda>(s, d). find_agent d holder)) (\<lambda>row.
           case row of
             None \<Rightarrow> of_result (Inr [''executor_unavailable'', ''execution_stopped''])
           | Some ag \<Rightarrow>
               if ag_harness ag \<noteq> ''codex'' then of_result (Inr [])
               else bind_eff (read_eff (\<lambda>(s, d). \<exists>ex \<in> set (db_executions d).
                      mine ex \<and> ex_agent ex = holder \<and> ex_session ex = ag_session ag \<and> ex_state ex = Stopped \<and>
                      ex_turn ex \<noteq> None)) (\<lambda>receipt.
                 if receipt then of_result (Inr [''execution_stopped''])
                 else bind_eff (read_eff (hs_active h)) (\<lambda>active.
                   if ag_session ag \<in> set active then of_result (Inr [])
                   else catch_eff (bind_eff (hs_read h (ag_session ag)) (\<lambda>_. of_result (Inr [])))
                     (\<lambda>e. of_result (Inr (if hs_gone h e then [''executor_unavailable'', ''execution_stopped''] else [])))))))"


lemma preserves_runtime_outcome [preserves_intros]:
  "(\<And>e. preserves P (m e)) \<Longrightarrow> (\<And>p. preserves P (f p)) \<Longrightarrow>
     preserves P (case x of Runtime_Rejected e \<Rightarrow> m e | Runtime_Prepared p \<Rightarrow> f p)"
  by (cases x) simp_all

end
