(* ===== verification/Execution_Properties.thy ===== *)
theory Execution_Properties
  imports Task_Executions Delivery_Properties
begin

text \<open>
  What the record of executions is worth: a stop is on record only when the harness confirmed it for that
  turn, a recorded stop is what the guards are told, and new activity takes it back.
\<close>

section \<open>One execution per card\<close>

definition executions_ok :: "db \<Rightarrow> bool" where
  "executions_ok d \<longleftrightarrow> distinct (map ex_record (db_executions d))"

lemma executions_ok_update:
  "(\<And>ex. ex_record (f ex) = ex_record ex) \<Longrightarrow> executions_ok (update_executions p f d) = executions_ok d"
  by (simp add: executions_ok_def map_update_where)

lemma executions_ok_put: "executions_ok d \<Longrightarrow> executions_ok (put_execution rid ai session turn t d)"
  unfolding put_execution_def
  by (auto simp: executions_ok_update activate_def) (auto simp: executions_ok_def find_execution_def find_eq_None)

lemma executions_ok_drop: "executions_ok d \<Longrightarrow> executions_ok (drop_execution rid d)"
  by (simp add: executions_ok_def drop_execution_def distinct_map_filter)

lemma executions_ok_sync:
  "sync_activity load a tn answer session turn t d = Inr d' \<Longrightarrow> executions_ok d \<Longrightarrow> executions_ok d'"
  by (auto simp: sync_activity_def andthen_eq_Inr Let_def executions_ok_put executions_ok_drop
      split: if_splits json.splits)

lemma executions_ok_record_stop: "executions_ok (record_stop rid ai session turn who status reason t d) = executions_ok d"
  unfolding record_stop_def by (rule executions_ok_update) simp

text \<open>What outside calls keep, stopping an execution and asking for its facts keep.\<close>

definition outside_keeps :: "('s \<times> db \<Rightarrow> bool) \<Rightarrow> 's harness \<Rightarrow> bool" where
  "outside_keeps P h \<longleftrightarrow> (\<forall>rid. preserves P (hs_get h rid)) \<and> (\<forall>session turn. preserves P (hs_stop h session turn)) \<and>
     (\<forall>session. preserves P (hs_read h session))"

lemma executions_ok_stop:
  assumes "outside_keeps (\<lambda>(s, d). executions_ok d) h"
  shows "preserves (\<lambda>(s, d). executions_ok d) (stop_execution h defs a args)"
proof -
  note outside = assms[unfolded outside_keeps_def]
  have get: "preserves (\<lambda>(s, d). executions_ok d) (hs_get h r)" for r using outside by blast
  have stop: "preserves (\<lambda>(s, d). executions_ok d) (hs_stop h ss u)" for ss u using outside by blast
  have rec: "preserves (\<lambda>(s, d). executions_ok d)
      (write_eff (\<lambda>(s, d). (s, record_stop rid ai ss u who st rs (t (s, d)) d)))" for rid ai ss u who st rs t
    by (rule preserves_write) (auto simp: executions_ok_record_stop)
  have confirm: "preserves (\<lambda>(s, d). executions_ok d) (confirm_stop h defs a rid task p ai ss u rs x)" for rid task p ai ss u rs x
    unfolding confirm_stop_def refuse_def Let_def by (intro preserves_intros get rec)
  have turn: "preserves (\<lambda>(s, d). executions_ok d) (stop_turn_of h defs a rid task p ai ss rs)" for rid task p ai ss rs
    unfolding stop_turn_of_def refuse_def Let_def
    by (intro preserves_intros get stop confirm)
  show ?thesis
    unfolding stop_execution_def refuse_def Let_def
    by (intro preserves_intros get turn)
qed


section \<open>What a confirmed stop leaves behind\<close>

text \<open>The receipt of a stopped turn in the database.\<close>

definition stop_receipt :: "string \<Rightarrow> string \<Rightarrow> string \<Rightarrow> string \<Rightarrow> db \<Rightarrow> bool" where
  "stop_receipt rid holder session turn d \<longleftrightarrow>
     (\<exists>ex \<in> set (db_executions d). session_execution rid holder session ex \<and> ex_turn ex = Some turn \<and> ex_state ex = Stopped)"

lemma record_stop_receipt:
  assumes "rowcount (owned_execution rid holder session turn) (db_executions d) = 1"
  shows "stop_receipt rid holder session turn (record_stop rid holder session turn who status reason t d)"
proof -
  from rowcount_1[OF assms] obtain ex where "ex \<in> set (db_executions d)" "owned_execution rid holder session turn ex" by blast
  then show ?thesis
    unfolding stop_receipt_def record_stop_def update_executions_simps
    by (intro bexI[where x = "ex\<lparr>ex_state := Stopped, ex_stop_status := Some status, ex_stopped_by := Some who,
          ex_reason := Some reason, ex_updated := t, ex_stopped := Some t\<rparr>"])
      (auto simp: set_update_where session_execution_def owned_execution_def intro!: bexI[of _ ex])
qed

lemma confirm_stop_run:
  assumes "confirm_stop h defs a rid task p holder session turn reason stopped w = (Inr (Stopped_Turn r), w')"
  shows "so_stop r = stopped \<and> \<not> so_already r \<and> stop_receipt rid holder session turn (snd w')"
  using assms unfolding confirm_stop_def refuse_def Let_def
  by (auto simp: bind_Inr andthen_eq_Inr record_stop_receipt split: if_splits prod.splits)

text \<open>The card and the agent a reported stop is about.\<close>

definition stop_subject ::
  "'s harness \<Rightarrow> (string \<times> workflow) list \<Rightarrow> assignment \<Rightarrow> dict \<Rightarrow> 's \<times> db \<Rightarrow> dict \<Rightarrow> agent \<Rightarrow> bool" where
  "stop_subject h defs a args w task ag \<longleftrightarrow> (\<exists>w1 p holder.
     hs_get h (text_of (dget args ''record_id'')) w = (Inr task, w1) \<and>
     prepare_runtime_action defs a ''stop_execution'' task [(''reason'', JStr (text_of (dget args ''reason'')))]
       (truthy (dget args ''confirmed'')) = Inr (Runtime_Prepared p) \<and>
     map_of task ''agent_id'' = Some holder \<and> find_agent (snd w1) (py_str holder) = Some ag \<and> ag_harness ag = ''codex'')"

lemma stop_execution_run:
  assumes "stop_execution h defs a args w = (Inr (Stopped_Turn r), w')"
  obtains task ag turn where "stop_subject h defs a args w task ag"
    and "stop_receipt (text_of (dget args ''record_id'')) (py_str (dget task ''agent_id'')) (ag_session ag) turn (snd w')"
    and "so_already r \<or> (\<exists>w1 w2. hs_stop h (ag_session ag) turn w1 = (Inr (so_stop r), w2))"
proof -
  let ?rid = "text_of (dget args ''record_id'')" and ?reason = "text_of (dget args ''reason'')"
  from assms obtain task w1 out where
    get: "hs_get h ?rid w = (Inr task, w1)"
    and out: "prepare_runtime_action defs a ''stop_execution'' task [(''reason'', JStr ?reason)]
       (truthy (dget args ''confirmed'')) = Inr out"
    and rest: "(case out of
          Runtime_Rejected e \<Rightarrow> of_result (Inr (Stop_Refused e))
        | Runtime_Prepared p \<Rightarrow>
          (case map_of task ''agent_id'' of
             None \<Rightarrow> of_result (Inl (KeyError ''agent_id''))
           | Some holder \<Rightarrow>
             bind_eff (read_eff (\<lambda>(s, d). find_agent d (py_str holder))) (\<lambda>row.
               case row of
                 None \<Rightarrow> refuse (runtime_action_error defs a ''stop_execution'' task ''business_rule'' ''executor_unavailable''
                            JNull False)
               | Some ag \<Rightarrow>
                   if ag_harness ag \<noteq> ''codex''
                   then refuse (runtime_action_error defs a ''stop_execution'' task ''runtime'' ''unsupported_harness'' JNull False)
                   else stop_turn_of h defs a ?rid task p (py_str holder) (ag_session ag) ?reason))) w1 = (Inr (Stopped_Turn r), w')"
    unfolding stop_execution_def Let_def by (auto simp: bind_Inr)
  from rest obtain p holder ag where prepared: "out = Runtime_Prepared p"
    and holder: "map_of task ''agent_id'' = Some holder" and ag: "find_agent (snd w1) (py_str holder) = Some ag"
    and codex: "ag_harness ag = ''codex''"
    and stop: "stop_turn_of h defs a ?rid task p (py_str holder) (ag_session ag) ?reason w1 = (Inr (Stopped_Turn r), w')"
    by (cases out; cases "map_of task ''agent_id''")
      (auto simp: refuse_def andthen_eq_Inr bind_Inr split_beta split: option.splits if_splits)
  note prep = out[unfolded prepared]
  have subject: "stop_subject h defs a args w task ag"
    unfolding stop_subject_def using get prep holder ag codex by blast
  from stop obtain ex turn where
    ex: "List.find (session_execution ?rid (py_str holder) (ag_session ag)) (db_executions (snd w1)) = Some ex"
    and turn: "ex_turn ex = Some turn"
    and cases: "ex_state ex = Stopped \<and> w' = w1 \<and> so_already r \<or>
      (\<exists>w2 stopped. hs_stop h (ag_session ag) turn w1 = (Inr stopped, w2) \<and>
        confirm_stop h defs a ?rid task p (py_str holder) (ag_session ag) turn ?reason stopped w2 = (Inr (Stopped_Turn r), w'))"
    unfolding stop_turn_of_def Let_def refuse_def
    by (auto simp: bind_Inr catch_Inr andthen_eq_Inr split: option.splits if_splits prod.splits)
  have "dget task ''agent_id'' = holder" using holder by (simp add: dget_def)
  moreover have "stop_receipt ?rid (py_str holder) (ag_session ag) turn (snd w') \<and>
      (so_already r \<or> (\<exists>w1 w2. hs_stop h (ag_session ag) turn w1 = (Inr (so_stop r), w2)))"
    using cases
  proof
    assume "ex_state ex = Stopped \<and> w' = w1 \<and> so_already r"
    then show ?thesis
      using find_SomeD[OF ex] turn by (auto simp: stop_receipt_def)
  next
    assume "\<exists>w2 stopped. hs_stop h (ag_session ag) turn w1 = (Inr stopped, w2) \<and>
        confirm_stop h defs a ?rid task p (py_str holder) (ag_session ag) turn ?reason stopped w2 = (Inr (Stopped_Turn r), w')"
    then show ?thesis using confirm_stop_run by metis
  qed
  ultimately show thesis using that subject by blast
qed

lemma runtime_facts_receipt:
  assumes "load (as_workflow_key a) = Inr w" and "status_in task (guarded_states w) = Inr True"
    and "dget task ''record_id'' = JStr rid" and "text_of (dget task ''agent_id'') = holder" and "holder \<noteq> []"
    and "find_agent (snd s) holder = Some ag" and "ag_harness ag = ''codex''"
    and "stop_receipt rid holder (ag_session ag) turn (snd s)"
  shows "runtime_facts h load a task s = (Inr [''execution_stopped''], s)"
proof -
  have "\<exists>ex \<in> set (db_executions (snd s)). dget task ''record_id'' = JStr (ex_record ex) \<and> ex_agent ex = holder \<and>
      ex_session ex = ag_session ag \<and> ex_state ex = Stopped \<and> ex_turn ex \<noteq> None"
    using assms(3,8) by (auto simp: stop_receipt_def session_execution_def)
  then show ?thesis
    using assms(1,2,4-7) unfolding runtime_facts_def Let_def by (cases s) (simp add: andthen_def)
qed


section \<open>Properties\<close>


text \<open>A recorded stop reaches the guards: after the tool reports a stopped turn of a card's executor, the
  facts told to the rules of the card, while the executor keeps its session, are that its execution is
  stopped.\<close>

theorem recorded_stop_reaches_guards:
  assumes "stop_execution h defs a args w = (Inr (Stopped_Turn r), w')" and "stop_subject h defs a args w task ag"
    and "dget task ''record_id'' = JStr (text_of (dget args ''record_id''))" and "truthy (dget task ''agent_id'')"
    and "find_agent (snd w') (text_of (dget task ''agent_id'')) = Some ag"
    and "load (as_workflow_key b) = Inr v" and "status_in task (guarded_states v) = Inr True"
    and "py_str (dget task ''agent_id'') \<noteq> []"
  shows "runtime_facts h load b task w' = (Inr [''execution_stopped''], w')"
proof -
  let ?rid = "text_of (dget args ''record_id'')"
  have holder: "text_of (dget task ''agent_id'') = py_str (dget task ''agent_id'')" using assms(4) by (simp add: text_of_def)
  obtain task' ag' turn where sub: "stop_subject h defs a args w task' ag'"
    and rec: "stop_receipt ?rid (py_str (dget task' ''agent_id'')) (ag_session ag') turn (snd w')"
    by (rule stop_execution_run[OF assms(1)])
  from sub assms(2) have same: "task' = task" "ag' = ag" by (auto simp: stop_subject_def)
  have codex: "ag_harness ag = ''codex''" using assms(2) by (auto simp: stop_subject_def)
  show ?thesis
    by (rule runtime_facts_receipt[where w = v and rid = ?rid and holder = "py_str (dget task ''agent_id'')" and ag = ag])
      (use assms(3,5-8) holder codex rec same in simp_all)
qed

text \<open>Activity takes a stop back: once a tool call of a card's executor succeeded in a working state, the
  guards of the card are no longer told that its execution is stopped, as long as the session is active.\<close>

theorem activity_takes_stop_back:
  assumes "sync_activity load a tool_name answer session turn t d = Inr d'" and "executions_ok d"
    and "tool_name \<noteq> ''stop_task_execution''" and "truthy (dget answer ''ok'')" and "dget answer ''task'' = JObj task"
    and "dget task ''record_id'' = JStr rid" and "rid \<noteq> []" and "load (as_workflow_key a) = Inr w"
    and "status_in task (execution_states w) = Inr True" and "dget task ''agent_id'' = JStr (as_agent_id a)"
    and "find_agent d (as_agent_id a) = Some ag" and "ag_session ag = session" and "session \<in> set (hs_active h (s, d'))"
    and "as_workflow_key b = as_workflow_key a" and "as_agent_id a \<noteq> []"
  shows "\<exists>facts s'. runtime_facts h load b task (s, d') = (Inr facts, s') \<and> ''execution_stopped'' \<notin> set facts"
proof -
  have d': "d' = put_execution rid (as_agent_id a) session turn t d"
    using assms(1,3-10) by (simp add: sync_activity_def Let_def andthen_def)
  have agents: "find_agent d' i = find_agent d i" for i
    by (simp add: d' put_execution_def find_agent_def update_executions_def)
  have active: "ex_state ex = Active" if "ex \<in> set (db_executions d')" "ex_record ex = rid" for ex
  proof (cases "find_execution d rid")
    case None
    then have "ex_record y \<noteq> rid" if "y \<in> set (db_executions d)" for y
      using that by (auto simp: find_execution_def find_eq_None)
    with that have "ex = \<lparr>ex_record = rid, ex_agent = as_agent_id a, ex_session = session, ex_turn = turn, ex_state = Active,
          ex_stop_status = None, ex_stopped_by = None, ex_reason = None, ex_updated = t, ex_stopped = None\<rparr>"
      unfolding d' put_execution_def None by auto
    then show ?thesis by (rule ssubst) simp
  next
    case (Some y)
    then have "db_executions d' = update_where (\<lambda>ex. ex_record ex = rid) (activate (as_agent_id a) session turn t) (db_executions d)"
      by (simp add: d' put_execution_def)
    with that(1) obtain x where "ex = (if ex_record x = rid then activate (as_agent_id a) session turn t x else x)"
      by (auto simp: set_update_where)
    then show ?thesis using that(2) by (simp add: activate_def split: if_splits)
  qed
  have hash: "hashable (dget task ''status'')" using assms(9) by (auto simp: status_in_def Let_def split: if_splits)
  have no_receipt: "\<not> (\<exists>ex \<in> set (db_executions d'). dget task ''record_id'' = JStr (ex_record ex) \<and> ex_agent ex = as_agent_id a \<and>
      ex_session ex = ag_session ag \<and> ex_state ex = Stopped \<and> ex_turn ex \<noteq> None)"
    using active assms(6) by auto
  have found: "find_agent d' (as_agent_id a) = Some ag" using agents assms(11) by simp
  have guarded: "andthen (load (as_workflow_key b)) (\<lambda>w. status_in task (guarded_states w)) =
      Inr (member_str (dget task ''status'') (guarded_states w))"
    using assms(8,14) hash by (simp add: status_in_def)
  have holder: "text_of (dget task ''agent_id'') = as_agent_id a" using assms(10) by simp
  show ?thesis
    unfolding runtime_facts_def Let_def guarded holder
    using assms(13,15) found no_receipt by (auto simp: assms(12))
qed

section \<open>Witnesses\<close>

definition working_card :: dict where
  "working_card = [(''record_id'', JStr ''r1''), (''status'', JStr ''in_progress''), (''role'', JStr ''executor''),
     (''agent_id'', JStr ''agent_m'')]"

text \<open>A harness that shows the card, stops every turn and knows no gone thread.\<close>

definition demo_harness :: "unit harness" where
  "demo_harness = \<lparr>hs_get = (\<lambda>rid s. (Inr working_card, s)),
     hs_stop = (\<lambda>session turn s. (Inr [(''status'', JStr ''interrupted'')], s)),
     hs_read = (\<lambda>session s. (Inr (), s)), hs_gone = (\<lambda>e. False), hs_active = (\<lambda>s. [''s1'']), hs_now = (\<lambda>s. 20)\<rparr>"

definition executor :: assignment where
  "executor = demo_agent ''agent_m'' ''executor''"

definition claim_result :: dict where
  "claim_result = [(''ok'', JBool True), (''task'', JObj working_card)]"

definition active_db :: db where
  "active_db =
     (case sync_activity (rt_load demo_runtime) executor ''claim_task'' claim_result ''s1'' (Some ''t1'') 9 registered_db of
        Inr d \<Rightarrow> d | Inl e \<Rightarrow> registered_db)"

definition stop_arguments :: dict where
  "stop_arguments = [(''record_id'', JStr ''r1''), (''reason'', JStr ''urgent''), (''confirmed'', JBool True)]"

definition owner :: assignment where
  "owner = demo_agent ''o1'' ''owner''"

definition stop_run :: "stop_answer result \<times> unit \<times> db" where
  "stop_run = stop_execution demo_harness demo_defs owner stop_arguments ((), active_db)"

definition stopped_db :: db where
  "stopped_db = snd (snd stop_run)"

lemma demo_activity:
  "sync_activity (rt_load demo_runtime) executor ''claim_task'' claim_result ''s1'' (Some ''t1'') 9 registered_db = Inr active_db"
  by code_simp

lemma demo_stops: "case fst stop_run of Inr (Stopped_Turn r) \<Rightarrow> \<not> so_already r \<and> so_stop r = [(''status'', JStr ''interrupted'')] | _ \<Rightarrow> False"
  by code_simp

lemma demo_stopped:
  obtains r where "stop_execution demo_harness demo_defs owner stop_arguments ((), active_db) = (Inr (Stopped_Turn r), ((), stopped_db))"
    and "\<not> so_already r"
  using demo_stops unfolding stop_run_def stopped_db_def
  by (cases "stop_execution demo_harness demo_defs owner stop_arguments ((), active_db)")
    (auto split: sum.splits stop_answer.splits)

lemma demo_subject:
  "stop_subject demo_harness demo_defs owner stop_arguments ((), active_db) working_card
     (the (find_agent active_db ''agent_m''))"
proof -
  have "case prepare_runtime_action demo_defs owner ''stop_execution'' working_card
      [(''reason'', JStr (text_of (dget stop_arguments ''reason'')))] (truthy (dget stop_arguments ''confirmed'')) of
      Inr (Runtime_Prepared p) \<Rightarrow> True | _ \<Rightarrow> False" by code_simp
  then have "\<exists>p. prepare_runtime_action defs owner ''stop_execution'' working_card
      [(''reason'', JStr (text_of (dget stop_arguments ''reason'')))] (truthy (dget stop_arguments ''confirmed'')) =
      Inr (Runtime_Prepared p)" if "defs = demo_defs" for defs
    using that by (auto split: sum.splits runtime_outcome.splits)
  moreover have "map_of working_card ''agent_id'' = Some (JStr ''agent_m'')" by code_simp
  moreover have "hs_get demo_harness (text_of (dget stop_arguments ''record_id'')) ((), active_db) = (Inr working_card, ((), active_db))"
    by (simp add: demo_harness_def)
  moreover have "(case find_agent active_db ''agent_m'' of None \<Rightarrow> False | Some ag \<Rightarrow> ag_harness ag = ''codex'')" by code_simp
  ultimately show ?thesis unfolding stop_subject_def by (force split: option.splits)
qed


theorem recorded_stop_reaches_guards_witness:
  "runtime_facts demo_harness (rt_load demo_runtime) owner working_card ((), stopped_db) =
     (Inr [''execution_stopped''], ((), stopped_db))"
proof -
  obtain r where r: "stop_execution demo_harness demo_defs owner stop_arguments ((), active_db) = (Inr (Stopped_Turn r), ((), stopped_db))"
    by (rule demo_stopped)
  have agent: "find_agent stopped_db ''agent_m'' = Some (the (find_agent active_db ''agent_m''))" by code_simp
  have w: "rt_load demo_runtime (as_workflow_key owner) = Inr demo_workflow" by code_simp
  have g: "status_in working_card (guarded_states demo_workflow) = Inr True" by code_simp
  show ?thesis
    by (rule recorded_stop_reaches_guards[where v = demo_workflow and args = stop_arguments and a = owner, OF r demo_subject])
      (use w g agent in \<open>simp_all add: working_card_def stop_arguments_def dget_def\<close>)
qed

theorem activity_takes_stop_back_witness:
  "\<exists>facts s'. runtime_facts demo_harness (rt_load demo_runtime) owner working_card ((), active_db) = (Inr facts, s') \<and>
     ''execution_stopped'' \<notin> set facts"
proof -
  have w: "rt_load demo_runtime (as_workflow_key executor) = Inr demo_workflow" by code_simp
  have g: "status_in working_card (execution_states demo_workflow) = Inr True" by code_simp
  have ok: "executions_ok registered_db" by code_simp
  have agent: "find_agent registered_db (as_agent_id executor) = Some (the (find_agent registered_db ''agent_m''))" by code_simp
  have session: "ag_session (the (find_agent registered_db ''agent_m'')) = ''s1''" by code_simp
  show ?thesis
    by (rule activity_takes_stop_back[where rid = "''r1''", OF demo_activity ok _ _ _ _ _ w g _ agent session])
      (simp_all add: claim_result_def working_card_def dget_def executor_def demo_agent_def owner_def demo_harness_def)
qed

end
