(* ===== verification/Delivery_Worker.thy ===== *)
theory Delivery_Worker
  imports Delivery_System Task_Executions
begin

text \<open>
  The first half of \<^verbatim>\<open>core/delivery_runtime.py\<close>: waking parked deliveries, claiming and running one
  claimed delivery in its harness session. The world is what is outside the program, the database, the
  sessions that are busy and the notes of the dispatch log. The harness is a record of effects; an
  outside call may change the database, as other threads and processes do meanwhile. A turn is run by a
  callback-taking effect, so the harness decides when, how often and with which turn id it reports.
\<close>

record dispatch_note =
  dn_result :: string
  dn_delivery :: "nat option"
  dn_turn :: "string option"

text \<open>
  \<open>sv_started\<close> and \<open>sv_turn\<close> are the variables of the worker that its callbacks assign; the last two fields
  say which of the recoveries that run once per workspace have run.
\<close>

record 's service =
  sv_out :: 's
  sv_db :: db
  sv_active :: "string list"
  sv_log :: "dispatch_note list"
  sv_started :: bool
  sv_turn :: "string option"
  sv_failed_recovered :: bool
  sv_queue_recovered :: bool

type_synonym ('s, 'a) work = "('s service, 'a) eff"

record 's codex =
  cd_sha :: "string \<Rightarrow> string"
  cd_now :: "'s service \<Rightarrow> int"
  cd_stopping :: "'s service \<Rightarrow> bool"
  cd_reserved :: "'s service \<Rightarrow> string list"
  cd_get_task :: "string \<Rightarrow> ('s, dict) work"
  cd_mcp_ready :: "('s, json) work"
  cd_run_turn :: "string \<Rightarrow> string \<Rightarrow> string \<Rightarrow> (string \<Rightarrow> ('s, unit) work) \<Rightarrow> (string \<Rightarrow> ('s, unit) work) \<Rightarrow>
    ('s, dict option) work"
  cd_read_thread :: "string \<Rightarrow> ('s, dict) work"
  cd_stop_turn :: "string \<Rightarrow> string \<Rightarrow> ('s, unit) work"
  cd_completed :: "string \<Rightarrow> string \<Rightarrow> ('s, bool) work"
  cd_begun :: "string \<Rightarrow> string \<Rightarrow> ('s, bool) work"
  cd_has_owner :: "string \<Rightarrow> ('s, bool) work"
  cd_message_turn :: "string \<Rightarrow> string \<Rightarrow> ('s, string option) work"
  cd_cancel_message :: "string \<Rightarrow> string \<Rightarrow> ('s, bool) work"
  cd_message_queued :: "string \<Rightarrow> string \<Rightarrow> ('s, bool) work"
  cd_find_turn :: "dict \<Rightarrow> string \<Rightarrow> dict option"
  cd_find_by_client :: "dict \<Rightarrow> string \<Rightarrow> dict option"
  cd_failures :: "dict \<Rightarrow> string list"
  cd_terminal :: "py_error \<Rightarrow> bool"

section \<open>Transactions and notes\<close>

text \<open>One transaction: it reads the clock, and an exception leaves the database as it was.\<close>

definition transact :: "'s codex \<Rightarrow> (int \<Rightarrow> db \<Rightarrow> ('a \<times> db) result) \<Rightarrow> ('s, 'a) work" where
  "transact h f = (\<lambda>s. case f (cd_now h s) (sv_db s) of
     Inl e \<Rightarrow> (Inl e, s) | Inr (v, d) \<Rightarrow> (Inr v, s\<lparr>sv_db := d\<rparr>))"

definition update_db :: "'s codex \<Rightarrow> (int \<Rightarrow> db \<Rightarrow> db) \<Rightarrow> ('s, unit) work" where
  "update_db h f = transact h (\<lambda>t d. Inr ((), f t d))"

definition ask_db :: "(db \<Rightarrow> 'a result) \<Rightarrow> ('s, 'a) work" where
  "ask_db f = (\<lambda>s. (f (sv_db s), s))"

definition log_dispatch :: "string \<Rightarrow> nat \<Rightarrow> string option \<Rightarrow> ('s, unit) work" where
  "log_dispatch outcome delivery_id turn = write_eff (\<lambda>s. s\<lparr>sv_log := sv_log s @
     [\<lparr>dn_result = outcome, dn_delivery = Some delivery_id, dn_turn = turn\<rparr>]\<rparr>)"

section \<open>Statuses and errors\<close>

definition MAX_ACCEPTED_TURN_ATTEMPTS :: nat where "MAX_ACCEPTED_TURN_ATTEMPTS = 3"

text \<open>\<^verbatim>\<open>_status_type\<close>\<close>

definition status_type :: "json \<Rightarrow> string" where
  "status_type v = (case v of JObj d \<Rightarrow> py_str (dget d ''type'') | _ \<Rightarrow> text_of v)"

definition COMPLETED_STATUSES :: "string list" where
  "COMPLETED_STATUSES = [''completed'', ''success'']"

definition INTERRUPTED_STATUSES :: "string list" where
  "INTERRUPTED_STATUSES = [''cancelled'', ''canceled'', ''interrupted'']"

definition TERMINAL_STATUSES :: "string list" where
  "TERMINAL_STATUSES = COMPLETED_STATUSES @ ''failed'' # INTERRUPTED_STATUSES"

fun is_class :: "error_class list \<Rightarrow> py_error \<Rightarrow> bool" where
  "is_class cs (Raised c m) = (c \<in> set cs)"
| "is_class cs _ = False"

text \<open>\<^verbatim>\<open>except ValueError\<close>: the class and its subclasses.\<close>

fun is_value_error :: "py_error \<Rightarrow> bool" where
  "is_value_error (ValueError m) = True"
| "is_value_error (GitFactError m) = True"
| "is_value_error (LarkRequestError m code scopes link) = True"
| "is_value_error (Raised c m) = (c \<in> {No_Owner, Owner_Unconfirmed, Acceptance_Unknown, Permission_Required})"
| "is_value_error _ = False"

text \<open>\<^verbatim>\<open>_background_mcp_status()["authorized"]\<close>\<close>

definition authorized :: "'s codex \<Rightarrow> ('s, bool) work" where
  "authorized h = bind_eff (cd_mcp_ready h) (\<lambda>v. of_result (Inr (case v of JObj d \<Rightarrow> truthy (dget d ''authorized'') | _ \<Rightarrow> truthy v)))"

section \<open>Shared steps\<close>

definition finish_claimed_turn :: "'s codex \<Rightarrow> nat \<Rightarrow> string \<Rightarrow> string \<Rightarrow> ('s, bool) work" where
  "finish_claimed_turn h delivery_id turn_status reason =
     bind_eff (update_db h (finish_task_delivery delivery_id
         (Some [(''ok'', JBool False), (''status'', JStr turn_status)]) (Some reason) True False))
       (\<lambda>_. of_result (Inr True))"

definition cancel_reconciled :: "'s codex \<Rightarrow> delivery \<Rightarrow> string \<Rightarrow> string \<Rightarrow> bool \<Rightarrow> ('s, bool) work" where
  "cancel_reconciled h x reason turn_status allow_stop =
     bind_eff (transact h (\<lambda>t d. Inr (cancel_reconciled_task_delivery (dl_id x) reason (dl_status x) (nonempty (dl_turn x))
         (dl_turn_status x) turn_status allow_stop t d))) (\<lambda>canceled.
       if canceled then of_result (Inr True)
       else bind_eff (update_db h (defer_task_delivery_reconciliation (dl_id x)
               (Some ''TeamFlow delivery changed while cancellation was being reconciled'')))
            (\<lambda>_. of_result (Inr False)))"

definition has_active_execution :: "runtime \<Rightarrow> event_context \<Rightarrow> nat \<Rightarrow> string option \<Rightarrow> ('s, bool) work" where
  "has_active_execution R c delivery_id turn = ask_db (task_delivery_has_active_execution R c delivery_id turn)"

text \<open>\<^verbatim>\<open>bool(turn and task_delivery_has_active_execution(...))\<close>\<close>

definition runs_active_execution :: "runtime \<Rightarrow> event_context \<Rightarrow> nat \<Rightarrow> string option \<Rightarrow> ('s, bool) work" where
  "runs_active_execution R c delivery_id turn =
     (case nonempty turn of None \<Rightarrow> of_result (Inr False) | Some u \<Rightarrow> has_active_execution R c delivery_id (Some u))"

definition is_current :: "runtime \<Rightarrow> event_context \<Rightarrow> nat \<Rightarrow> ('s, bool) work" where
  "is_current R c delivery_id = ask_db (task_delivery_is_current R c delivery_id)"

definition retry_available :: "nat \<Rightarrow> ('s, bool) work" where
  "retry_available delivery_id =
     ask_db (\<lambda>d. Inr (task_delivery_turn_count delivery_id d < MAX_ACCEPTED_TURN_ATTEMPTS))"

text \<open>A conjunction evaluates its second part only when the first is true.\<close>

definition and_then_ask :: "bool \<Rightarrow> ('s, bool) work \<Rightarrow> ('s, bool) work" where
  "and_then_ask b m = (if b then m else of_result (Inr False))"

definition interrupted_retry :: "runtime \<Rightarrow> event_context \<Rightarrow> nat \<Rightarrow> string \<Rightarrow> ('s, bool) work" where
  "interrupted_retry R c delivery_id status =
     bind_eff (and_then_ask (status \<in> set INTERRUPTED_STATUSES) (retry_available delivery_id)) (\<lambda>b.
       and_then_ask b (is_current R c delivery_id))"

section \<open>Running a claimed delivery\<close>

definition claim_id :: "claimed_delivery \<Rightarrow> nat" where
  "claim_id k = dl_id (cr_delivery (cl_row k))"

definition continued_turn :: "claimed_delivery \<Rightarrow> string option" where
  "continued_turn k = nonempty (cl_continuation k)"

definition save_turn :: "'s codex \<Rightarrow> claimed_delivery \<Rightarrow> string \<Rightarrow> ('s, unit) work" where
  "save_turn h k turn =
     bind_eff (transact h (mark_task_delivery_turn_started (claim_id k) turn (continued_turn k) (continued_turn k \<noteq> None))) (\<lambda>_.
     bind_eff (write_eff (\<lambda>s. s\<lparr>sv_started := True, sv_turn := Some turn\<rparr>)) (\<lambda>_.
     log_dispatch ''started'' (claim_id k) (Some turn)))"

definition save_queue :: "'s codex \<Rightarrow> claimed_delivery \<Rightarrow> string \<Rightarrow> ('s, unit) work" where
  "save_queue h k queue_id =
     bind_eff (transact h (\<lambda>t d. andthen (mark_task_delivery_queued (claim_id k) (continued_turn k) t d) (\<lambda>d'. Inr ((), d')))) (\<lambda>_.
     log_dispatch ''queued'' (claim_id k) None)"

definition worker_prompt :: "runtime \<Rightarrow> event_context \<Rightarrow> claimed_delivery \<Rightarrow> dict \<Rightarrow> string result" where
  "worker_prompt R c k task =
     (let r = cl_row k; a = cr_agent r; label = (if ag_role_name a = [] then ag_role a else ag_role_name a) in
      if continued_turn k \<noteq> None
      then Inr (render_task_continuation_prompt R c (cx_workflow_key c) label task)
      else render_task_prompt R c (ev_type (cr_event r)) (dl_event (cr_delivery r)) (cx_workflow_key c) label task)"

text \<open>
  The part of \<^verbatim>\<open>execute\<close> before the turn: \<open>None\<close> when the delivery was canceled, otherwise the
  prompt, with the delivery marked as being queued.
\<close>

definition prepare_turn :: "'s codex \<Rightarrow> runtime \<Rightarrow> event_context \<Rightarrow> claimed_delivery \<Rightarrow> ('s, string option) work" where
  "prepare_turn h R c k =
     (let i = claim_id k; x = cr_delivery (cl_row k); rid = ev_record (cr_event (cl_row k));
          role = ag_role (cr_agent (cl_row k)); continuation = continued_turn k in
      bind_eff (log_dispatch ''preparing'' i None) (\<lambda>_.
      if dl_harness x \<noteq> ''codex''
      then of_result (Inl (ValueError (''unsupported task delivery harness: '' @ dl_harness x)))
      else bind_eff (cd_get_task h rid) (\<lambda>task.
      bind_eff (transact h (\<lambda>t. save_task_snapshot (cd_sha h) c t rid (Some task)
                   (Some (''teamflow-live-read:'' @ nat_digits i)) None)) (\<lambda>inserted.
      bind_eff (if inserted = [] then of_result (Inr ())
                else transact h (\<lambda>t d. andthen (prepare_task_deliveries R c t d) (\<lambda>p. Inr ((), pl_db p)))) (\<lambda>_.
      bind_eff (runs_active_execution R c i continuation) (\<lambda>runs.
      if continuation \<noteq> None \<and> \<not> runs
      then bind_eff (cancel_reconciled h x ''the execution of the claimed task changed'' ''missing'' False) (\<lambda>canceled.
        if canceled then of_result (Inr None)
        else of_result (Inl (Raised Acceptance_Unknown
               ''TeamFlow delivery changed while its continuation was being reconciled'')))
      else bind_eff (and_then_ask (continuation = None) (bind_eff (is_current R c i) (\<lambda>b. of_result (Inr (\<not> b))))) (\<lambda>stale.
      if stale
      then bind_eff (update_db h (cancel_task_delivery i ''the card has a newer state event'')) (\<lambda>_. of_result (Inr None))
      else bind_eff (of_result (andthen (rt_load R (cx_workflow_key c)) (\<lambda>w. Inr (task_dispatch_target w task)))) (\<lambda>target.
      if continuation = None \<and> target \<noteq> Some role
      then bind_eff (update_db h (cancel_task_delivery i ''the card is no longer dispatched to this role'')) (\<lambda>_.
             of_result (Inr None))
      else bind_eff (authorized h) (\<lambda>allowed.
      if \<not> allowed then of_result (Inl (Raised Permission_Required ''background MCP permission''))
      else bind_eff (of_result (worker_prompt R c k task)) (\<lambda>prompt.
      bind_eff (update_db h (\<lambda>t. refresh_task_delivery_prompt i prompt)) (\<lambda>_.
      bind_eff (transact h (\<lambda>t d. andthen (mark_task_delivery_queueing i continuation t d) (\<lambda>d'. Inr ((), d')))) (\<lambda>_.
      of_result (Inr (Some prompt))))))))))))))"

text \<open>What the worker knows when its \<^verbatim>\<open>finally\<close> begins: the flags of \<^verbatim>\<open>execute\<close>.\<close>

record attempt =
  at_result :: "dict option"
  at_error :: "py_error option"
  at_retry :: bool
  at_unknown :: bool
  at_permission :: bool
  at_session :: bool
  at_claimed_ended :: bool
  at_reconciling :: bool
  at_canceled :: bool

definition no_attempt :: attempt where
  "no_attempt = \<lparr>at_result = None, at_error = None, at_retry = False, at_unknown = False, at_permission = False,
     at_session = False, at_claimed_ended = False, at_reconciling = False, at_canceled = False\<rparr>"

definition result_error :: "dict \<Rightarrow> string \<Rightarrow> string" where
  "result_error r status = (let v = dget r ''error'' in if truthy v then py_str v else status)"

text \<open>After \<^verbatim>\<open>run_turn\<close> returned.\<close>

definition classify_turn :: "'s codex \<Rightarrow> runtime \<Rightarrow> event_context \<Rightarrow> claimed_delivery \<Rightarrow> dict option \<Rightarrow> ('s, attempt) work" where
  "classify_turn h R c k answer =
     (case answer of
        None \<Rightarrow> of_result (Inl (ValueError ''Codex delivery returned an invalid result''))
      | Some r \<Rightarrow>
        let i = claim_id k; session = dl_session (cr_delivery (cl_row k)); status = status_type (dget r ''status'');
            done_with = no_attempt\<lparr>at_result := Some r\<rparr> in
        bind_eff (read_eff (\<lambda>s. nonempty (sv_turn s))) (\<lambda>started.
        bind_eff (runs_active_execution R c i started) (\<lambda>active.
        bind_eff (case started of
            None \<Rightarrow> of_result (Inr False)
          | Some u \<Rightarrow> and_then_ask (status \<in> set INTERRUPTED_STATUSES)
              (bind_eff (cd_completed h session u) (\<lambda>b. of_result (Inr (\<not> b))))) (\<lambda>reconciling.
        if status = ''queued''
        then of_result (Inr (done_with\<lparr>at_unknown := True, at_reconciling := reconciling,
               at_error := Some (Raised Acceptance_Unknown
                 ''Codex accepted the queued message; awaiting turn materialization'')\<rparr>))
        else if active \<and> status \<in> set TERMINAL_STATUSES
        then of_result (Inr (done_with\<lparr>at_claimed_ended := \<not> reconciling, at_reconciling := reconciling,
               at_error := Some (ValueError (result_error r status))\<rparr>))
        else if reconciling
        then of_result (Inr (done_with\<lparr>at_reconciling := True, at_error := Some (ValueError (result_error r status))\<rparr>))
        else if \<not> truthy (dget r ''ok'')
        then bind_eff (interrupted_retry R c i status) (\<lambda>b. of_result (Inr (done_with\<lparr>at_retry := b\<rparr>)))
        else of_result (Inr done_with)))))"

text \<open>The \<^verbatim>\<open>except\<close> clause.\<close>

definition failed_turn :: "'s codex \<Rightarrow> claimed_delivery \<Rightarrow> dict option \<Rightarrow> py_error \<Rightarrow> ('s, attempt) work" where
  "failed_turn h k answer caught =
     bind_eff (read_eff (\<lambda>s. (sv_started s, cd_stopping h s))) (\<lambda>(started, stopping).
       let e = (if started \<and> stopping
                then Raised Interrupted_Call ''TeamFlow daemon stopped while the Codex turn was running'' else caught);
           permission = is_class [Permission_Required] e; unknown = is_class [Acceptance_Unknown] e in
       of_result (Inr (no_attempt\<lparr>at_result := answer, at_error := Some e, at_permission := permission,
         at_session := is_class [No_Owner] e, at_unknown := unknown,
         at_retry := \<not> permission \<and> \<not> started \<and> \<not> unknown \<and> dl_harness (cr_delivery (cl_row k)) = ''codex'' \<and>
           \<not> cd_terminal h e\<rparr>)))"

definition attempt_turn :: "'s codex \<Rightarrow> runtime \<Rightarrow> event_context \<Rightarrow> claimed_delivery \<Rightarrow> ('s, attempt) work" where
  "attempt_turn h R c k =
     catch_eff
       (bind_eff (prepare_turn h R c k) (\<lambda>prompt.
          case prompt of
            None \<Rightarrow> of_result (Inr (no_attempt\<lparr>at_canceled := True\<rparr>))
          | Some p \<Rightarrow>
              bind_eff (cd_run_turn h (dl_session (cr_delivery (cl_row k))) p (cl_client k) (save_queue h k) (save_turn h k))
                (\<lambda>answer. catch_eff (classify_turn h R c k answer) (failed_turn h k answer))))
       (failed_turn h k None)"

text \<open>The \<^verbatim>\<open>finally\<close> clause.\<close>

definition reconciles_later :: "attempt \<Rightarrow> bool \<Rightarrow> bool" where
  "reconciles_later at started \<longleftrightarrow>
     at_reconciling at \<or> at_error at \<noteq> None \<and> (started \<or> at_unknown at) \<and> \<not> at_claimed_ended at"

definition attempt_reason :: "attempt \<Rightarrow> string" where
  "attempt_reason at = (case at_error at of None \<Rightarrow> ''None'' | Some e \<Rightarrow> error_text e)"

definition outcome_note :: "attempt \<Rightarrow> bool \<Rightarrow> string" where
  "outcome_note at started =
     (if at_canceled at then ''not-required''
      else if at_permission at \<or> at_session at then ''waiting''
      else if reconciles_later at started then ''reconciling''
      else if at_claimed_ended at then ''retry''
      else if at_retry at then ''retry''
      else if truthy (dget (card_content (at_result at)) ''ok'') then ''succeeded'' else ''failed'')"

definition settle_attempt :: "'s codex \<Rightarrow> claimed_delivery \<Rightarrow> attempt \<Rightarrow> ('s, unit) work" where
  "settle_attempt h k at =
     (let i = claim_id k; continuation = continued_turn k; reason = map_option error_text (at_error at) in
      bind_eff (read_eff sv_started) (\<lambda>started.
      bind_eff (if \<not> started \<and> \<not> at_unknown at
                then update_db h (\<lambda>t. clear_task_delivery_queueing i continuation) else of_result (Inr ())) (\<lambda>_.
      bind_eff
        (if at_canceled at then of_result (Inr ())
         else if at_permission at
         then update_db h (\<lambda>t. mark_task_delivery_waiting_for_permission i (attempt_reason at) (continuation \<noteq> None))
         else if at_session at
         then update_db h (\<lambda>t. mark_task_delivery_waiting_for_session i (attempt_reason at) (continuation \<noteq> None))
         else if reconciles_later at started then update_db h (defer_task_delivery_reconciliation i reason)
         else if at_claimed_ended at
         then bind_eff (finish_claimed_turn h i
                (let v = status_type (dget (card_content (at_result at)) ''status'') in if v = [] then ''interrupted'' else v)
                (attempt_reason at)) (\<lambda>_. of_result (Inr ()))
         else update_db h (finish_task_delivery i (at_result at) reason (at_retry at) False)) (\<lambda>_.
      bind_eff (read_eff (\<lambda>s. let v = dget (card_content (at_result at)) ''turn_id'' in
                  if truthy v then Some (py_str v) else sv_turn s)) (\<lambda>turn.
      bind_eff (log_dispatch (outcome_note at started) i turn) (\<lambda>_.
      write_eff (\<lambda>s. s\<lparr>sv_active := filter (\<lambda>a. a \<noteq> dl_session (cr_delivery (cl_row k))) (sv_active s)\<rparr>)))))))"

definition execute :: "'s codex \<Rightarrow> runtime \<Rightarrow> event_context \<Rightarrow> claimed_delivery \<Rightarrow> ('s, unit) work" where
  "execute h R c k =
     bind_eff (write_eff (\<lambda>s. s\<lparr>sv_started := False, sv_turn := None\<rparr>)) (\<lambda>_.
     bind_eff (attempt_turn h R c k) (settle_attempt h k))"

section \<open>Waking and claiming\<close>

text \<open>\<^verbatim>\<open>schedule\<close>: the claimed deliveries, each of which a new thread executes.\<close>

definition schedule :: "'s codex \<Rightarrow> runtime \<Rightarrow> event_context \<Rightarrow> ('s, claimed_delivery list) work" where
  "schedule h R c =
     bind_eff (read_eff (\<lambda>s. sv_active s @ cd_reserved h s)) (\<lambda>reserved.
     bind_eff (transact h (\<lambda>t. claim_task_deliveries R c t 100 reserved)) (\<lambda>claims.
     bind_eff (write_eff (\<lambda>s. s\<lparr>sv_active := sv_active s @ map (\<lambda>k. dl_session (cr_delivery (cl_row k))) claims\<rparr>)) (\<lambda>_.
     of_result (Inr claims))))"

definition resume_permission_waiting :: "'s codex \<Rightarrow> ('s, unit) work" where
  "resume_permission_waiting h =
     bind_eff (ask_db (\<lambda>d. Inr (has_task_deliveries_waiting_for_permission d))) (\<lambda>waits.
     bind_eff (and_then_ask waits (authorized h)) (\<lambda>allowed.
       if allowed then update_db h (\<lambda>t d. snd (resume_task_deliveries_waiting_for_permission d)) else of_result (Inr ())))"

definition recover_waiting_sessions_for_queue :: "'s codex \<Rightarrow> ('s, unit) work" where
  "recover_waiting_sessions_for_queue h =
     bind_eff (read_eff sv_queue_recovered) (\<lambda>recovered.
       if recovered then of_result (Inr ())
       else bind_eff (ask_db (\<lambda>d. Inr (task_delivery_sessions_waiting_for_owner d))) (\<lambda>sessions.
            bind_eff (for_each (\<lambda>session. update_db h (\<lambda>t. resume_task_deliveries_waiting_for_session session)) sessions)
              (\<lambda>_. write_eff (\<lambda>s. s\<lparr>sv_queue_recovered := True\<rparr>))))"

text \<open>\<^verbatim>\<open>_probe_session_owner\<close>: whether the owner was there; every exception counts as no.\<close>

definition probe_session_owner :: "'s codex \<Rightarrow> string \<Rightarrow> ('s, bool) work" where
  "probe_session_owner h session =
     catch_eff
       (bind_eff (cd_has_owner h session) (\<lambda>available.
          if available
          then bind_eff (update_db h (\<lambda>t. resume_task_deliveries_waiting_for_session session)) (\<lambda>_. of_result (Inr True))
          else of_result (Inr False)))
       (\<lambda>e. of_result (Inr False))"

end
