(* ===== verification/Turn_Reconciliation.thy ===== *)
theory Turn_Reconciliation
  imports Delivery_Worker
begin

text \<open>
  The second half of \<^verbatim>\<open>core/delivery_runtime.py\<close>: settling the deliveries whose turn is not in the
  hands of a worker, from what the harness shows of it. A reconciliation looks at one due delivery and
  ends it, retries it, cancels it, or defers the look.
\<close>

text \<open>\<^verbatim>\<open>_UNCONFIRMED_TURN_LEASE\<close>: ten minutes, in microseconds; a row that never started has no lease.\<close>

definition UNCONFIRMED_TURN_LEASE :: int where "UNCONFIRMED_TURN_LEASE = seconds 600"

definition reconciliation_lease_expired :: "int \<Rightarrow> delivery \<Rightarrow> bool" where
  "reconciliation_lease_expired t x =
     (case dl_started x of None \<Rightarrow> True | Some began \<Rightarrow> UNCONFIRMED_TURN_LEASE \<le> t - began)"

definition turn_stop_error_means_inactive :: "py_error \<Rightarrow> bool" where
  "turn_stop_error_means_inactive e \<longleftrightarrow> list_ex (contains_text (map lower_char (error_text e)))
     [''is not visible in session'', ''session has no active turn'', ''not teamflow task turn'']"

definition queue_pending :: "delivery \<Rightarrow> bool" where
  "queue_pending x \<longleftrightarrow> dl_turn_status x \<in> {Some ''queueing'', Some ''queued''}"

definition client_of :: "delivery \<Rightarrow> string" where
  "client_of x = (case dl_client x of None \<Rightarrow> [] | Some m \<Rightarrow> m)"

definition turn_of :: "delivery \<Rightarrow> string" where
  "turn_of x = (case dl_turn x of None \<Rightarrow> [] | Some u \<Rightarrow> u)"

definition defer_with :: "'s codex \<Rightarrow> nat \<Rightarrow> string option \<Rightarrow> ('s, unit) work" where
  "defer_with h delivery_id reason = update_db h (defer_task_delivery_reconciliation delivery_id reason)"

text \<open>An outside question whose exception counts as the default answer.\<close>

definition or_else :: "'a \<Rightarrow> ('s, 'a) work \<Rightarrow> ('s, 'a) work" where
  "or_else v m = catch_eff m (\<lambda>e. of_result (Inr v))"

definition attempt_work :: "('s, 'a) work \<Rightarrow> ('s, 'a result) work" where
  "attempt_work m = catch_eff (bind_eff m (\<lambda>v. of_result (Inr (Inr v)))) (\<lambda>e. of_result (Inr (Inl e)))"

definition finish_acknowledged_turn :: "'s codex \<Rightarrow> delivery \<Rightarrow> string \<Rightarrow> string \<Rightarrow> ('s, unit) work" where
  "finish_acknowledged_turn h x turn status =
     bind_eff (update_db h (finish_task_delivery (dl_id x) (Some [(''ok'', JBool True), (''status'', JStr status)]) None False False))
       (\<lambda>_. log_dispatch ''recovered'' (dl_id x) (Some turn))"

definition turn_acknowledged :: "nat \<Rightarrow> string \<Rightarrow> ('s, bool) work" where
  "turn_acknowledged delivery_id turn =
     and_then_ask (turn \<noteq> []) (ask_db (\<lambda>d. Inr (task_delivery_turn_acknowledged delivery_id turn d)))"

section \<open>A turn that cannot be confirmed\<close>

text \<open>A message that is queued, or may be, and is still wanted.\<close>

definition await_queued_message :: "'s codex \<Rightarrow> delivery \<Rightarrow> string \<Rightarrow> ('s, unit) work" where
  "await_queued_message h x reason =
     (let i = dl_id x in
      bind_eff (read_eff (\<lambda>s. dl_turn_status x = Some ''queueing'' \<and> reconciliation_lease_expired (cd_now h s) x)) (\<lambda>expired.
      if expired
      then bind_eff (attempt_work (cd_message_queued h (dl_session x) (client_of x))) (\<lambda>answer.
        case answer of
          Inl e \<Rightarrow> defer_with h i (Some (error_text e))
        | Inr True \<Rightarrow>
            bind_eff (transact h (\<lambda>t d. andthen (mark_task_delivery_queued i (nonempty (dl_turn x)) t d) (\<lambda>d'. Inr ((), d'))))
              (\<lambda>_. defer_with h i (Some reason))
        | Inr False \<Rightarrow> defer_with h i (Some (reason @
            ''; no materialization evidence is available, so TeamFlow will not duplicate the uncertain turn'')))
      else defer_with h i (Some reason)))"

text \<open>A message that is no longer wanted: cancel the delivery first, then take the message or its turn back.\<close>

definition drop_queued_message :: "'s codex \<Rightarrow> delivery \<Rightarrow> string \<Rightarrow> ('s, unit) work" where
  "drop_queued_message h x reason =
     (let i = dl_id x; session = dl_session x; client = client_of x;
          find = or_else [] (bind_eff (cd_message_turn h session client) (\<lambda>u.
                   of_result (Inr (case u of None \<Rightarrow> [] | Some v \<Rightarrow> v)))) in
      bind_eff find (\<lambda>first.
      bind_eff (cancel_reconciled h x (reason @ ''; task no longer needs this delivery'') ''missing'' False) (\<lambda>canceled.
      if \<not> canceled then of_result (Inr ())
      else bind_eff (or_else False (cd_cancel_message h session client)) (\<lambda>removed.
      bind_eff (if \<not> removed \<and> first = [] then find else of_result (Inr first)) (\<lambda>turn.
      bind_eff (if \<not> removed \<and> turn \<noteq> []
                then bind_eff (attempt_work (cd_stop_turn h session turn)) (\<lambda>_. of_result (Inr ()))
                else of_result (Inr ())) (\<lambda>_.
      log_dispatch ''not-required'' i (Some turn)))))))"

definition drop_stale_turn :: "'s codex \<Rightarrow> delivery \<Rightarrow> string \<Rightarrow> ('s, unit) work" where
  "drop_stale_turn h x reason =
     bind_eff (and_then_ask (turn_of x \<noteq> []) (cd_completed h (dl_session x) (turn_of x))) (\<lambda>ended.
     bind_eff (cancel_reconciled h x (reason @ ''; task no longer needs this delivery'') ''missing'' ended) (\<lambda>canceled.
     if canceled then log_dispatch ''not-required'' (dl_id x) (Some (turn_of x)) else of_result (Inr ())))"

text \<open>No sign of the turn: it is lost when nothing ever named it and its lease has expired.\<close>

definition retry_lost_turn :: "'s codex \<Rightarrow> delivery \<Rightarrow> string \<Rightarrow> string \<Rightarrow> ('s, unit) work" where
  "retry_lost_turn h x thread_status reason =
     (let i = dl_id x; turn = turn_of x in
      bind_eff (read_eff (\<lambda>s. thread_status = ''active'' \<or> \<not> reconciliation_lease_expired (cd_now h s) x)) (\<lambda>leased.
      if leased then defer_with h i (Some reason)
      else if turn \<noteq> []
      then defer_with h i (Some (reason @ ''; Codex returned turn '' @ turn @
             '', so TeamFlow will not duplicate it without terminal evidence''))
      else bind_eff (update_db h (finish_task_delivery i (Some [(''ok'', JBool False), (''status'', JStr ''unconfirmed'')])
             (Some (reason @ ''; acceptance remained unconfirmed for 10 minutes'')) True True)) (\<lambda>_.
           log_dispatch ''retry'' i (dl_turn x))))"

text \<open>A turn that is still wanted and works on no card: acknowledged, still running, uncertain, or lost.\<close>

definition settle_unclaimed_turn :: "'s codex \<Rightarrow> delivery \<Rightarrow> string \<Rightarrow> string \<Rightarrow> ('s, unit) work" where
  "settle_unclaimed_turn h x thread_status reason =
     (let turn = turn_of x; session = dl_session x in
      bind_eff (and_then_ask (turn \<noteq> []) (cd_completed h session turn)) (\<lambda>ended.
      bind_eff (turn_acknowledged (dl_id x) turn) (\<lambda>acknowledged.
      if acknowledged \<and> ended then finish_acknowledged_turn h x turn ''completed''
      else bind_eff (and_then_ask (turn \<noteq> [] \<and> \<not> ended)
             (if acknowledged then of_result (Inr True) else cd_begun h session turn)) (\<lambda>running.
      if running then defer_with h (dl_id x) (Some reason)
      else retry_lost_turn h x thread_status reason))))"

definition reconcile_unconfirmed_turn ::
  "'s codex \<Rightarrow> runtime \<Rightarrow> event_context \<Rightarrow> nat \<Rightarrow> string \<Rightarrow> string \<Rightarrow> ('s, unit) work" where
  "reconcile_unconfirmed_turn h R c delivery_id thread_status reason =
     bind_eff (ask_db (\<lambda>d. Inr (processing_task_delivery delivery_id d))) (\<lambda>row.
       case row of
         None \<Rightarrow> of_result (Inr ())
       | Some r \<Rightarrow>
         let x = dr_delivery r; i = dl_id x; turn = turn_of x in
         bind_eff (is_current R c i) (\<lambda>current.
         bind_eff (if \<not> current \<and> queue_pending x then runs_active_execution R c i (dl_turn x)
                   else of_result (Inr current)) (\<lambda>wanted.
         if queue_pending x \<and> wanted then await_queued_message h x reason
         else bind_eff (if queue_pending x then of_result (Inr False) else runs_active_execution R c i (dl_turn x)) (\<lambda>active.
         if active
         then bind_eff (cd_completed h (dl_session x) turn) (\<lambda>ended.
           if ended
           then bind_eff (finish_claimed_turn h i ''completed'' (reason @ ''; execution turn ended before a task handoff''))
                  (\<lambda>_. log_dispatch ''retry'' i (Some turn))
           else defer_with h i (Some reason))
         else if \<not> wanted
         then (if queue_pending x then drop_queued_message h x reason else drop_stale_turn h x reason)
         else settle_unclaimed_turn h x thread_status reason))))"

section \<open>A turn the harness shows\<close>

text \<open>The harness cannot show the thread: the delivery fails when it never will again.\<close>

definition settle_unreadable :: "'s codex \<Rightarrow> runtime \<Rightarrow> event_context \<Rightarrow> delivery \<Rightarrow> py_error \<Rightarrow> ('s, unit) work" where
  "settle_unreadable h R c x e =
     (let i = dl_id x; reason = error_text e in
      if cd_terminal h e
      then bind_eff (runs_active_execution R c i (dl_turn x)) (\<lambda>active.
           bind_eff (if active
                     then bind_eff (transact h (fail_claimed_task_delivery i (turn_of x) ''unavailable'' reason)) (\<lambda>_. of_result (Inr ()))
                     else update_db h (finish_task_delivery i None (Some reason) False False))
             (\<lambda>_. log_dispatch ''failed'' i (dl_turn x)))
      else reconcile_unconfirmed_turn h R c i [] reason)"

text \<open>The turn runs, or seems to, and nobody wants it any more.\<close>

definition stop_stale_turn :: "'s codex \<Rightarrow> delivery \<Rightarrow> ('s, unit) work" where
  "stop_stale_turn h x =
     (let i = dl_id x; reason = ''the card has a newer state event'' in
      bind_eff (attempt_work (cd_stop_turn h (dl_session x) (turn_of x))) (\<lambda>answer.
        let go = (\<lambda>stopped_status.
              bind_eff (cancel_reconciled h x reason stopped_status True) (\<lambda>canceled.
                log_dispatch (if canceled then ''not-required'' else ''reconciling'') i (dl_turn x)))
        in case answer of
             Inr _ \<Rightarrow> go ''interrupted''
           | Inl e \<Rightarrow>
               if turn_stop_error_means_inactive e then go ''inactive''
               else bind_eff (defer_with h i (Some (error_text e))) (\<lambda>_. log_dispatch ''reconciling'' i (dl_turn x))))"

definition settle_completed :: "'s codex \<Rightarrow> delivery \<Rightarrow> string \<Rightarrow> bool \<Rightarrow> string list \<Rightarrow> ('s, unit) work" where
  "settle_completed h x status active failures =
     (let i = dl_id x in
      if active
      then bind_eff (finish_claimed_turn h i status
             (if failures = [] then ''TeamFlow execution turn ended before a task handoff''
              else ''TeamFlow execution turn ended with unresolved MCP calls''))
             (\<lambda>_. log_dispatch ''retry'' i (dl_turn x))
      else if failures \<noteq> []
      then bind_eff (update_db h (finish_task_delivery i (Some [(''ok'', JBool False), (''status'', JStr status)])
             (Some (''TeamFlow MCP calls failed while the daemon was unavailable: '' @ join '', '' (sorted_set failures))) True False))
             (\<lambda>_. log_dispatch ''retry'' i (dl_turn x))
      else bind_eff (update_db h (finish_task_delivery i (Some [(''ok'', JBool True), (''status'', JStr status)]) None False False))
             (\<lambda>_. log_dispatch ''recovered'' i (dl_turn x)))"

definition turn_error :: "dict \<Rightarrow> string \<Rightarrow> string" where
  "turn_error turn status =
     (let d = as_dict (dget turn ''error''); m = dget d ''message''; a = dget d ''additionalDetails'' in
      if truthy m then py_str m else if truthy a then py_str a else status)"

definition settle_interrupted ::
  "'s codex \<Rightarrow> runtime \<Rightarrow> event_context \<Rightarrow> delivery \<Rightarrow> string \<Rightarrow> string \<Rightarrow> string \<Rightarrow> bool \<Rightarrow> bool \<Rightarrow> ('s, unit) work" where
  "settle_interrupted h R c x thread_status status reason active ended =
     (let i = dl_id x in
      if status \<in> set INTERRUPTED_STATUSES \<and> \<not> ended
      then reconcile_unconfirmed_turn h R c i thread_status reason
      else if active
      then bind_eff (finish_claimed_turn h i status reason) (\<lambda>_. log_dispatch ''retry'' i (dl_turn x))
      else bind_eff (is_current R c i) (\<lambda>current.
        if \<not> current
        then bind_eff (cancel_reconciled h x (reason @ ''; task no longer needs this delivery'') status True) (\<lambda>canceled.
               log_dispatch (if canceled then ''not-required'' else ''reconciling'') i (dl_turn x))
        else bind_eff (interrupted_retry R c i status) (\<lambda>retry.
             bind_eff (update_db h (finish_task_delivery i (Some [(''ok'', JBool False), (''status'', JStr status)]) (Some reason)
                        retry False))
               (\<lambda>_. log_dispatch (if retry then ''retry'' else ''failed'') i (dl_turn x)))))"

definition settle_shown_turn ::
  "'s codex \<Rightarrow> runtime \<Rightarrow> event_context \<Rightarrow> delivery \<Rightarrow> dict \<Rightarrow> dict \<Rightarrow> ('s, unit) work" where
  "settle_shown_turn h R c x thread turn =
     (let i = dl_id x; u = turn_of x; status = status_type (dget turn ''status'');
          thread_status = status_type (dget thread ''status''); terminal = status \<in> set TERMINAL_STATUSES;
          failures = (if terminal then cd_failures h turn else []) in
      bind_eff (runs_active_execution R c i (dl_turn x)) (\<lambda>active.
      bind_eff (and_then_ask (terminal \<and> u \<noteq> []) (cd_completed h (dl_session x) u)) (\<lambda>ended.
      bind_eff (turn_acknowledged i u) (\<lambda>acknowledged.
      if acknowledged \<and> \<not> active \<and> failures = [] \<and> (status \<in> set COMPLETED_STATUSES \<or> ended)
      then finish_acknowledged_turn h x u (if status \<in> set COMPLETED_STATUSES then status else ''completed'')
      else bind_eff (and_then_ask (\<not> terminal \<and> \<not> active) (bind_eff (is_current R c i) (\<lambda>b. of_result (Inr (\<not> b))))) (\<lambda>stale.
      if stale then stop_stale_turn h x
      else if status \<in> set COMPLETED_STATUSES then settle_completed h x status active failures
      else if terminal then settle_interrupted h R c x thread_status status (turn_error turn status) active ended
      else if thread_status \<noteq> ''active''
      then reconcile_unconfirmed_turn h R c i thread_status
             (''Codex turn reports '' @ (if status = [] then ''unknown'' else status) @ '' while the session reports '' @
              (if thread_status = [] then ''unknown'' else thread_status))
      else defer_with h i None)))))"

section \<open>One due delivery\<close>

text \<open>A turn is bound to the delivery, with the execution it continues when there is one.\<close>

definition bind_turn ::
  "'s codex \<Rightarrow> runtime \<Rightarrow> event_context \<Rightarrow> delivery \<Rightarrow> string \<Rightarrow> ('s, int) work" where
  "bind_turn h R c x turn =
     bind_eff (runs_active_execution R c (dl_id x) (dl_turn x)) (\<lambda>rebind.
       transact h (mark_task_delivery_turn_started (dl_id x) turn (if rebind then nonempty (dl_turn x) else None) rebind))"

text \<open>The turn the thread shows for the delivery, after binding one that the delivery does not know yet.\<close>

definition shown_turn ::
  "'s codex \<Rightarrow> runtime \<Rightarrow> event_context \<Rightarrow> delivery \<Rightarrow> string option \<Rightarrow> ('s, dict \<times> dict option \<times> delivery) work" where
  "shown_turn h R c x queued =
     bind_eff (cd_read_thread h (dl_session x)) (\<lambda>thread.
       let found = (case queued of
             Some u \<Rightarrow> cd_find_turn h thread u
           | None \<Rightarrow> if client_of x \<noteq> [] then cd_find_by_client h thread (client_of x) else cd_find_turn h thread (turn_of x))
       in case found of
            None \<Rightarrow> of_result (Inr (thread, None, x))
          | Some turn \<Rightarrow>
              let u = text_of (dget turn ''id'') in
              if u = [] then of_result (Inr (thread, None, x))
              else if u = turn_of x then of_result (Inr (thread, Some turn, x))
              else bind_eff (bind_turn h R c x u) (\<lambda>began.
                   bind_eff (log_dispatch ''started'' (dl_id x) (Some u)) (\<lambda>_.
                   of_result (Inr (thread, Some turn, x\<lparr>dl_turn := Some u, dl_started := Some began\<rparr>)))))"

definition reconcile_visible ::
  "'s codex \<Rightarrow> runtime \<Rightarrow> event_context \<Rightarrow> delivery \<Rightarrow> string option \<Rightarrow> ('s, unit) work" where
  "reconcile_visible h R c x queued =
     (let i = dl_id x; u = turn_of x; session = dl_session x in
      bind_eff (runs_active_execution R c i (dl_turn x)) (\<lambda>active.
      bind_eff (turn_acknowledged i u) (\<lambda>acknowledged.
      if acknowledged \<and> \<not> active then finish_acknowledged_turn h x u ''completed''
      else bind_eff (and_then_ask (u \<noteq> []) (bind_eff (cd_completed h session u) (\<lambda>ended.
             and_then_ask (\<not> ended) (cd_begun h session u)))) (\<lambda>running.
      if running then defer_with h i None
      else bind_eff (attempt_work (shown_turn h R c x queued)) (\<lambda>shown.
        case shown of
          Inl e \<Rightarrow> settle_unreadable h R c x e
        | Inr (thread, turn, x') \<Rightarrow>
            (case turn of
               None \<Rightarrow> reconcile_unconfirmed_turn h R c i (status_type (dget thread ''status'')) ''Codex turn is not visible''
             | Some shown_as \<Rightarrow> settle_shown_turn h R c x' thread shown_as))))))"

definition reconcile_row :: "'s codex \<Rightarrow> runtime \<Rightarrow> event_context \<Rightarrow> delivery_row \<Rightarrow> ('s, unit) work" where
  "reconcile_row h R c row =
     (let x = dr_delivery row; i = dl_id x; session = dl_session x; pending = queue_pending x in
      bind_eff (read_eff (\<lambda>s. session \<in> set (sv_active s))) (\<lambda>worked_on.
      if worked_on then of_result (Inr ())
      else bind_eff (if pending
                     then bind_eff (is_current R c i) (\<lambda>current.
                       if current then of_result (Inr True) else runs_active_execution R c i (dl_turn x))
                     else of_result (Inr True)) (\<lambda>wanted.
      if \<not> wanted then reconcile_unconfirmed_turn h R c i [] ''Codex queued delivery was superseded''
      else if pending \<and> client_of x \<noteq> []
      then bind_eff (cd_message_turn h session (client_of x)) (\<lambda>answer.
        case nonempty answer of
          None \<Rightarrow> reconcile_unconfirmed_turn h R c i [] ''Codex queued turn has not materialized''
        | Some u \<Rightarrow>
          bind_eff (runs_active_execution R c i (dl_turn x)) (\<lambda>rebind.
          bind_eff (attempt_work (transact h
              (mark_task_delivery_turn_started i u (if rebind then nonempty (dl_turn x) else None) rebind))) (\<lambda>began.
          case began of
            Inl e \<Rightarrow> if is_value_error e then reconcile_unconfirmed_turn h R c i [] (error_text e) else of_result (Inl e)
          | Inr t \<Rightarrow>
              bind_eff (log_dispatch ''started'' i (Some u)) (\<lambda>_.
                reconcile_visible h R c (x\<lparr>dl_turn := Some u, dl_turn_status := Some ''inProgress'', dl_started := Some t\<rparr>)
                  (Some u)))))
      else reconcile_visible h R c x None)))"

definition reconcile :: "'s codex \<Rightarrow> runtime \<Rightarrow> event_context \<Rightarrow> ('s, unit) work" where
  "reconcile h R c =
     bind_eff (transact h (\<lambda>t d. Inr (due_processing_task_deliveries t d, d))) (\<lambda>rows. for_each (reconcile_row h R c) rows)"

text \<open>
  One round of \<^verbatim>\<open>consume\<close> for a workspace: an exception is noted and ends the round. The claimed
  deliveries of the round are its result when there was none.
\<close>

definition consume_context :: "'s codex \<Rightarrow> runtime \<Rightarrow> event_context \<Rightarrow> ('s, claimed_delivery list) work" where
  "consume_context h R c =
     catch_eff
       (bind_eff (read_eff sv_failed_recovered) (\<lambda>recovered.
        bind_eff (if recovered then of_result (Inr ())
                  else bind_eff (transact h (recover_retryable_failed_task_deliveries R c MAX_ACCEPTED_TURN_ATTEMPTS))
                         (\<lambda>_. write_eff (\<lambda>s. s\<lparr>sv_failed_recovered := True\<rparr>))) (\<lambda>_.
        bind_eff (recover_waiting_sessions_for_queue h) (\<lambda>_.
        bind_eff (resume_permission_waiting h) (\<lambda>_.
        bind_eff (schedule h R c) (\<lambda>claims.
        bind_eff (reconcile h R c) (\<lambda>_. of_result (Inr claims))))))))
       (\<lambda>e. bind_eff (write_eff (\<lambda>s. s\<lparr>sv_log := sv_log s @
             [\<lparr>dn_result = ''failed'', dn_delivery = None, dn_turn = None\<rparr>]\<rparr>)) (\<lambda>_. of_result (Inr [])))"

end
