(* ===== verification/Worker_Properties.thy ===== *)
theory Worker_Properties
  imports Turn_Reconciliation Delivery_Properties
begin

text \<open>
  What the delivery runtime does to the tables, whatever the harness and the other processes do: each of
  its passes is a run of the store's transactions, so that the promises of the store hold across it.
\<close>

section \<open>Passes are runs of the store\<close>

definition reach :: "runtime \<Rightarrow> event_context \<Rightarrow> db \<Rightarrow> 's service \<Rightarrow> bool" where
  "reach R c d s \<longleftrightarrow> store_run R c d (sv_db s)"

lemma store_run_trans: "store_run R c d' d'' \<Longrightarrow> store_run R c d d' \<Longrightarrow> store_run R c d d''"
  by (induction rule: store_run.induct) (auto intro: store_run.step)

lemma reach_refl [simp]: "reach R c (sv_db s) s"
  by (simp add: reach_def store_run.start)

text \<open>What every outside call keeps; a run of a turn keeps it when the callbacks it is given do.\<close>

definition outside_preserves :: "('s service \<Rightarrow> bool) \<Rightarrow> 's codex \<Rightarrow> bool" where
  "outside_preserves P h \<longleftrightarrow>
     (\<forall>rid. preserves P (cd_get_task h rid)) \<and> preserves P (cd_mcp_ready h) \<and>
     (\<forall>session p m onq ont. (\<forall>q. preserves P (onq q)) \<longrightarrow> (\<forall>u. preserves P (ont u)) \<longrightarrow>
        preserves P (cd_run_turn h session p m onq ont)) \<and>
     (\<forall>session. preserves P (cd_read_thread h session) \<and> preserves P (cd_has_owner h session)) \<and>
     (\<forall>session u. preserves P (cd_stop_turn h session u) \<and> preserves P (cd_completed h session u) \<and>
        preserves P (cd_begun h session u) \<and> preserves P (cd_message_turn h session u) \<and>
        preserves P (cd_cancel_message h session u) \<and> preserves P (cd_message_queued h session u))"

lemma outside_calls:
  assumes "outside_preserves P h"
  shows "preserves P (cd_get_task h rid)" "preserves P (cd_mcp_ready h)"
    "(\<And>q. preserves P (onq q)) \<Longrightarrow> (\<And>u. preserves P (ont u)) \<Longrightarrow> preserves P (cd_run_turn h session p m onq ont)"
    "preserves P (cd_read_thread h session)" "preserves P (cd_has_owner h session)"
    "preserves P (cd_stop_turn h session u)" "preserves P (cd_completed h session u)"
    "preserves P (cd_begun h session u)" "preserves P (cd_message_turn h session u)"
    "preserves P (cd_cancel_message h session u)" "preserves P (cd_message_queued h session u)"
  using assms unfolding outside_preserves_def by blast+

text \<open>
  Outside calls may change the database by transactions of the store. That is all that is asked of the
  harness, the board and the other threads and processes.
\<close>

definition outside_runs :: "'s codex \<Rightarrow> runtime \<Rightarrow> event_context \<Rightarrow> bool" where
  "outside_runs h R c \<longleftrightarrow> (\<forall>d. outside_preserves (reach R c d) h)"

lemma preserves_transact:
  assumes "\<And>t d v d'. f t d = Inr (v, d') \<Longrightarrow> store_run R c d d'"
  shows "preserves (reach R c d0) (transact h f)"
  unfolding preserves_def reach_def transact_def
  by (auto split: sum.splits intro: store_run_trans[OF assms])

lemma preserves_update_db:
  assumes "\<And>t d. store_step R c d (f t d)"
  shows "preserves (reach R c d0) (update_db h f)"
  unfolding update_db_def using assms
  by (intro preserves_transact) (auto intro: store_run.step[OF store_run.start])

lemma preserves_ask [preserves_intros]: "preserves (reach R c d0) (ask_db f)"
  by (simp add: preserves_def ask_db_def)

lemma preserves_write_db: "(\<And>s. sv_db (f s) = sv_db s) \<Longrightarrow> preserves (reach R c d0) (write_eff f)"
  by (rule preserves_write) (simp add: reach_def)

lemma preserves_log [preserves_intros]: "preserves (reach R c d0) (log_dispatch outcome i turn)"
  unfolding log_dispatch_def by (rule preserves_write_db) simp

lemma preserves_and_then [preserves_intros]: "preserves P m \<Longrightarrow> preserves P (and_then_ask b m)"
  unfolding and_then_ask_def by (simp add: preserves_of_result)

lemma preserves_prod [preserves_intros]: "(\<And>x y. preserves P (f x y)) \<Longrightarrow> preserves P (case p of (x, y) \<Rightarrow> f x y)"
  by (cases p) simp

lemma preserves_sum [preserves_intros]:
  "(\<And>x. preserves P (f x)) \<Longrightarrow> (\<And>y. preserves P (g y)) \<Longrightarrow> preserves P (case p of Inl x \<Rightarrow> f x | Inr y \<Rightarrow> g y)"
  by (cases p) simp_all

lemma preserves_bool [preserves_intros]:
  "preserves P m \<Longrightarrow> preserves P n \<Longrightarrow> preserves P (case b of True \<Rightarrow> m | False \<Rightarrow> n)"
  by (cases b) simp_all

text \<open>The transactions the runtime makes.\<close>

lemma one_step: "store_step R c d d' \<Longrightarrow> store_run R c d d'"
  by (rule store_run.step[OF store_run.start])

lemma run_transactions:
  "preserves (reach R c d0) (update_db h (finish_task_delivery i r e retry reset))"
  "preserves (reach R c d0) (update_db h (defer_task_delivery_reconciliation i reason))"
  "preserves (reach R c d0) (update_db h (cancel_task_delivery i why))"
  "preserves (reach R c d0) (update_db h (\<lambda>t. refresh_task_delivery_prompt i prompt))"
  "preserves (reach R c d0) (update_db h (\<lambda>t. clear_task_delivery_queueing i previous))"
  "preserves (reach R c d0) (update_db h (\<lambda>t. mark_task_delivery_waiting_for_permission i why k))"
  "preserves (reach R c d0) (update_db h (\<lambda>t. mark_task_delivery_waiting_for_session i why k))"
  "preserves (reach R c d0) (update_db h (\<lambda>t. resume_task_deliveries_waiting_for_session session))"
  "preserves (reach R c d0) (update_db h (\<lambda>t d. snd (resume_task_deliveries_waiting_for_permission d)))"
  by (rule preserves_update_db; rule store_step.intros)+

lemma run_fallible:
  "preserves (reach R c d0) (transact h (mark_task_delivery_turn_started i turn previous rebind))"
  "preserves (reach R c d0) (transact h (\<lambda>t d. andthen (mark_task_delivery_queued i previous t d) (\<lambda>d'. Inr ((), d'))))"
  "preserves (reach R c d0) (transact h (\<lambda>t d. andthen (mark_task_delivery_queueing i previous t d) (\<lambda>d'. Inr ((), d'))))"
  "preserves (reach R c d0) (transact h (\<lambda>t. save_task_snapshot sha c t rid task source revision))"
  "preserves (reach R c d0) (transact h (\<lambda>t d. andthen (prepare_task_deliveries R c t d) (\<lambda>p. Inr ((), pl_db p))))"
  "preserves (reach R c d0) (transact h (\<lambda>t. claim_task_deliveries R c t limit exclude))"
  "preserves (reach R c d0) (transact h (fail_claimed_task_delivery i turn ts why))"
  "preserves (reach R c d0) (transact h (recover_retryable_failed_task_deliveries R c m))"
  "preserves (reach R c d0) (transact h (\<lambda>t d. Inr (due_processing_task_deliveries t d, d)))"
  by (rule preserves_transact; auto simp: andthen_eq_Inr intro: store_run.start one_step store_step.intros)+

lemma run_reconciled:
  "preserves (reach R c d0) (transact h (\<lambda>t d. Inr (cancel_reconciled_task_delivery i why st u ets ts allow t d)))"
proof (rule preserves_transact)
  fix t d v d'
  assume "Inr (cancel_reconciled_task_delivery i why st u ets ts allow t d) = (Inr (v, d') :: (bool \<times> db) result)"
  then have "d' = snd (cancel_reconciled_task_delivery i why st u ets ts allow t d)" by simp
  then show "store_run R c d d'" using one_step[OF store_step.reconciles] by simp
qed

lemmas store_transactions = run_transactions run_fallible run_reconciled

section \<open>Every pass of the runtime\<close>

lemma outside_reach: "outside_runs h R c \<Longrightarrow> outside_preserves (reach R c d) h"
  by (simp add: outside_runs_def)

lemma runs_or_else [preserves_intros]: "preserves P m \<Longrightarrow> preserves P (or_else v m)"
  unfolding or_else_def by (intro preserves_intros)

lemma runs_attempt [preserves_intros]: "preserves P m \<Longrightarrow> preserves P (attempt_work m)"
  unfolding attempt_work_def by (intro preserves_intros)

lemmas step_intros = preserves_intros store_transactions

lemma runs_shared:
  assumes "outside_runs h R c"
  shows "preserves (reach R c d) (authorized h)" "preserves (reach R c d) (finish_claimed_turn h i ts why)"
    "preserves (reach R c d) (cancel_reconciled h x why ts allow)" "preserves (reach R c d) (has_active_execution R c i u)"
    "preserves (reach R c d) (runs_active_execution R c i u)" "preserves (reach R c d) (is_current R c i)"
    "preserves (reach R c d) (retry_available i)" "preserves (reach R c d) (interrupted_retry R c i status)"
    "preserves (reach R c d) (save_turn h k v)" "preserves (reach R c d) (save_queue h k v)"
  unfolding authorized_def finish_claimed_turn_def cancel_reconciled_def has_active_execution_def
    runs_active_execution_def is_current_def retry_available_def interrupted_retry_def save_turn_def save_queue_def
  by (intro step_intros outside_calls[OF outside_reach[OF assms]] preserves_write_db; simp)+

lemma runs_prepare: "outside_runs h R c \<Longrightarrow> preserves (reach R c d) (prepare_turn h R c k)"
  unfolding prepare_turn_def Let_def by (intro step_intros outside_calls[OF outside_reach] runs_shared)

lemma runs_classify: "outside_runs h R c \<Longrightarrow> preserves (reach R c d) (classify_turn h R c k answer)"
  unfolding classify_turn_def Let_def by (intro step_intros outside_calls[OF outside_reach] runs_shared)

lemma runs_failed: "preserves (reach R c d) (failed_turn h k answer e)"
  unfolding failed_turn_def Let_def by (intro step_intros)

lemma runs_settle: "outside_runs h R c \<Longrightarrow> preserves (reach R c d) (settle_attempt h k at)"
  unfolding settle_attempt_def Let_def by (intro step_intros runs_shared preserves_write_db) simp_all

lemma runs_execute: "outside_runs h R c \<Longrightarrow> preserves (reach R c d) (execute h R c k)"
  unfolding execute_def attempt_turn_def
  by (intro step_intros outside_calls[OF outside_reach] runs_shared runs_prepare runs_classify runs_failed runs_settle preserves_write_db)
    simp_all

lemma runs_unconfirmed:
  assumes "outside_runs h R c"
  shows "preserves (reach R c d) (reconcile_unconfirmed_turn h R c i thread_status why)"
  unfolding reconcile_unconfirmed_turn_def await_queued_message_def drop_queued_message_def drop_stale_turn_def
    settle_unclaimed_turn_def retry_lost_turn_def finish_acknowledged_turn_def turn_acknowledged_def defer_with_def Let_def
  by (intro step_intros outside_calls[OF outside_reach[OF assms]] runs_shared[OF assms])

lemma runs_row:
  assumes "outside_runs h R c"
  shows "preserves (reach R c d) (reconcile_row h R c row)"
proof -
  note calls = outside_calls[OF outside_reach[OF assms]] runs_shared[OF assms] runs_unconfirmed[OF assms]
  have shown: "preserves (reach R c d) (shown_turn h R c x queued)" for x queued
    unfolding shown_turn_def bind_turn_def Let_def by (intro step_intros calls)
  have unreadable: "preserves (reach R c d) (settle_unreadable h R c x e)" for x e
    unfolding settle_unreadable_def Let_def by (intro step_intros calls)
  have settled: "preserves (reach R c d) (settle_shown_turn h R c x thread turn)" for x thread turn
    unfolding settle_shown_turn_def settle_completed_def settle_interrupted_def stop_stale_turn_def
      finish_acknowledged_turn_def turn_acknowledged_def defer_with_def Let_def
    by (intro step_intros calls)
  have visible: "preserves (reach R c d) (reconcile_visible h R c x queued)" for x queued
    unfolding reconcile_visible_def finish_acknowledged_turn_def turn_acknowledged_def defer_with_def Let_def
    by (intro step_intros calls shown unreadable settled)
  show ?thesis
    unfolding reconcile_row_def Let_def by (intro step_intros calls visible)
qed

lemma runs_consume:
  assumes "outside_runs h R c"
  shows "preserves (reach R c d) (consume_context h R c)"
  unfolding consume_context_def recover_waiting_sessions_for_queue_def resume_permission_waiting_def schedule_def reconcile_def
  by (intro step_intros outside_calls[OF outside_reach[OF assms]] runs_shared[OF assms] runs_row[OF assms] preserves_write_db) simp_all

lemma runs_probe: "outside_runs h R c \<Longrightarrow> preserves (reach R c d) (probe_session_owner h session)"
  unfolding probe_session_owner_def by (intro step_intros outside_calls[OF outside_reach])


text \<open>The runtime as a transition system: rounds of the main loop, workers on claimed deliveries, owner probes.\<close>

inductive service_step :: "'s codex \<Rightarrow> runtime \<Rightarrow> event_context \<Rightarrow> 's service \<Rightarrow> 's service \<Rightarrow> bool" for h R c where
  consumes: "consume_context h R c s = (r, s') \<Longrightarrow> service_step h R c s s'"
| works: "execute h R c k s = (r, s') \<Longrightarrow> service_step h R c s s'"
| probes: "probe_session_owner h session s = (r, s') \<Longrightarrow> service_step h R c s s'"

inductive service_run :: "'s codex \<Rightarrow> runtime \<Rightarrow> event_context \<Rightarrow> 's service \<Rightarrow> 's service \<Rightarrow> bool" for h R c where
  start: "service_run h R c s s"
| step: "service_run h R c s s' \<Longrightarrow> service_step h R c s' s'' \<Longrightarrow> service_run h R c s s''"

lemma service_step_store:
  assumes "service_step h R c s s'" and "outside_runs h R c"
  shows "store_run R c (sv_db s) (sv_db s')"
  using assms(1)
proof cases
  case (consumes r)
  from preservesD[OF runs_consume[OF assms(2)] consumes reach_refl] show ?thesis by (simp add: reach_def)
next
  case (works k r)
  from preservesD[OF runs_execute[OF assms(2)] works reach_refl] show ?thesis by (simp add: reach_def)
next
  case (probes session r)
  from preservesD[OF runs_probe[OF assms(2)] probes reach_refl] show ?thesis by (simp add: reach_def)
qed

lemma service_run_store: "service_run h R c s s' \<Longrightarrow> outside_runs h R c \<Longrightarrow> store_run R c (sv_db s) (sv_db s')"
  by (induction rule: service_run.induct) (auto intro: store_run.start store_run_trans service_step_store)

section \<open>A turn starts after its intent is on record\<close>

text \<open>The row of the claimed delivery says that its message is being queued.\<close>

definition intent :: "claimed_delivery \<Rightarrow> db \<Rightarrow> bool" where
  "intent k d \<longleftrightarrow> (\<exists>x \<in> set (db_deliveries d). dl_id x = claim_id k \<and> processing x \<and> dl_turn x = continued_turn k \<and>
     dl_turn_status x = Some ''queueing'')"

lemma queueing_intent:
  assumes "mark_task_delivery_queueing (claim_id k) (continued_turn k) t d = Inr d'"
  shows "intent k d'"
proof -
  let ?p = "at_turn (claim_id k) (continued_turn k)"
  from assms have one: "rowcount ?p (db_deliveries d) = 1"
    and d': "d' = update_deliveries ?p (\<lambda>x. x\<lparr>dl_turn_status := Some ''queueing'', dl_next := Some (t + seconds 5)\<rparr>) d"
    by (auto simp: mark_task_delivery_queueing_def mark_task_delivery_queue_state_def split: if_splits)
  from rowcount_1[OF one] obtain x where x: "x \<in> set (db_deliveries d)" "?p x" by blast
  let ?y = "x\<lparr>dl_turn_status := Some ''queueing'', dl_next := Some (t + seconds 5)\<rparr>"
  have "?y \<in> set (db_deliveries d')" using x by (auto simp: d' set_update_where)
  moreover have "dl_id ?y = claim_id k \<and> processing ?y \<and> dl_turn ?y = continued_turn k \<and> dl_turn_status ?y = Some ''queueing''"
    using x(2) by (simp add: at_turn_def processing_def)
  ultimately show ?thesis unfolding intent_def by blast
qed

lemma prepare_turn_intent:
  assumes "prepare_turn h R c k s = (Inr (Some prompt), s')"
  shows "intent k (sv_db s')"
proof -
  have last: "yields (\<lambda>r s. r = None \<or> intent k (sv_db s))
      (bind_eff (transact h (\<lambda>t d. andthen (mark_task_delivery_queueing (claim_id k) (continued_turn k) t d) (\<lambda>d'. Inr ((), d'))))
        (\<lambda>_. of_result (Inr (Some p))))" for p
    by (rule yields_seq[where P = "\<lambda>_ s. intent k (sv_db s)"])
      (auto simp: yields_def transact_def andthen_eq_Inr queueing_intent split: sum.splits)
  have canceled: "yields (\<lambda>r s. r = None \<or> intent k (sv_db s)) (of_result (Inr None))" by (simp add: yields_def)
  have "yields (\<lambda>r s. r = None \<or> intent k (sv_db s)) (prepare_turn h R c k)"
    unfolding prepare_turn_def Let_def by (intro yields_if yields_raise last canceled | rule yields_bind)+
  from yieldsD[OF this assms] show ?thesis by simp
qed

text \<open>How turns are run matters to the call of \<^verbatim>\<open>run_turn\<close> only.\<close>

lemma transact_run_turn [simp]: "transact (h\<lparr>cd_run_turn := run'\<rparr>) f = transact h f"
  by (simp add: transact_def fun_eq_iff)

lemma update_run_turn [simp]: "update_db (h\<lparr>cd_run_turn := run'\<rparr>) f = update_db h f"
  by (simp add: update_db_def)

section \<open>Properties\<close>

text \<open>C14: Whatever the harness and the other processes do by transactions of the store, the runtime keeps a
  session to one running delivery and never removes a delivery or a turn from the tables: over any sequence of
  rounds of its loop, workers and owner probes.\<close>

theorem runtime_keeps_sessions_exclusive:
  assumes "service_run h R c s s'" and "outside_runs h R c" and "system_ok (sv_db s)"
  shows "distinct (map dl_session (filter processing (db_deliveries (sv_db s')))) \<and>
    prefix (identities (sv_db s)) (identities (sv_db s')) \<and> prefix (turn_keys (sv_db s)) (turn_keys (sv_db s'))"
proof -
  have run: "store_run R c (sv_db s) (sv_db s')" by (rule service_run_store[OF assms(1,2)])
  have "system_ok (sv_db s')" by (rule store_run_ok[OF run assms(3)])
  then show ?thesis
    using store_run_history[OF run assms(3)] by (simp add: system_ok_def store_ok_def processing_once_def)
qed

text \<open>C15: A turn starts only after its intent is on record: a worker asks the harness to run a turn only in a
  state in which the delivery is processing and marked as being queued, so that a crash right after the call
  finds it. Two harnesses that differ only in how they run turns in other states cannot be told apart.\<close>

theorem turn_starts_after_intent:
  assumes "\<And>s p onq ont. intent k (sv_db s) \<Longrightarrow>
      run' (claim_session k) p (cl_client k) onq ont s = cd_run_turn h (claim_session k) p (cl_client k) onq ont s"
  shows "execute (h\<lparr>cd_run_turn := run'\<rparr>) R c k s = execute h R c k s"
proof -
  let ?h = "h\<lparr>cd_run_turn := run'\<rparr>"
  have same: "prepare_turn ?h = prepare_turn h" "classify_turn ?h = classify_turn h" "failed_turn ?h = failed_turn h"
    "settle_attempt ?h = settle_attempt h" "save_turn ?h = save_turn h" "save_queue ?h = save_queue h"
    by (simp_all add: prepare_turn_def classify_turn_def failed_turn_def settle_attempt_def save_turn_def save_queue_def
        cancel_reconciled_def authorized_def finish_claimed_turn_def Let_def fun_eq_iff cong: if_cong option.case_cong)
  have "attempt_turn ?h R c k = attempt_turn h R c k"
    unfolding attempt_turn_def same
    by (rule ext) (auto simp: run_catch run_bind claim_session_def[symmetric] assms prepare_turn_intent
        split: prod.splits sum.splits option.splits)
  then show ?thesis by (simp add: execute_def same)
qed







section \<open>When a turn counts as lost\<close>

definition not_retried :: "nat \<Rightarrow> 's service \<Rightarrow> bool" where
  "not_retried i s \<longleftrightarrow> (\<forall>y \<in> set (db_deliveries (sv_db s)). dl_id y = i \<longrightarrow> dl_status y \<noteq> Retry)"



lemma not_retried_log [preserves_intros]: "preserves (not_retried i) (log_dispatch outcome j turn)"
  unfolding log_dispatch_def by (rule preserves_write) (simp add: not_retried_def)

lemma not_retried_ask [preserves_intros]: "preserves (not_retried i) (ask_db f)"
  by (simp add: preserves_def ask_db_def)



lemma stop_deliveries [simp]: "db_deliveries (snd (stop_active_delivery_execution i turn why t d)) = db_deliveries d"
  using same_but_executions_simps(1)[OF stop_same] .












section \<open>Witnesses\<close>

text \<open>A harness that reports the queued message and a started turn, and ends it as completed.\<close>

definition demo_codex :: "unit codex" where
  "demo_codex =
     \<lparr>cd_sha = (\<lambda>s. s), cd_now = (\<lambda>s. 9), cd_stopping = (\<lambda>s. False), cd_reserved = (\<lambda>s. []),
      cd_get_task = (\<lambda>rid. of_result (Inr ready_card)), cd_mcp_ready = of_result (Inr (JBool True)),
      cd_run_turn = (\<lambda>session p m onq ont. bind_eff (onq ''q1'') (\<lambda>_. bind_eff (ont ''t1'') (\<lambda>_.
        of_result (Inr (Some [(''ok'', JBool True), (''status'', JStr ''completed'')]))))),
      cd_read_thread = (\<lambda>session. of_result (Inr [])), cd_stop_turn = (\<lambda>session u. of_result (Inr ())),
      cd_completed = (\<lambda>session u. of_result (Inr False)), cd_begun = (\<lambda>session u. of_result (Inr False)),
      cd_has_owner = (\<lambda>session. of_result (Inr True)), cd_message_turn = (\<lambda>session m. of_result (Inr None)),
      cd_cancel_message = (\<lambda>session m. of_result (Inr False)), cd_message_queued = (\<lambda>session m. of_result (Inr False)),
      cd_find_turn = (\<lambda>t u. None), cd_find_by_client = (\<lambda>t m. None), cd_failures = (\<lambda>t. []), cd_terminal = (\<lambda>e. False)\<rparr>"


definition demo_service :: "db \<Rightarrow> unit service" where
  "demo_service d = \<lparr>sv_out = (), sv_db = d, sv_active = [], sv_log = [], sv_started = False, sv_turn = None,
     sv_failed_recovered = False, sv_queue_recovered = False\<rparr>"

lemma demo_outside: "outside_runs demo_codex R c"
  by (auto simp: outside_runs_def outside_preserves_def demo_codex_def intro!: preserves_intros)


definition demo_claimed_delivery :: claimed_delivery where
  "demo_claimed_delivery = hd (fst demo_claims)"

definition worked_service :: "unit service" where
  "worked_service = snd (execute demo_codex demo_runtime demo_context demo_claimed_delivery (demo_service claimed_db))"

lemma worked: "map (\<lambda>x. (dl_status x, dl_turn x)) (db_deliveries (sv_db worked_service)) = [(Completed, Some ''t1'')]"
  by code_simp

theorem runtime_keeps_sessions_exclusive_witness:
  "distinct (map dl_session (filter processing (db_deliveries (sv_db worked_service)))) \<and>
    prefix (identities claimed_db) (identities (sv_db worked_service))"
proof -
  let ?s = "demo_service claimed_db"
  obtain r where "execute demo_codex demo_runtime demo_context demo_claimed_delivery ?s = (r, worked_service)"
    unfolding worked_service_def by (metis prod.collapse)
  then have run: "service_run demo_codex demo_runtime demo_context ?s worked_service"
    by (rule service_run.step[OF service_run.start service_step.works])
  have "system_ok claimed_db"
    by (rule store_step_ok[OF store_step.claims[OF demo_claimed_run] planned_ok])
  then have "system_ok (sv_db ?s)" by (simp add: demo_service_def)
  from runtime_keeps_sessions_exclusive[OF run demo_outside this] show ?thesis by (simp add: demo_service_def)
qed

text \<open>A harness that refuses a turn whose intent is not on record.\<close>

definition strict_run ::
  "string \<Rightarrow> string \<Rightarrow> string \<Rightarrow> (string \<Rightarrow> (unit, unit) work) \<Rightarrow> (string \<Rightarrow> (unit, unit) work) \<Rightarrow> (unit, dict option) work" where
  "strict_run session p m onq ont = (\<lambda>s.
     if intent demo_claimed_delivery (sv_db s) then cd_run_turn demo_codex session p m onq ont s else (Inl TypeError, s))"

theorem turn_starts_after_intent_witness:
  "snd (execute (demo_codex\<lparr>cd_run_turn := strict_run\<rparr>) demo_runtime demo_context demo_claimed_delivery (demo_service claimed_db))
     = worked_service"
proof -
  have "execute (demo_codex\<lparr>cd_run_turn := strict_run\<rparr>) demo_runtime demo_context demo_claimed_delivery (demo_service claimed_db)
      = execute demo_codex demo_runtime demo_context demo_claimed_delivery (demo_service claimed_db)"
    by (rule turn_starts_after_intent) (simp add: strict_run_def)
  then show ?thesis by (simp add: worked_service_def)
qed















end
