(* ===== verification/Tool_Dispatch.thy ===== *)
theory Tool_Dispatch
  imports Teamflow_Tools Teamflow_Queries Task_Executions
begin









section \<open>Running a request\<close>








section \<open>One call, at most one write\<close>






lemma quiet_on_value_error: "quiet m \<Longrightarrow> (\<And>v. quiet (f v)) \<Longrightarrow> quiet (on_value_error r m f)"
  by (auto simp: on_value_error_def intro: quiet_intros split: sum.splits py_error.splits)













end
