(* ===== verification/Tool_Service.thy ===== *)
theory Tool_Service
  imports Tool_Dispatch Json_Text Task_Events Delivery_Turns
begin

text \<open>
  \<^verbatim>\<open>core/tool_runtime.py\<close>: the gate between an agent and the tools. A hook of the harness asks for a grant
  before each call; the call itself redeems the grant, runs the tool at most once and caches its answer
  under the invocation id, and a handoff closes the turn. The dictionaries are association lists. Every
  outside call, the tool included, is an effect on the whole state: other calls may be served meanwhile.
  The locks are not part of the state; a call that waits for one continues in the state it then finds.
\<close>

record grant =
  gr_invocation :: string
  gr_session :: string
  gr_turn :: "string option"
  gr_tool :: string
  gr_hash :: string
  gr_assignment :: assignment
  gr_expires :: int

record cached_answer =
  ca_session :: string
  ca_tool :: string
  ca_hash :: string
  ca_answer :: dict
  ca_expires :: int

record 's hub =
  hb_out :: 's
  hb_grants :: "(string \<times> grant) list"
  hb_results :: "(string \<times> cached_answer) list"
  hb_closed :: "((string \<times> string) \<times> int) list"

type_synonym ('s, 'a) hub_work = "('s hub, 'a) eff"

record 's hooks =
  hk_now :: "'s hub \<Rightarrow> int"
  hk_token :: "'s hub \<Rightarrow> string"
  hk_sha :: "string \<Rightarrow> string"
  hk_render :: "string \<Rightarrow> string"
  hk_context :: "string \<Rightarrow> string option \<Rightarrow> ('s, assignment option) hub_work"
  hk_active :: "string \<Rightarrow> ('s, bool) hub_work"
  hk_enabled :: "string \<Rightarrow> ('s, bool) hub_work"
  hk_assignment :: "string \<Rightarrow> string \<Rightarrow> ('s, assignment option) hub_work"
  hk_tool :: "assignment \<Rightarrow> string \<Rightarrow> dict \<Rightarrow> string \<Rightarrow> ('s, dict) hub_work"
  hk_sync :: "assignment \<Rightarrow> string \<Rightarrow> dict \<Rightarrow> string \<Rightarrow> string option \<Rightarrow> ('s, unit) hub_work"
  hk_record :: "assignment \<Rightarrow> string \<Rightarrow> ('s, string option) hub_work"
  hk_acknowledge :: "string \<Rightarrow> string \<Rightarrow> string \<Rightarrow> string \<Rightarrow> ('s, unit) hub_work"

definition HANDOFF_TOOL_NAMES :: "string list" where
  "HANDOFF_TOOL_NAMES = [''route_task'', ''submit_task'', ''block_task'', ''review_task'', ''cancel_task'']"

definition READ_ONLY_TOOL_NAMES :: "string list" where
  "READ_ONLY_TOOL_NAMES = filter (\<lambda>t. t \<notin> set MUTATING_TOOL_NAMES \<and> t \<notin> set RUNTIME_TOOL_NAMES) TOOL_NAMES"

text \<open>
  \<^verbatim>\<open>tool_input_hash\<close>. The text that is hashed differs from a snapshot only in the escapes of characters
  beyond ASCII, which are left to the parameter.
\<close>

definition tool_input_hash :: "'s hooks \<Rightarrow> json \<Rightarrow> string" where
  "tool_input_hash h v = hk_sha h (compact (sort_keys (JObj (as_dict v))))"

text \<open>\<^verbatim>\<open>name.rsplit("__", 1)[-1]\<close>: read backwards, the part before the first two underscores.\<close>

fun upto_underscores :: "string \<Rightarrow> string" where
  "upto_underscores (a # b # cs) = (if a = CHR ''_'' \<and> b = CHR ''_'' then [] else a # upto_underscores (b # cs))"
| "upto_underscores cs = cs"

definition short_name :: "string \<Rightarrow> string" where
  "short_name name = rev (upto_underscores (rev name))"

section \<open>Granting\<close>

definition unexpired :: "('v \<Rightarrow> int) \<Rightarrow> int \<Rightarrow> ('k \<times> 'v) list \<Rightarrow> ('k \<times> 'v) list" where
  "unexpired expires t xs = filter (\<lambda>(k, v). t < expires v) xs"

definition prune :: "int \<Rightarrow> 's hub \<Rightarrow> 's hub" where
  "prune t s = s\<lparr>hb_grants := unexpired gr_expires t (hb_grants s), hb_results := unexpired ca_expires t (hb_results s),
     hb_closed := unexpired id t (hb_closed s)\<rparr>"

definition handoff_complete :: py_error where
  "handoff_complete = ValueError ''TeamFlow handoff is complete for this turn''"

definition authorize ::
  "'s hooks \<Rightarrow> string \<Rightarrow> string \<Rightarrow> string option \<Rightarrow> string option \<Rightarrow> string \<Rightarrow> json \<Rightarrow> ('s, string) hub_work" where
  "authorize h invocation session cwd turn tool_name tool_input =
     (let tool = short_name tool_name in
      if invocation = [] then of_result (Inl (ValueError ''TeamFlow MCP invocation ID is required''))
      else if tool \<notin> set TOOL_NAMES then of_result (Inl (ValueError (''unsupported TeamFlow tool: '' @ tool)))
      else bind_eff (hk_context h session cwd) (\<lambda>found.
        case found of
          None \<Rightarrow> of_result (Inl (ValueError ''this Codex session is not a registered agent''))
        | Some a \<Rightarrow>
          bind_eff (read_eff (\<lambda>s. (hk_token h s, hk_now h s))) (\<lambda>(token, t).
          bind_eff (write_eff (prune t)) (\<lambda>_.
          bind_eff (read_eff (\<lambda>s. nonempty turn \<noteq> None \<and> tool \<notin> set READ_ONLY_TOOL_NAMES \<and>
              map_of (hb_closed s) (session, the (nonempty turn)) \<noteq> None \<and> map_of (hb_results s) invocation = None)) (\<lambda>closed.
          if closed then of_result (Inl handoff_complete)
          else bind_eff (write_eff (\<lambda>s. s\<lparr>hb_grants := AList.update token
                 \<lparr>gr_invocation = invocation, gr_session = session, gr_turn = turn, gr_tool = tool,
                  gr_hash = tool_input_hash h tool_input, gr_assignment = a, gr_expires = t + seconds 60\<rparr> (hb_grants s)\<rparr>))
               (\<lambda>_. of_result (Inr token)))))))"

section \<open>Checks\<close>

definition validate_grant :: "'s hooks \<Rightarrow> grant option \<Rightarrow> string \<Rightarrow> string \<Rightarrow> dict \<Rightarrow> ('s, grant) hub_work" where
  "validate_grant h found invocation tool args = (\<lambda>s.
     (case found of
        None \<Rightarrow> Inl (ValueError ''TeamFlow tool authorization is missing or expired'')
      | Some g \<Rightarrow>
          if gr_expires g \<le> hk_now h s then Inl (ValueError ''TeamFlow tool authorization is missing or expired'')
          else if gr_invocation g \<noteq> invocation then Inl (ValueError ''TeamFlow tool authorization does not match this invocation'')
          else if gr_tool g \<noteq> tool then Inl (ValueError ''TeamFlow tool authorization does not match this tool'')
          else if gr_hash g \<noteq> tool_input_hash h (JObj args)
          then Inl (ValueError ''TeamFlow tool arguments changed after authorization'')
          else Inr g, s))"

definition cached_result :: "string \<Rightarrow> grant \<Rightarrow> string \<Rightarrow> ('s, dict option) hub_work" where
  "cached_result invocation g tool = (\<lambda>s.
     (case map_of (hb_results s) invocation of
        None \<Rightarrow> Inr None
      | Some c \<Rightarrow>
          if ca_session c \<noteq> gr_session g \<or> ca_tool c \<noteq> tool \<or> ca_hash c \<noteq> gr_hash g
          then Inl (ValueError ''TeamFlow invocation result does not match this tool call'')
          else Inr (Some (ca_answer c)), s))"

definition turn_text :: "grant \<Rightarrow> string" where
  "turn_text g = (case gr_turn g of None \<Rightarrow> [] | Some u \<Rightarrow> u)"

definition validate_turn_open :: "'s hooks \<Rightarrow> grant \<Rightarrow> string \<Rightarrow> ('s, unit) hub_work" where
  "validate_turn_open h g tool = (\<lambda>s.
     (if tool \<in> set READ_ONLY_TOOL_NAMES \<or> turn_text g = [] then Inr ()
      else case map_of (hb_closed s) (gr_session g, turn_text g) of
             None \<Rightarrow> Inr ()
           | Some until \<Rightarrow> if until \<noteq> 0 \<and> hk_now h s < until then Inl handoff_complete else Inr (), s))"

definition validate_workspace :: "'s hooks \<Rightarrow> string \<Rightarrow> string \<Rightarrow> ('s, unit) hub_work" where
  "validate_workspace h root message =
     bind_eff (hk_active h root) (\<lambda>active.
     bind_eff (if active then hk_enabled h root else of_result (Inr False)) (\<lambda>ok.
       of_result (if ok then Inr () else Inl (ValueError message))))"

definition current_assignment :: "'s hooks \<Rightarrow> grant \<Rightarrow> string \<Rightarrow> string \<Rightarrow> ('s, assignment) hub_work" where
  "current_assignment h g root message =
     bind_eff (hk_assignment h root (gr_session g)) (\<lambda>found.
       of_result (case found of
          None \<Rightarrow> Inl (ValueError message)
        | Some a \<Rightarrow> if as_agent_id a \<noteq> as_agent_id (gr_assignment g) then Inl (ValueError message) else Inr a))"

section \<open>After the tool\<close>

definition cache_result :: "'s hooks \<Rightarrow> string \<Rightarrow> grant \<Rightarrow> string \<Rightarrow> dict \<Rightarrow> ('s, unit) hub_work" where
  "cache_result h invocation g tool answer = write_eff (\<lambda>s. s\<lparr>hb_results := AList.update invocation
     \<lparr>ca_session = gr_session g, ca_tool = tool, ca_hash = gr_hash g, ca_answer = answer,
      ca_expires = hk_now h s + seconds 300\<rparr> (hb_results s)\<rparr>)"

definition seal_turn_if_requested :: "'s hooks \<Rightarrow> grant \<Rightarrow> dict \<Rightarrow> ('s, unit) hub_work" where
  "seal_turn_if_requested h g answer =
     (case dget answer ''turn_control'' of
        JObj control \<Rightarrow>
          if \<not> truthy (dget answer ''ok'') \<or> dget control ''action'' \<noteq> JStr ''end_turn'' \<or> turn_text g = []
          then of_result (Inr ())
          else write_eff (\<lambda>s. s\<lparr>hb_closed := AList.update (gr_session g, turn_text g) (hk_now h s + seconds 3600) (hb_closed s)\<rparr>)
      | _ \<Rightarrow> of_result (Inr ()))"

definition turn_control :: "'s hooks \<Rightarrow> json" where
  "turn_control h = JObj [(''action'', JStr ''end_turn''), (''reason'', JStr (hk_render h ''turn-control.reason'')),
     (''instruction'', JStr (hk_render h ''turn-control.instruction''))]"

definition apply_turn_control :: "'s hooks \<Rightarrow> grant \<Rightarrow> string \<Rightarrow> dict \<Rightarrow> ('s, dict) hub_work" where
  "apply_turn_control h g tool answer =
     (case dget answer ''task'' of
        JObj task \<Rightarrow>
          if tool \<notin> set HANDOFF_TOOL_NAMES \<or> \<not> truthy (dget answer ''ok'') \<or> turn_text g = [] then of_result (Inr answer)
          else bind_eff (hk_record h (gr_assignment g) (turn_text g)) (\<lambda>rid.
               of_result (Inr (if rid \<noteq> Some (text_of (dget task ''record_id'')) then answer
                               else AList.update ''turn_control'' (turn_control h) answer)))
      | _ \<Rightarrow> of_result (Inr answer))"

definition acknowledge_delivery :: "'s hooks \<Rightarrow> grant \<Rightarrow> assignment \<Rightarrow> dict \<Rightarrow> ('s, unit) hub_work" where
  "acknowledge_delivery h g a answer =
     (case dget answer ''task'' of
        JObj task \<Rightarrow>
          if \<not> truthy (dget answer ''ok'') \<or> turn_text g = [] then of_result (Inr ())
          else hk_acknowledge h (as_workspace_root a) (turn_text g) (as_agent_id a) (text_of (dget task ''record_id''))
      | _ \<Rightarrow> of_result (Inr ()))"

section \<open>Calling\<close>

text \<open>The answer is cached, and the turn is closed when the answer says so.\<close>

definition keep_answer :: "'s hooks \<Rightarrow> string \<Rightarrow> grant \<Rightarrow> string \<Rightarrow> dict \<Rightarrow> ('s, dict) hub_work" where
  "keep_answer h invocation g tool answer =
     bind_eff (cache_result h invocation g tool answer) (\<lambda>_.
     bind_eff (seal_turn_if_requested h g answer) (\<lambda>_. of_result (Inr answer)))"

definition sync_activity_of :: "'s hooks \<Rightarrow> grant \<Rightarrow> assignment \<Rightarrow> string \<Rightarrow> dict \<Rightarrow> ('s, unit) hub_work" where
  "sync_activity_of h g a tool answer = hk_sync h a tool answer (gr_session g) (nonempty (gr_turn g))"

text \<open>Inside a lock everything is checked again, as another call may have run since the first checks.\<close>

definition recheck ::
  "'s hooks \<Rightarrow> string \<Rightarrow> grant \<Rightarrow> string \<Rightarrow> string \<Rightarrow> string \<Rightarrow> (assignment \<Rightarrow> ('s, dict) hub_work) \<Rightarrow> ('s, dict) hub_work" where
  "recheck h invocation g tool message1 message2 run =
     bind_eff (cached_result invocation g tool) (\<lambda>cached.
       case cached of
         Some answer \<Rightarrow> of_result (Inr answer)
       | None \<Rightarrow>
           bind_eff (validate_turn_open h g tool) (\<lambda>_.
           bind_eff (validate_workspace h (as_workspace_root (gr_assignment g)) message1) (\<lambda>_.
           bind_eff (current_assignment h g (as_workspace_root (gr_assignment g)) message2) run)))"

definition runtime_call :: "'s hooks \<Rightarrow> string \<Rightarrow> grant \<Rightarrow> string \<Rightarrow> dict \<Rightarrow> ('s, dict) hub_work" where
  "runtime_call h invocation g tool args =
     (let message = ''the TeamFlow assignment or workspace changed before the tool ran'' in
      recheck h invocation g tool message message (\<lambda>a.
        bind_eff (hk_tool h a tool args invocation) (keep_answer h invocation g tool)))"

definition mutating_call :: "'s hooks \<Rightarrow> string \<Rightarrow> grant \<Rightarrow> string \<Rightarrow> dict \<Rightarrow> ('s, dict) hub_work" where
  "mutating_call h invocation g tool args =
     recheck h invocation g tool ''the TeamFlow workspace was disabled before the tool ran''
       ''the TeamFlow agent assignment changed before the tool ran'' (\<lambda>a.
       bind_eff (hk_tool h a tool args invocation) (\<lambda>answer0.
       bind_eff (apply_turn_control h g tool answer0) (\<lambda>answer.
       bind_eff (sync_activity_of h g a tool answer) (\<lambda>_.
       bind_eff (acknowledge_delivery h g a answer) (\<lambda>_.
       keep_answer h invocation g tool answer)))))"

definition reading_call :: "'s hooks \<Rightarrow> string \<Rightarrow> grant \<Rightarrow> assignment \<Rightarrow> string \<Rightarrow> dict \<Rightarrow> ('s, dict) hub_work" where
  "reading_call h invocation g a tool args =
     bind_eff (hk_tool h a tool args invocation) (\<lambda>answer.
     bind_eff (sync_activity_of h g a tool answer) (\<lambda>_. keep_answer h invocation g tool answer))"

definition redeem :: "string \<Rightarrow> ('s, grant option) hub_work" where
  "redeem token =
     bind_eff (read_eff (\<lambda>s. map_of (hb_grants s) token)) (\<lambda>found.
     bind_eff (write_eff (\<lambda>s. s\<lparr>hb_grants := AList.delete token (hb_grants s)\<rparr>)) (\<lambda>_. of_result (Inr found)))"

definition invoke_tool :: "'s hooks \<Rightarrow> string \<Rightarrow> string \<Rightarrow> string \<Rightarrow> dict \<Rightarrow> ('s, dict) hub_work" where
  "invoke_tool h invocation token tool args =
     bind_eff (redeem token) (\<lambda>found.
     bind_eff (validate_grant h found invocation tool args) (\<lambda>g.
     recheck h invocation g tool ''the TeamFlow workspace was disabled before the tool ran''
       ''the TeamFlow agent assignment changed before the tool ran'' (\<lambda>a.
       if tool \<in> set RUNTIME_TOOL_NAMES then runtime_call h invocation g tool args
       else if tool \<in> set MUTATING_TOOL_NAMES then mutating_call h invocation g tool args
       else reading_call h invocation g a tool args)))"

end
