(* ===== verification/Service_Properties.thy ===== *)
theory Service_Properties
  imports Tool_Service Tool_Properties
begin

text \<open>
  The gate of the tools: a grant admits exactly the call it was asked for, and once; an answered call is
  answered again from the cache without running the tool; a closed turn runs no tool that writes.
\<close>

section \<open>Keyed tables\<close>

text \<open>The three dictionaries of the service are used through reading, writing and removing one key.\<close>

locale keyed_table =
  fixes find :: "'t \<Rightarrow> 'k \<Rightarrow> 'v option" and save :: "'k \<Rightarrow> 'v \<Rightarrow> 't \<Rightarrow> 't" and remove :: "'k \<Rightarrow> 't \<Rightarrow> 't"
  assumes find_save: "find (save k v t) = (find t)(k \<mapsto> v)"
    and find_remove: "find (remove k t) = (find t)(k := None)"
    and remove_absent: "find t k = None \<Longrightarrow> remove k t = t"
begin

lemma saved: "find (save k v t) k = Some v"
  by (simp add: find_save)

lemma removed: "find (remove k t) k = None"
  by (simp add: find_remove)

lemma removed_twice: "remove k (remove k t) = remove k t"
  by (rule remove_absent) (rule removed)

lemma other_kept: "k \<noteq> k' \<Longrightarrow> find (save k v t) k' = find t k'" "k \<noteq> k' \<Longrightarrow> find (remove k t) k' = find t k'"
  by (simp_all add: find_save find_remove)

end

interpretation table: keyed_table map_of AList.update AList.delete
  by unfold_locales (auto simp: update_conv' delete_conv' map_of_eq_None_iff intro: delete_idem)

section \<open>Grants\<close>

lemma redeem_run: "redeem token s = (Inr (map_of (hb_grants s) token), s\<lparr>hb_grants := AList.delete token (hb_grants s)\<rparr>)"
  by (simp add: redeem_def run_bind)

definition redeemed :: "string \<Rightarrow> 's hub \<Rightarrow> 's hub" where
  "redeemed token s = s\<lparr>hb_grants := AList.delete token (hb_grants s)\<rparr>"

text \<open>A grant that admits a call.\<close>

definition admits :: "'s hooks \<Rightarrow> 's hub \<Rightarrow> grant \<Rightarrow> string \<Rightarrow> string \<Rightarrow> dict \<Rightarrow> bool" where
  "admits h s g invocation tool args \<longleftrightarrow> hk_now h s < gr_expires g \<and> gr_invocation g = invocation \<and> gr_tool g = tool \<and>
     gr_hash g = tool_input_hash h (JObj args)"

lemma validate_grant_run:
  "validate_grant h found invocation tool args s = (Inr g, s') \<longleftrightarrow> found = Some g \<and> admits h s g invocation tool args \<and> s' = s"
  by (auto simp: validate_grant_def admits_def split: option.splits if_splits)

definition checked_call ::
  "'s hooks \<Rightarrow> string \<Rightarrow> grant \<Rightarrow> string \<Rightarrow> dict \<Rightarrow> ('s, dict) hub_work" where
  "checked_call h invocation g tool args =
     recheck h invocation g tool ''the TeamFlow workspace was disabled before the tool ran''
       ''the TeamFlow agent assignment changed before the tool ran'' (\<lambda>a.
       if tool \<in> set RUNTIME_TOOL_NAMES then runtime_call h invocation g tool args
       else if tool \<in> set MUTATING_TOOL_NAMES then mutating_call h invocation g tool args
       else reading_call h invocation g a tool args)"

lemma invoke_admitted:
  assumes "map_of (hb_grants s) token = Some g" and "admits h (redeemed token s) g invocation tool args"
  shows "invoke_tool h invocation token tool args s = checked_call h invocation g tool args (redeemed token s)"
  using validate_grant_run[of h "Some g" invocation tool args "redeemed token s" g "redeemed token s"] assms
  by (simp add: invoke_tool_def run_bind redeem_run checked_call_def redeemed_def)

lemma invoke_result:
  assumes "invoke_tool h invocation token tool args s = (Inr r, s')"
  obtains g where "map_of (hb_grants s) token = Some g" and "admits h (redeemed token s) g invocation tool args"
    and "checked_call h invocation g tool args (redeemed token s) = (Inr r, s')"
proof -
  from assms obtain g s1 where "validate_grant h (map_of (hb_grants s) token) invocation tool args (redeemed token s) = (Inr g, s1)"
    and rest: "checked_call h invocation g tool args s1 = (Inr r, s')"
    unfolding invoke_tool_def checked_call_def bind_Inr redeem_run redeemed_def by auto
  then show thesis using that unfolding validate_grant_run by auto
qed

lemma invoke_without_grant:
  assumes "map_of (hb_grants s) token = None"
  shows "invoke_tool h invocation token tool args s =
    (Inl (ValueError ''TeamFlow tool authorization is missing or expired''), s)"
  using assms table.remove_absent[OF assms]
  by (simp add: invoke_tool_def run_bind redeem_run validate_grant_def)

section \<open>Cached answers\<close>

definition cached_for :: "string \<Rightarrow> grant \<Rightarrow> string \<Rightarrow> dict \<Rightarrow> 's hub \<Rightarrow> bool" where
  "cached_for invocation g tool r s \<longleftrightarrow> (\<exists>c. map_of (hb_results s) invocation = Some c \<and> ca_session c = gr_session g \<and>
     ca_tool c = tool \<and> ca_hash c = gr_hash g \<and> ca_answer c = r)"

lemma cached_result_cached: "cached_result invocation g tool s = (Inr (Some r), s') \<longleftrightarrow> cached_for invocation g tool r s \<and> s' = s"
  by (auto simp: cached_result_def cached_for_def split: option.splits if_splits)

lemma seal_results: "hb_results (snd (seal_turn_if_requested h g answer s)) = hb_results s"
  "hb_grants (snd (seal_turn_if_requested h g answer s)) = hb_grants s"
  by (simp_all add: seal_turn_if_requested_def split: json.split)

lemma seal_returns: "fst (seal_turn_if_requested h g answer s) = Inr ()"
  by (simp add: seal_turn_if_requested_def split: json.split)

text \<open>The state in which an answer has been cached.\<close>

definition answer_cached :: "'s hooks \<Rightarrow> string \<Rightarrow> grant \<Rightarrow> string \<Rightarrow> dict \<Rightarrow> 's hub \<Rightarrow> 's hub" where
  "answer_cached h invocation g tool answer s = s\<lparr>hb_results := AList.update invocation
     \<lparr>ca_session = gr_session g, ca_tool = tool, ca_hash = gr_hash g, ca_answer = answer,
      ca_expires = hk_now h s + seconds 300\<rparr> (hb_results s)\<rparr>"

lemma keep_answer_run:
  "keep_answer h invocation g tool answer s =
     (Inr answer, snd (seal_turn_if_requested h g answer (answer_cached h invocation g tool answer s)))"
  using seal_returns[of h g answer "answer_cached h invocation g tool answer s"]
  by (cases "seal_turn_if_requested h g answer (answer_cached h invocation g tool answer s)")
    (simp add: keep_answer_def run_bind cache_result_def answer_cached_def)

lemma keep_answer_yields [yields_intros]:
  "yields (cached_for invocation g tool) (keep_answer h invocation g tool answer)"
  unfolding yields_def keep_answer_run cached_for_def
  by (auto simp: seal_results answer_cached_def table.find_save)

lemma recheck_yields:
  assumes "\<And>a. yields (cached_for invocation g tool) (run a)"
  shows "yields (cached_for invocation g tool) (recheck h invocation g tool m1 m2 run)"
  unfolding recheck_def
proof (rule yields_seq[where P = "\<lambda>c s. \<forall>r. c = Some r \<longrightarrow> cached_for invocation g tool r s"])
  show "yields (\<lambda>c s. \<forall>r. c = Some r \<longrightarrow> cached_for invocation g tool r s) (cached_result invocation g tool)"
    by (auto simp: yields_def cached_result_cached)
next
  fix v s w s'
  assume known: "\<forall>r. v = Some r \<longrightarrow> cached_for invocation g tool r s"
    and run: "(case v of Some answer \<Rightarrow> of_result (Inr answer)
       | None \<Rightarrow> bind_eff (validate_turn_open h g tool) (\<lambda>_.
           bind_eff (validate_workspace h (as_workspace_root (gr_assignment g)) m1) (\<lambda>_.
           bind_eff (current_assignment h g (as_workspace_root (gr_assignment g)) m2) run))) s = (Inr w, s')"
  show "cached_for invocation g tool w s'"
  proof (cases v)
    case (Some r)
    then show ?thesis using known run by simp
  next
    case None
    have "yields (cached_for invocation g tool) (bind_eff (validate_turn_open h g tool) (\<lambda>_.
           bind_eff (validate_workspace h (as_workspace_root (gr_assignment g)) m1) (\<lambda>_.
           bind_eff (current_assignment h g (as_workspace_root (gr_assignment g)) m2) run)))"
      by (intro yields_bind assms)
    then show ?thesis using yieldsD run unfolding None option.case by fastforce
  qed
qed

lemma calls_yield:
  "yields (cached_for invocation g tool) (checked_call h invocation g tool args)"
  unfolding checked_call_def runtime_call_def mutating_call_def reading_call_def Let_def
  by (intro recheck_yields yields_if yields_bind keep_answer_yields)

lemma recheck_cached:
  "cached_for invocation g tool r s \<Longrightarrow> recheck h invocation g tool m1 m2 run s = (Inr r, s)"
  using cached_result_cached[of invocation g tool s r s] by (simp add: recheck_def run_bind)

section \<open>Properties\<close>

text \<open>A grant admits exactly the call it was asked for: when a call with it succeeds right after, the
  invocation id, the tool and the hash of the arguments are those of the authorization.\<close>

theorem grant_admits_only_its_call:
  assumes "authorize h invocation session cwd turn name input s = (Inr token, s1)"
    and "invoke_tool h invocation' token tool args s1 = (Inr r, s2)"
  shows "invocation' = invocation \<and> tool = short_name name \<and> tool_input_hash h (JObj args) = tool_input_hash h input"
proof -
  from assms(1) obtain g where "map_of (hb_grants s1) token = Some g" "gr_invocation g = invocation"
    "gr_tool g = short_name name" "gr_hash g = tool_input_hash h input"
    unfolding authorize_def Let_def
    by (auto simp: bind_Inr table.find_save split: if_splits option.splits)
  moreover from invoke_result[OF assms(2)] obtain g' where "map_of (hb_grants s1) token = Some g'"
    "admits h (redeemed token s1) g' invocation' tool args" by blast
  ultimately show ?thesis by (auto simp: admits_def)
qed

definition outside_keeps_hub :: "('s hub \<Rightarrow> bool) \<Rightarrow> 's hooks \<Rightarrow> bool" where
  "outside_keeps_hub P h \<longleftrightarrow>
     (\<forall>root. preserves P (hk_active h root)) \<and> (\<forall>root. preserves P (hk_enabled h root)) \<and>
     (\<forall>root session. preserves P (hk_assignment h root session)) \<and>
     (\<forall>a tool args i. preserves P (hk_tool h a tool args i)) \<and>
     (\<forall>a tool answer session turn. preserves P (hk_sync h a tool answer session turn)) \<and>
     (\<forall>a turn. preserves P (hk_record h a turn)) \<and>
     (\<forall>root turn a rid. preserves P (hk_acknowledge h root turn a rid))"

lemma preserves_state: "(\<And>s. snd (m s) = s) \<Longrightarrow> preserves P m"
  by (simp add: preserves_def)

definition ungranted :: "string \<Rightarrow> 's hub \<Rightarrow> bool" where
  "ungranted token s \<longleftrightarrow> map_of (hb_grants s) token = None"

lemma preserves_same_grants: "(\<And>s. hb_grants (snd (m s)) = hb_grants s) \<Longrightarrow> preserves (ungranted token) m"
  by (simp add: preserves_def ungranted_def)

lemma keep_answer_grants: "hb_grants (snd (keep_answer h i g tool answer s)) = hb_grants s"
  by (simp add: keep_answer_run seal_results answer_cached_def)

lemma ungranted_intros:
  "preserves (ungranted token) (keep_answer h i g tool answer)"
  "preserves P (cached_result i g tool)" "preserves P (validate_turn_open h g tool)"
  by (intro preserves_same_grants keep_answer_grants) (intro preserves_state, simp add: cached_result_def validate_turn_open_def)+

lemma checked_call_keeps_ungranted:
  assumes "outside_keeps_hub (ungranted token) h"
  shows "preserves (ungranted token) (checked_call h i g tool args)"
proof -
  note calls = assms[unfolded outside_keeps_hub_def]
  have calls': "preserves (ungranted token) (hk_active h root)" "preserves (ungranted token) (hk_enabled h root)"
    "preserves (ungranted token) (hk_assignment h root session)" "preserves (ungranted token) (hk_tool h a tool args i)"
    "preserves (ungranted token) (hk_sync h a tool answer session turn)" "preserves (ungranted token) (hk_record h a turn')"
    "preserves (ungranted token) (hk_acknowledge h root turn' a' rid)"
    for root session a tool args i answer turn turn' a' rid
    using calls by blast+
  have recheck: "preserves (ungranted token) (recheck h i g tool m1 m2 run)"
    if "\<And>a. preserves (ungranted token) (run a)" for m1 m2 run
    unfolding recheck_def validate_workspace_def current_assignment_def
    by (intro preserves_intros ungranted_intros that calls')
  have control: "preserves (ungranted token) (apply_turn_control h g tool answer)" for answer
    unfolding apply_turn_control_def by (cases "dget answer ''task''"; simp only: json.case; intro preserves_intros calls')
  have ack: "preserves (ungranted token) (acknowledge_delivery h g a answer)" for a answer
    unfolding acknowledge_delivery_def by (cases "dget answer ''task''"; simp only: json.case; intro preserves_intros calls')
  show ?thesis
    unfolding checked_call_def runtime_call_def mutating_call_def reading_call_def sync_activity_of_def Let_def
    by (intro recheck preserves_intros ungranted_intros control ack calls')
qed

text \<open>C27: A grant is redeemed once: as long as nobody else hands the same token out again, a second call with it
  is refused and changes nothing, whatever came of the first.\<close>

theorem grant_is_redeemed_once:
  assumes "invoke_tool h invocation token tool args s = (r, s')" and "outside_keeps_hub (ungranted token) h"
  shows "invoke_tool h invocation' token tool' args' s' =
    (Inl (ValueError ''TeamFlow tool authorization is missing or expired''), s')"
proof -
  let ?rest = "\<lambda>found. bind_eff (validate_grant h found invocation tool args) (\<lambda>g. checked_call h invocation g tool args)"
  have keeps: "preserves (ungranted token) (?rest found)" for found
    by (intro preserves_bind checked_call_keeps_ungranted[OF assms(2)] preserves_state) (simp add: validate_grant_def)
  have start: "ungranted token (redeemed token s)" by (simp add: ungranted_def redeemed_def table.removed)
  have "?rest (map_of (hb_grants s) token) (redeemed token s) = (r, s')"
    using assms(1) by (simp add: invoke_tool_def run_bind redeem_run redeemed_def checked_call_def)
  then have "ungranted token s'" by (rule preservesD[OF keeps _ start])
  then show ?thesis unfolding ungranted_def by (rule invoke_without_grant)
qed

text \<open>C28: An answered call is answered from the cache: when a call succeeded and its cached answer has not been
  pruned, a repetition under a new grant gives the same answer, and does nothing but redeem the grant.\<close>

theorem repeated_call_answers_from_cache:
  assumes "invoke_tool h invocation token tool args s = (Inr r, s')" and "map_of (hb_grants s) token = Some g"
    and "map_of (hb_results s2) invocation = map_of (hb_results s') invocation"
    and "map_of (hb_grants s2) token2 = Some g2" and "gr_session g2 = gr_session g"
    and "admits h (redeemed token2 s2) g2 invocation tool args"
  shows "invoke_tool h invocation token2 tool args s2 = (Inr r, redeemed token2 s2)"
proof -
  from invoke_result[OF assms(1)] assms(2) have ok: "admits h (redeemed token s) g invocation tool args"
    and run: "checked_call h invocation g tool args (redeemed token s) = (Inr r, s')" by auto
  have "gr_hash g2 = gr_hash g" using ok assms(6) by (simp add: admits_def)
  with yieldsD[OF calls_yield run] assms(3,5) have "cached_for invocation g2 tool r (redeemed token2 s2)"
    by (simp add: cached_for_def redeemed_def)
  then show ?thesis unfolding invoke_admitted[OF assms(4,6)] checked_call_def by (rule recheck_cached)
qed

text \<open>A closed turn runs nothing: for a turn that was closed and not longer than its hour ago, a call of a tool
  that is not read-only ends in the cached answer or in an error, and only redeems its grant.\<close>

theorem closed_turn_runs_nothing:
  assumes "map_of (hb_grants s) token = Some g" and "turn_text g \<noteq> []" and "tool \<notin> set READ_ONLY_TOOL_NAMES"
    and "map_of (hb_closed s) (gr_session g, turn_text g) = Some until" and "until \<noteq> 0"
    and "hk_now h (redeemed token s) < until"
  shows "snd (invoke_tool h invocation token tool args s) = redeemed token s \<and>
    (\<forall>r. fst (invoke_tool h invocation token tool args s) = Inr r \<longrightarrow> cached_for invocation g tool r s)"
proof (cases "admits h (redeemed token s) g invocation tool args")
  case False
  then have "fst (validate_grant h (Some g) invocation tool args (redeemed token s)) \<noteq> Inr v" for v
    using validate_grant_run[of h "Some g" invocation tool args "redeemed token s" v "redeemed token s"]
    by (auto simp: validate_grant_def)
  moreover have "snd (validate_grant h (Some g) invocation tool args (redeemed token s)) = redeemed token s"
    by (simp add: validate_grant_def)
  ultimately show ?thesis
    using assms(1) unfolding invoke_tool_def run_bind redeem_run redeemed_def[symmetric]
    by (cases "validate_grant h (Some g) invocation tool args (redeemed token s)") (auto split: sum.splits)
next
  case True
  have closed: "validate_turn_open h g tool (redeemed token s) = (Inl handoff_complete, redeemed token s)"
    using assms(2-6) by (simp add: validate_turn_open_def redeemed_def)
  have same: "cached_for invocation g tool r (redeemed token s) = cached_for invocation g tool r s" for r
    by (simp add: cached_for_def redeemed_def)
  have state: "snd (cached_result invocation g tool (redeemed token s)) = redeemed token s"
    by (simp add: cached_result_def)
  show ?thesis
    unfolding invoke_admitted[OF assms(1) True] checked_call_def recheck_def run_bind
    using state cached_result_cached[of invocation g tool "redeemed token s"]
    by (cases "cached_result invocation g tool (redeemed token s)")
      (auto simp: run_bind closed same split: sum.splits option.splits)
qed

section \<open>Witnesses\<close>

text \<open>An agent submits a card in its turn; the answer closes the turn.\<close>

definition demo_answer :: dict where
  "demo_answer = [(''ok'', JBool True), (''task'', JObj [(''record_id'', JStr ''r1'')])]"

definition demo_hooks :: "unit hooks" where
  "demo_hooks =
     \<lparr>hk_now = (\<lambda>s. seconds 1000), hk_token = (\<lambda>s. ''tok''), hk_sha = (\<lambda>s. s), hk_render = (\<lambda>k. k),
      hk_context = (\<lambda>session cwd. of_result (Inr (Some (demo_agent ''a1'' ''executor'')))),
      hk_active = (\<lambda>root. of_result (Inr True)), hk_enabled = (\<lambda>root. of_result (Inr True)),
      hk_assignment = (\<lambda>root session. of_result (Inr (Some (demo_agent ''a1'' ''executor'')))),
      hk_tool = (\<lambda>a tool args i. of_result (Inr demo_answer)),
      hk_sync = (\<lambda>a tool answer session turn. of_result (Inr ())), hk_record = (\<lambda>a turn. of_result (Inr (Some ''r1''))),
      hk_acknowledge = (\<lambda>root turn a rid. of_result (Inr ()))\<rparr>"

definition empty_hub :: "unit hub" where
  "empty_hub = \<lparr>hb_out = (), hb_grants = [], hb_results = [], hb_closed = []\<rparr>"

definition submit_granted :: "string result \<times> unit hub" where
  "submit_granted = authorize demo_hooks ''i1'' ''s1'' None (Some ''t1'') ''mcp__teamflow__submit_task'' (JObj []) empty_hub"

definition submit_called :: "dict result \<times> unit hub" where
  "submit_called = invoke_tool demo_hooks ''i1'' ''tok'' ''submit_task'' [] (snd submit_granted)"

definition submit_regranted :: "string result \<times> unit hub" where
  "submit_regranted =
     authorize demo_hooks ''i1'' ''s1'' None (Some ''t1'') ''mcp__teamflow__submit_task'' (JObj []) (snd submit_called)"

definition closed_answer :: dict where
  "closed_answer = AList.update ''turn_control'' (turn_control demo_hooks) demo_answer"

lemma submit_grants: "fst submit_granted = Inr ''tok''"
  by code_simp

lemma submit_answers: "fst submit_called = Inr closed_answer"
  by code_simp

lemma submit_regrants: "fst submit_regranted = Inr ''tok''"
  by code_simp

definition submit_grant :: grant where
  "submit_grant = \<lparr>gr_invocation = ''i1'', gr_session = ''s1'', gr_turn = Some ''t1'', gr_tool = ''submit_task'',
     gr_hash = tool_input_hash demo_hooks (JObj []), gr_assignment = demo_agent ''a1'' ''executor'', gr_expires = seconds 1060\<rparr>"

lemma submit_run: "invoke_tool demo_hooks ''i1'' ''tok'' ''submit_task'' [] (snd submit_granted) = (Inr closed_answer, snd submit_called)"
  unfolding submit_called_def[symmetric] by (rule prod_eqI) (simp_all add: submit_answers)

lemma submit_has_grant: "map_of (hb_grants (snd submit_granted)) ''tok'' = Some submit_grant"
  by code_simp

theorem grant_admits_only_its_call_witness: "''submit_task'' = short_name ''mcp__teamflow__submit_task''"
proof -
  have "authorize demo_hooks ''i1'' ''s1'' None (Some ''t1'') ''mcp__teamflow__submit_task'' (JObj []) empty_hub =
      (Inr ''tok'', snd submit_granted)"
    unfolding submit_granted_def[symmetric] by (rule prod_eqI) (simp_all add: submit_grants)
  from grant_admits_only_its_call[OF this submit_run] show ?thesis by simp
qed

theorem grant_is_redeemed_once_witness:
  "invoke_tool demo_hooks ''i1'' ''tok'' ''submit_task'' [] (snd submit_called) =
    (Inl (ValueError ''TeamFlow tool authorization is missing or expired''), snd submit_called)"
proof (rule grant_is_redeemed_once[OF submit_run])
  show "outside_keeps_hub (ungranted ''tok'') demo_hooks"
    by (simp add: outside_keeps_hub_def demo_hooks_def preserves_of_result)
qed

theorem repeated_call_answers_from_cache_witness:
  "invoke_tool demo_hooks ''i1'' ''tok'' ''submit_task'' [] (snd submit_regranted) =
    (Inr closed_answer, redeemed ''tok'' (snd submit_regranted))"
proof (rule repeated_call_answers_from_cache[OF submit_run submit_has_grant])
  show "map_of (hb_results (snd submit_regranted)) ''i1'' = map_of (hb_results (snd submit_called)) ''i1''" by code_simp
  show "map_of (hb_grants (snd submit_regranted)) ''tok'' = Some submit_grant" by code_simp
  show "gr_session submit_grant = gr_session submit_grant" by simp
  show "admits demo_hooks (redeemed ''tok'' (snd submit_regranted)) submit_grant ''i1'' ''submit_task'' []"
    by (simp add: admits_def submit_grant_def demo_hooks_def seconds_def)
qed

theorem closed_turn_runs_nothing_witness:
  "snd (invoke_tool demo_hooks ''i2'' ''tok'' ''submit_task'' [] ((snd submit_called)\<lparr>hb_grants := [(''tok'', submit_grant)]\<rparr>)) =
    redeemed ''tok'' ((snd submit_called)\<lparr>hb_grants := [(''tok'', submit_grant)]\<rparr>)"
proof -
  have closed: "map_of (hb_closed (snd submit_called)) (''s1'', ''t1'') = Some (seconds 4600)" by code_simp
  have writes: "''submit_task'' \<notin> set READ_ONLY_TOOL_NAMES" by code_simp
  show ?thesis
    using closed_turn_runs_nothing[where h = demo_hooks and token = "''tok''" and g = submit_grant and tool = "''submit_task''"
        and until = "seconds 4600" and s = "(snd submit_called)\<lparr>hb_grants := [(''tok'', submit_grant)]\<rparr>"] closed writes
    by (simp add: submit_grant_def turn_text_def demo_hooks_def seconds_def)
qed





end
