(* ===== verification/Task_Fields.thy ===== *)
theory Task_Fields
  imports Workflow_Values Json_Text
begin

text \<open>
  The second half of \<^verbatim>\<open>core/workflow.py\<close>: the columns of a task board and the options of its select
  columns, in both locales, as they follow from a definition. A definition is the parsed file, as in the
  validator. Characters beyond Latin-1 stand as their UTF-8 bytes; labels are only compared and stored.
\<close>

record task_option =
  to_key :: string
  to_labels :: dict
  to_hue :: json
  to_lightness :: json

text \<open>Key, label in Chinese, label in English, and type of a column.\<close>

definition FIELD_DEFINITIONS :: "(string \<times> string \<times> string \<times> string) list" where
  "FIELD_DEFINITIONS =
     [(''task_id'', [CHR 0xE4, CHR 0xBB, CHR 0xBB, CHR 0xE5, CHR 0x8A, CHR 0xA1, CHR 0x20, CHR 0x49, CHR 0x44],
       ''Task ID'', ''auto_number''),
      (''status'', [CHR 0xE7, CHR 0x8A, CHR 0xB6, CHR 0xE6, CHR 0x80, CHR 0x81], ''Status'', ''select''),
      (''type'', [CHR 0xE4, CHR 0xBB, CHR 0xBB, CHR 0xE5, CHR 0x8A, CHR 0xA1, CHR 0xE7, CHR 0xB1, CHR 0xBB,
        CHR 0xE5, CHR 0x9E, CHR 0x8B], ''Type'', ''select''),
      (''priority'', [CHR 0xE4, CHR 0xBC, CHR 0x98, CHR 0xE5, CHR 0x85, CHR 0x88, CHR 0xE7, CHR 0xBA,
        CHR 0xA7], ''Priority'', ''select''),
      (''role'', [CHR 0xE8, CHR 0xB4, CHR 0x9F, CHR 0xE8, CHR 0xB4, CHR 0xA3, CHR 0xE4, CHR 0xBA, CHR 0xBA],
        ''Owner'', ''select''),
      (''agent'', [CHR 0xE6, CHR 0x89, CHR 0xA7, CHR 0xE8, CHR 0xA1, CHR 0x8C, CHR 0xE6, CHR 0x99, CHR 0xBA,
        CHR 0xE8, CHR 0x83, CHR 0xBD, CHR 0xE4, CHR 0xBD, CHR 0x93], ''Agent'', ''text''),
      (''agent_id'', [CHR 0xE6, CHR 0x89, CHR 0xA7, CHR 0xE8, CHR 0xA1, CHR 0x8C, CHR 0xE6, CHR 0x99, CHR 0xBA,
        CHR 0xE8, CHR 0x83, CHR 0xBD, CHR 0xE4, CHR 0xBD, CHR 0x93, CHR 0x20, CHR 0x49, CHR 0x44],
          ''Agent ID'', ''text''),
      (''description'', [CHR 0xE4, CHR 0xBB, CHR 0xBB, CHR 0xE5, CHR 0x8A, CHR 0xA1, CHR 0xE6, CHR 0x8F,
        CHR 0x8F, CHR 0xE8, CHR 0xBF, CHR 0xB0], ''Description'', ''text''),
      (''context'', [CHR 0xE8, CHR 0xA1, CHR 0xA5, CHR 0xE5, CHR 0x85, CHR 0x85, CHR 0xE4, CHR 0xB8, CHR 0x8A,
        CHR 0xE4, CHR 0xB8, CHR 0x8B, CHR 0xE6, CHR 0x96, CHR 0x87], ''Context'', ''text''),
      (''acceptance_criteria'', [CHR 0xE9, CHR 0xAA, CHR 0x8C, CHR 0xE6, CHR 0x94, CHR 0xB6, CHR 0xE6,
        CHR 0xA0, CHR 0x87, CHR 0xE5, CHR 0x87, CHR 0x86], ''Acceptance Criteria'', ''text''),
      (''dependencies'', [CHR 0xE4, CHR 0xBE, CHR 0x9D, CHR 0xE8, CHR 0xB5, CHR 0x96, CHR 0xE4, CHR 0xBB,
        CHR 0xBB, CHR 0xE5, CHR 0x8A, CHR 0xA1], ''Dependencies'', ''text''),
      (''progress'', [CHR 0xE5, CHR 0xBD, CHR 0x93, CHR 0xE5, CHR 0x89, CHR 0x8D, CHR 0xE8, CHR 0xBF, CHR 0x9B,
        CHR 0xE5, CHR 0xB1, CHR 0x95], ''Progress'', ''text''),
      (''next_action'', [CHR 0xE4, CHR 0xB8, CHR 0x8B, CHR 0xE4, CHR 0xB8, CHR 0x80, CHR 0xE6, CHR 0xAD,
        CHR 0xA5], ''Next Action'', ''text''),
      (''result_evidence'', [CHR 0xE7, CHR 0xBB, CHR 0x93, CHR 0xE6, CHR 0x9E, CHR 0x9C, CHR 0xE4, CHR 0xB8,
        CHR 0x8E, CHR 0xE8, CHR 0xAF, CHR 0x81, CHR 0xE6, CHR 0x8D, CHR 0xAE], ''Result / Evidence'', ''text''),
      (''blocked_reason'', [CHR 0xE9, CHR 0x98, CHR 0xBB, CHR 0xE5, CHR 0xA1, CHR 0x9E, CHR 0xE5, CHR 0x8E,
        CHR 0x9F, CHR 0xE5, CHR 0x9B, CHR 0xA0], ''Blocked Reason'', ''text''),
      (''waiting_on'', [CHR 0xE7, CHR 0xAD, CHR 0x89, CHR 0xE5, CHR 0xBE, CHR 0x85, CHR 0xE5, CHR 0xAF,
        CHR 0xB9, CHR 0xE8, CHR 0xB1, CHR 0xA1], ''Waiting On'', ''select''),
      (''delivery_mode'', [CHR 0xE4, CHR 0xBA, CHR 0xA4, CHR 0xE4, CHR 0xBB, CHR 0x98, CHR 0xE6, CHR 0x96,
        CHR 0xB9, CHR 0xE5, CHR 0xBC, CHR 0x8F], ''Delivery Mode'', ''select''),
      (''target_branch'', [CHR 0xE7, CHR 0x9B, CHR 0xAE, CHR 0xE6, CHR 0xA0, CHR 0x87, CHR 0xE5, CHR 0x88,
        CHR 0x86, CHR 0xE6, CHR 0x94, CHR 0xAF], ''Target Branch'', ''text''),
      (''base_sha'', [CHR 0xE5, CHR 0x9F, CHR 0xBA, CHR 0xE7, CHR 0xBA, CHR 0xBF, CHR 0x20, CHR 0x53, CHR 0x48,
        CHR 0x41], ''Base SHA'', ''text''),
      (''candidate_sha'', [CHR 0xE5, CHR 0x80, CHR 0x99, CHR 0xE9, CHR 0x80, CHR 0x89, CHR 0x20, CHR 0x53,
        CHR 0x48, CHR 0x41], ''Candidate SHA'', ''text''),
      (''verified_sha'', [CHR 0xE5, CHR 0xB7, CHR 0xB2, CHR 0xE9, CHR 0xAA, CHR 0x8C, CHR 0xE8, CHR 0xAF,
        CHR 0x81, CHR 0x20, CHR 0x53, CHR 0x48, CHR 0x41], ''Verified SHA'', ''text''),
      (''promoted_sha'', [CHR 0xE5, CHR 0xB7, CHR 0xB2, CHR 0xE6, CHR 0x99, CHR 0x8B, CHR 0xE5, CHR 0x8D,
        CHR 0x87, CHR 0x20, CHR 0x53, CHR 0x48, CHR 0x41], ''Promoted SHA'', ''text''),
      (''delivery_resources'', [CHR 0xE4, CHR 0xBA, CHR 0xA4, CHR 0xE4, CHR 0xBB, CHR 0x98, CHR 0xE8, CHR 0xB5,
        CHR 0x84, CHR 0xE6, CHR 0xBA, CHR 0x90], ''Delivery Resources'', ''text'')]"

definition OPTION_COLORS :: "(string \<times> string) list" where
  "OPTION_COLORS = [(''Purple'', ''Lighter''), (''Blue'', ''Lighter''), (''Green'', ''Lighter''), (''Orange'', ''Lighter''),
     (''Wathet'', ''Lighter''), (''Carmine'', ''Lighter''), (''Gray'', ''Lighter'')]"

definition PRIORITY_OPTIONS :: "task_option list" where
  "PRIORITY_OPTIONS =
     [\<lparr>to_key = ''P0'', to_labels = [(''zh-CN'', JStr (''P0'')), (''en'', JStr ''P0'')], to_hue = JStr ''Red'', to_lightness = JStr ''Light''\<rparr>,
      \<lparr>to_key = ''P1'', to_labels = [(''zh-CN'', JStr (''P1'')), (''en'', JStr ''P1'')], to_hue = JStr ''Orange'', to_lightness = JStr ''Light''\<rparr>,
      \<lparr>to_key = ''P2'', to_labels = [(''zh-CN'', JStr (''P2'')), (''en'', JStr ''P2'')], to_hue = JStr ''Blue'', to_lightness = JStr ''Lighter''\<rparr>,
      \<lparr>to_key = ''P3'', to_labels = [(''zh-CN'', JStr (''P3'')), (''en'', JStr ''P3'')], to_hue = JStr ''Gray'', to_lightness = JStr ''Lighter''\<rparr>]"

definition DELIVERY_MODE_OPTIONS :: "task_option list" where
  "DELIVERY_MODE_OPTIONS =
     [\<lparr>to_key = ''standard'', to_labels = [(''zh-CN'', JStr ([CHR 0xE6, CHR 0xA0, CHR 0x87, CHR 0xE5,
       CHR 0x87, CHR 0x86, CHR 0xE4, CHR 0xBA, CHR 0xA4, CHR 0xE4, CHR 0xBB, CHR 0x98])), (''en'',
         JStr ''Standard'')], to_hue = JStr ''Gray'', to_lightness = JStr ''Lighter''\<rparr>,
      \<lparr>to_key = ''repository'', to_labels = [(''zh-CN'', JStr ([CHR 0xE4, CHR 0xBB, CHR 0x93, CHR 0xE5,
        CHR 0xBA, CHR 0x93, CHR 0xE4, CHR 0xBA, CHR 0xA4, CHR 0xE4, CHR 0xBB, CHR 0x98])), (''en'',
          JStr ''Repository'')], to_hue = JStr ''Blue'', to_lightness = JStr ''Lighter''\<rparr>]"

section \<open>Options of a definition\<close>

text \<open>\<^verbatim>\<open>_definition_options\<close>: the colours go round.\<close>

definition definition_options :: "json list \<Rightarrow> task_option list" where
  "definition_options items = map (\<lambda>(i, item).
     let (hue, lightness) = OPTION_COLORS ! (i mod length OPTION_COLORS); d = as_dict item in
     \<lparr>to_key = as_str (dget d ''key''), to_labels = as_dict (dget d ''labels''), to_hue = JStr hue, to_lightness = JStr lightness\<rparr>)
     (enumerate 0 items)"

definition colored_definition_options :: "json list \<Rightarrow> task_option list" where
  "colored_definition_options items = map (\<lambda>item.
     let d = as_dict item; color = as_dict (dget d ''color'') in
     \<lparr>to_key = as_str (dget d ''key''), to_labels = as_dict (dget d ''labels''), to_hue = dget color ''hue'',
      to_lightness = dget color ''lightness''\<rparr>) items"

definition task_state_definitions :: "dict \<Rightarrow> task_option list" where
  "task_state_definitions w = colored_definition_options (as_items (dget (as_dict (dget w ''lifecycle'')) ''states''))"

definition task_option_definitions :: "dict \<Rightarrow> (string \<times> task_option list) list" where
  "task_option_definitions w =
     [(''status'', task_state_definitions w), (''type'', definition_options (as_items (dget w ''task_types''))),
      (''priority'', PRIORITY_OPTIONS), (''role'', definition_options (as_items (dget w ''roles''))),
      (''waiting_on'', colored_definition_options (as_items (dget w ''waiting_targets''))),
      (''delivery_mode'', DELIVERY_MODE_OPTIONS)]"

text \<open>A dictionary comprehension: a later pair replaces the value of an earlier one.\<close>

definition dict_build :: "('k \<times> 'v) list \<Rightarrow> ('k \<times> 'v) list" where
  "dict_build kvs = fold (\<lambda>(k, v) d. AList.update k v d) kvs []"

definition option_label :: "string \<Rightarrow> task_option \<Rightarrow> string" where
  "option_label locale x = as_str (dget (to_labels x) locale)"

definition check_locale :: "string \<Rightarrow> string result" where
  "check_locale locale = (if locale \<in> set LOCALES then Inr locale else Inl (ValueError (''unsupported workflow locale: '' @ locale)))"

text \<open>From a key to its label, and from every label back to its key.\<close>

definition option_map :: "string \<Rightarrow> task_option list \<Rightarrow> (string \<times> string) list" where
  "option_map locale items = dict_build (map (\<lambda>x. (to_key x, option_label locale x)) items)"

definition option_aliases :: "task_option list \<Rightarrow> (string \<times> string) list" where
  "option_aliases items = dict_build (concat (map (\<lambda>x. map (\<lambda>(l, v). (as_str v, to_key x)) (to_labels x)) items))"

definition task_option_maps :: "dict \<Rightarrow> string \<Rightarrow> (string \<times> (string \<times> string) list) list result" where
  "task_option_maps w locale0 = andthen (check_locale locale0) (\<lambda>locale.
     Inr (map (\<lambda>(f, items). (f, option_map locale items)) (task_option_definitions w)))"

definition task_option_aliases :: "dict \<Rightarrow> (string \<times> (string \<times> string) list) list" where
  "task_option_aliases w = map (\<lambda>(f, items). (f, option_aliases items)) (task_option_definitions w)"

section \<open>Columns\<close>

record field_spec =
  fs_name :: string
  fs_type :: string
  fs_options :: "dict list option"
  fs_style :: "dict option"

definition option_spec :: "string \<Rightarrow> task_option \<Rightarrow> dict" where
  "option_spec locale x = [(''name'', JStr (option_label locale x)), (''hue'', to_hue x), (''lightness'', to_lightness x)]"

definition task_id_style :: "dict \<Rightarrow> string \<Rightarrow> dict" where
  "task_id_style w prefix = [(''rules'', JList
     [JObj [(''type'', JStr ''text''), (''text'', JStr (prefix @ ''-''))],
      JObj [(''type'', JStr ''incremental_number''),
        (''length'', dget (as_dict (dget (as_dict (dget w ''task_schema'')) ''task_id'')) ''sequence_length'')]])]"

definition field_label :: "string \<Rightarrow> string \<times> string \<Rightarrow> string" where
  "field_label locale labels = (if locale = ''en'' then snd labels else fst labels)"

definition task_field_specs :: "dict \<Rightarrow> string \<Rightarrow> string option \<Rightarrow> (string \<times> field_spec) list result" where
  "task_field_specs w locale0 prefix = andthen (check_locale locale0) (\<lambda>locale.
     let options = task_option_definitions w in
     Inr (map (\<lambda>(key, zh, en, ty).
       (key, \<lparr>fs_name = field_label locale (zh, en), fs_type = ty,
         fs_options = (if key = ''task_id'' \<and> prefix \<noteq> None \<and> prefix \<noteq> Some [] then None
                       else map_option (map (option_spec locale)) (map_of options key)),
         fs_style = (case prefix of Some (c # cs) \<Rightarrow> if key = ''task_id'' then Some (task_id_style w (c # cs)) else None
                     | _ \<Rightarrow> None)\<rparr>)) FIELD_DEFINITIONS))"

definition task_field_aliases :: "(string \<times> string list) list" where
  "task_field_aliases = map (\<lambda>(key, zh, en, ty). (key, dedup [zh, en] @ (if key = ''role'' then [''Role''] else []))) FIELD_DEFINITIONS"

section \<open>Reading back what was written\<close>

lemma dict_build_map_of: "map_of (dict_build kvs) = map_of (rev kvs)"
proof -
  have "map_of (fold (\<lambda>(k, v) d. AList.update k v d) kvs d) = map_of d ++ map_of (rev kvs)" for d :: "('a \<times> 'b) list"
    by (induction kvs arbitrary: d) (auto simp: update_conv' fun_eq_iff map_add_def split: option.splits)
  then show ?thesis by (simp add: dict_build_def)
qed

lemma dict_build_unique:
  assumes "(k, v) \<in> set kvs" and "\<And>v'. (k, v') \<in> set kvs \<Longrightarrow> v' = v"
  shows "map_of (dict_build kvs) k = Some v"
proof -
  have "k \<in> fst ` set (rev kvs)" using assms(1) by (force simp: image_iff)
  then obtain v' where "map_of (rev kvs) k = Some v'" by (metis map_of_eq_None_iff not_Some_eq)
  moreover from this have "v' = v" using assms(2) map_of_SomeD by fastforce
  ultimately show ?thesis by (simp add: dict_build_map_of)
qed

text \<open>Keys name one option, and a label of one option is not a label of another in any locale.\<close>

definition unambiguous :: "task_option list \<Rightarrow> bool" where
  "unambiguous items \<longleftrightarrow> distinct (map to_key items) \<and>
     (\<forall>x \<in> set items. \<forall>y \<in> set items. as_str ` snd ` set (to_labels x) \<inter> as_str ` snd ` set (to_labels y) \<noteq> {} \<longrightarrow> x = y)"

lemma option_map_key:
  assumes "distinct (map to_key items)" and "x \<in> set items"
  shows "map_of (option_map locale items) (to_key x) = Some (option_label locale x)"
  unfolding option_map_def
  using assms by (intro dict_build_unique) (auto simp: distinct_map inj_on_def)

lemma option_alias_label:
  assumes "unambiguous items" and "x \<in> set items" and "locale \<in> fst ` set (to_labels x)"
  shows "map_of (option_aliases items) (option_label locale x) = Some (to_key x)"
  unfolding option_aliases_def
proof (rule dict_build_unique)
  have mem: "option_label locale x \<in> as_str ` snd ` set (to_labels x)"
  proof -
    obtain v where v: "map_of (to_labels x) locale = Some v"
      using assms(3) by (metis map_of_eq_None_iff not_Some_eq)
    from map_of_SomeD[OF this] have "as_str v \<in> as_str ` snd ` set (to_labels x)" by force
    then show ?thesis by (simp add: option_label_def dget_def v)
  qed
  then obtain l v where "(l, v) \<in> set (to_labels x)" "as_str v = option_label locale x" by auto
  then show "(option_label locale x, to_key x) \<in>
      set (concat (map (\<lambda>x. map (\<lambda>(l, v). (as_str v, to_key x)) (to_labels x)) items))"
    using assms(2) by force
  fix k assume "(option_label locale x, k) \<in> set (concat (map (\<lambda>x. map (\<lambda>(l, v). (as_str v, to_key x)) (to_labels x)) items))"
  then obtain y where y: "y \<in> set items" "k = to_key y" "option_label locale x \<in> as_str ` snd ` set (to_labels y)"
    by force
  with mem have "as_str ` snd ` set (to_labels x) \<inter> as_str ` snd ` set (to_labels y) \<noteq> {}" by blast
  with assms(1,2) y show "k = to_key x" unfolding unambiguous_def by blast
qed

end
