(* ===== verification/Board_Cards.thy ===== *)
theory Board_Cards
  imports Task_Fields Effects
begin

text \<open>
  \<^verbatim>\<open>core/lark_board.py\<close>: what the board service answers, as records, columns and cards, and the three
  operations on the cards of a board: listing, reading and writing. The requests to the service are
  effects on the outside state; \<open>bs_*\<close> is the row of the board in the database.
\<close>

section \<open>Answers\<close>

text \<open>\<^verbatim>\<open>a or b\<close>\<close>

definition py_or :: "json \<Rightarrow> json \<Rightarrow> json" where
  "py_or a b = (if truthy a then a else b)"

definition answer_data :: "dict \<Rightarrow> dict" where
  "answer_data payload = (case dget payload ''data'' of JObj d \<Rightarrow> d | _ \<Rightarrow> payload)"

definition dicts :: "json list \<Rightarrow> dict list" where
  "dicts xs = map as_dict (filter is_dict xs)"

text \<open>\<^verbatim>\<open>_items\<close>: the first of these keys that holds a list.\<close>

definition item_list :: "dict \<Rightarrow> dict list" where
  "item_list data =
     (case List.find (\<lambda>k. is_list (dget data k)) [''items'', ''tables'', ''fields'', ''views'', ''data'', ''records''] of
        None \<Rightarrow> [] | Some k \<Rightarrow> dicts (as_items (dget data k)))"

text \<open>A row is a list of values in the order of the columns, or a record of its own; column names are texts.\<close>

definition row_fields :: "json list \<Rightarrow> json \<Rightarrow> dict" where
  "row_fields names row =
     (case row of
        JList vs \<Rightarrow> dict_of_pairs (zip (map py_str names) vs)
      | JObj d \<Rightarrow> as_dict (py_or (dget d ''fields'') (JObj d))
      | _ \<Rightarrow> [])"

definition row_record :: "json list \<Rightarrow> json list \<Rightarrow> nat \<times> json \<Rightarrow> dict" where
  "row_record names rows = (\<lambda>(i, rid).
     [(''record_id'', rid), (''fields'', JObj (row_fields names (if i < length rows then rows ! i else JList [])))])"

definition record_page :: "dict \<Rightarrow> dict list \<times> bool" where
  "record_page data =
     (case (dget data ''data'', dget data ''record_id_list'', dget data ''fields'') of
        (JList rows, JList ids, JList names) \<Rightarrow> map (row_record names rows) (enumerate 0 ids)
      | _ \<Rightarrow> item_list data,
      truthy (dget data ''has_more''))"

definition single_record :: "dict \<Rightarrow> string option \<Rightarrow> dict" where
  "single_record data rid =
     (let listed = (case dget data ''record_id_list'' of
            JList ids \<Rightarrow> (case fst (record_page data) of
               r # rs \<Rightarrow> Some r
             | [] \<Rightarrow> (case ids of [] \<Rightarrow> None | i # is \<Rightarrow> Some [(''record_id'', JStr (py_str i)), (''fields'', JObj [])]))
          | _ \<Rightarrow> None)
      in case listed of
           Some r \<Rightarrow> r
         | None \<Rightarrow>
             if is_dict (dget data ''fields'')
             then (case rid of
                     Some (c # cs) \<Rightarrow> if map_of data ''record_id'' = None then AList.update ''record_id'' (JStr (c # cs)) data else data
                   | _ \<Rightarrow> data)
             else if truthy (dget data ''record_id'') \<or> truthy (dget data ''id'') then data
             else [(''record_id'', case rid of None \<Rightarrow> JNull | Some r \<Rightarrow> JStr r), (''fields'', JObj data)])"

text \<open>\<^verbatim>\<open>_record_items\<close>, of the pages that \<^verbatim>\<open>_record_page\<close> gives and of raw answers.\<close>

definition record_items :: "dict \<Rightarrow> dict list" where
  "record_items data = (case dget data ''records'' of JList xs \<Rightarrow> dicts xs | _ \<Rightarrow> item_list data)"

section \<open>Columns\<close>

record board_field =
  bf_id :: json
  bf_name :: json
  bf_type :: json
  bf_options :: "json list"
  bf_style :: json
  bf_primary :: bool

definition field_of :: "dict \<Rightarrow> board_field" where
  "field_of item =
     \<lparr>bf_id = py_or (dget item ''field_id'') (dget item ''id''),
      bf_name = py_or (py_or (dget item ''field_name'') (dget item ''name'')) (JStr []),
      bf_type = py_or (dget item ''type'') (JStr []), bf_options = as_items (dget item ''options''),
      bf_style = py_or (dget item ''style'') (JObj []), bf_primary = truthy (dget item ''is_primary'')\<rparr>"

record board_table =
  bt_id :: json
  bt_name :: json
  bt_primary :: json
  bt_revision :: json

definition table_of :: "dict \<Rightarrow> board_table" where
  "table_of item =
     \<lparr>bt_id = py_or (dget item ''table_id'') (dget item ''id''),
      bt_name = py_or (py_or (dget item ''table_name'') (dget item ''name'')) (JStr []),
      bt_primary = dget item ''primary_field'', bt_revision = dget item ''revision''\<rparr>"

record board_view =
  bv_id :: json
  bv_name :: json
  bv_type :: json

definition view_of :: "dict \<Rightarrow> board_view" where
  "view_of item =
     \<lparr>bv_id = py_or (dget item ''view_id'') (dget item ''id''),
      bv_name = py_or (py_or (dget item ''view_name'') (dget item ''name'')) (JStr []),
      bv_type = py_or (py_or (dget item ''view_type'') (dget item ''type'')) (JStr [])\<rparr>"

record board_bundle =
  bu_table :: board_table
  bu_fields :: "board_field list"
  bu_views :: "board_view list"

definition no_primary :: py_error where
  "no_primary = ValueError ''the selected Lark table has no usable primary text field''"

definition primary_field :: "board_bundle \<Rightarrow> board_field result" where
  "primary_field b =
     (case List.find (\<lambda>f. bf_id f = bt_primary (bu_table b)) (bu_fields b) of
        Some f \<Rightarrow> Inr f
      | None \<Rightarrow> (case List.find bf_primary (bu_fields b) of
          Some f \<Rightarrow> Inr f
        | None \<Rightarrow> (case List.find (\<lambda>f. bf_type f = JStr ''text'') (bu_fields b) of
            Some f \<Rightarrow> Inr f | None \<Rightarrow> Inl no_primary)))"

definition find_task_field :: "board_field list \<Rightarrow> field_spec \<Rightarrow> string list \<Rightarrow> bool \<Rightarrow> board_field option result" where
  "find_task_field fs spec aliases strict =
     (case List.find (\<lambda>f. bf_name f = JStr (fs_name spec)) fs of
        Some f \<Rightarrow>
          if bf_type f = JStr (fs_type spec) then Inr (Some f)
          else if strict then Inl (ValueError (''field '' @ fs_name spec @ '' must be '' @ fs_type spec @ '', found '' @ py_str (bf_type f)))
          else Inr None
      | None \<Rightarrow> Inr (List.find (\<lambda>f. member_str (bf_name f) aliases \<and> bf_type f = JStr (fs_type spec)) fs))"

text \<open>\<^verbatim>\<open>_task_field_map\<close>: the column of every field of a card; without \<^verbatim>\<open>strict\<close> a gap gives no map.\<close>

definition not_initialized :: py_error where
  "not_initialized = ValueError ''initialize the TeamFlow board before accessing tasks''"

definition field_column ::
  "board_bundle \<Rightarrow> (string \<times> string list) list \<Rightarrow> bool \<Rightarrow> string \<times> field_spec \<Rightarrow> (string \<times> json) option result" where
  "field_column b aliases strict = (\<lambda>(key, spec).
     andthen (find_task_field (bu_fields b) spec (assoc_list aliases key) strict) (\<lambda>found.
       case found of
         Some f \<Rightarrow> Inr (Some (key, bf_name f))
       | None \<Rightarrow> if strict then Inl not_initialized else Inr None))"

fun field_columns ::
  "board_bundle \<Rightarrow> (string \<times> string list) list \<Rightarrow> bool \<Rightarrow> (string \<times> field_spec) list \<Rightarrow> (string \<times> json) list option result" where
  "field_columns b aliases strict [] = Inr (Some [])"
| "field_columns b aliases strict (s # specs) =
     andthen (field_column b aliases strict s) (\<lambda>c.
       case c of
         None \<Rightarrow> Inr None
       | Some kv \<Rightarrow> andthen (field_columns b aliases strict specs) (\<lambda>rest. Inr (map_option (\<lambda>cs. kv # cs) rest)))"

definition task_field_map ::
  "board_bundle \<Rightarrow> (string \<times> field_spec) list \<Rightarrow> (string \<times> string list) list \<Rightarrow> bool \<Rightarrow> (string \<times> json) list option result" where
  "task_field_map b specs aliases strict =
     (case primary_field b of
        Inl e \<Rightarrow> if strict then Inl e else Inr None
      | Inr p \<Rightarrow> andthen (field_columns b aliases strict specs) (\<lambda>cs. Inr (map_option (\<lambda>cs. (''title'', bf_name p) # cs) cs)))"

text \<open>\<^verbatim>\<open>_merged_options\<close>: the options that are there, by their stripped names, and the missing ones.\<close>

definition normalized_option :: "dict \<Rightarrow> dict" where
  "normalized_option d = (''name'', JStr (strip (text_of (dget d ''name'')))) #
     concat (map (\<lambda>k. if truthy (dget d k) then [(k, dget d k)] else []) [''hue'', ''lightness''])"

definition option_name :: "dict \<Rightarrow> string" where
  "option_name d = strip (text_of (dget d ''name''))"

definition kept_options :: "json list \<Rightarrow> dict list" where
  "kept_options existing = filter (\<lambda>d. option_name d \<noteq> []) (map as_dict existing)"

definition merged_options :: "json list \<Rightarrow> dict list \<Rightarrow> dict list option" where
  "merged_options existing desired =
     (let kept = kept_options existing;
          missing = filter (\<lambda>d. \<not> member_str (dget d ''name'') (map option_name kept)) desired
      in if missing = [] then None else Some (map normalized_option kept @ missing))"

section \<open>Cards\<close>

text \<open>\<^verbatim>\<open>_cell\<close>: a rich text is its text.\<close>

definition is_text_run :: "json \<Rightarrow> bool" where
  "is_text_run v \<longleftrightarrow> is_dict v \<and> map_of (as_dict v) ''text'' \<noteq> None"

definition cell :: "json \<Rightarrow> json" where
  "cell v =
     (if is_text_run v then dget (as_dict v) ''text''
      else case v of
        JList xs \<Rightarrow> if xs \<noteq> [] \<and> list_all is_text_run xs
                    then JStr (concat (map (\<lambda>x. py_str (dget (as_dict x) ''text'')) xs)) else v
      | _ \<Rightarrow> v)"

definition card_value :: "(string \<times> string) list \<Rightarrow> json \<Rightarrow> json" where
  "card_value aliases raw =
     (let v = cell raw in
      if aliases = [] then v
      else let w = (case v of JList [] \<Rightarrow> JNull | JList (x # xs) \<Rightarrow> x | _ \<Rightarrow> v) in
           case w of JStr s \<Rightarrow> (case map_of aliases s of None \<Rightarrow> JStr s | Some k \<Rightarrow> JStr k) | _ \<Rightarrow> w)"

definition card_of ::
  "(string \<times> json) list \<Rightarrow> (string \<times> (string \<times> string) list) list \<Rightarrow> dict \<Rightarrow> dict" where
  "card_of columns aliases r =
     (let values = (case dget r ''fields'' of JObj d \<Rightarrow> d | _ \<Rightarrow> r) in
      fold (\<lambda>(key, column). AList.update key (card_value (assoc_list aliases key) (dget values (as_str column)))) columns
        [(''record_id'', py_or (dget r ''record_id'') (dget r ''id''))])"

text \<open>\<^verbatim>\<open>_task_write_value\<close>\<close>

definition write_value ::
  "(string \<times> (string \<times> string) list) list \<Rightarrow> (string \<times> (string \<times> string) list) list \<Rightarrow> string \<Rightarrow> json \<Rightarrow> json result" where
  "write_value maps aliases key v =
     (case map_of maps key of
        None \<Rightarrow> Inr v
      | Some options \<Rightarrow>
          if v = JNull \<or> v = JStr [] then Inr v
          else case v of
            JStr s \<Rightarrow>
              (case map_of options s of
                 Some label \<Rightarrow> Inr (JStr label)
               | None \<Rightarrow> (case map_of (assoc_list aliases key) s of
                   Some (c # cs) \<Rightarrow> (case map_of options (c # cs) of
                      Some label \<Rightarrow> Inr (JStr label) | None \<Rightarrow> Inl (KeyError (c # cs)))
                 | _ \<Rightarrow> Inl (ValueError (''unsupported '' @ key @ '': '' @ s @ ''. Supported values: '' @ join '', '' (map fst options)))))
          | _ \<Rightarrow> Inl (ValueError (key @ '' must be a string'')))"

fun write_fields ::
  "(string \<times> json) list \<Rightarrow> (string \<times> (string \<times> string) list) list \<Rightarrow> (string \<times> (string \<times> string) list) list \<Rightarrow> dict \<Rightarrow>
   dict \<Rightarrow> dict result" where
  "write_fields columns maps aliases [] payload = Inr payload"
| "write_fields columns maps aliases ((key, v) # kvs) payload =
     (case map_of columns key of
        None \<Rightarrow> Inl (KeyError key)
      | Some column \<Rightarrow> andthen (write_value maps aliases key v) (\<lambda>w.
          write_fields columns maps aliases kvs (AList.update (as_str column) w payload)))"

end
