(* ===== verification/Lark_Urls.thy ===== *)
theory Lark_Urls
  imports Workflow_Values Json_Text
begin

text \<open>
  What the board client uses of \<^verbatim>\<open>urllib.parse\<close>, and the links of a board (\<^verbatim>\<open>core/config.py\<close>,
  \<^verbatim>\<open>core/lark_board.py\<close>). A string beyond ASCII stands as its UTF-8 bytes, which is what quoting works on.
  Bracketed IPv6 hosts are not modelled: a board has a domain name.
\<close>

section \<open>Parsing\<close>

definition ends_with :: "string \<Rightarrow> string \<Rightarrow> bool" where
  "ends_with s p \<longleftrightarrow> starts_with (rev s) (rev p)"

definition between :: "char \<Rightarrow> char \<Rightarrow> char \<Rightarrow> bool" where
  "between a b c \<longleftrightarrow> (of_char a :: nat) \<le> of_char c \<and> (of_char c :: nat) \<le> of_char b"

definition is_letter :: "char \<Rightarrow> bool" where
  "is_letter c \<longleftrightarrow> between (CHR ''a'') (CHR ''z'') c \<or> between (CHR ''A'') (CHR ''Z'') c"

definition scheme_char :: "char \<Rightarrow> bool" where
  "scheme_char c \<longleftrightarrow> is_letter c \<or> is_digit c \<or> c \<in> set ''+-.''"

definition without_scheme :: "string \<Rightarrow> string" where
  "without_scheme url =
     (let p = takeWhile (\<lambda>c. c \<noteq> CHR '':'') url in
      if p \<noteq> [] \<and> length p < length url \<and> is_letter (hd p) \<and> list_all scheme_char p then drop (Suc (length p)) url else url)"

text \<open>Network location, path and query; the fragment is cut off.\<close>

definition url_parts :: "string \<Rightarrow> string \<times> string \<times> string" where
  "url_parts url =
     (let rest = without_scheme url;
          host = (if starts_with rest ''//'' then takeWhile (\<lambda>c. c \<notin> set ''/?#'') (drop 2 rest) else []);
          tail = (if starts_with rest ''//'' then drop (2 + length host) rest else rest);
          plain = takeWhile (\<lambda>c. c \<noteq> CHR ''#'') tail;
          path = takeWhile (\<lambda>c. c \<noteq> CHR ''?'') plain
      in (host, path, drop (Suc (length path)) plain))"

definition url_host :: "string \<Rightarrow> string" where
  "url_host url =
     (let loc = fst (url_parts url);
          user = rev (takeWhile (\<lambda>c. c \<noteq> CHR ''@'') (rev loc))
      in map lower_char (takeWhile (\<lambda>c. c \<noteq> CHR '':'') user))"

fun split_on :: "char \<Rightarrow> string \<Rightarrow> string list" where
  "split_on d [] = [[]]"
| "split_on d (c # cs) =
     (if c = d then [] # split_on d cs
      else case split_on d cs of [] \<Rightarrow> [[c]] | p # ps \<Rightarrow> (c # p) # ps)"

definition path_parts :: "string \<Rightarrow> string list" where
  "path_parts url = filter (\<lambda>p. p \<noteq> []) (split_on (CHR ''/'') (fst (snd (url_parts url))))"

fun unquote_plus :: "string \<Rightarrow> string" where
  "unquote_plus [] = []"
| "unquote_plus (c # cs) =
     (if c = CHR ''+'' then CHR '' '' # unquote_plus cs
      else if c = CHR ''%'' then
        (case cs of
           a # b # rest \<Rightarrow> (case (hex_value a, hex_value b) of
               (Some x, Some y) \<Rightarrow> char_of (16 * x + y) # unquote_plus rest
             | _ \<Rightarrow> c # unquote_plus cs)
         | _ \<Rightarrow> c # unquote_plus cs)
      else c # unquote_plus cs)"

text \<open>\<^verbatim>\<open>parse_qs\<close>: blank values are left out.\<close>

definition query_pairs :: "string \<Rightarrow> (string \<times> string) list" where
  "query_pairs q = concat (map (\<lambda>part.
     let k = takeWhile (\<lambda>c. c \<noteq> CHR ''='') part; v = drop (Suc (length k)) part in
     if v = [] then [] else [(unquote_plus k, unquote_plus v)]) (split_on (CHR ''&'') q))"

definition query_values :: "(string \<times> string) list \<Rightarrow> string \<Rightarrow> string list" where
  "query_values kvs key = map snd (filter (\<lambda>kv. fst kv = key) kvs)"

definition first_query_value :: "(string \<times> string) list \<Rightarrow> string \<Rightarrow> string option" where
  "first_query_value kvs key =
     (case query_values kvs key of [] \<Rightarrow> None | v # vs \<Rightarrow> if strip v = [] then None else Some (strip v))"

section \<open>Quoting\<close>

definition url_hex :: "char \<Rightarrow> string" where
  "url_hex c = (let n = of_char c :: nat in [CHR ''%'', upper_char (hex_digit (n div 16)), upper_char (hex_digit (n mod 16))])"

definition unreserved :: "char \<Rightarrow> bool" where
  "unreserved c \<longleftrightarrow> is_letter c \<or> is_digit c \<or> c \<in> set ''_.-~''"

definition quote :: "string \<Rightarrow> string" where
  "quote s = concat (map (\<lambda>c. if unreserved c then [c] else url_hex c) s)"

definition quote_plus :: "string \<Rightarrow> string" where
  "quote_plus s = concat (map (\<lambda>c. if unreserved c then [c] else if c = CHR '' '' then ''+'' else url_hex c) s)"

definition urlencode :: "(string \<times> json) list \<Rightarrow> string" where
  "urlencode kvs = join ''&'' (map (\<lambda>(k, v). quote_plus k @ ''='' @ quote_plus (py_str v)) kvs)"

section \<open>Links of a board\<close>

record board_link =
  ln_base :: "string option"
  ln_wiki :: "string option"
  ln_table :: "string option"
  ln_view :: "string option"

definition parse_lark_bitable_url :: "string option \<Rightarrow> board_link" where
  "parse_lark_bitable_url url =
     (case url of
        None \<Rightarrow> \<lparr>ln_base = None, ln_wiki = None, ln_table = None, ln_view = None\<rparr>
      | Some [] \<Rightarrow> \<lparr>ln_base = None, ln_wiki = None, ln_table = None, ln_view = None\<rparr>
      | Some u \<Rightarrow>
          let named = (\<lambda>name. case path_parts u of a # b # _ \<Rightarrow> if a = name then Some b else None | _ \<Rightarrow> None);
              query = query_pairs (snd (snd (url_parts u)))
          in \<lparr>ln_base = named ''base'', ln_wiki = named ''wiki'', ln_table = first_query_value query ''table'',
              ln_view = first_query_value query ''view''\<rparr>)"

definition open_origin :: "string \<Rightarrow> string" where
  "open_origin url = (if ends_with (url_host url) ''larksuite.com'' then ''https://open.larksuite.com'' else ''https://open.feishu.cn'')"

definition board_locale :: "string \<Rightarrow> string" where
  "board_locale url = (if ends_with (url_host url) ''larksuite.com'' then ''en'' else ''zh-CN'')"

section \<open>Quoting can be undone\<close>

lemma split_on_nonempty [simp]: "split_on d s \<noteq> []"
  by (cases s) (auto split: list.splits)

lemma hex_value_upper [simp]: "n < 16 \<Longrightarrow> hex_value (upper_char (hex_digit n)) = Some n"
  by (auto simp: hex_value_def hex_digit_def upper_char_def Let_def)

lemma unquote_quoted_char: "unquote_plus (url_hex c @ s) = c # unquote_plus s"
proof -
  have "16 * (of_char c div 16) + of_char c mod 16 = (of_char c :: nat)" by simp
  moreover have "(of_char c :: nat) div 16 < 16" using nat_of_char_less_256[of c] by (simp add: less_mult_imp_div_less)
  ultimately show ?thesis by (simp add: url_hex_def Let_def)
qed

lemma unquote_quote: "unquote_plus (quote_plus s) = s"
proof (induction s)
  case (Cons c s)
  have plain: "unreserved c \<Longrightarrow> c \<noteq> CHR ''+'' \<and> c \<noteq> CHR ''%''"
    by (auto simp: unreserved_def is_letter_def between_def is_digit_def)
  show ?case using plain Cons
    by (cases "unreserved c"; cases "c = CHR '' ''") (simp_all add: quote_plus_def unquote_quoted_char)
qed (simp add: quote_plus_def)

lemma unquote_quote_strict: "unquote_plus (quote s) = s"
proof (induction s)
  case (Cons c s)
  have plain: "unreserved c \<Longrightarrow> c \<noteq> CHR ''+'' \<and> c \<noteq> CHR ''%''"
    by (auto simp: unreserved_def is_letter_def between_def is_digit_def)
  show ?case using plain Cons
    by (cases "unreserved c") (simp_all add: quote_def unquote_quoted_char)
qed (simp add: quote_def)

end
