(* ===== verification/Lark_Client.thy ===== *)
theory Lark_Client
  imports Board_Cards Lark_Urls Turn_Reconciliation
begin

text \<open>
  The client of the board service in \<^verbatim>\<open>core/lark_board.py\<close>, with the helpers of \<^verbatim>\<open>core/db.py\<close> it
  calls: a user identity goes through the command line client, a bot identity through HTTP. A request is a value
  that names what is sent; what it does and answers is a parameter. An answer comes decoded: \<open>None\<close> is a text
  that is not JSON.
\<close>

section \<open>The state\<close>

record lark_identity =
  li_id :: string
  li_auth :: string
  li_app :: "string option"
  li_app_name :: "string option"
  li_app_avatar :: "string option"
  li_synced :: "int option"
  li_secret :: "string option"
  li_access_token :: "string option"
  li_refresh_token :: "string option"
  li_open_id :: "string option"
  li_user_name :: "string option"
  li_user_avatar :: "string option"
  li_status :: string
  li_verified :: "int option"
  li_error :: "string option"
  li_created :: int
  li_updated :: int

record lark_board =
  bd_id :: string
  bd_primary :: "string option"
  bd_url :: "string option"
  bd_token :: "string option"
  bd_table :: "string option"
  bd_view :: "string option"
  bd_access :: string
  bd_verified :: "int option"
  bd_error :: "string option"
  bd_listener :: string
  bd_listener_verified :: "int option"
  bd_listener_kind :: "string option"
  bd_listener_error :: "string option"
  bd_updated :: int

text \<open>The checks of an identity's access, with their states.\<close>

datatype access_check = Check_Auth | Check_Api | Check_Collaborator | Check_Read | Check_Write | Check_Cleanup

datatype check_state = Unverified | Running | Waiting_Turn | Passed | Failed | Blocked

record access_result =
  ac_identity :: string
  ac_verified :: bool
  ac_checks :: "access_check \<Rightarrow> check_state"
  ac_kind :: "string option"
  ac_scopes :: "string list"
  ac_repair :: "string option"
  ac_error :: "string option"
  ac_at :: "int option"
  ac_table :: "string option"
  ac_view :: "string option"
  ac_initialized :: bool
  ac_owner :: "bool option"
  ac_owner_error :: "string option"

text \<open>The rows of one workspace; \<open>lw_token\<close> is the token the client at work has cached.\<close>

record 's lark_world =
  lw_out :: 's
  lw_token :: "string option"
  lw_board :: "lark_board option"
  lw_identities :: "lark_identity list"
  lw_access :: "access_result list"
  lw_uuids :: nat

type_synonym ('s, 'a) lark = "('s lark_world, 'a) eff"

datatype cli_answer = Cli_Failed string string | Cli_Output "json option"

datatype http_answer = Http_Answered "json option" | Http_Refused "json option" | Http_Unreachable string

record http_request =
  hr_method :: string
  hr_url :: string
  hr_body :: "json option"
  hr_headers :: "(string \<times> string) list"

record 's lark_service =
  sv_cli :: "string list \<Rightarrow> ('s, cli_answer) lark"
  sv_http :: "http_request \<Rightarrow> ('s, http_answer) lark"
  sv_pause :: "('s, unit) lark"
  sv_time :: "'s lark_world \<Rightarrow> int"

section \<open>Processes and connections\<close>

definition run_lark_cli_json :: "'s lark_service \<Rightarrow> string list \<Rightarrow> ('s, dict) lark" where
  "run_lark_cli_json v args = bind_eff (sv_cli v args) (\<lambda>answer. of_result
     (case answer of
        Cli_Failed err out \<Rightarrow> Inl (ValueError
          (if strip err \<noteq> [] then strip err else if strip out \<noteq> [] then strip out else ''lark-cli command failed''))
      | Cli_Output None \<Rightarrow> Inl (ValueError ''lark-cli did not return JSON'')
      | Cli_Output (Some (JObj d)) \<Rightarrow> Inr d
      | Cli_Output (Some w) \<Rightarrow> Inl (ValueError ''lark-cli did not return a JSON object'')))"

text \<open>The error of a payload is its message; a body that is no object has no \<^verbatim>\<open>get\<close>.\<close>

definition coded :: "json \<Rightarrow> (dict \<times> string option) result" where
  "coded w =
     (case w of
        JObj p \<Rightarrow> Inr (p, if dget p ''code'' = JNull \<or> py_eq (dget p ''code'') (JInt 0) then None
                        else Some (py_str (py_or (dget p ''msg'') (JStr ''Lark API error''))))
      | _ \<Rightarrow> Inl (Raised Other_Class ''no attribute get''))"

definition read_json :: "'s lark_service \<Rightarrow> http_request \<Rightarrow> ('s, dict \<times> string option) lark" where
  "read_json v q = bind_eff (sv_http v q) (\<lambda>answer. of_result
     (case answer of
        Http_Unreachable e \<Rightarrow> Inr ([], Some e)
      | Http_Answered None \<Rightarrow> Inr ([], Some ''not JSON'')
      | Http_Answered (Some w) \<Rightarrow> coded w
      | Http_Refused None \<Rightarrow> Inl (ValueError ''not JSON'')
      | Http_Refused (Some w) \<Rightarrow> coded w))"

definition post_json :: "'s lark_service \<Rightarrow> string \<Rightarrow> dict \<Rightarrow> (string \<times> string) list \<Rightarrow> ('s, dict \<times> string option) lark" where
  "post_json v url payload headers = read_json v
     \<lparr>hr_method = ''POST'', hr_url = url, hr_body = Some (JObj payload),
      hr_headers = (''content-type'', ''application/json; charset=utf-8'') # headers\<rparr>"

definition get_json :: "'s lark_service \<Rightarrow> string \<Rightarrow> (string \<times> string) list \<Rightarrow> ('s, dict \<times> string option) lark" where
  "get_json v url headers = read_json v \<lparr>hr_method = ''GET'', hr_url = url, hr_body = None, hr_headers = headers\<rparr>"

text \<open>\<^verbatim>\<open>_lark_request_error\<close>; a message that is a JSON object stands for a missing payload.\<close>

definition error_payload :: "dict \<Rightarrow> string \<Rightarrow> dict" where
  "error_payload payload message =
     (if payload = [] \<and> starts_with (dropWhile is_space message) ''{''
      then (case loads message of Some (JObj d) \<Rightarrow> d | _ \<Rightarrow> []) else payload)"

fun violation_scopes :: "json list \<Rightarrow> string list" where
  "violation_scopes [] = []"
| "violation_scopes (JObj d # xs) =
     (let scope = py_or (dget d ''scope'') (dget d ''subject'') in
      (if truthy scope then [py_str scope] else []) @ violation_scopes xs)"
| "violation_scopes (x # xs) = violation_scopes xs"

fun first_link :: "json list \<Rightarrow> string \<Rightarrow> string" where
  "first_link [] link = link"
| "first_link (JObj d # xs) link = first_link xs (if link \<noteq> [] then link else text_of (dget d ''url''))"
| "first_link (x # xs) link = first_link xs link"

definition lark_request_error :: "dict \<Rightarrow> string \<Rightarrow> py_error" where
  "lark_request_error payload0 message =
     (let payload = error_payload payload0 message;
          data = as_dict (dget payload ''error'');
          violations = as_items (py_or (dget data ''permission_violations'') (dget payload ''permission_violations''));
          helps = as_items (py_or (dget data ''helps'') (dget payload ''helps''));
          code = py_or (dget payload ''code'') (dget data ''code'');
          detail = py_or (py_or (dget payload ''msg'') (dget data ''message'')) (JStr message)
      in LarkRequestError (py_str detail) (text_of code) (violation_scopes violations)
           (first_link helps (first_link violations [])))"

section \<open>A client\<close>

record client =
  ct_identity :: lark_identity
  ct_base :: string
  ct_origin :: string
  ct_user :: bool

definition option_text :: "string option \<Rightarrow> string" where
  "option_text x = (case x of None \<Rightarrow> [] | Some s \<Rightarrow> s)"

definition lark_user_status_values :: "dict \<Rightarrow> string option \<Rightarrow> (string \<times> string \<times> string) result" where
  "lark_user_status_values status expected =
     (let app = strip (text_of (dget status ''appId'')); opened = strip (text_of (dget status ''userOpenId''));
          name = strip (text_of (dget status ''userName''))
      in if dget status ''tokenStatus'' \<noteq> JStr ''valid'' then
           Inl (ValueError (py_str (py_or (dget status ''note'') (JStr ''Lark user authorization is unavailable; authorize again''))))
         else if app = [] \<or> opened = [] then Inl (ValueError ''Lark user authorization did not return an app or user identity'')
         else if option_text expected \<noteq> [] \<and> opened \<noteq> option_text expected then
           Inl (ValueError ''the active Lark user does not match the TeamFlow identity'')
         else Inr (app, opened, if name = [] then opened else name))"

definition client_for :: "lark_identity \<Rightarrow> lark_board \<Rightarrow> client" where
  "client_for i b =
     \<lparr>ct_identity = i, ct_base = option_text (bd_token b), ct_origin = open_origin (option_text (bd_url b)),
      ct_user = (li_auth i = ''user'')\<rparr>"

definition open_client :: "'s lark_service \<Rightarrow> lark_identity \<Rightarrow> lark_board \<Rightarrow> ('s, client) lark" where
  "open_client v i b =
     bind_eff (if li_auth i = ''user'' then
         bind_eff (run_lark_cli_json v [''auth'', ''status'', ''--verify'']) (\<lambda>status.
         bind_eff (of_result (lark_user_status_values status (li_open_id i))) (\<lambda>(app, _).
         of_result (if option_text (li_app i) \<noteq> [] \<and> option_text (li_app i) \<noteq> app
           then Inl (ValueError (''lark-cli is configured for '' @ app @ '', but this identity uses '' @ option_text (li_app i)))
           else Inr ())))
       else of_result (if option_text (li_app i) = [] \<or> option_text (li_secret i) = []
         then Inl (ValueError ''the configured Lark bot identity is incomplete'') else Inr ()))
     (\<lambda>_. bind_eff (write_eff (\<lambda>s. s\<lparr>lw_token := None\<rparr>)) (\<lambda>_. of_result (Inr (client_for i b))))"

definition token_request :: "string \<Rightarrow> string option \<Rightarrow> string option \<Rightarrow> string \<times> dict" where
  "token_request origin app secret =
     (origin @ ''/open-apis/auth/v3/tenant_access_token/internal'',
      [(''app_id'', JStr (option_text app)), (''app_secret'', JStr (option_text secret))])"

definition tenant_token :: "'s lark_service \<Rightarrow> client \<Rightarrow> ('s, string) lark" where
  "tenant_token v c =
     bind_eff (read_eff lw_token) (\<lambda>cached.
     case nonempty cached of
       Some t \<Rightarrow> of_result (Inr t)
     | None \<Rightarrow>
         let (url, body) = token_request (ct_origin c) (li_app (ct_identity c)) (li_secret (ct_identity c)) in
         bind_eff (post_json v url body []) (\<lambda>(payload, err).
         let t = text_of (dget payload ''tenant_access_token'') in
         bind_eff (write_eff (\<lambda>s. s\<lparr>lw_token := Some t\<rparr>)) (\<lambda>_.
         of_result (if option_text err \<noteq> [] then Inl (ValueError (option_text err))
                    else if t = [] then Inl (ValueError (py_str (py_or (dget payload ''msg'') (JStr ''failed to get tenant access token''))))
                    else Inr t))))"

definition bot_request ::
  "'s lark_service \<Rightarrow> client \<Rightarrow> string \<Rightarrow> string \<Rightarrow> (string \<times> json) list \<Rightarrow> json option \<Rightarrow> ('s, dict) lark" where
  "bot_request v c verb path query body =
     bind_eff (tenant_token v c) (\<lambda>t.
     bind_eff (read_json v \<lparr>hr_method = verb,
         hr_url = ct_origin c @ path @ (if query = [] then [] else ''?'' @ urlencode query), hr_body = body,
         hr_headers = [(''Authorization'', ''Bearer '' @ t), (''Content-Type'', ''application/json; charset=utf-8'')]\<rparr>)
     (\<lambda>(payload, err). of_result
        (if option_text err \<noteq> [] then Inl (lark_request_error payload (option_text err)) else Inr (answer_data payload))))"

definition user_command :: "'s lark_service \<Rightarrow> client \<Rightarrow> string \<Rightarrow> string list \<Rightarrow> ('s, dict) lark" where
  "user_command v c name args =
     bind_eff (run_lark_cli_json v ([''base'', name, ''--as'', ''user'', ''--base-token'', ct_base c] @ args)) (\<lambda>payload.
     of_result (if dget payload ''ok'' = JBool False
       then Inl (ValueError (py_str (py_or (py_or (dget payload ''error'') (dget payload ''message'')) (JStr ''Lark CLI request failed''))))
       else Inr (answer_data payload)))"

definition lark_errors :: "('s, 'a) lark \<Rightarrow> ('s, 'a) lark" where
  "lark_errors m = catch_eff m (\<lambda>e. of_result (Inl (if is_value_error e then lark_request_error [] (error_text e) else e)))"

definition user_api ::
  "'s lark_service \<Rightarrow> string \<Rightarrow> string \<Rightarrow> (string \<times> json) list \<Rightarrow> json option \<Rightarrow> ('s, dict) lark" where
  "user_api v verb path query body =
     bind_eff (lark_errors (run_lark_cli_json v ([''api'', verb, path, ''--as'', ''user''] @
         (if query = [] then [] else [''--params'', compact (JObj query)]) @
         (case body of None \<Rightarrow> [] | Some b \<Rightarrow> [''--data'', compact b]))))
     (\<lambda>payload. of_result (Inr (answer_data payload)))"

section \<open>Questions about the board\<close>

definition drive_path :: "client \<Rightarrow> string \<Rightarrow> string" where
  "drive_path c rest = ''/open-apis/drive/v1/permissions/'' @ quote (ct_base c) @ rest"

definition check_document_permission :: "'s lark_service \<Rightarrow> client \<Rightarrow> string \<Rightarrow> ('s, bool) lark" where
  "check_document_permission v c action =
     bind_eff (if ct_user c then
         bind_eff (lark_errors (run_lark_cli_json v [''drive'', ''permission.members'', ''auth'', ''--as'', ''user'', ''--params'',
           compact (JObj [(''token'', JStr (ct_base c)), (''type'', JStr ''bitable''), (''action'', JStr action)])]))
         (\<lambda>payload. of_result (Inr (answer_data payload)))
       else bot_request v c ''GET'' (drive_path c ''/members/auth'') [(''type'', JStr ''bitable''), (''action'', JStr action)] None)
     (\<lambda>data. of_result (Inr (truthy (dget data ''auth_result''))))"

definition add_collaborator :: "'s lark_service \<Rightarrow> client \<Rightarrow> string \<Rightarrow> ('s, unit) lark" where
  "add_collaborator v c open_id =
     (let data = [(''member_type'', JStr ''openid''), (''member_id'', JStr open_id), (''perm'', JStr ''edit''), (''type'', JStr ''user'')] in
      bind_eff (if ct_user c then
          run_lark_cli_json v [''drive'', ''permission.members'', ''create'', ''--as'', ''user'', ''--params'',
            compact (JObj [(''token'', JStr (ct_base c)), (''type'', JStr ''bitable'')]), ''--data'', compact (JObj data)]
        else bot_request v c ''POST'' (drive_path c ''/members'') [(''type'', JStr ''bitable'')] (Some (JObj data)))
      (\<lambda>_. of_result (Inr ())))"

text \<open>\<^verbatim>\<open>data.get(key) or data\<close>\<close>

definition unwrapped :: "string \<Rightarrow> dict \<Rightarrow> dict" where
  "unwrapped k data = as_dict (py_or (dget data k) (JObj data))"

definition get_bot_info :: "'s lark_service \<Rightarrow> client \<Rightarrow> ('s, dict) lark" where
  "get_bot_info v c =
     (if ct_user c then of_result (Inl (ValueError ''bot information requires an application identity''))
      else bind_eff (bot_request v c ''GET'' ''/open-apis/bot/v3/info'' [] None) (\<lambda>data. of_result (Inr (unwrapped ''bot'' data))))"

definition identity_open_id :: "'s lark_service \<Rightarrow> client \<Rightarrow> ('s, string) lark" where
  "identity_open_id v c =
     (if ct_user c then of_result (Inr (option_text (li_open_id (ct_identity c))))
      else bind_eff (get_bot_info v c) (\<lambda>info. of_result (Inr (text_of (dget info ''open_id'')))))"

definition get_file_metadata :: "'s lark_service \<Rightarrow> client \<Rightarrow> ('s, dict) lark" where
  "get_file_metadata v c =
     (let path = ''/open-apis/drive/v1/metas/batch_query''; query = [(''user_id_type'', JStr ''open_id'')];
          body = Some (JObj [(''request_docs'', JList [JObj [(''doc_token'', JStr (ct_base c)), (''doc_type'', JStr ''bitable'')]]),
                             (''with_url'', JBool True)])
      in bind_eff (if ct_user c then user_api v ''POST'' path query body else bot_request v c ''POST'' path query body)
         (\<lambda>data. of_result (case as_items (dget data ''metas'') of
            [] \<Rightarrow> Inl (ValueError ''Lark did not return Bitable file metadata'') | x # xs \<Rightarrow> Inr (as_dict x))))"

definition file_path :: "client \<Rightarrow> string \<Rightarrow> string" where
  "file_path c rest = ''/open-apis/drive/v1/files/'' @ quote (ct_base c) @ rest"

definition file_events_subscribed :: "'s lark_service \<Rightarrow> client \<Rightarrow> ('s, bool) lark" where
  "file_events_subscribed v c =
     (let path = file_path c ''/get_subscribe''; query = [(''file_type'', JStr ''bitable'')] in
      bind_eff (if ct_user c then user_api v ''GET'' path query None else bot_request v c ''GET'' path query None)
        (\<lambda>data. of_result (Inr (truthy (dget data ''is_subscribe'')))))"

definition subscribe_file_events :: "'s lark_service \<Rightarrow> client \<Rightarrow> ('s, unit) lark" where
  "subscribe_file_events v c =
     (let path = file_path c ''/subscribe''; query = [(''file_type'', JStr ''bitable'')] in
      bind_eff (if ct_user c then user_api v ''POST'' path query None else bot_request v c ''POST'' path query None)
        (\<lambda>_. of_result (Inr ())))"

definition authenticate :: "'s lark_service \<Rightarrow> client \<Rightarrow> ('s, unit) lark" where
  "authenticate v c = (if ct_user c then of_result (Inr ()) else bind_eff (tenant_token v c) (\<lambda>_. of_result (Inr ())))"

section \<open>Tables, columns, views and records\<close>

definition base_path :: "client \<Rightarrow> string list \<Rightarrow> string" where
  "base_path c parts = ''/open-apis/base/v3/bases/'' @ quote (ct_base c) @ concat (map (\<lambda>p. ''/'' @ p) parts)"

definition either_request ::
  "'s lark_service \<Rightarrow> client \<Rightarrow> string \<Rightarrow> string list \<Rightarrow> string \<Rightarrow> string list \<Rightarrow> (string \<times> json) list \<Rightarrow> json option \<Rightarrow> ('s, dict) lark" where
  "either_request v c name args verb parts query body =
     (if ct_user c then user_command v c name args else bot_request v c verb (base_path c parts) query body)"

definition get_base :: "'s lark_service \<Rightarrow> client \<Rightarrow> ('s, dict) lark" where
  "get_base v c = bind_eff (either_request v c ''+base-get'' [] ''GET'' [] [] None) (\<lambda>data. of_result (Inr (unwrapped ''base'' data)))"

definition paging :: "int \<Rightarrow> int \<Rightarrow> (string \<times> json) list" where
  "paging limit off = [(''limit'', JInt limit), (''offset'', JInt off)]"

definition paging_args :: "int \<Rightarrow> int \<Rightarrow> string list" where
  "paging_args limit off = [''--limit'', int_str limit, ''--offset'', int_str off]"

definition list_tables :: "'s lark_service \<Rightarrow> client \<Rightarrow> ('s, board_table list) lark" where
  "list_tables v c = bind_eff (either_request v c ''+table-list'' (paging_args 100 0) ''GET'' [''tables''] (paging 100 0) None)
     (\<lambda>data. of_result (Inr (map table_of (item_list data))))"

definition table_args :: "string \<Rightarrow> string list \<Rightarrow> string list" where
  "table_args t args = [''--table-id'', t] @ args"

definition table_parts :: "string \<Rightarrow> string list \<Rightarrow> string list" where
  "table_parts t parts = [''tables'', quote t] @ parts"

definition list_fields :: "'s lark_service \<Rightarrow> client \<Rightarrow> string \<Rightarrow> ('s, board_field list) lark" where
  "list_fields v c t = bind_eff (either_request v c ''+field-list'' (table_args t (paging_args 200 0)) ''GET'' (table_parts t [''fields'']) (paging 200 0) None)
     (\<lambda>data. of_result (Inr (map field_of (item_list data))))"

definition list_views :: "'s lark_service \<Rightarrow> client \<Rightarrow> string \<Rightarrow> ('s, board_view list) lark" where
  "list_views v c t = bind_eff (either_request v c ''+view-list'' (table_args t (paging_args 100 0)) ''GET'' (table_parts t [''views'']) (paging 100 0) None)
     (\<lambda>data. of_result (Inr (map view_of (item_list data))))"

definition completed_table :: "string \<Rightarrow> board_table \<Rightarrow> board_field list \<Rightarrow> board_table" where
  "completed_table t table fs =
     table\<lparr>bt_id := py_or (bt_id table) (JStr t),
           bt_primary := (if truthy (bt_primary table) then bt_primary table
                          else case List.find bf_primary fs of None \<Rightarrow> bt_primary table | Some f \<Rightarrow> bf_id f)\<rparr>"

definition get_table :: "'s lark_service \<Rightarrow> client \<Rightarrow> string \<Rightarrow> ('s, board_bundle) lark" where
  "get_table v c t =
     bind_eff (if ct_user c then
         bind_eff (user_command v c ''+table-get'' [''--table-id'', t]) (\<lambda>data. of_result (Inr
           (table_of (as_dict (dget data ''table'')), map (\<lambda>x. field_of (as_dict x)) (as_items (dget data ''fields'')),
            map (\<lambda>x. view_of (as_dict x)) (as_items (dget data ''views'')))))
       else bind_eff (bot_request v c ''GET'' (base_path c (table_parts t [])) [] None) (\<lambda>data.
            bind_eff (list_fields v c t) (\<lambda>fs. bind_eff (list_views v c t) (\<lambda>vs.
            of_result (Inr (table_of (unwrapped ''table'' data), fs, vs))))))
     (\<lambda>(table, fs, vs). of_result (Inr \<lparr>bu_table = completed_table t table fs, bu_fields = fs, bu_views = vs\<rparr>))"

definition create_table :: "'s lark_service \<Rightarrow> client \<Rightarrow> string \<Rightarrow> string \<Rightarrow> ('s, board_table) lark" where
  "create_table v c name primary =
     bind_eff (either_request v c ''+table-create'' [''--name'', name, ''--fields'',
         compact (JList [JObj [(''name'', JStr primary), (''type'', JStr ''text'')]])]
       ''POST'' [''tables''] [] (Some (JObj [(''name'', JStr name)]))) (\<lambda>data.
     let table = table_of (unwrapped ''table'' data) in
     of_result (if truthy (bt_id table) then Inr table else Inl (ValueError ''Lark did not return the created table ID'')))"

definition update_table :: "'s lark_service \<Rightarrow> client \<Rightarrow> string \<Rightarrow> string \<Rightarrow> ('s, board_table) lark" where
  "update_table v c t name =
     bind_eff (either_request v c ''+table-update'' (table_args t [''--name'', name]) ''PATCH'' (table_parts t []) []
       (Some (JObj [(''name'', JStr name)]))) (\<lambda>data. of_result (Inr (table_of (unwrapped ''table'' data))))"

text \<open>A column specification as it is sent.\<close>

definition spec_json :: "field_spec \<Rightarrow> dict" where
  "spec_json spec =
     [(''name'', JStr (fs_name spec)), (''type'', JStr (fs_type spec))] @
     (case fs_style spec of None \<Rightarrow> [] | Some d \<Rightarrow> [(''style'', JObj d)]) @
     (case fs_options spec of None \<Rightarrow> [] | Some os \<Rightarrow> [(''multiple'', JBool False), (''options'', JList (map JObj os))])"

definition get_field :: "'s lark_service \<Rightarrow> client \<Rightarrow> string \<Rightarrow> json \<Rightarrow> ('s, board_field) lark" where
  "get_field v c t fid =
     bind_eff (either_request v c ''+field-get'' (table_args t [''--field-id'', py_str fid]) ''GET''
       (table_parts t [''fields'', quote (py_str fid)]) [] None) (\<lambda>data. of_result (Inr (field_of (unwrapped ''field'' data))))"

definition create_field :: "'s lark_service \<Rightarrow> client \<Rightarrow> string \<Rightarrow> field_spec \<Rightarrow> ('s, board_field) lark" where
  "create_field v c t spec =
     bind_eff (either_request v c ''+field-create'' (table_args t [''--json'', compact (JObj (spec_json spec))]) ''POST''
       (table_parts t [''fields'']) [] (Some (JObj (spec_json spec)))) (\<lambda>data.
     let f = field_of (unwrapped ''field'' data) in
     of_result (if truthy (bf_id f) then Inr f
                else Inl (ValueError (''Lark did not return the created field ID for '' @ fs_name spec))))"

definition update_field :: "'s lark_service \<Rightarrow> client \<Rightarrow> string \<Rightarrow> json \<Rightarrow> field_spec \<Rightarrow> ('s, board_field) lark" where
  "update_field v c t fid spec =
     bind_eff (either_request v c ''+field-update'' (table_args t [''--field-id'', py_str fid, ''--json'', compact (JObj (spec_json spec))])
       ''PUT'' (table_parts t [''fields'', quote (py_str fid)]) [] (Some (JObj (spec_json spec))))
     (\<lambda>data. of_result (Inr (field_of (unwrapped ''field'' data))))"

definition create_view :: "'s lark_service \<Rightarrow> client \<Rightarrow> string \<Rightarrow> string \<Rightarrow> ('s, board_view) lark" where
  "create_view v c t name =
     (let spec = JObj [(''name'', JStr name), (''type'', JStr ''kanban'')] in
      bind_eff (either_request v c ''+view-create'' (table_args t [''--json'', compact spec]) ''POST'' (table_parts t [''views'']) [] (Some spec)) (\<lambda>data.
      let w = view_of (as_dict (py_or (dget data ''view'')
            (case as_items (dget data ''views'') of [] \<Rightarrow> JObj data | x # xs \<Rightarrow> x))) in
      of_result (if truthy (bv_id w) then Inr w else Inl (ValueError ''Lark did not return the created view ID''))))"

definition rename_view :: "'s lark_service \<Rightarrow> client \<Rightarrow> string \<Rightarrow> string \<Rightarrow> string \<Rightarrow> ('s, board_view) lark" where
  "rename_view v c t w name =
     bind_eff (either_request v c ''+view-rename'' (table_args t [''--view-id'', w, ''--name'', name]) ''PATCH''
       (table_parts t [''views'', quote w]) [] (Some (JObj [(''name'', JStr name)]))) (\<lambda>data. of_result (Inr (view_of (unwrapped ''view'' data))))"

definition set_view_group :: "'s lark_service \<Rightarrow> client \<Rightarrow> string \<Rightarrow> string \<Rightarrow> string \<Rightarrow> ('s, unit) lark" where
  "set_view_group v c t w fid =
     (let group = JList [JObj [(''field'', JStr fid), (''desc'', JBool False)]] in
      bind_eff (either_request v c ''+view-set-group'' (table_args t [''--view-id'', w, ''--json'', compact group]) ''PUT''
        (table_parts t [''views'', quote w, ''group'']) [] (Some (JObj [(''group_config'', group)]))) (\<lambda>_. of_result (Inr ())))"

definition list_records :: "'s lark_service \<Rightarrow> client \<Rightarrow> string \<Rightarrow> string option \<Rightarrow> int \<Rightarrow> int \<Rightarrow> ('s, dict list \<times> bool) lark" where
  "list_records v c t view limit off =
     (let w = option_text view in
      bind_eff (either_request v c ''+record-list''
        (table_args t (paging_args limit off @ (if w = [] then [] else [''--view-id'', w]))) ''GET'' (table_parts t [''records''])
        (paging limit off @ (if w = [] then [] else [(''view_id'', JStr w)])) None)
      (\<lambda>data. of_result (Inr (record_page data))))"

definition get_record :: "'s lark_service \<Rightarrow> client \<Rightarrow> string \<Rightarrow> string \<Rightarrow> ('s, dict) lark" where
  "get_record v c t rid =
     bind_eff (either_request v c ''+record-get'' (table_args t [''--record-id'', rid]) ''GET'' (table_parts t [''records'', quote rid]) [] None)
     (\<lambda>data. of_result (Inr (single_record (unwrapped ''record'' data) (Some rid))))"

text \<open>With a token the record goes to another interface, whose repeated calls with the token count once.\<close>

definition upsert_record ::
  "'s lark_service \<Rightarrow> client \<Rightarrow> string \<Rightarrow> dict \<Rightarrow> string option \<Rightarrow> string option \<Rightarrow> ('s, dict) lark" where
  "upsert_record v c t payload rid token =
     (let r = option_text rid; k = option_text token in
      bind_eff
        (if k \<noteq> [] then
           (let path = ''/open-apis/bitable/v1/apps/'' @ quote (ct_base c) @ ''/tables/'' @ quote t @ ''/records'' @
                  (if r = [] then [] else ''/'' @ quote r);
                verb = (if r = [] then ''POST'' else ''PUT''); query = [(''client_token'', JStr k)];
                body = Some (JObj [(''fields'', JObj payload)])
            in if ct_user c then user_api v verb path query body else bot_request v c verb path query body)
         else if ct_user c then
           user_command v c ''+record-upsert'' (table_args t ([''--json'', compact (JObj payload)] @ (if r = [] then [] else [''--record-id'', r])))
         else bot_request v c (if r = [] then ''POST'' else ''PATCH'')
                (base_path c (table_parts t (''records'' # (if r = [] then [] else [quote r])))) [] (Some (JObj payload)))
      (\<lambda>data. of_result (Inr (single_record (unwrapped ''record'' data) rid))))"

definition delete_record :: "'s lark_service \<Rightarrow> client \<Rightarrow> string \<Rightarrow> string \<Rightarrow> ('s, unit) lark" where
  "delete_record v c t rid =
     bind_eff (either_request v c ''+record-delete'' (table_args t [''--record-id'', rid, ''--yes'']) ''DELETE''
       (table_parts t [''records'', quote rid]) [] None) (\<lambda>_. of_result (Inr ()))"

end
