(* ===== verification/Board_Access.thy ===== *)
theory Board_Access
  imports Lark_Client Teamflow_Queries
begin

text \<open>
  The operations of \<^verbatim>\<open>core/lark_board.py\<close> on the cards of a configured board: the columns are brought up to
  the definition, and cards are listed, read and written with the identity the board was verified with.
\<close>

section \<open>Columns of the board\<close>

fun put_field :: "board_field \<Rightarrow> board_field \<Rightarrow> board_field list \<Rightarrow> board_field list" where
  "put_field old new [] = []"
| "put_field old new (f # fs) = (if f = old then new # fs else f # put_field old new fs)"

text \<open>A select column by its own name: its options are read if need be, and the missing ones are added.\<close>

definition complete_options ::
  "'s lark_service \<Rightarrow> client \<Rightarrow> string \<Rightarrow> field_spec \<Rightarrow> board_field \<Rightarrow> ('s, board_field) lark" where
  "complete_options v c t spec f0 =
     bind_eff (if bf_options f0 = [] then get_field v c t (bf_id f0) else of_result (Inr f0)) (\<lambda>f.
     case fs_options spec of
       None \<Rightarrow> of_result (Inl (KeyError ''options''))
     | Some desired \<Rightarrow>
         (case merged_options (bf_options f) desired of
            None \<Rightarrow> of_result (Inr f)
          | Some options \<Rightarrow> bind_eff (update_field v c t (bf_id f) (spec\<lparr>fs_options := Some options\<rparr>)) (\<lambda>updated.
              of_result (Inr (updated\<lparr>bf_options := map JObj options\<rparr>)))))"

definition ensure_field ::
  "'s lark_service \<Rightarrow> client \<Rightarrow> string \<Rightarrow> (string \<times> string list) list \<Rightarrow> string \<times> field_spec \<Rightarrow> board_field list \<Rightarrow>
   ('s, board_field list) lark" where
  "ensure_field v c t aliases = (\<lambda>(key, spec) fs.
     bind_eff (of_result (find_task_field fs spec (assoc_list aliases key) True)) (\<lambda>found.
       case found of
         None \<Rightarrow> bind_eff (create_field v c t spec) (\<lambda>f. of_result (Inr (fs @ [f])))
       | Some f \<Rightarrow>
           if fs_type spec = ''select'' \<and> bf_name f = JStr (fs_name spec)
           then bind_eff (complete_options v c t spec f) (\<lambda>f'. of_result (Inr (put_field f f' fs)))
           else of_result (Inr fs)))"

fun ensure_task_fields ::
  "'s lark_service \<Rightarrow> client \<Rightarrow> string \<Rightarrow> (string \<times> string list) list \<Rightarrow> (string \<times> field_spec) list \<Rightarrow> board_field list \<Rightarrow>
   ('s, board_field list) lark" where
  "ensure_task_fields v c t aliases [] fs = of_result (Inr fs)"
| "ensure_task_fields v c t aliases (s # specs) fs =
     bind_eff (ensure_field v c t aliases s fs) (ensure_task_fields v c t aliases specs)"

section \<open>The configured board\<close>

definition lark_identity_is_usable :: "lark_identity \<Rightarrow> bool" where
  "lark_identity_is_usable i \<longleftrightarrow>
     (if li_auth i = ''bot'' then option_text (li_app i) \<noteq> [] \<and> option_text (li_secret i) \<noteq> []
      else option_text (li_open_id i) \<noteq> [] \<and> li_status i = ''verified'')"

definition find_identity :: "string \<Rightarrow> 's lark_world \<Rightarrow> lark_identity option" where
  "find_identity i s = List.find (\<lambda>x. li_id x = i) (lw_identities s)"

definition find_access :: "string \<Rightarrow> 's lark_world \<Rightarrow> access_result option" where
  "find_access i s = List.find (\<lambda>x. ac_identity x = i) (lw_access s)"

text \<open>A row that refers to an identity that was removed meanwhile is refused by the foreign keys.\<close>

definition known_identity :: "string \<Rightarrow> 's lark_world \<Rightarrow> bool" where
  "known_identity i s \<longleftrightarrow> i \<in> li_id ` set (lw_identities s)"

definition foreign_key_error :: py_error where
  "foreign_key_error = Raised Other_Class ''FOREIGN KEY constraint failed''"

definition board_context :: "'s lark_world \<Rightarrow> (lark_board \<times> lark_identity) result" where
  "board_context s =
     (case lw_board s of
        None \<Rightarrow> Inl (ValueError ''configure a Lark Bitable before accessing the board'')
      | Some b \<Rightarrow>
          if option_text (bd_token b) = [] then Inl (ValueError ''configure a Lark Bitable before accessing the board'')
          else (case nonempty (bd_primary b) of
            None \<Rightarrow> Inl (ValueError ''the configured Bitable owner or manager identity has not been selected'')
          | Some i \<Rightarrow> (case find_identity i s of
              None \<Rightarrow> Inl (ValueError ''the Bitable primary identity is unavailable'')
            | Some ident \<Rightarrow>
                if \<not> lark_identity_is_usable ident then Inl (ValueError ''the Bitable primary identity is unavailable'')
                else if lw_access s \<noteq> [] \<and> (case find_access i s of None \<Rightarrow> True | Some a \<Rightarrow> \<not> ac_verified a)
                then Inl (ValueError ''the Bitable primary identity does not have verified access'')
                else Inr (b, ident))))"

definition update_board :: "(lark_board \<Rightarrow> lark_board) \<Rightarrow> ('s, unit) lark" where
  "update_board f = write_eff (\<lambda>s. s\<lparr>lw_board := map_option f (lw_board s)\<rparr>)"

definition save_board_success ::
  "'s lark_service \<Rightarrow> string option \<Rightarrow> string option \<Rightarrow> string option \<Rightarrow> ('s, unit) lark" where
  "save_board_success v t w url = bind_eff (read_eff (sv_time v)) (\<lambda>now. update_board
     (\<lambda>b. b\<lparr>bd_table := t, bd_view := w, bd_url := coalesce url (bd_url b), bd_error := None, bd_updated := now\<rparr>))"

definition save_board_failure :: "'s lark_service \<Rightarrow> py_error \<Rightarrow> ('s, unit) lark" where
  "save_board_failure v e = bind_eff (read_eff (sv_time v)) (\<lambda>now. update_board
     (\<lambda>b. b\<lparr>bd_error := Some (error_text e), bd_updated := now\<rparr>))"

definition noting_failure :: "'s lark_service \<Rightarrow> ('s, 'a) lark \<Rightarrow> ('s, 'a) lark" where
  "noting_failure v m = catch_eff m (\<lambda>e. bind_eff (save_board_failure v e) (\<lambda>_. of_result (Inl e)))"

section \<open>Cards of the board\<close>

record task_context =
  tc_board :: lark_board
  tc_client :: client
  tc_columns :: "(string \<times> json) list"
  tc_maps :: "(string \<times> (string \<times> string) list) list"
  tc_aliases :: "(string \<times> (string \<times> string) list) list"

text \<open>The definition \<open>w\<close> is the loaded one of the workspace.\<close>

definition card_context :: "'s lark_service \<Rightarrow> dict result \<Rightarrow> ('s, task_context) lark" where
  "card_context v loaded =
     bind_eff (\<lambda>s. (board_context s, s)) (\<lambda>(b, ident).
     let t = option_text (bd_table b); locale = board_locale (option_text (bd_url b)) in
     if t = [] then of_result (Inl not_initialized)
     else bind_eff (of_result loaded) (\<lambda>w.
      bind_eff (of_result (task_field_specs w locale None)) (\<lambda>specs.
      bind_eff (open_client v ident b) (\<lambda>c.
      bind_eff (get_table v c t) (\<lambda>bundle.
      bind_eff (ensure_task_fields v c t task_field_aliases specs (bu_fields bundle)) (\<lambda>fs.
      bind_eff (of_result (task_field_map (bundle\<lparr>bu_fields := fs\<rparr>) specs task_field_aliases True)) (\<lambda>columns.
      bind_eff (of_result (task_option_maps w locale)) (\<lambda>maps.
      of_result (case columns of
          None \<Rightarrow> Inl not_initialized
        | Some cs \<Rightarrow> Inr \<lparr>tc_board = b, tc_client = c, tc_columns = cs, tc_maps = maps, tc_aliases = task_option_aliases w\<rparr>)))))))))"

abbreviation board_table_id :: "task_context \<Rightarrow> string" where
  "board_table_id x \<equiv> option_text (bd_table (tc_board x))"

definition note_success :: "'s lark_service \<Rightarrow> task_context \<Rightarrow> ('s, unit) lark" where
  "note_success v x = save_board_success v (bd_table (tc_board x)) (bd_view (tc_board x)) None"

definition card_in :: "task_context \<Rightarrow> dict \<Rightarrow> dict" where
  "card_in x r = card_of (tc_columns x) (tc_aliases x) r"

definition list_lark_tasks :: "'s lark_service \<Rightarrow> dict result \<Rightarrow> int \<Rightarrow> int \<Rightarrow> ('s, dict list \<times> bool) lark" where
  "list_lark_tasks v w limit off =
     (if \<not> (1 \<le> limit \<and> limit \<le> 200) then of_result (Inl (ValueError ''limit must be between 1 and 200''))
      else if off < 0 then of_result (Inl (ValueError ''offset must be zero or greater''))
      else bind_eff (card_context v w) (\<lambda>x.
      noting_failure v (bind_eff (list_records v (tc_client x) (board_table_id x) None limit off) (\<lambda>(records, more).
        bind_eff (note_success v x) (\<lambda>_. of_result (Inr (map (card_in x) records, more)))))))"

definition get_lark_task :: "'s lark_service \<Rightarrow> dict result \<Rightarrow> string \<Rightarrow> ('s, dict) lark" where
  "get_lark_task v w rid =
     bind_eff (card_context v w) (\<lambda>x.
     noting_failure v (bind_eff (get_record v (tc_client x) (board_table_id x) rid) (\<lambda>r.
       bind_eff (note_success v x) (\<lambda>_. of_result (Inr (card_in x r))))))"

text \<open>\<^verbatim>\<open>_read_new_record\<close>: a record that is not found yet is read again, three times at most.\<close>

fun retry_read :: "nat \<Rightarrow> 's lark_service \<Rightarrow> ('s, dict) lark \<Rightarrow> ('s, dict) lark" where
  "retry_read 0 v m = m"
| "retry_read (Suc n) v m = catch_eff m (\<lambda>e.
     if contains_text (map lower_char (error_text e)) ''not_found''
     then bind_eff (sv_pause v) (\<lambda>_. retry_read n v m) else of_result (Inl e))"

definition read_new_record :: "'s lark_service \<Rightarrow> client \<Rightarrow> string \<Rightarrow> string \<Rightarrow> ('s, dict) lark" where
  "read_new_record v c t rid = retry_read 3 v (get_record v c t rid)"

definition record_identifier :: "dict \<Rightarrow> string" where
  "record_identifier r = text_of (py_or (dget r ''record_id'') (dget r ''id''))"

definition check_upsert :: "dict \<Rightarrow> string option \<Rightarrow> unit result" where
  "check_upsert task rid =
     (if \<exists>k \<in> set (map fst task). k \<notin> set TASK_FIELD_KEYS
      then Inl (ValueError (''unsupported task fields: '' @ join '', '' (sorted_set (filter (\<lambda>k. k \<notin> set TASK_FIELD_KEYS) (map fst task)))))
      else if nonempty rid = None \<and> strip (text_of (dget task ''title'')) = []
      then Inl (ValueError ''title is required when creating a task'')
      else if task = [] then Inl (ValueError ''task fields are required'')
      else if map_of task ''task_id'' \<noteq> None then Inl (ValueError ''task_id is generated by Lark and cannot be written'')
      else Inr ())"

definition upsert_lark_task ::
  "'s lark_service \<Rightarrow> dict result \<Rightarrow> dict \<Rightarrow> string option \<Rightarrow> string option \<Rightarrow> ('s, bool \<times> dict) lark" where
  "upsert_lark_task v w task rid token =
     bind_eff (of_result (check_upsert task rid)) (\<lambda>_.
     bind_eff (card_context v w) (\<lambda>x.
     bind_eff (of_result (write_fields (tc_columns x) (tc_maps x) (tc_aliases x) task [])) (\<lambda>payload.
     noting_failure v (bind_eff (upsert_record v (tc_client x) (board_table_id x) payload rid token) (\<lambda>r.
       let saved_id = (if record_identifier r \<noteq> [] then record_identifier r else option_text rid) in
       if saved_id = [] then of_result (Inl (ValueError ''Lark did not return the task record ID''))
       else bind_eff (read_new_record v (tc_client x) (board_table_id x) saved_id) (\<lambda>read.
            bind_eff (note_success v x) (\<lambda>_. of_result (Inr (rid = None, card_in x read)))))))))"

section \<open>Empty tables\<close>

fun has_content :: "json \<Rightarrow> bool" where
  "has_content JNull = False"
| "has_content (JStr s) = (strip s \<noteq> [])"
| "has_content (JList xs) = (\<exists>x \<in> set xs. has_content x)"
| "has_content (JObj d) = (\<exists>(k, v) \<in> set d. has_content v)"
| "has_content (JBool b) = True"
| "has_content (JInt i) = True"

definition record_is_empty :: "dict \<Rightarrow> bool" where
  "record_is_empty r = (case dget r ''fields'' of JObj d \<Rightarrow> \<not> (\<exists>(k, v) \<in> set d. has_content v) | _ \<Rightarrow> False)"

text \<open>
  The loop of \<^verbatim>\<open>_reusable_empty_records\<close>: it need not end on a table that never ends. The first argument bounds
  the number of pages, and a run that uses it up is no run of the code.
\<close>

definition endless_table :: py_error where
  "endless_table = Raised Other_Class ''endless table''"

fun empty_records :: "nat \<Rightarrow> (nat \<Rightarrow> ('s, dict list \<times> bool) lark) \<Rightarrow> nat \<Rightarrow> dict list \<Rightarrow> ('s, dict list option) lark" where
  "empty_records 0 page off found = of_result (Inl endless_table)"
| "empty_records (Suc n) page off found = bind_eff (page off) (\<lambda>(batch, more).
     if \<exists>r \<in> set batch. \<not> record_is_empty r then of_result (Inr None)
     else if \<not> more then of_result (Inr (Some (found @ batch)))
     else if batch = [] then of_result (Inl (ValueError ''Lark returned an invalid empty record page''))
     else empty_records n page (off + length batch) (found @ batch))"

definition reusable_empty_records ::
  "nat \<Rightarrow> 's lark_service \<Rightarrow> client \<Rightarrow> board_bundle \<Rightarrow> ('s, dict list option) lark" where
  "reusable_empty_records n v c b =
     (if length (bu_fields b) \<noteq> 1 then of_result (Inr None)
      else bind_eff (of_result (primary_field b)) (\<lambda>f.
           if bf_type f \<noteq> JStr ''text'' then of_result (Inr None)
           else empty_records n (\<lambda>off. list_records v c (py_str (bt_id (bu_table b))) None 200 (int off)) 0 []))"

end
