(* ===== verification/Board_Properties.thy ===== *)
theory Board_Properties
  imports Board_Access Demo_Workflow Workflow_Validation
begin

text \<open>
  What the board client keeps of a card: a card that was written reads back with the keys of its options,
  whatever the spelling the caller used; columns that were ensured are found by the strict map; the row
  of the board in the database holds the outcome of the last request; and only empty records are reused.
\<close>

section \<open>Written and read\<close>












lemma cell_str [simp]: "cell (JStr s) = JStr s" and cell_choice [simp]: "cell (JList [JStr s]) = JList [JStr s]"
  by (simp_all add: cell_def is_text_run_def)









definition two_labels :: "string \<Rightarrow> string \<Rightarrow> json" where
  "two_labels zh en = JObj [(''zh-CN'', JStr zh), (''en'', JStr en)]"

definition small_board :: dict where
  "small_board =
     [(''lifecycle'', JObj [(''states'', JList
         [JObj [(''key'', JStr ''ready''), (''labels'', two_labels ''Bereit'' ''Ready''), (''color'', JObj [])],
          JObj [(''key'', JStr ''done''), (''labels'', two_labels ''Fertig'' ''Done''), (''color'', JObj [])]])]),
      (''task_types'', JList [JObj [(''key'', JStr ''task''), (''labels'', two_labels ''Aufgabe'' ''Task'')]]),
      (''roles'', JList [JObj [(''key'', JStr ''owner''), (''labels'', two_labels ''Besitzer'' ''Owner'')]]),
      (''waiting_targets'', JList [JObj [(''key'', JStr ''owner''), (''labels'', two_labels ''Besitzer'' ''Owner''), (''color'', JObj [])]])]"






section \<open>Columns that were ensured\<close>

definition names_as :: "field_spec \<Rightarrow> board_field \<Rightarrow> bool" where
  "names_as spec f \<longleftrightarrow> bf_name f = JStr (fs_name spec) \<and> bf_type f = JStr (fs_type spec)"

definition same_column :: "board_field \<Rightarrow> board_field \<Rightarrow> bool" where
  "same_column f f' \<longleftrightarrow> bf_name f' = bf_name f \<and> bf_type f' = bf_type f"

text \<open>
  What the service promises: a created or updated column has the name and the type it was asked for, and
  reading a column does not rename it.
\<close>

definition honest_columns :: "'s lark_service \<Rightarrow> client \<Rightarrow> string \<Rightarrow> board_field list \<Rightarrow> bool" where
  "honest_columns v c t fs \<longleftrightarrow>
     (\<forall>spec. yields (\<lambda>f _. names_as spec f) (create_field v c t spec)) \<and>
     (\<forall>fid spec. yields (\<lambda>f _. names_as spec f) (update_field v c t fid spec)) \<and>
     list_all (\<lambda>f. yields (\<lambda>f' _. same_column f f') (get_field v c t (bf_id f))) fs"

text \<open>A column by its own name has its type, or else one of its aliases has.\<close>

definition settled :: "(string \<times> string list) list \<Rightarrow> board_field list \<Rightarrow> string \<times> field_spec \<Rightarrow> bool" where
  "settled aliases fs = (\<lambda>(key, spec). \<exists>f. find_task_field fs spec (assoc_list aliases key) True = Inr (Some f))"

lemma same_column_sym: "same_column f f' \<Longrightarrow> same_column f' f"
  by (simp add: same_column_def)

lemma find_put_field:
  assumes "same_column old new" and "\<And>f f'. same_column f f' \<Longrightarrow> P f = P f'"
  shows "(List.find P (put_field old new fs) = None) = (List.find P fs = None) \<and>
    (\<forall>f. List.find P fs = Some f \<longrightarrow> (\<exists>f'. List.find P (put_field old new fs) = Some f' \<and> same_column f f'))"
proof -
  have eq: "P new = P old" using assms by blast
  show ?thesis by (induction fs) (use assms(1) eq in \<open>auto simp: same_column_def\<close>)
qed

lemma settled_put_field:
  assumes "same_column old new" and "settled aliases fs spec"
  shows "settled aliases (put_field old new fs) spec"
proof -
  obtain key sp where spec: "spec = (key, sp)" by force
  let ?N = "\<lambda>f. bf_name f = JStr (fs_name sp)"
  let ?A = "\<lambda>f. member_str (bf_name f) (assoc_list aliases key) \<and> bf_type f = JStr (fs_type sp)"
  have N: "?N f = ?N f'" and A: "?A f = ?A f'" if "same_column f f'" for f f'
    using that by (auto simp: same_column_def)
  note finds = find_put_field[OF assms(1), of ?N fs, OF N] find_put_field[OF assms(1), of ?A fs, OF A]
  show ?thesis
    using assms(2) finds
    by (auto simp: settled_def spec find_task_field_def same_column_def split: option.splits if_splits)
qed

lemma find_append:
  "List.find P (xs @ ys) = (case List.find P xs of None \<Rightarrow> List.find P ys | Some x \<Rightarrow> Some x)"
  by (induction xs) auto

lemma settled_append:
  assumes "bf_name f \<noteq> JStr (fs_name (snd spec))" and "settled aliases fs spec"
  shows "settled aliases (fs @ [f]) spec"
  using assms by (auto simp: settled_def find_task_field_def find_append split: option.splits if_splits)

lemma settled_created:
  assumes "find_task_field fs spec al True = Inr None" and "names_as spec f"
  shows "find_task_field (fs @ [f]) spec al True = Inr (Some f)"
  using assms by (auto simp: find_task_field_def names_as_def find_append split: option.splits if_splits)

lemma find_task_field_mem:
  assumes "find_task_field fs spec al strict = Inr (Some f)"
  shows "f \<in> set fs"
  using assms by (auto simp: find_task_field_def find_Some_iff split: option.splits if_splits)

lemma complete_options_same:
  assumes "yields (\<lambda>f' _. same_column f f') (get_field v c t (bf_id f))"
    and "\<And>fid spec. yields (\<lambda>f _. names_as spec f) (update_field v c t fid spec)"
    and "names_as spec f" and "complete_options v c t spec f s = (Inr f', s')"
  shows "same_column f f'"
proof -
  obtain g s1 where g: "same_column f g" and rest:
    "(case fs_options spec of None \<Rightarrow> of_result (Inl (KeyError ''options''))
      | Some desired \<Rightarrow> (case merged_options (bf_options g) desired of None \<Rightarrow> of_result (Inr g)
          | Some options \<Rightarrow> bind_eff (update_field v c t (bf_id g) (spec\<lparr>fs_options := Some options\<rparr>))
              (\<lambda>updated. of_result (Inr (updated\<lparr>bf_options := map JObj options\<rparr>))))) s1 = (Inr f', s')"
    using assms(4) yieldsD[OF assms(1)] unfolding complete_options_def bind_Inr
    by (fastforce simp: same_column_def split: if_splits)
  show ?thesis
    using rest g assms(3) yieldsD[OF assms(2)]
    by (fastforce simp: same_column_def names_as_def bind_Inr split: option.splits)
qed

lemma ensure_field_cases:
  assumes "ensure_field v c t aliases (key, sp) fs s = (Inr fs', s')"
  obtains (created) f s1 where "find_task_field fs sp (assoc_list aliases key) True = Inr None"
      and "create_field v c t sp s = (Inr f, s1)" and "fs' = fs @ [f]"
    | (completed) f f' s1 where "find_task_field fs sp (assoc_list aliases key) True = Inr (Some f)"
      and "names_as sp f" and "complete_options v c t sp f s = (Inr f', s1)" and "fs' = put_field f f' fs"
    | (found) f where "find_task_field fs sp (assoc_list aliases key) True = Inr (Some f)" and "fs' = fs"
proof (cases "find_task_field fs sp (assoc_list aliases key) True")
  case (Inl e)
  then show thesis using assms by (simp add: ensure_field_def)
next
  case (Inr r)
  show thesis
  proof (cases r)
    case None
    then show thesis using assms Inr created by (auto simp: ensure_field_def bind_Inr)
  next
    case (Some f)
    have "bf_name f = JStr (fs_name sp) \<Longrightarrow> bf_type f = JStr (fs_type sp)"
      using Inr Some by (auto simp: find_task_field_def find_Some_iff split: option.splits if_splits)
    then show thesis using assms Inr Some completed found
      by (auto simp: ensure_field_def bind_Inr names_as_def split: if_splits)
  qed
qed

lemma put_field_mem: "g \<in> set (put_field old new fs) \<Longrightarrow> g \<in> set fs \<or> g = new"
  by (induction fs) (auto split: if_splits)

lemma ensure_field_settles:
  assumes "honest_columns v c t fs0" and "\<And>f. f \<in> set fs \<Longrightarrow> bf_name f = JStr (fs_name sp) \<Longrightarrow> f \<in> set fs0"
    and "ensure_field v c t aliases (key, sp) fs s = (Inr fs', s')"
  shows "settled aliases fs' (key, sp) \<and>
    (\<forall>q. fs_name (snd q) \<noteq> fs_name sp \<longrightarrow> settled aliases fs q \<longrightarrow> settled aliases fs' q) \<and>
    (\<forall>f \<in> set fs'. f \<in> set fs \<or> bf_name f = JStr (fs_name sp))"
  using assms(3)
proof (cases rule: ensure_field_cases)
  case (created f s1)
  have "names_as sp f" using assms(1) created(2) by (auto simp: honest_columns_def dest: yieldsD)
  then have "settled aliases fs' (key, sp)" and "bf_name f = JStr (fs_name sp)"
    using created by (auto simp: settled_def settled_created names_as_def)
  moreover from this have "settled aliases fs' q" if "fs_name (snd q) \<noteq> fs_name sp" "settled aliases fs q" for q
    using that created(3) by (auto intro!: settled_append)
  ultimately show ?thesis using created(3) by auto
next
  case (completed f f' s1)
  have "f \<in> set fs0" using assms(2) completed(1,2) find_task_field_mem by (fastforce simp: names_as_def)
  then have same: "same_column f f'"
    using assms(1) completed by (intro complete_options_same) (auto simp: honest_columns_def list_all_iff)
  have "settled aliases fs (key, sp)" using completed(1) by (auto simp: settled_def)
  then show ?thesis
    using settled_put_field[OF same] completed(2,4) same
    by (auto simp: names_as_def same_column_def dest: put_field_mem)
next
  case (found f)
  then show ?thesis by (auto simp: settled_def)
qed

lemma ensure_task_fields_settles:
  assumes "honest_columns v c t fs0" and "distinct (map (\<lambda>q. fs_name (snd q)) specs)"
    and "\<And>f q. f \<in> set fs \<Longrightarrow> q \<in> set specs \<Longrightarrow> bf_name f = JStr (fs_name (snd q)) \<Longrightarrow> f \<in> set fs0"
    and "ensure_task_fields v c t aliases specs fs s = (Inr fs', s')"
  shows "(\<forall>q \<in> set specs. settled aliases fs' q) \<and>
    (\<forall>q. fs_name (snd q) \<notin> (\<lambda>q. fs_name (snd q)) ` set specs \<longrightarrow> settled aliases fs q \<longrightarrow> settled aliases fs' q)"
  using assms(2-)
proof (induction specs arbitrary: fs s)
  case (Cons p specs)
  obtain key sp where p: "p = (key, sp)" by force
  obtain fs1 s1 where first: "ensure_field v c t aliases (key, sp) fs s = (Inr fs1, s1)"
    and rest: "ensure_task_fields v c t aliases specs fs1 s1 = (Inr fs', s')"
    using Cons.prems(3) by (auto simp: p bind_Inr)
  have settles: "settled aliases fs1 (key, sp)"
      "\<And>q. fs_name (snd q) \<noteq> fs_name sp \<Longrightarrow> settled aliases fs q \<Longrightarrow> settled aliases fs1 q"
      "\<And>f. f \<in> set fs1 \<Longrightarrow> f \<in> set fs \<or> bf_name f = JStr (fs_name sp)"
    using ensure_field_settles[OF assms(1) _ first] Cons.prems(2)[where q = p] by (auto simp: p)
  have new: "fs_name sp \<notin> (\<lambda>q. fs_name (snd q)) ` set specs" and "distinct (map (\<lambda>q. fs_name (snd q)) specs)"
    using Cons.prems(1) by (auto simp: p)
  moreover have "f \<in> set fs0" if "f \<in> set fs1" "q \<in> set specs" "bf_name f = JStr (fs_name (snd q))" for f q
    using that settles(3)[of f] new Cons.prems(2)[of f q] by force
  ultimately have "(\<forall>q \<in> set specs. settled aliases fs' q) \<and>
    (\<forall>q. fs_name (snd q) \<notin> (\<lambda>q. fs_name (snd q)) ` set specs \<longrightarrow> settled aliases fs1 q \<longrightarrow> settled aliases fs' q)"
    using Cons.IH rest by blast
  then show ?case using settles(1,2) new by (auto simp: p)
qed simp

lemma field_columns_settled:
  assumes "\<And>q. q \<in> set specs \<Longrightarrow> settled aliases (bu_fields b) q"
  shows "\<exists>cs. field_columns b aliases True specs = Inr (Some cs) \<and> map fst cs = map fst specs"
  using assms
proof (induction specs)
  case (Cons p specs)
  obtain key sp where p: "p = (key, sp)" by force
  obtain f where "find_task_field (bu_fields b) sp (assoc_list aliases key) True = Inr (Some f)"
    using Cons.prems[of p] by (auto simp: p settled_def)
  moreover obtain cs where "field_columns b aliases True specs = Inr (Some cs)" "map fst cs = map fst specs"
    using Cons by auto
  ultimately show ?case by (simp add: p field_column_def)
qed simp

lemma field_names_distinct:
  assumes "task_field_specs w loc pfx = Inr specs"
  shows "distinct (map (\<lambda>q. fs_name (snd q)) specs)"
proof -
  have zh: "distinct (map (\<lambda>(key, zh, en, ty). zh) FIELD_DEFINITIONS)"
    and en: "distinct (map (\<lambda>(key, zh, en, ty). en) FIELD_DEFINITIONS)" by code_simp+
  have "map (\<lambda>q. fs_name (snd q)) specs = map (\<lambda>(key, zh, en, ty). field_label loc (zh, en)) FIELD_DEFINITIONS"
    using assms by (auto simp: task_field_specs_def check_locale_def andthen_eq_Inr Let_def split: if_splits)
  then show ?thesis using zh en by (cases "loc = ''en''") (simp_all add: field_label_def)
qed

lemma columns_found:
  assumes "honest_columns v c t (bu_fields b)" and "task_field_specs w loc pfx = Inr specs"
    and "ensure_task_fields v c t task_field_aliases specs (bu_fields b) s = (Inr fs, s')"
    and "primary_field (b\<lparr>bu_fields := fs\<rparr>) = Inr p"
  shows "\<exists>cs. task_field_map (b\<lparr>bu_fields := fs\<rparr>) specs task_field_aliases True = Inr (Some cs) \<and>
    map fst cs = ''title'' # map fst specs"
proof -
  have "settled task_field_aliases fs q" if "q \<in> set specs" for q
    using ensure_task_fields_settles[OF assms(1) field_names_distinct[OF assms(2)] _ assms(3)] that by blast
  then obtain cs where "field_columns (b\<lparr>bu_fields := fs\<rparr>) task_field_aliases True specs = Inr (Some cs)"
      and "map fst cs = map fst specs"
    using field_columns_settled[of specs task_field_aliases "b\<lparr>bu_fields := fs\<rparr>"] by auto
  then show ?thesis using assms(4) by (simp add: task_field_map_def)
qed

text \<open>C36: Once the columns of a board were ensured for a definition, every field of a card has its column: the
  strict map that listing, reading and writing cards rely on succeeds and names the title and every field
  of the definition, in their order. The service has only to give columns the names it was asked for.
\<close>
theorem ensured_columns_are_found:
  assumes "honest_columns v c t (bu_fields b)" and "task_field_specs w loc pfx = Inr specs"
    and "ensure_task_fields v c t task_field_aliases specs (bu_fields b) s = (Inr fs, s')"
    and "primary_field (b\<lparr>bu_fields := fs\<rparr>) = Inr p"
  shows "\<exists>cs. task_field_map (b\<lparr>bu_fields := fs\<rparr>) specs task_field_aliases True = Inr (Some cs) \<and>
    map fst cs = ''title'' # map fst specs"
  using assms by (rule columns_found)

text \<open>A service for a bot that creates what it is asked for, and one that has lost its records.\<close>

definition asked_field :: "dict \<Rightarrow> json" where
  "asked_field d = JObj [(''field_id'', dget d ''name''), (''field_name'', dget d ''name''), (''type'', dget d ''type'')]"

definition title_field :: json where
  "title_field = JObj [(''field_id'', JStr ''t''), (''field_name'', JStr ''Title''), (''type'', JStr ''text'')]"

definition stored_answer :: "json list \<Rightarrow> json" where
  "stored_answer items = JObj [(''data'', JObj [(''table'', JObj [(''table_id'', JStr ''tbl''), (''primary_field'', JStr ''t'')]),
     (''field'', title_field), (''items'', JList items)])]"

definition bot_service :: "json list \<Rightarrow> string list \<Rightarrow> unit lark_service" where
  "bot_service items gone =
     \<lparr>sv_cli = (\<lambda>_. of_result (Inr (Cli_Output None))),
      sv_http = (\<lambda>q. of_result (Inr (case hr_body q of
           Some (JObj d) \<Rightarrow> Http_Answered (Some (if map_of d ''app_id'' \<noteq> None then JObj [(''tenant_access_token'', JStr ''k'')]
                            else JObj [(''data'', JObj [(''field'', asked_field d)])]))
         | _ \<Rightarrow> if list_ex (ends_with (hr_url q)) gone then Http_Refused (Some (JObj [(''code'', JInt 1), (''msg'', JStr ''gone'')]))
                 else Http_Answered (Some (stored_answer items))))),
      sv_pause = of_result (Inr ()), sv_time = (\<lambda>_. 5)\<rparr>"

definition bot_identity :: lark_identity where
  "bot_identity = \<lparr>li_id = ''i1'', li_auth = ''bot'', li_app = Some ''app'', li_app_name = None, li_app_avatar = None,
     li_synced = None, li_secret = Some ''secret'', li_access_token = None, li_refresh_token = None, li_open_id = None,
     li_user_name = None, li_user_avatar = None, li_status = ''unverified'', li_verified = None, li_error = None,
     li_created = 1, li_updated = 1\<rparr>"

definition demo_lark_board :: lark_board where
  "demo_lark_board = \<lparr>bd_id = ''b1'', bd_primary = Some ''i1'', bd_url = Some ''https://x.larksuite.com/base/k'', bd_token = Some ''k'',
     bd_table = Some ''tbl'', bd_view = None, bd_access = ''verified'', bd_verified = None, bd_error = None, bd_listener = ''unverified'',
     bd_listener_verified = None, bd_listener_kind = None, bd_listener_error = None, bd_updated = 1\<rparr>"

definition bot_client :: client where
  "bot_client = client_for bot_identity demo_lark_board"

definition bot_world :: "unit lark_world" where
  "bot_world = \<lparr>lw_out = (), lw_token = None, lw_board = Some demo_lark_board, lw_identities = [bot_identity], lw_access = [], lw_uuids = 0\<rparr>"

definition plain_bundle :: board_bundle where
  "plain_bundle = \<lparr>bu_table = table_of [(''table_id'', JStr ''tbl''), (''primary_field'', JStr ''t'')],
     bu_fields = [field_of (as_dict title_field)], bu_views = []\<rparr>"

lemma spec_json_fields:
  "map_of (spec_json spec) ''app_id'' = None" "dget (spec_json spec) ''name'' = JStr (fs_name spec)"
  "dget (spec_json spec) ''type'' = JStr (fs_type spec)"
  by (auto simp: spec_json_def dget_def map_add_def split: option.splits)

lemma bot_client_user [simp]: "ct_user bot_client = False"
  by (simp add: bot_client_def client_for_def bot_identity_def)

lemma bot_http:
  "hr_body q = Some (JObj (spec_json spec)) \<Longrightarrow> sv_http (bot_service items gone) q =
     of_result (Inr (Http_Answered (Some (JObj [(''data'', JObj [(''field'', asked_field (spec_json spec))])]))))"
  "hr_body q = None \<Longrightarrow> sv_http (bot_service items gone) q = of_result (Inr
     (if list_ex (ends_with (hr_url q)) gone then Http_Refused (Some (JObj [(''code'', JInt 1), (''msg'', JStr ''gone'')]))
      else Http_Answered (Some (stored_answer items))))"
  by (simp_all add: bot_service_def spec_json_fields)

lemma bot_spec_answer:
  assumes "bot_request (bot_service items gone) c verb path query (Some (JObj (spec_json spec))) s = (Inr data, s')"
  shows "data = answer_data [(''data'', JObj [(''field'', asked_field (spec_json spec))])]"
  using assms by (auto simp: bot_request_def bind_Inr read_json_def bot_http coded_def option_text_def dget_def)

lemma coded_stored: "coded (stored_answer items) = Inr (as_dict (stored_answer items), None)"
  by (simp add: coded_def stored_answer_def dget_def)

lemma bot_read_answer:
  assumes "bot_request (bot_service items gone) c verb path query None s = (Inr data, s')"
  shows "data = answer_data (as_dict (stored_answer items))"
  using assms
  by (auto simp: bot_request_def bind_Inr read_json_def bot_http coded_stored option_text_def split: if_splits)
    (auto simp: coded_def dget_def py_eq.simps py_or_def)

lemma py_or_text [simp]: "py_or (JStr s) (JStr []) = JStr s" "py_or (py_or (JStr s) JNull) (JStr []) = JStr s"
  by (simp_all add: py_or_def)

lemma bot_honest: "honest_columns (bot_service items gone) bot_client t (bu_fields plain_bundle)"
proof -
  have asked: "names_as spec (field_of (unwrapped ''field'' (answer_data [(''data'', JObj [(''field'', asked_field (spec_json spec))])])))" for spec
  proof -
    have "as_dict (asked_field (spec_json spec)) =
        [(''field_id'', JStr (fs_name spec)), (''field_name'', JStr (fs_name spec)), (''type'', JStr (fs_type spec))]"
      by (simp add: asked_field_def spec_json_fields)
    moreover have "unwrapped ''field'' (answer_data [(''data'', JObj [(''field'', asked_field (spec_json spec))])]) =
        as_dict (asked_field (spec_json spec))"
      by (simp add: unwrapped_def answer_data_def dget_def asked_field_def py_or_def)
    ultimately show ?thesis by (simp add: names_as_def field_of_def dget_def)
  qed
  have title: "field_of (unwrapped ''field'' (answer_data (as_dict (stored_answer items)))) = field_of (as_dict title_field)"
    by (simp add: stored_answer_def answer_data_def unwrapped_def dget_def py_or_def title_field_def)
  have created: "names_as spec f" if run: "create_field (bot_service items gone) bot_client t spec s = (Inr f, s')" for spec f s s'
  proof -
    obtain data s1 where "bot_request (bot_service items gone) bot_client ''POST'' (base_path bot_client (table_parts t [''fields''])) []
        (Some (JObj (spec_json spec))) s = (Inr data, s1)" and f: "f = field_of (unwrapped ''field'' data)"
      using run by (auto simp: create_field_def either_request_def bind_Inr Let_def split: if_splits)
    from bot_spec_answer[OF this(1)] show ?thesis unfolding f using asked[of spec] by simp
  qed
  have updated: "names_as spec f" if run: "update_field (bot_service items gone) bot_client t fid spec s = (Inr f, s')" for fid spec f s s'
  proof -
    obtain data s1 where "bot_request (bot_service items gone) bot_client ''PUT'' (base_path bot_client (table_parts t [''fields'', quote (py_str fid)])) []
        (Some (JObj (spec_json spec))) s = (Inr data, s1)" and f: "f = field_of (unwrapped ''field'' data)"
      using run by (auto simp: update_field_def either_request_def bind_Inr)
    from bot_spec_answer[OF this(1)] show ?thesis unfolding f using asked[of spec] by simp
  qed
  have read: "f = field_of (as_dict title_field)" if run: "get_field (bot_service items gone) bot_client t fid s = (Inr f, s')" for fid f s s'
  proof -
    obtain data s1 where "bot_request (bot_service items gone) bot_client ''GET'' (base_path bot_client (table_parts t [''fields'', quote (py_str fid)])) []
        None s = (Inr data, s1)" and f: "f = field_of (unwrapped ''field'' data)"
      using run by (auto simp: get_field_def either_request_def bind_Inr)
    from bot_read_answer[OF this(1)] show ?thesis unfolding f using title by simp
  qed
  show ?thesis
    using created updated read by (auto simp: honest_columns_def yields_def plain_bundle_def same_column_def)
qed

lemma bot_token: "\<exists>u s1. tenant_token (bot_service items gone) bot_client s = (Inr u, s1) \<and> lw_board s1 = lw_board s"
  by (cases "nonempty (lw_token s)")
    (simp_all add: tenant_token_def token_request_def post_json_def read_json_def bot_service_def run_bind coded_def dget_def
      text_of_def option_text_def Let_def)

text \<open>What ensuring the columns comes to on this service, when no select column is found.\<close>

definition made_field :: "field_spec \<Rightarrow> board_field" where
  "made_field spec = field_of (as_dict (asked_field (spec_json spec)))"

fun made_fields :: "(string \<times> string list) list \<Rightarrow> (string \<times> field_spec) list \<Rightarrow> board_field list \<Rightarrow> board_field list option" where
  "made_fields aliases [] fs = Some fs"
| "made_fields aliases ((key, spec) # specs) fs =
     (if find_task_field fs spec (assoc_list aliases key) True = Inr None \<and> fs_name spec \<noteq> []
      then made_fields aliases specs (fs @ [made_field spec]) else None)"

lemma bot_creates:
  assumes "fs_name spec \<noteq> []"
  shows "\<exists>s'. create_field (bot_service items gone) bot_client t spec s = (Inr (made_field spec), s') \<and> lw_board s' = lw_board s"
proof -
  obtain u s1 where token: "tenant_token (bot_service items gone) bot_client s = (Inr u, s1)" "lw_board s1 = lw_board s"
    using bot_token by blast
  have field: "unwrapped ''field'' (answer_data [(''data'', JObj [(''field'', asked_field (spec_json spec))])]) = as_dict (asked_field (spec_json spec))"
    by (simp add: unwrapped_def answer_data_def dget_def py_or_def asked_field_def)
  have named: "truthy (bf_id (made_field spec))"
    using assms by (simp add: made_field_def field_of_def asked_field_def py_or_def spec_json_fields) (simp add: dget_def)
  show ?thesis
    by (simp add: create_field_def either_request_def bot_request_def run_bind token read_json_def bot_http coded_def Let_def
        option_text_def field made_field_def[symmetric] named) (simp add: dget_def)
qed

lemma bot_makes_fields:
  "made_fields aliases specs fs = Some fs' \<Longrightarrow>
     \<exists>s'. ensure_task_fields (bot_service items gone) bot_client t aliases specs fs s = (Inr fs', s') \<and> lw_board s' = lw_board s"
proof (induction aliases specs fs arbitrary: s rule: made_fields.induct)
  case (2 aliases key spec specs fs)
  then have none: "find_task_field fs spec (assoc_list aliases key) True = Inr None" and "fs_name spec \<noteq> []"
    by (auto split: if_splits)
  then obtain s1 where "create_field (bot_service items gone) bot_client t spec s = (Inr (made_field spec), s1) \<and> lw_board s1 = lw_board s"
    using bot_creates by blast
  moreover obtain s' where "ensure_task_fields (bot_service items gone) bot_client t aliases specs (fs @ [made_field spec]) s1 = (Inr fs', s') \<and> lw_board s' = lw_board s1"
    using 2 by (auto split: if_splits)
  ultimately show ?case using none by (auto simp: ensure_field_def run_bind)
qed simp

lemma bot_columns_ensured:
  "case task_field_specs small_board ''en'' None of Inl e \<Rightarrow> False
   | Inr specs \<Rightarrow> (case made_fields task_field_aliases specs (bu_fields plain_bundle) of
       None \<Rightarrow> False
     | Some fs \<Rightarrow> primary_field (plain_bundle\<lparr>bu_fields := fs\<rparr>) = Inr (field_of (as_dict title_field)))"
  by code_simp

lemma ensured_columns_are_found_witness:
  "\<exists>specs fs cs s'. task_field_specs small_board ''en'' None = Inr specs \<and>
     ensure_task_fields (bot_service [] []) bot_client ''tbl'' task_field_aliases specs (bu_fields plain_bundle) bot_world = (Inr fs, s') \<and>
     task_field_map (plain_bundle\<lparr>bu_fields := fs\<rparr>) specs task_field_aliases True = Inr (Some cs)"
proof -
  obtain specs fs where specs: "task_field_specs small_board ''en'' None = Inr specs"
    and fs: "made_fields task_field_aliases specs (bu_fields plain_bundle) = Some fs"
    and title: "primary_field (plain_bundle\<lparr>bu_fields := fs\<rparr>) = Inr (field_of (as_dict title_field))"
    using bot_columns_ensured by (auto split: sum.splits option.splits)
  obtain s' where run: "ensure_task_fields (bot_service [] []) bot_client ''tbl'' task_field_aliases specs (bu_fields plain_bundle) bot_world = (Inr fs, s')"
    using bot_makes_fields[OF fs] by blast
  from ensured_columns_are_found[OF bot_honest specs run title] specs run show ?thesis by blast
qed

section \<open>Options only grow\<close>

lemma option_name_normalized [simp]: "option_name (normalized_option d) = option_name d"
  by (simp add: option_name_def normalized_option_def dget_def text_of_def)

lemma normalized_kept: "option_name d \<noteq> [] \<Longrightarrow> kept_options [JObj d] = [d]"
  by (simp add: kept_options_def)

lemma kept_options_append [simp]: "kept_options (xs @ ys) = kept_options xs @ kept_options ys"
  by (simp add: kept_options_def)

lemma kept_of_dicts [simp]: "kept_options (map JObj ds) = filter (\<lambda>d. option_name d \<noteq> []) ds"
  by (simp add: kept_options_def comp_def)

lemma option_names_merged:
  assumes "merged_options existing desired = Some options"
  shows "set (map option_name (kept_options existing)) \<subseteq> set (map option_name (kept_options (map JObj options)))"
proof
  fix n assume "n \<in> set (map option_name (kept_options existing))"
  then obtain d where d: "d \<in> set (kept_options existing)" "n = option_name d" by auto
  moreover have "option_name d \<noteq> []" using d by (simp add: kept_options_def)
  moreover have "normalized_option d \<in> set options"
    using assms d(1) by (auto simp: merged_options_def Let_def split: if_splits)
  ultimately show "n \<in> set (map option_name (kept_options (map JObj options)))"
    by (auto simp: image_iff intro!: bexI[of _ "normalized_option d"])
qed

lemma option_names_covered:
  assumes "\<And>d. d \<in> set desired \<Longrightarrow> \<exists>s. dget d ''name'' = JStr s \<and> strip s = s \<and> s \<noteq> []"
  shows "set (map option_name desired) \<subseteq> set (map option_name (kept_options
    (case merged_options existing desired of None \<Rightarrow> existing | Some options \<Rightarrow> map JObj options)))"
proof
  fix n assume "n \<in> set (map option_name desired)"
  then obtain d where d: "d \<in> set desired" "n = option_name d" by auto
  then obtain s where s: "dget d ''name'' = JStr s" "strip s = s" "s \<noteq> []" using assms by blast
  then have n: "n = s" using d by (simp add: option_name_def text_of_def)
  show "n \<in> set (map option_name (kept_options (case merged_options existing desired of None \<Rightarrow> existing | Some options \<Rightarrow> map JObj options)))"
  proof (cases "s \<in> set (map option_name (kept_options existing))")
    case True
    then show ?thesis
    proof (cases "merged_options existing desired")
      case (Some options)
      show ?thesis using True n option_names_merged[OF Some] unfolding Some option.case by blast
    qed (simp add: n)
  next
    case False
    let ?missing = "filter (\<lambda>d. \<not> member_str (dget d ''name'') (map option_name (kept_options existing))) desired"
    have mem: "d \<in> set ?missing" using False d s by simp
    then have "?missing \<noteq> []" by (metis list.set_cases neq_Nil_conv)
    then have eq: "merged_options existing desired = Some (map normalized_option (kept_options existing) @ ?missing)"
      unfolding merged_options_def Let_def by (rule if_not_P)
    have "option_name d \<noteq> []" using n d s by simp
    then have "d \<in> set (kept_options (map JObj (map normalized_option (kept_options existing) @ ?missing)))"
      using mem unfolding kept_of_dicts filter_append set_append by (intro UnI2) (simp only: set_filter mem_Collect_eq, simp)
    then show ?thesis unfolding eq option.case set_map d(2) by (rule imageI)
  qed
qed

section \<open>The outcome of a request\<close>

lemma noted_failure:
  "noting_failure v m s = (Inl e, s') \<Longrightarrow> lw_board s' = Some b \<Longrightarrow> bd_error b = Some (error_text e)"
  by (auto simp: noting_failure_def run_catch run_bind save_board_failure_def update_board_def split: prod.splits sum.splits)

lemma noted_success:
  assumes "noting_failure v (bind_eff m (\<lambda>r. bind_eff (note_success v x) (\<lambda>_. of_result (Inr (g r))))) s = (Inr w, s')"
    and "lw_board s' = Some b"
  shows "bd_error b = None"
  using assms
  by (auto simp: noting_failure_def run_catch save_board_failure_def note_success_def save_board_success_def update_board_def run_bind
      split: prod.splits sum.splits)

text \<open>The outcome of reading a card stays in the row of the board: an answered card leaves no error there,
  and a failure of the request leaves its text there before it is raised.
\<close>
theorem read_outcome_is_recorded:
  assumes "card_context v w s = (Inr x, s1)" and "get_lark_task v w rid s = (r, s')" and "lw_board s' = Some b"
  shows "bd_error b = (case r of Inl e \<Rightarrow> Some (error_text e) | Inr _ \<Rightarrow> None)"
proof -
  have "noting_failure v (bind_eff (get_record v (tc_client x) (board_table_id x) rid)
      (\<lambda>r. bind_eff (note_success v x) (\<lambda>_. of_result (Inr (card_in x r))))) s1 = (r, s')"
    using assms by (simp add: get_lark_task_def run_bind)
  then show ?thesis using assms(3) by (cases r) (auto dest: noted_failure noted_success)
qed

text \<open>The columns are made, and then the record is gone.\<close>

definition lost :: "string list" where
  "lost = [''/records/r'']"

lemma bot_reads:
  assumes "\<not> list_ex (ends_with (ct_origin bot_client @ path @ (if query = [] then [] else ''?'' @ urlencode query))) gone"
  shows "\<exists>s'. bot_request (bot_service items gone) bot_client verb path query None s =
    (Inr (answer_data (as_dict (stored_answer items))), s') \<and> lw_board s' = lw_board s"
proof -
  obtain u s1 where "tenant_token (bot_service items gone) bot_client s = (Inr u, s1)" "lw_board s1 = lw_board s"
    using bot_token by blast
  then show ?thesis using assms
    by (simp add: bot_request_def run_bind read_json_def bot_http coded_stored option_text_def)
qed

lemma stored_data:
  "answer_data (as_dict (stored_answer items)) =
     [(''table'', JObj [(''table_id'', JStr ''tbl''), (''primary_field'', JStr ''t'')]), (''field'', title_field), (''items'', JList items)]"
  by (simp add: answer_data_def stored_answer_def dget_def)

lemma stored_items: "item_list (answer_data (as_dict (stored_answer [title_field]))) = [as_dict title_field]"
  by (simp add: stored_data item_list_def dget_def dicts_def) (simp add: title_field_def)

lemma title_bundle:
  "\<exists>s'. get_table (bot_service [title_field] lost) bot_client ''tbl'' s =
     (Inr (plain_bundle\<lparr>bu_views := [view_of (as_dict title_field)]\<rparr>), s') \<and> lw_board s' = lw_board s"
proof -
  let ?v = "bot_service [title_field] lost" and ?data = "answer_data (as_dict (stored_answer [title_field]))"
  have urls: "\<not> list_ex (ends_with (ct_origin bot_client @ base_path bot_client (table_parts ''tbl'' []) @ (if [] = [] then [] else ''?'' @ urlencode []))) lost"
    "\<not> list_ex (ends_with (ct_origin bot_client @ base_path bot_client (table_parts ''tbl'' [''fields'']) @ (if paging 200 0 = [] then [] else ''?'' @ urlencode (paging 200 0)))) lost"
    "\<not> list_ex (ends_with (ct_origin bot_client @ base_path bot_client (table_parts ''tbl'' [''views'']) @ (if paging 100 0 = [] then [] else ''?'' @ urlencode (paging 100 0)))) lost"
    by code_simp+
  obtain s1 where s1: "bot_request ?v bot_client ''GET'' (base_path bot_client (table_parts ''tbl'' [])) [] None s = (Inr ?data, s1)" "lw_board s1 = lw_board s"
    using bot_reads[OF urls(1)] by blast
  obtain s2 where s2: "bot_request ?v bot_client ''GET'' (base_path bot_client (table_parts ''tbl'' [''fields''])) (paging 200 0) None s1 = (Inr ?data, s2)" "lw_board s2 = lw_board s1"
    using bot_reads[OF urls(2)] by blast
  obtain s3 where s3: "bot_request ?v bot_client ''GET'' (base_path bot_client (table_parts ''tbl'' [''views''])) (paging 100 0) None s2 = (Inr ?data, s3)" "lw_board s3 = lw_board s2"
    using bot_reads[OF urls(3)] by blast
  have table: "completed_table ''tbl'' (table_of (unwrapped ''table'' ?data)) [field_of (as_dict title_field)] = bu_table plain_bundle"
    by (simp add: stored_data unwrapped_def dget_def py_or_def completed_table_def table_of_def plain_bundle_def)
  show ?thesis
    using s1 s2 s3 table
    by (simp add: get_table_def list_fields_def list_views_def either_request_def run_bind stored_items plain_bundle_def)
qed

lemma bot_context:
  "\<exists>x s'. card_context (bot_service [title_field] lost) (Inr small_board) bot_world = (Inr x, s') \<and>
     tc_client x = bot_client \<and> tc_board x = demo_lark_board \<and> lw_board s' = Some demo_lark_board"
proof -
  let ?v = "bot_service [title_field] lost" and ?b = "plain_bundle\<lparr>bu_views := [view_of (as_dict title_field)]\<rparr>"
  have board: "board_context bot_world = Inr (demo_lark_board, bot_identity)"
    and lang: "board_locale (option_text (bd_url demo_lark_board)) = ''en''"
    and tbl: "option_text (bd_table demo_lark_board) = ''tbl''" by code_simp+
  have opened: "\<exists>s'. open_client ?v bot_identity demo_lark_board s = (Inr bot_client, s') \<and> lw_board s' = lw_board s" for s
    by (simp add: open_client_def run_bind bot_client_def) (simp add: bot_identity_def option_text_def)
  obtain specs fs where specs: "task_field_specs small_board ''en'' None = Inr specs"
    and fs: "made_fields task_field_aliases specs (bu_fields plain_bundle) = Some fs"
    and title: "primary_field (plain_bundle\<lparr>bu_fields := fs\<rparr>) = Inr (field_of (as_dict title_field))"
    using bot_columns_ensured by (auto split: sum.splits option.splits)
  obtain maps where maps: "task_option_maps small_board ''en'' = Inr maps"
    by (simp add: task_option_maps_def check_locale_def LOCALES_def)
  obtain s1 where s1: "open_client ?v bot_identity demo_lark_board bot_world = (Inr bot_client, s1)" "lw_board s1 = lw_board bot_world"
    using opened by blast
  obtain s2 where s2: "get_table ?v bot_client ''tbl'' s1 = (Inr ?b, s2)" "lw_board s2 = lw_board s1" using title_bundle by blast
  obtain s3 where s3: "ensure_task_fields ?v bot_client ''tbl'' task_field_aliases specs (bu_fields plain_bundle) s2 = (Inr fs, s3)"
      "lw_board s3 = lw_board s2"
    using bot_makes_fields[OF fs] by blast
  have "primary_field (?b\<lparr>bu_fields := fs\<rparr>) = Inr (field_of (as_dict title_field))"
    using title by (simp add: primary_field_def cong: option.case_cong)
  moreover have "honest_columns ?v bot_client ''tbl'' (bu_fields ?b)" and "bu_fields ?b = bu_fields plain_bundle"
    using bot_honest by simp_all
  ultimately obtain cs where cs: "task_field_map (?b\<lparr>bu_fields := fs\<rparr>) specs task_field_aliases True = Inr (Some cs)"
    using columns_found[of ?v bot_client "''tbl''" ?b small_board "''en''" None specs s2 fs s3] specs s3(1) by auto
  show ?thesis
    using s1 s2 s3 cs
    by (simp add: card_context_def run_bind board lang tbl specs maps Let_def) (simp add: bot_world_def)
qed

lemma lost_record:
  "\<exists>e s'. get_record (bot_service [title_field] lost) bot_client ''tbl'' ''r'' s = (Inl e, s') \<and> error_text e = ''gone'' \<and>
     lw_board s' = lw_board s"
proof -
  obtain u s1 where "tenant_token (bot_service [title_field] lost) bot_client s = (Inr u, s1)" "lw_board s1 = lw_board s"
    using bot_token by blast
  moreover have "list_ex (ends_with (ct_origin bot_client @ base_path bot_client (table_parts ''tbl'' [''records'', quote ''r'']))) lost"
    by code_simp
  moreover have "coded (JObj [(''code'', JInt 1), (''msg'', JStr ''gone'')]) = Inr ([(''code'', JInt 1), (''msg'', JStr ''gone'')], Some ''gone'')"
    and "error_text (lark_request_error [(''code'', JInt 1), (''msg'', JStr ''gone'')] ''gone'') = ''gone''" by code_simp+
  ultimately show ?thesis
    by (simp add: get_record_def either_request_def bot_request_def run_bind read_json_def bot_http option_text_def)
qed

lemma read_outcome_is_recorded_witness:
  "map_option bd_error (lw_board (snd (get_lark_task (bot_service [title_field] lost) (Inr small_board) ''r'' bot_world))) = Some (Some ''gone'')"
proof -
  let ?v = "bot_service [title_field] lost"
  obtain x s1 where c: "card_context ?v (Inr small_board) bot_world = (Inr x, s1)" "tc_client x = bot_client"
      "tc_board x = demo_lark_board" "lw_board s1 = Some demo_lark_board" using bot_context by blast
  obtain e s2 where e: "get_record ?v bot_client ''tbl'' ''r'' s1 = (Inl e, s2)" "error_text e = ''gone''" "lw_board s2 = lw_board s1"
    using lost_record by blast
  obtain s' b where run: "get_lark_task ?v (Inr small_board) ''r'' bot_world = (Inl e, s')" "lw_board s' = Some b"
    using c e by (simp add: get_lark_task_def run_bind noting_failure_def run_catch save_board_failure_def update_board_def)
      (simp add: demo_lark_board_def option_text_def run_bind)
  with read_outcome_is_recorded[OF c(1) run] e(2) show ?thesis by simp
qed

section \<open>Empty records\<close>

text \<open>A table that holds the records \<open>rs\<close> and serves them in pages of \<open>sz\<close>.\<close>

definition serves_pages :: "(nat \<Rightarrow> ('s, dict list \<times> bool) lark) \<Rightarrow> nat \<Rightarrow> dict list \<Rightarrow> bool" where
  "serves_pages page sz rs \<longleftrightarrow> 0 < sz \<and>
     (\<forall>k s. k * sz \<le> length rs \<longrightarrow> (\<exists>s'. page (k * sz) s = (Inr (pg_tasks (paged sz rs (k * sz)), pg_more (paged sz rs (k * sz))), s')))"

lemma empty_records_paged:
  assumes "serves_pages page sz rs"
  shows "k * sz \<le> length rs \<Longrightarrow> length rs < k * sz + n \<Longrightarrow>
    fst (empty_records n page (k * sz) found s) =
      Inr (if list_all record_is_empty (drop (k * sz) rs) then Some (found @ drop (k * sz) rs) else None)"
proof (induction n arbitrary: k found s)
  case (Suc n)
  let ?off = "k * sz"
  let ?batch = "take sz (drop ?off rs)"
  have sz: "0 < sz" using assms by (simp add: serves_pages_def)
  obtain s1 where page: "page ?off s = (Inr (?batch, ?off + sz < length rs), s1)"
    using assms Suc.prems(1) by (auto simp: serves_pages_def paged_def)
  show ?case
  proof (cases "?off + sz < length rs")
    case False
    then have "?batch = drop ?off rs" by simp
    then show ?thesis using False page by (auto simp: run_bind list_all_iff)
  next
    case True
    then have len: "length ?batch = sz" by simp
    then have ne: "?batch \<noteq> []" using sz by (metis list.size(3) not_less_iff_gr_or_eq)
    have rest: "fst (empty_records n page (?off + sz) (found @ ?batch) s1) =
        Inr (if list_all record_is_empty (drop (?off + sz) rs) then Some ((found @ ?batch) @ drop (?off + sz) rs) else None)"
      using Suc.IH[of "Suc k" "found @ ?batch" s1] True Suc.prems sz by (simp add: add.commute)
    have parts: "list_all record_is_empty (drop ?off rs) \<longleftrightarrow>
        list_all record_is_empty ?batch \<and> list_all record_is_empty (drop (?off + sz) rs)"
      and whole: "found @ drop ?off rs = (found @ ?batch) @ drop (?off + sz) rs"
      by (metis append_take_drop_id drop_drop add.commute list_all_append,
          metis append_take_drop_id drop_drop add.commute append.assoc)
    show ?thesis
    proof (cases "list_all record_is_empty ?batch")
      case False
      then have "\<exists>r \<in> set ?batch. \<not> record_is_empty r" by (auto simp: list_all_iff)
      then show ?thesis using False parts page by (simp add: run_bind)
    next
      case empty: True
      then have "\<not> (\<exists>r \<in> set ?batch. \<not> record_is_empty r)" by (auto simp: list_all_iff)
      then have "empty_records (Suc n) page ?off found s = empty_records n page (?off + sz) (found @ ?batch) s1"
        using page True ne len by (simp add: run_bind)
      then show ?thesis using rest parts whole empty by simp
    qed
  qed
qed simp

text \<open>The records of a fresh table are reused only when all of them are empty: on a table served in pages the
  search ends, and it gives every record of the table when all are empty and none at all otherwise.
\<close>
theorem reused_records_are_empty:
  assumes "serves_pages (\<lambda>off. list_records v c (py_str (bt_id (bu_table b))) None 200 (int off)) sz rs" and "length rs < n"
    and "length (bu_fields b) = 1" and "primary_field b = Inr f" and "bf_type f = JStr ''text''"
  shows "fst (reusable_empty_records n v c b s) = Inr (if list_all record_is_empty rs then Some rs else None)"
  using assms empty_records_paged[OF assms(1), of 0 n "[]" s] by (simp add: reusable_empty_records_def)

definition two_records :: "dict list" where
  "two_records = [[(''record_id'', JStr ''a''), (''fields'', JObj [])], [(''record_id'', JStr ''b''), (''fields'', JObj [(''Title'', JStr ''x'')])]]"

lemma reused_records_are_empty_witness:
  "fst (reusable_empty_records 9 (bot_service (map JObj two_records) []) bot_client plain_bundle bot_world) = Inr None"
proof -
  have pages: "serves_pages (\<lambda>off. list_records (bot_service (map JObj two_records) []) bot_client (py_str (bt_id (bu_table plain_bundle))) None 200 (int off)) 200 two_records"
    unfolding serves_pages_def
  proof (intro conjI allI impI)
    fix k :: nat and s :: "unit lark_world" assume "k * 200 \<le> length two_records"
    then have k: "k = 0" by (simp add: two_records_def)
    obtain u s1 where t: "tenant_token (bot_service (map JObj two_records) []) bot_client s = (Inr u, s1)"
      using bot_token by blast
    show "\<exists>s'. list_records (bot_service (map JObj two_records) []) bot_client (py_str (bt_id (bu_table plain_bundle))) None 200 (int (k * 200)) s =
        (Inr (pg_tasks (paged 200 two_records (k * 200)), pg_more (paged 200 two_records (k * 200))), s')"
      using t by (simp add: list_records_def either_request_def bot_request_def run_bind k)
        (simp add: read_json_def run_bind bot_http coded_stored stored_data record_page_def item_list_def
          dget_def two_records_def dicts_def paged_def option_text_def)
  qed simp
  have facts: "length two_records < 9" "length (bu_fields plain_bundle) = 1" "primary_field plain_bundle = Inr (field_of (as_dict title_field))"
      "bf_type (field_of (as_dict title_field)) = JStr ''text''" by code_simp+
  have "\<not> list_all record_is_empty two_records" by code_simp
  with reused_records_are_empty[OF pages facts] show ?thesis by simp
qed

end
