(* ===== verification/Board_Verification.thy ===== *)
theory Board_Verification
  imports Board_Access
begin

text \<open>
  The verification of access to a board in \<^verbatim>\<open>core/lark_board.py\<close>: six checks per identity, with a probe record
  that is written and deleted again; the stored outcomes and the state of the board they add up to; and the
  grant of access to an identity by another one.
\<close>

definition ACCESS_CHECKS :: "access_check list" where
  "ACCESS_CHECKS = [Check_Auth, Check_Api, Check_Collaborator, Check_Read, Check_Write, Check_Cleanup]"

definition TEAMFLOW_APP_SCOPES :: "string list" where
  "TEAMFLOW_APP_SCOPES =
     [''bitable:app'', ''base:app:read'', ''base:table:read'', ''base:table:create'', ''base:table:update'',
      ''base:field:read'', ''base:field:create'', ''base:field:update'', ''base:view:read'',
      ''base:view:write_only'', ''base:record:read'', ''base:record:retrieve'', ''base:record:create'',
      ''base:record:update'', ''base:record:delete'', ''docs:event:subscribe'', ''docs:permission.member:auth'',
      ''docs:permission.member:create'', ''drive:drive.metadata:readonly'']"

definition check_name :: "access_check \<Rightarrow> string" where
  "check_name c = (case c of Check_Auth \<Rightarrow> ''auth'' | Check_Api \<Rightarrow> ''api'' | Check_Collaborator \<Rightarrow> ''collaborator''
     | Check_Read \<Rightarrow> ''read'' | Check_Write \<Rightarrow> ''write'' | Check_Cleanup \<Rightarrow> ''cleanup'')"

section \<open>The tables and views of a board\<close>

text \<open>Names in Chinese stand as their UTF-8 bytes.\<close>

record board_names =
  bn_table :: string
  bn_view :: string
  bn_primary :: string

definition chinese_names :: board_names where
  "chinese_names =
     \<lparr>bn_table = [CHR 0x54, CHR 0x65, CHR 0x61, CHR 0x6D, CHR 0x46, CHR 0x6C, CHR 0x6F, CHR 0x77, CHR 0x20, CHR 0xE4, CHR 0xBB, CHR 0xBB, CHR 0xE5, CHR 0x8A, CHR 0xA1, CHR 0xE8, CHR 0xA1, CHR 0xA8],
      bn_view = [CHR 0xE7, CHR 0x9C, CHR 0x8B, CHR 0xE6, CHR 0x9D, CHR 0xBF], bn_primary = [CHR 0xE4, CHR 0xBB, CHR 0xBB, CHR 0xE5, CHR 0x8A, CHR 0xA1]\<rparr>"

definition english_names :: board_names where
  "english_names = \<lparr>bn_table = ''TeamFlow Tasks'', bn_view = ''Kanban'', bn_primary = ''Title''\<rparr>"

definition LEGACY_TASK_TABLE_NAME :: string where
  "LEGACY_TASK_TABLE_NAME = ''TeamFlow Tasks''"

definition LEGACY_TASK_VIEW_NAME :: string where
  "LEGACY_TASK_VIEW_NAME = ''TeamFlow Board''"

definition task_names :: "lark_board \<Rightarrow> board_names" where
  "task_names b = (if board_locale (option_text (bd_url b)) = ''zh-CN'' then chinese_names else english_names)"

definition is_task_view :: "board_view \<Rightarrow> bool" where
  "is_task_view w \<longleftrightarrow> bv_type w = JStr ''kanban'' \<and>
     member_str (bv_name w) [bn_view chinese_names, bn_view english_names, LEGACY_TASK_VIEW_NAME]"

definition selected_table :: "lark_board \<Rightarrow> board_table list \<Rightarrow> board_table option" where
  "selected_table b tables =
     (case nonempty (bd_table b) of
        Some t \<Rightarrow> (case List.find (\<lambda>x. bt_id x = JStr t) tables of
            Some x \<Rightarrow> Some x
          | None \<Rightarrow> Some \<lparr>bt_id = JStr t, bt_name = JStr [], bt_primary = JNull, bt_revision = JNull\<rparr>)
      | None \<Rightarrow> List.find (\<lambda>x. member_str (bt_name x) [bn_table (task_names b), LEGACY_TASK_TABLE_NAME]) tables)"

record board_reading =
  rd_table :: "string option"
  rd_view :: "string option"
  rd_probe :: string
  rd_initialized :: bool

definition configured_view :: "lark_board \<Rightarrow> board_bundle \<Rightarrow> board_view option" where
  "configured_view b bundle = (case bd_view b of None \<Rightarrow> None | Some w \<Rightarrow> List.find (\<lambda>x. bv_id x = JStr w) (bu_views bundle))"

definition shown_task_view :: "lark_board \<Rightarrow> board_bundle \<Rightarrow> board_view option" where
  "shown_task_view b bundle =
     (case configured_view b bundle of
        Some w \<Rightarrow> if is_task_view w then Some w else List.find is_task_view (bu_views bundle)
      | None \<Rightarrow> List.find is_task_view (bu_views bundle))"

text \<open>A workspace without an installed definition is readable, but not initialized.\<close>

definition has_task_fields :: "dict result \<Rightarrow> lark_board \<Rightarrow> board_bundle \<Rightarrow> bool result" where
  "has_task_fields loaded b bundle =
     (case loaded of
        Inl e \<Rightarrow> if is_value_error e then Inr False else Inl e
      | Inr w \<Rightarrow> andthen (task_field_specs w (board_locale (option_text (bd_url b))) None) (\<lambda>specs.
          andthen (task_field_map bundle specs task_field_aliases False) (\<lambda>cs. Inr (cs \<noteq> None))))"

definition read_board_access ::
  "'s lark_service \<Rightarrow> client \<Rightarrow> lark_board \<Rightarrow> dict result \<Rightarrow> board_table list \<Rightarrow> ('s, board_reading) lark" where
  "read_board_access v c b loaded tables =
     (let selected = selected_table b tables in
      case (case selected of Some t \<Rightarrow> Some t | None \<Rightarrow> (case tables of [] \<Rightarrow> None | t # ts \<Rightarrow> Some t)) of
        None \<Rightarrow> of_result (Inl (ValueError ''the Bitable has no data table for access verification''))
      | Some probe \<Rightarrow>
          let t = py_str (bt_id probe) in
          bind_eff (get_table v c t) (\<lambda>bundle.
          if selected = None then
            bind_eff (list_records v c t None 1 0) (\<lambda>_.
            of_result (Inr \<lparr>rd_table = None, rd_view = None, rd_probe = t, rd_initialized = False\<rparr>))
          else if nonempty (bd_view b) \<noteq> None \<and> configured_view b bundle = None then
            of_result (Inl (ValueError ''the configured Lark view no longer exists''))
          else bind_eff (list_records v c t (bd_view b) 1 0) (\<lambda>_.
               bind_eff (of_result (has_task_fields loaded b bundle)) (\<lambda>mapped.
               let view = shown_task_view b bundle; ready = mapped \<and> view \<noteq> None in
               of_result (Inr \<lparr>rd_table = Some t,
                 rd_view = (if ready then map_option (\<lambda>w. py_str (bv_id w)) view else None), rd_probe = t, rd_initialized = ready\<rparr>)))))"

section \<open>What a failure means\<close>

record error_details =
  ed_kind :: string
  ed_scopes :: "string list"
  ed_repair :: "string option"
  ed_error :: string

definition permission_url :: "lark_identity \<Rightarrow> string \<Rightarrow> string list \<Rightarrow> string" where
  "permission_url i url scopes =
     (let app = strip (option_text (li_app i)) in
      if app = [] then []
      else open_origin url @ ''/app/'' @ quote app @ ''/auth?'' @
        urlencode [(''q'', JStr (join '','' scopes)), (''op_from'', JStr ''openapi''),
          (''token_type'', JStr (if li_auth i = ''user'' then ''user'' else ''tenant''))])"

definition error_code :: "py_error \<Rightarrow> string" where
  "error_code e = (case e of LarkRequestError m code scopes link \<Rightarrow> code | _ \<Rightarrow> [])"

definition error_scopes :: "py_error \<Rightarrow> string list" where
  "error_scopes e = (case e of LarkRequestError m code scopes link \<Rightarrow> scopes | _ \<Rightarrow> [])"

definition error_link :: "py_error \<Rightarrow> string" where
  "error_link e = (case e of LarkRequestError m code scopes link \<Rightarrow> link | _ \<Rightarrow> [])"

definition failure_kind :: "py_error \<Rightarrow> lark_identity \<Rightarrow> string \<Rightarrow> string" where
  "failure_kind e i stage =
     (let lowered = map lower_char (error_text e); says = contains_text lowered in
      if error_scopes e \<noteq> [] \<or> error_code e \<in> set [''99991672'', ''99991679'', ''20027''] \<or> says ''required one of'' \<or> says ''scope''
      then ''missing_scope''
      else if error_code e \<in> set [''91403'', ''1063002''] \<or>
              list_ex says [''91403'', ''1063002'', ''not a bitable collaborator'', ''not collaborator'']
      then ''not_collaborator''
      else if li_auth i = ''user'' \<and> list_ex says [''expired'', ''authorization'', ''token status''] then ''auth_expired''
      else stage @ ''_failed'')"

definition access_error_details :: "py_error \<Rightarrow> lark_identity \<Rightarrow> lark_board \<Rightarrow> string \<Rightarrow> error_details" where
  "access_error_details e i b stage =
     (let kind = failure_kind e i stage;
          url = option_text (bd_url b);
          named = (if kind = ''missing_scope'' \<and> error_scopes e = []
                   then [if stage = ''collaborator'' then ''docs:permission.member:auth'' else ''bitable:app''] else error_scopes e);
          scopes = sorted_set (if kind = ''missing_scope'' then named @ TEAMFLOW_APP_SCOPES else named);
          link = (if kind = ''missing_scope'' then permission_url i url scopes
                  else if error_link e \<noteq> [] then error_link e
                  else if kind = ''not_collaborator'' then url else [])
      in \<lparr>ed_kind = kind, ed_scopes = scopes, ed_repair = nonempty (Some link), ed_error = error_text e\<rparr>)"

definition missing_scope_error :: "py_error \<Rightarrow> lark_identity \<Rightarrow> lark_board \<Rightarrow> py_error option" where
  "missing_scope_error e i b =
     (let d = access_error_details e i b ''initialize'' in
      if ed_kind d \<noteq> ''missing_scope'' then None
      else Some (LarkRequestError (ed_error d) (error_code e) (ed_scopes d) (option_text (ed_repair d))))"

section \<open>The checks of an identity\<close>

text \<open>The result, the check at hand and the probe record are local to a verification; what it asks is not.\<close>

record verification =
  vf_result :: access_result
  vf_stage :: access_check
  vf_record :: string
  vf_write_error :: "py_error option"
  vf_cleanup_error :: "py_error option"

type_synonym ('s, 'a) verifying = "('s lark_world \<times> verification, 'a) eff"

definition asking :: "('s, 'a) lark \<Rightarrow> ('s, 'a) verifying" where
  "asking m = (\<lambda>(w, f). case m w of (r, w') \<Rightarrow> (r, (w', f)))"

definition locally :: "(verification \<Rightarrow> verification) \<Rightarrow> ('s, unit) verifying" where
  "locally g = write_eff (\<lambda>(w, f). (w, g f))"

definition in_result :: "(access_result \<Rightarrow> access_result) \<Rightarrow> ('s, unit) verifying" where
  "in_result g = locally (\<lambda>f. f\<lparr>vf_result := g (vf_result f)\<rparr>)"

definition mark :: "access_check \<Rightarrow> check_state \<Rightarrow> ('s, unit) verifying" where
  "mark c st = in_result (\<lambda>r. r\<lparr>ac_checks := (ac_checks r)(c := st)\<rparr>)"

definition enter_stage :: "access_check \<Rightarrow> check_state \<Rightarrow> ('s, unit) verifying" where
  "enter_stage c st = bind_eff (locally (\<lambda>f. f\<lparr>vf_stage := c\<rparr>)) (\<lambda>_. mark c st)"

definition fresh_result :: "string \<Rightarrow> access_result" where
  "fresh_result i =
     \<lparr>ac_identity = i, ac_verified = False, ac_checks = (\<lambda>_. Unverified), ac_kind = None, ac_scopes = [], ac_repair = None,
      ac_error = None, ac_at = None, ac_table = None, ac_view = None, ac_initialized = False, ac_owner = None,
      ac_owner_error = None\<rparr>"

definition fresh_verification :: "string \<Rightarrow> verification" where
  "fresh_verification i =
     \<lparr>vf_result = fresh_result i, vf_stage = Check_Auth, vf_record = [], vf_write_error = None, vf_cleanup_error = None\<rparr>"

definition find_owner :: "'s lark_service \<Rightarrow> client \<Rightarrow> ('s, unit) verifying" where
  "find_owner v c = catch_eff
     (bind_eff (asking (get_file_metadata v c)) (\<lambda>md.
      let owner = dget md ''owner_id'' in
      if \<not> truthy owner then in_result (\<lambda>r. r\<lparr>ac_owner := Some False\<rparr>)
      else bind_eff (asking (identity_open_id v c)) (\<lambda>me. in_result (\<lambda>r. r\<lparr>ac_owner := Some (owner = JStr me)\<rparr>))))
     (\<lambda>e. in_result (\<lambda>r. r\<lparr>ac_owner_error := Some (error_text e)\<rparr>))"

definition check_collaborator :: "'s lark_service \<Rightarrow> client \<Rightarrow> ('s, unit) verifying" where
  "check_collaborator v c = catch_eff
     (bind_eff (asking (check_document_permission v c ''view'')) (\<lambda>can_view.
      bind_eff (asking (check_document_permission v c ''edit'')) (\<lambda>can_edit.
      mark Check_Collaborator (if can_view \<and> can_edit then Passed else Failed))))
     (\<lambda>_. mark Check_Collaborator Blocked)"

text \<open>The probe: its record id outlives an error, so that it is deleted in any case.\<close>

definition write_probe :: "'s lark_service \<Rightarrow> client \<Rightarrow> string \<Rightarrow> ('s, unit) verifying" where
  "write_probe v c t = catch_eff
     (bind_eff (asking (upsert_record v c t [] None None)) (\<lambda>created.
      let rid = record_identifier created in
      bind_eff (locally (\<lambda>f. f\<lparr>vf_record := rid\<rparr>)) (\<lambda>_.
      if rid = [] then of_result (Inl (ValueError ''Lark did not return the verification record ID''))
      else bind_eff (asking (read_new_record v c t rid)) (\<lambda>read.
           if record_identifier read \<noteq> rid then of_result (Inl (ValueError ''Lark did not return the verification record''))
           else bind_eff (mark Check_Write Passed) (\<lambda>_. mark Check_Collaborator Passed)))))
     (\<lambda>e. bind_eff (locally (\<lambda>f. f\<lparr>vf_write_error := Some e\<rparr>)) (\<lambda>_. mark Check_Write Failed))"

definition delete_probe :: "'s lark_service \<Rightarrow> client \<Rightarrow> string \<Rightarrow> ('s, unit) verifying" where
  "delete_probe v c t =
     bind_eff (read_eff (\<lambda>(w, f). vf_record f)) (\<lambda>rid.
     if rid = [] then mark Check_Cleanup Blocked
     else bind_eff (mark Check_Cleanup Running) (\<lambda>_. catch_eff
       (bind_eff (asking (delete_record v c t rid)) (\<lambda>_. mark Check_Cleanup Passed))
       (\<lambda>e. bind_eff (locally (\<lambda>f. f\<lparr>vf_cleanup_error := Some e\<rparr>)) (\<lambda>_. mark Check_Cleanup Failed))))"

text \<open>\<^verbatim>\<open>AccessCheckError\<close>: the check that failed is the one the handler takes.\<close>

definition raise_probe_errors :: "('s, unit) verifying" where
  "raise_probe_errors =
     bind_eff (read_eff (\<lambda>(w, f). (vf_write_error f, vf_cleanup_error f))) (\<lambda>(write, cleanup).
     case write of
       Some e \<Rightarrow> bind_eff (locally (\<lambda>f. f\<lparr>vf_stage := Check_Write\<rparr>)) (\<lambda>_. of_result (Inl e))
     | None \<Rightarrow> (case cleanup of
         Some e \<Rightarrow> bind_eff (locally (\<lambda>f. f\<lparr>vf_stage := Check_Cleanup\<rparr>)) (\<lambda>_. of_result (Inl e))
       | None \<Rightarrow> of_result (Inr ())))"

definition run_checks ::
  "'s lark_service \<Rightarrow> lark_board \<Rightarrow> dict result \<Rightarrow> lark_identity \<Rightarrow> ('s, unit) verifying" where
  "run_checks v b loaded i =
     bind_eff (enter_stage Check_Auth Running) (\<lambda>_.
     bind_eff (asking (open_client v i b)) (\<lambda>c.
     bind_eff (asking (authenticate v c)) (\<lambda>_.
     bind_eff (mark Check_Auth Passed) (\<lambda>_.
     bind_eff (enter_stage Check_Api Running) (\<lambda>_.
     bind_eff (asking (get_base v c)) (\<lambda>_.
     bind_eff (asking (list_tables v c)) (\<lambda>tables.
     bind_eff (mark Check_Api Passed) (\<lambda>_.
     bind_eff (find_owner v c) (\<lambda>_.
     bind_eff (enter_stage Check_Collaborator Running) (\<lambda>_.
     bind_eff (check_collaborator v c) (\<lambda>_.
     bind_eff (enter_stage Check_Read Running) (\<lambda>_.
     bind_eff (asking (read_board_access v c b loaded tables)) (\<lambda>rd.
     bind_eff (in_result (\<lambda>r. r\<lparr>ac_table := rd_table rd, ac_view := rd_view rd, ac_initialized := rd_initialized rd\<rparr>)) (\<lambda>_.
     bind_eff (mark Check_Read Passed) (\<lambda>_.
     bind_eff (enter_stage Check_Write Waiting_Turn) (\<lambda>_.
     bind_eff (mark Check_Write Running) (\<lambda>_.
     bind_eff (write_probe v c (rd_probe rd)) (\<lambda>_.
     bind_eff (delete_probe v c (rd_probe rd)) (\<lambda>_.
     bind_eff raise_probe_errors (\<lambda>_.
     in_result (\<lambda>r. r\<lparr>ac_verified := True\<rparr>)))))))))))))))))))))"

definition settled_check :: "check_state \<Rightarrow> bool" where
  "settled_check st \<longleftrightarrow> st = Passed \<or> st = Failed \<or> st = Blocked"

definition judged :: "lark_identity \<Rightarrow> lark_board \<Rightarrow> access_check \<Rightarrow> py_error \<Rightarrow> access_result \<Rightarrow> access_result" where
  "judged i b stage e r =
     (let d = access_error_details e i b (check_name stage);
          c1 = (if ac_checks r stage = Failed \<or> ac_checks r stage = Passed then ac_checks r else (ac_checks r)(stage := Failed));
          c2 = (if ed_kind d = ''missing_scope'' \<and> c1 Check_Api \<noteq> Failed then c1(Check_Api := Failed) else c1)
      in r\<lparr>ac_checks := (\<lambda>c. if settled_check (c2 c) then c2 c else Blocked), ac_kind := Some (ed_kind d),
           ac_scopes := ed_scopes d, ac_repair := ed_repair d, ac_error := Some (ed_error d)\<rparr>)"

definition verify_lark_identity ::
  "'s lark_service \<Rightarrow> lark_board \<Rightarrow> dict result \<Rightarrow> lark_identity \<Rightarrow> ('s, access_result) lark" where
  "verify_lark_identity v b loaded i =
     (\<lambda>w. case run_checks v b loaded i (w, fresh_verification (li_id i)) of
        (res, (w', f)) \<Rightarrow>
          (Inr ((case res of Inl e \<Rightarrow> judged i b (vf_stage f) e (vf_result f) | Inr _ \<Rightarrow> vf_result f)\<lparr>ac_at := Some (sv_time v w')\<rparr>), w'))"

section \<open>Stored outcomes\<close>

text \<open>The board as it was read has not been configured anew since.\<close>

definition same_board_resource :: "lark_board \<Rightarrow> 's lark_world \<Rightarrow> bool" where
  "same_board_resource b s \<longleftrightarrow>
     (case lw_board s of
        None \<Rightarrow> False
      | Some now \<Rightarrow> bd_id now = bd_id b \<and> nonempty (bd_token now) = nonempty (bd_token b) \<and>
                    nonempty (bd_table now) = nonempty (bd_table b) \<and> nonempty (bd_view now) = nonempty (bd_view b))"

text \<open>The columns of \<^verbatim>\<open>lark_board_identity_access\<close>; what was read of the board is not among them.\<close>

definition access_row :: "access_result \<Rightarrow> access_result" where
  "access_row r = r\<lparr>ac_table := None, ac_view := None, ac_initialized := False, ac_owner := None, ac_owner_error := None\<rparr>"

definition put_access :: "access_result \<Rightarrow> access_result list \<Rightarrow> access_result list" where
  "put_access r xs =
     (if ac_identity r \<in> ac_identity ` set xs then update_where (\<lambda>x. ac_identity x = ac_identity r) (\<lambda>_. access_row r) xs
      else xs @ [access_row r])"

definition save_identity_access :: "lark_board \<Rightarrow> access_result \<Rightarrow> ('s, bool) lark" where
  "save_identity_access b r = (\<lambda>s.
     if \<not> same_board_resource b s then (Inr False, s)
     else if \<not> known_identity (ac_identity r) s then (Inl foreign_key_error, s)
     else (Inr True, s\<lparr>lw_access := put_access r (lw_access s)\<rparr>))"

record access_summary =
  sm_status :: string
  sm_total :: nat
  sm_verified :: nat
  sm_failed :: nat
  sm_pending :: nat

definition access_rows :: "'s lark_world \<Rightarrow> access_result option list" where
  "access_rows s = map (\<lambda>i. find_access (li_id i) s) (lw_identities s)"

definition summary_of :: "access_result option list \<Rightarrow> access_summary" where
  "summary_of rows =
     (let total = length rows;
          verified = length (filter (\<lambda>r. case r of None \<Rightarrow> False | Some x \<Rightarrow> ac_verified x) rows);
          failed = length (filter (\<lambda>r. case r of None \<Rightarrow> False | Some x \<Rightarrow> \<not> ac_verified x) rows)
      in \<lparr>sm_status = (if total \<noteq> 0 \<and> verified = total then ''verified'' else if verified \<noteq> 0 then ''partial''
                      else if total \<noteq> 0 \<and> failed = total then ''failed'' else ''unverified''),
          sm_total = total, sm_verified = verified, sm_failed = failed, sm_pending = total - verified - failed\<rparr>)"

definition first_error :: "access_result option list \<Rightarrow> string option" where
  "first_error rows =
     (case List.find (\<lambda>r. case r of None \<Rightarrow> False | Some x \<Rightarrow> option_text (ac_error x) \<noteq> []) rows of
        Some (Some x) \<Rightarrow> ac_error x | _ \<Rightarrow> None)"

definition summary_reading :: "lark_board \<Rightarrow> access_result list \<Rightarrow> access_result option" where
  "summary_reading b results =
     (case List.find (\<lambda>r. ac_verified r \<and> Some (ac_identity r) = bd_primary b) results of
        Some r \<Rightarrow> Some r | None \<Rightarrow> List.find ac_verified results)"

definition summary_primary :: "lark_board \<Rightarrow> access_result list \<Rightarrow> string option" where
  "summary_primary b results =
     (case List.find (\<lambda>r. ac_verified r \<and> ac_owner r = Some True) results of Some r \<Rightarrow> Some (ac_identity r) | None \<Rightarrow> bd_primary b)"

text \<open>The listener was verified for an identity: with another one it starts again.\<close>

definition summarized_board ::
  "string option \<Rightarrow> access_result option \<Rightarrow> string \<Rightarrow> string option \<Rightarrow> int \<Rightarrow> lark_board \<Rightarrow> lark_board" where
  "summarized_board primary reading status err now b =
     (let moved = option_text (bd_primary b) \<noteq> option_text primary in
      b\<lparr>bd_listener := (if moved then ''unverified'' else bd_listener b),
        bd_listener_verified := (if moved then None else bd_listener_verified b),
        bd_listener_kind := (if moved then None else bd_listener_kind b),
        bd_listener_error := (if moved then None else bd_listener_error b),
        bd_primary := primary,
        bd_table := coalesce (case reading of None \<Rightarrow> None | Some r \<Rightarrow> ac_table r) (bd_table b),
        bd_view := coalesce (case reading of None \<Rightarrow> None | Some r \<Rightarrow> ac_view r) (bd_view b),
        bd_access := status, bd_verified := Some now, bd_error := err, bd_updated := now\<rparr>)"

definition board_changed :: py_error where
  "board_changed = ValueError ''the configured Bitable changed during access verification; verify the current URL again''"

definition update_board_access_summary ::
  "'s lark_service \<Rightarrow> lark_board \<Rightarrow> access_result list \<Rightarrow> ('s, access_summary) lark" where
  "update_board_access_summary v b results = (\<lambda>s.
     if \<not> same_board_resource b s then (Inl board_changed, s)
     else let rows = access_rows s; sm = summary_of rows; primary = summary_primary b results in
       if (case primary of None \<Rightarrow> False | Some p \<Rightarrow> \<not> known_identity p s) then (Inl foreign_key_error, s)
       else (Inr sm, s\<lparr>lw_board := map_option (summarized_board primary (summary_reading b results)
              (sm_status sm) (first_error rows) (sv_time v s)) (lw_board s)\<rparr>))"

section \<open>Verifying a board\<close>

definition board_verification_context :: "string option \<Rightarrow> 's lark_world \<Rightarrow> (lark_board \<times> lark_identity list) result" where
  "board_verification_context wanted s =
     (case lw_board s of
        None \<Rightarrow> Inl (ValueError ''configure a Lark Bitable before verifying access'')
      | Some b \<Rightarrow>
          if option_text (bd_token b) = [] then Inl (ValueError ''configure a Lark Bitable before verifying access'')
          else
            let named = nonempty wanted;
                found = filter (\<lambda>i. case named of None \<Rightarrow> True | Some k \<Rightarrow> li_id i = k) (lw_identities s)
            in if found = [] then Inl (ValueError (if named = None then ''configure at least one Lark identity before verifying access''
                                                   else ''lark identity not found''))
               else Inr (b, sort_key (\<lambda>i. - li_updated i) found))"

definition save_or_complain :: "lark_board \<Rightarrow> access_result \<Rightarrow> ('s, access_result) lark" where
  "save_or_complain b r =
     bind_eff (save_identity_access b r) (\<lambda>saved. of_result (if saved then Inr r else Inl board_changed))"

definition in_order_of :: "lark_identity list \<Rightarrow> access_result list \<Rightarrow> access_result list" where
  "in_order_of people results =
     concat (map (\<lambda>i. filter (\<lambda>r. ac_identity r = li_id i) results) people)"

text \<open>
  The identities are verified in parallel; \<open>order\<close> is the order in which they complete. Every verification runs to
  its end, also when saving another one complains: the pool waits for its threads.
\<close>

definition verify_lark_board ::
  "'s lark_service \<Rightarrow> dict result \<Rightarrow> string option \<Rightarrow> (lark_identity list \<Rightarrow> lark_identity list) \<Rightarrow>
   ('s, access_summary \<times> access_result list) lark" where
  "verify_lark_board v loaded wanted order =
     bind_eff (\<lambda>s. (board_verification_context wanted s, s)) (\<lambda>(b, people).
     bind_eff (collect (verify_lark_identity v b loaded) (order people)) (\<lambda>outcomes.
     bind_eff (collect (save_or_complain b) outcomes) (\<lambda>results.
     let sorted = in_order_of people results in
     bind_eff (update_board_access_summary v b sorted) (\<lambda>sm. of_result (Inr (sm, sorted))))))"

section \<open>Granting access\<close>

definition grantors :: "lark_board \<Rightarrow> string \<Rightarrow> 's lark_world \<Rightarrow> lark_identity list" where
  "grantors b i s =
     sort_key (\<lambda>x. (if Some (li_id x) = bd_primary b then (0::nat) else 1, - li_updated x))
       (filter (\<lambda>x. li_id x \<noteq> i \<and> (case find_access (li_id x) s of None \<Rightarrow> False | Some a \<Rightarrow> ac_verified a)) (lw_identities s))"

text \<open>The signed-in user of the command line client may grant access as well.\<close>

definition signed_in_user :: lark_identity where
  "signed_in_user = \<lparr>li_id = [], li_auth = ''user'', li_app = None, li_app_name = None, li_app_avatar = None, li_synced = None,
     li_secret = None, li_access_token = None, li_refresh_token = None, li_open_id = None, li_user_name = None,
     li_user_avatar = None, li_status = [], li_verified = None, li_error = None, li_created = 0, li_updated = 0\<rparr>"

definition no_grantor :: string where
  "no_grantor = ''no available identity can grant document access''"

fun grant_by :: "'s lark_service \<Rightarrow> lark_board \<Rightarrow> string \<Rightarrow> lark_identity list \<Rightarrow> string \<Rightarrow> ('s, lark_identity) lark" where
  "grant_by v b open_id [] why = of_result (Inl (ValueError why))"
| "grant_by v b open_id (g # gs) why =
     catch_eff (bind_eff (open_client v g b) (\<lambda>c. bind_eff (add_collaborator v c open_id) (\<lambda>_. of_result (Inr g))))
       (\<lambda>e. grant_by v b open_id gs (error_text e))"

definition grantee_open_id :: "'s lark_service \<Rightarrow> lark_board \<Rightarrow> lark_identity \<Rightarrow> ('s, string) lark" where
  "grantee_open_id v b i =
     (if li_auth i = ''user'' then of_result (Inr (strip (option_text (li_open_id i))))
      else bind_eff (open_client v i b) (\<lambda>c. bind_eff (get_bot_info v c) (\<lambda>info.
           of_result (Inr (strip (text_of (dget info ''open_id'')))))))"

definition grant_lark_board_access ::
  "'s lark_service \<Rightarrow> dict result \<Rightarrow> string \<Rightarrow> (lark_identity list \<Rightarrow> lark_identity list) \<Rightarrow>
   ('s, string option \<times> access_summary \<times> access_result list) lark" where
  "grant_lark_board_access v loaded i order =
     bind_eff (read_eff (\<lambda>s. (lw_board s, find_identity i s, case lw_board s of None \<Rightarrow> [] | Some b \<Rightarrow> grantors b i s)))
     (\<lambda>(board, ident, gs).
     case board of
       None \<Rightarrow> of_result (Inl (ValueError ''configure a Lark Bitable before granting access''))
     | Some b \<Rightarrow>
         if option_text (bd_token b) = [] then of_result (Inl (ValueError ''configure a Lark Bitable before granting access''))
         else (case ident of
           None \<Rightarrow> of_result (Inl (ValueError ''lark identity not found''))
         | Some x \<Rightarrow>
             bind_eff (grantee_open_id v b x) (\<lambda>open_id.
             if open_id = [] then of_result (Inl (ValueError ''the identity does not have an Open ID that can be added as a collaborator''))
             else bind_eff (grant_by v b open_id (gs @ [signed_in_user]) no_grantor) (\<lambda>g.
                  bind_eff (verify_lark_board v loaded (Some i) order) (\<lambda>verification.
                  of_result (Inr (nonempty (Some (li_id g)), verification)))))))"

section \<open>The permissions of a bot\<close>

definition selected_bot_identity :: "lark_identity list \<Rightarrow> string option \<Rightarrow> lark_identity result" where
  "selected_bot_identity people wanted =
     (let k = strip (option_text wanted) in
      if k \<noteq> [] then
        (case List.find (\<lambda>i. li_id i = k) people of
           None \<Rightarrow> Inl (ValueError (k @ '' is not a saved Lark bot identity in this workspace'')) | Some i \<Rightarrow> Inr i)
      else case people of
          [] \<Rightarrow> Inl (ValueError ''configure a Lark bot identity before asking for its permissions'')
        | [i] \<Rightarrow> Inr i
        | _ \<Rightarrow> Inl (ValueError (''this workspace has several Lark bot identities; choose one of '' @ join '', '' (sort (map li_id people)))))"

definition domain_base_url :: "string \<Rightarrow> string result" where
  "domain_base_url domain =
     (let d = map lower_char (strip domain) in
      if d \<notin> set [''feishu'', ''larksuite''] then
        Inl (ValueError ''no Bitable URL is configured yet, so the domain must be one of feishu, larksuite'')
      else Inr (if d = ''larksuite'' then ''https://open.larksuite.com'' else ''https://open.feishu.cn''))"

definition required_lark_bot_permissions :: "string option \<Rightarrow> string \<Rightarrow> 's lark_world \<Rightarrow> (lark_identity \<times> string) result" where
  "required_lark_bot_permissions wanted domain s =
     (let bots = sort_key (\<lambda>i. (li_created i, li_id i)) (filter (\<lambda>i. li_auth i = ''bot'') (lw_identities s));
          url = (case lw_board s of None \<Rightarrow> [] | Some b \<Rightarrow> option_text (bd_url b))
      in andthen (selected_bot_identity bots wanted) (\<lambda>i.
         if strip (option_text (li_app i)) = []
         then Inl (ValueError (li_id i @ '' has no app_id, so its permission page cannot be addressed''))
         else andthen (if url \<noteq> [] then Inr url else domain_base_url domain) (\<lambda>base.
              Inr (i, permission_url i base TEAMFLOW_APP_SCOPES))))"

end
