(* ===== verification/Verification_Properties.thy ===== *)
theory Verification_Properties
  imports Board_Verification "HOL-Library.Multiset"
begin

text \<open>
  What a verification of access concludes: every check of an identity ends settled, a verified identity
  passed all six, and a failed one has a failed check and a reason; a board whose identities all verified
  can be used by its primary identity; and a board that was configured anew meanwhile is left as it is.
\<close>

section \<open>Triples\<close>

text \<open>From a verification with \<open>P\<close>, \<open>m\<close> ends with \<open>Q\<close> or raises with \<open>E\<close>; the service may answer anything.\<close>

definition triple ::
  "(verification \<Rightarrow> bool) \<Rightarrow> ('s, 'a) verifying \<Rightarrow> (verification \<Rightarrow> bool) \<Rightarrow> (verification \<Rightarrow> bool) \<Rightarrow> bool" where
  "triple P m Q E \<longleftrightarrow> (\<forall>w f. P f \<longrightarrow> (case m (w, f) of (r, (w', f')) \<Rightarrow> (case r of Inl e \<Rightarrow> E f' | Inr v \<Rightarrow> Q f')))"

named_theorems triple_intros

lemma tripleI:
  "(\<And>w f. P f \<Longrightarrow> case m (w, f) of (r, (w', f')) \<Rightarrow> (case r of Inl e \<Rightarrow> E f' | Inr v \<Rightarrow> Q f')) \<Longrightarrow> triple P m Q E"
  by (simp add: triple_def)

lemma tripleD:
  assumes "triple P m Q E" and "P f" and "m (w, f) = (r, (w', f'))"
  shows "case r of Inl e \<Rightarrow> E f' | Inr v \<Rightarrow> Q f'"
  using assms by (auto simp: triple_def split: prod.splits)

lemma triple_bind:
  assumes "triple P m R E" and "\<And>v. triple R (g v) Q E"
  shows "triple P (bind_eff m g) Q E"
proof (rule tripleI)
  fix w f assume P: "P f"
  obtain r w' f' where m: "m (w, f) = (r, (w', f'))" by (metis prod.collapse)
  show "case bind_eff m g (w, f) of (r, (w', f')) \<Rightarrow> (case r of Inl e \<Rightarrow> E f' | Inr v \<Rightarrow> Q f')"
  proof (cases r)
    case (Inl e)
    then show ?thesis using tripleD [OF assms(1) P m] m by (simp add: run_bind)
  next
    case (Inr v)
    then have "R f'" using tripleD [OF assms(1) P m] by simp
    then show ?thesis using assms(2) [of v] m Inr by (auto simp: run_bind triple_def)
  qed
qed

lemma triple_catch:
  assumes "triple P m Q R" and "\<And>e. triple R (h e) Q E"
  shows "triple P (catch_eff m h) Q E"
proof (rule tripleI)
  fix w f assume P: "P f"
  obtain r w' f' where m: "m (w, f) = (r, (w', f'))" by (metis prod.collapse)
  show "case catch_eff m h (w, f) of (r, (w', f')) \<Rightarrow> (case r of Inl e \<Rightarrow> E f' | Inr v \<Rightarrow> Q f')"
  proof (cases r)
    case (Inl e)
    then have "R f'" using tripleD [OF assms(1) P m] by simp
    then show ?thesis using assms(2) [of e] m Inl by (auto simp: run_catch triple_def)
  next
    case (Inr v)
    then show ?thesis using tripleD [OF assms(1) P m] m by (simp add: run_catch)
  qed
qed

lemma triple_asking: "(\<And>f. P f \<Longrightarrow> Q f) \<Longrightarrow> (\<And>f. P f \<Longrightarrow> E f) \<Longrightarrow> triple P (asking m) Q E"
  by (auto simp: triple_def asking_def split: prod.splits sum.splits)

lemma triple_locally: "(\<And>f. P f \<Longrightarrow> Q (g f)) \<Longrightarrow> triple P (locally g) Q E"
  by (simp add: triple_def locally_def)

lemma triple_raise: "(\<And>f. P f \<Longrightarrow> E f) \<Longrightarrow> triple P (of_result (Inl e)) Q E"
  by (simp add: triple_def)

lemma triple_if: "triple P m Q E \<Longrightarrow> triple P n Q E \<Longrightarrow> triple P (if b then m else n) Q E"
  by simp

lemma triple_weaken: "triple P m Q E \<Longrightarrow> (\<And>f. P' f \<Longrightarrow> P f) \<Longrightarrow> (\<And>f. Q f \<Longrightarrow> Q' f) \<Longrightarrow> triple P' m Q' E"
  unfolding triple_def by (fastforce split: prod.splits sum.splits)

lemma triple_pre: "triple P m Q E \<Longrightarrow> (\<And>f. P' f \<Longrightarrow> P f) \<Longrightarrow> triple P' m Q E"
  by (simp add: triple_def)

lemma triple_mark: "(\<And>f. P f \<Longrightarrow> Q (f\<lparr>vf_result := (vf_result f)\<lparr>ac_checks := (ac_checks (vf_result f))(c := st)\<rparr>\<rparr>)) \<Longrightarrow>
    triple P (mark c st) Q E"
  by (simp add: mark_def in_result_def triple_locally)

lemma triple_in_result: "(\<And>f. P f \<Longrightarrow> Q (f\<lparr>vf_result := g (vf_result f)\<rparr>)) \<Longrightarrow> triple P (in_result g) Q E"
  by (simp add: in_result_def triple_locally)

section \<open>The course of a verification\<close>

text \<open>The verification of \<open>i\<close> is at the check \<open>c\<close>, which has not passed yet, and those of \<open>ps\<close> have.\<close>

definition at_check :: "string \<Rightarrow> access_check \<Rightarrow> access_check set \<Rightarrow> verification \<Rightarrow> bool" where
  "at_check i c ps f \<longleftrightarrow> ac_identity (vf_result f) = i \<and> \<not> ac_verified (vf_result f) \<and> ac_error (vf_result f) = None \<and>
     vf_stage f = c \<and> (\<forall>p \<in> ps. ac_checks (vf_result f) p = Passed) \<and>
     (c \<noteq> Check_Write \<longrightarrow> vf_write_error f = None \<and> vf_cleanup_error f = None)"

definition pending :: "string \<Rightarrow> verification \<Rightarrow> bool" where
  "pending i f \<longleftrightarrow> ac_identity (vf_result f) = i \<and> \<not> ac_verified (vf_result f) \<and> ac_error (vf_result f) = None \<and>
     ac_checks (vf_result f) (vf_stage f) \<noteq> Passed"

definition concluded :: "string \<Rightarrow> verification \<Rightarrow> bool" where
  "concluded i f \<longleftrightarrow> ac_identity (vf_result f) = i \<and> ac_verified (vf_result f) \<and> ac_error (vf_result f) = None \<and>
     (\<forall>c. ac_checks (vf_result f) c = Passed)"

definition going :: "string \<Rightarrow> access_check \<Rightarrow> access_check set \<Rightarrow> verification \<Rightarrow> bool" where
  "going i c ps f \<longleftrightarrow> at_check i c ps f \<and> ac_checks (vf_result f) c \<noteq> Passed \<and>
     vf_write_error f = None \<and> vf_cleanup_error f = None"

lemma going_pending: "going i c ps f \<Longrightarrow> pending i f"
  by (simp add: going_def at_check_def pending_def)

lemma triple_stage:
  assumes "c \<notin> ps" and "st \<noteq> Passed" and "d \<noteq> Check_Write" and "\<And>u. triple (going i c ps) (g u) Q E"
  shows "triple (at_check i d ps) (bind_eff (enter_stage c st) g) Q E"
proof (rule triple_bind [where R = "going i c ps"])
  let ?R = "\<lambda>f. at_check i c ps f \<and> vf_write_error f = None \<and> vf_cleanup_error f = None"
  show "triple (at_check i d ps) (enter_stage c st) (going i c ps) E"
    unfolding enter_stage_def
    by (rule triple_bind [where R = ?R], rule triple_locally, use assms(3) in \<open>simp add: at_check_def\<close>, rule triple_mark)
       (use assms(1,2) in \<open>auto simp: going_def at_check_def\<close>)
qed (fact assms(4))

lemma triple_passed: "triple (going i c ps) (mark c Passed) (at_check i c (insert c ps)) E"
  by (rule triple_mark) (auto simp: going_def at_check_def)

lemma triple_ask: "triple (going i c ps) (asking m) (going i c ps) (pending i)"
  by (rule triple_asking) (auto intro: going_pending)

lemma triple_owner: "triple (at_check i c ps) (find_owner v cl) (at_check i c ps) E"
proof -
  have put: "triple (at_check i c ps) (in_result (\<lambda>r. r\<lparr>ac_owner := b\<rparr>)) (at_check i c ps) (at_check i c ps)" for b
    by (rule triple_in_result) (simp add: at_check_def)
  show ?thesis
    unfolding find_owner_def Let_def
    by (rule triple_catch [where R = "at_check i c ps"])
       (intro triple_bind [where R = "at_check i c ps"] triple_if put triple_asking triple_in_result, simp_all add: at_check_def, rule triple_in_result, simp add: at_check_def)
qed

lemma triple_collaborator:
  "triple (going i Check_Collaborator ps) (check_collaborator v cl) (at_check i Check_Collaborator ps) E"
proof -
  have put: "triple (going i Check_Collaborator ps) (mark Check_Collaborator st) (at_check i Check_Collaborator ps) E'"
    for st and E' :: "verification \<Rightarrow> bool"
    by (rule triple_mark) (auto simp: at_check_def going_def)
  show ?thesis
    unfolding check_collaborator_def
    by (rule triple_catch [where R = "going i Check_Collaborator ps"])
       (intro triple_bind [where R = "going i Check_Collaborator ps"] triple_asking put, simp_all add: put)
qed

text \<open>The probe: what \<^verbatim>\<open>write\<close> and \<^verbatim>\<open>cleanup\<close> leave behind.\<close>

definition probed :: "string \<Rightarrow> access_check set \<Rightarrow> verification \<Rightarrow> bool" where
  "probed i ps f \<longleftrightarrow> at_check i Check_Write ps f \<and> vf_cleanup_error f = None \<and>
     (case vf_write_error f of
        None \<Rightarrow> vf_record f \<noteq> [] \<and> ac_checks (vf_result f) Check_Write = Passed \<and> ac_checks (vf_result f) Check_Collaborator = Passed
      | Some e \<Rightarrow> ac_checks (vf_result f) Check_Write \<noteq> Passed)"

definition cleaned :: "string \<Rightarrow> access_check set \<Rightarrow> verification \<Rightarrow> bool" where
  "cleaned i ps f \<longleftrightarrow> at_check i Check_Write ps f \<and>
     (case vf_write_error f of
        None \<Rightarrow> ac_checks (vf_result f) Check_Write = Passed \<and> ac_checks (vf_result f) Check_Collaborator = Passed \<and>
          (ac_checks (vf_result f) Check_Cleanup = Passed \<longleftrightarrow> vf_cleanup_error f = None)
      | Some e \<Rightarrow> ac_checks (vf_result f) Check_Write \<noteq> Passed)"

definition unprobed :: "string \<Rightarrow> access_check set \<Rightarrow> verification \<Rightarrow> bool" where
  "unprobed i ps f \<longleftrightarrow> at_check i Check_Write ps f \<and> vf_write_error f = None \<and> vf_cleanup_error f = None"

lemma triple_write_probe:
  assumes "Check_Write \<notin> ps"
  shows "triple (unprobed i ps) (write_probe v cl t) (probed i ps) E"
  unfolding write_probe_def Let_def
proof (rule triple_catch [where R = "unprobed i ps"])
  show "triple (unprobed i ps)
     (bind_eff (asking (upsert_record v cl t [] None None)) (\<lambda>created.
      bind_eff (locally (\<lambda>f. f\<lparr>vf_record := record_identifier created\<rparr>)) (\<lambda>_.
      if record_identifier created = [] then of_result (Inl (ValueError ''Lark did not return the verification record ID''))
      else bind_eff (asking (read_new_record v cl t (record_identifier created))) (\<lambda>read.
           if record_identifier read \<noteq> record_identifier created
           then of_result (Inl (ValueError ''Lark did not return the verification record''))
           else bind_eff (mark Check_Write Passed) (\<lambda>_. mark Check_Collaborator Passed))))) (probed i ps) (unprobed i ps)"
  proof (rule triple_bind [where R = "unprobed i ps"], rule triple_asking)
    fix created
    let ?R = "\<lambda>f. unprobed i ps f \<and> vf_record f = record_identifier created"
    show "triple (unprobed i ps)
       (bind_eff (locally (\<lambda>f. f\<lparr>vf_record := record_identifier created\<rparr>)) (\<lambda>_.
        if record_identifier created = [] then of_result (Inl (ValueError ''Lark did not return the verification record ID''))
        else bind_eff (asking (read_new_record v cl t (record_identifier created))) (\<lambda>read.
             if record_identifier read \<noteq> record_identifier created
             then of_result (Inl (ValueError ''Lark did not return the verification record''))
             else bind_eff (mark Check_Write Passed) (\<lambda>_. mark Check_Collaborator Passed)))) (probed i ps) (unprobed i ps)"
      apply (rule triple_bind [where R = ?R])
       apply (rule triple_locally, simp add: unprobed_def at_check_def)
      apply (cases "record_identifier created = []")
       apply (simp, rule triple_raise, simp)
      apply (simp, rule triple_bind [where R = ?R])
       apply (rule triple_asking, simp, simp)
      apply (rule triple_if, rule triple_raise, simp)
      apply (rule triple_bind [where R = "\<lambda>f. ?R f \<and> ac_checks (vf_result f) Check_Write = Passed"])
       apply (rule triple_mark, simp add: unprobed_def at_check_def)
      apply (rule triple_mark, simp add: unprobed_def at_check_def probed_def)
      done
  qed simp_all
next
  fix e
  show "triple (unprobed i ps) (bind_eff (locally (\<lambda>f. f\<lparr>vf_write_error := Some e\<rparr>)) (\<lambda>_. mark Check_Write Failed)) (probed i ps) E"
    by (rule triple_bind [where R = "\<lambda>f. at_check i Check_Write ps f \<and> vf_write_error f = Some e \<and> vf_cleanup_error f = None"],
        rule triple_locally, simp add: unprobed_def at_check_def, rule triple_mark)
       (use assms in \<open>auto simp: at_check_def probed_def\<close>)
qed

lemma triple_read:
  assumes "\<And>x. triple (\<lambda>f. P f \<and> g f = x) (k x) Q E"
  shows "triple P (bind_eff (read_eff (\<lambda>(w, f). g f)) k) Q E"
  using assms by (simp add: triple_def)

lemma triple_delete_probe:
  assumes "Check_Cleanup \<notin> ps"
  shows "triple (probed i ps) (delete_probe v cl t) (cleaned i ps) E"
  unfolding delete_probe_def
proof (rule triple_read)
  fix rid
  let ?P = "\<lambda>f. probed i ps f \<and> vf_record f = rid"
  show "triple ?P
     (if rid = [] then mark Check_Cleanup Blocked
      else bind_eff (mark Check_Cleanup Running) (\<lambda>_. catch_eff
        (bind_eff (asking (delete_record v cl t rid)) (\<lambda>_. mark Check_Cleanup Passed))
        (\<lambda>e. bind_eff (locally (\<lambda>f. f\<lparr>vf_cleanup_error := Some e\<rparr>)) (\<lambda>_. mark Check_Cleanup Failed)))) (cleaned i ps) E"
  proof (cases "rid = []")
    case True
    show ?thesis unfolding True
      by (simp, rule triple_mark) (use assms in \<open>auto simp: probed_def cleaned_def at_check_def split: option.splits\<close>)
  next
    case False
    have "triple ?P (bind_eff (mark Check_Cleanup Running) (\<lambda>_. catch_eff
        (bind_eff (asking (delete_record v cl t rid)) (\<lambda>_. mark Check_Cleanup Passed))
        (\<lambda>e. bind_eff (locally (\<lambda>f. f\<lparr>vf_cleanup_error := Some e\<rparr>)) (\<lambda>_. mark Check_Cleanup Failed)))) (cleaned i ps) E"
    proof (rule triple_bind [where R = ?P], rule triple_mark)
      show "probed i ps f \<and> vf_record f = rid \<Longrightarrow>
          probed i ps (f\<lparr>vf_result := (vf_result f)\<lparr>ac_checks := (ac_checks (vf_result f))(Check_Cleanup := Running)\<rparr>\<rparr>) \<and>
          vf_record (f\<lparr>vf_result := (vf_result f)\<lparr>ac_checks := (ac_checks (vf_result f))(Check_Cleanup := Running)\<rparr>\<rparr>) = rid" for f
        using assms by (auto simp: probed_def at_check_def split: option.splits)
      let ?F = "\<lambda>f. probed i ps (f\<lparr>vf_cleanup_error := None\<rparr>) \<and> vf_cleanup_error f \<noteq> None"
      show "triple ?P (catch_eff (bind_eff (asking (delete_record v cl t rid)) (\<lambda>_. mark Check_Cleanup Passed))
         (\<lambda>e. bind_eff (locally (\<lambda>f. f\<lparr>vf_cleanup_error := Some e\<rparr>)) (\<lambda>_. mark Check_Cleanup Failed))) (cleaned i ps) E"
        apply (rule triple_catch [where R = ?P])
         apply (rule triple_bind [where R = ?P], rule triple_asking, simp, simp, rule triple_mark)
         apply (use assms in \<open>auto simp: probed_def cleaned_def at_check_def split: option.splits\<close>) [1]
        apply (rule triple_bind [where R = ?F], rule triple_locally)
         apply (auto simp: probed_def at_check_def split: option.splits) [1]
        apply (rule triple_mark)
        apply (use assms in \<open>auto simp: probed_def cleaned_def at_check_def split: option.splits\<close>)
        done
    qed
    with False show ?thesis by simp
  qed
qed

lemma triple_probe_errors:
  "triple (cleaned i ps) raise_probe_errors
     (\<lambda>f. at_check i Check_Write ps f \<and> (\<forall>c \<in> {Check_Write, Check_Collaborator, Check_Cleanup}. ac_checks (vf_result f) c = Passed))
     (pending i)"
  unfolding raise_probe_errors_def
proof (rule triple_read [where g = "\<lambda>f. (vf_write_error f, vf_cleanup_error f)"], clarsimp)
  fix we ce
  show "triple (\<lambda>f. cleaned i ps f \<and> vf_write_error f = we \<and> vf_cleanup_error f = ce)
     (case we of
        Some e \<Rightarrow> bind_eff (locally (\<lambda>f. f\<lparr>vf_stage := Check_Write\<rparr>)) (\<lambda>_. of_result (Inl e))
      | None \<Rightarrow> (case ce of
          Some e \<Rightarrow> bind_eff (locally (\<lambda>f. f\<lparr>vf_stage := Check_Cleanup\<rparr>)) (\<lambda>_. of_result (Inl e))
        | None \<Rightarrow> of_result (Inr ())))
     (\<lambda>f. at_check i Check_Write ps f \<and> ac_checks (vf_result f) Check_Write = Passed \<and>
          ac_checks (vf_result f) Check_Collaborator = Passed \<and> ac_checks (vf_result f) Check_Cleanup = Passed)
     (pending i)"
    by (cases we; cases ce)
       (auto simp: triple_def bind_of_result run_bind locally_def cleaned_def at_check_def pending_def)
qed

lemma triple_run_checks: "triple (\<lambda>f. f = fresh_verification i) (run_checks v b loaded ident) (concluded i) (pending i)"
  unfolding run_checks_def
  apply (rule triple_pre [where P = "at_check i Check_Auth {}"])
   apply (rule triple_stage, simp, simp, simp)
  apply (rule triple_bind [OF triple_ask])+
  apply (rule triple_bind [OF triple_passed])
  apply (rule triple_stage, simp, simp, simp)
  apply (rule triple_bind [OF triple_ask])+
  apply (rule triple_bind [OF triple_passed])
  apply (rule triple_bind [OF triple_owner])
  apply (rule triple_stage, simp, simp, simp)
  apply (rule triple_bind [OF triple_collaborator])
  apply (rule triple_stage, simp, simp, simp)
  apply (rule triple_bind [OF triple_ask])
  apply (rule triple_bind [where R = "going i Check_Read {Check_Api, Check_Auth}"])
   apply (rule triple_in_result, simp add: going_def at_check_def)
  apply (rule triple_bind [OF triple_passed])
  apply (rule triple_stage, simp, simp, simp)
  apply (rule triple_bind [where R = "going i Check_Write {Check_Read, Check_Api, Check_Auth}"])
   apply (rule triple_mark, simp add: going_def at_check_def)
  apply (rule triple_bind [where R = "probed i {Check_Read, Check_Api, Check_Auth}"])
   apply (rule triple_pre [OF triple_write_probe], simp, simp add: unprobed_def going_def)
  apply (rule triple_bind [OF triple_delete_probe], simp)
  apply (rule triple_bind [OF triple_probe_errors])
   apply (rule triple_in_result)
   apply (auto simp: concluded_def at_check_def elim: access_check.exhaust)[1]
   apply (rename_tac f c, case_tac c, simp_all)[1]
  apply (simp add: at_check_def fresh_verification_def fresh_result_def)
  done

lemma judged_pending:
  assumes "pending i f"
  shows "ac_identity (judged b0 b (vf_stage f) e (vf_result f)) = i"
    and "\<not> ac_verified (judged b0 b (vf_stage f) e (vf_result f))"
    and "ac_error (judged b0 b (vf_stage f) e (vf_result f)) \<noteq> None"
    and "settled_check (ac_checks (judged b0 b (vf_stage f) e (vf_result f)) c)"
    and "ac_checks (judged b0 b (vf_stage f) e (vf_result f)) (vf_stage f) = Failed"
  using assms by (auto simp: judged_def Let_def pending_def settled_check_def access_error_details_def)

lemma verified_identity:
  obtains r w' where "verify_lark_identity v b loaded i w = (Inr r, w')" and "ac_identity r = li_id i"
    and "ac_verified r \<longrightarrow> ac_error r = None \<and> (\<forall>c. ac_checks r c = Passed)"
    and "\<not> ac_verified r \<longrightarrow> ac_error r \<noteq> None \<and> (\<exists>c. ac_checks r c = Failed) \<and> (\<forall>c. settled_check (ac_checks r c))"
proof -
  obtain res w' f where run: "run_checks v b loaded i (w, fresh_verification (li_id i)) = (res, (w', f))"
    by (metis prod.collapse)
  have *: "case res of Inl e \<Rightarrow> pending (li_id i) f | Inr u \<Rightarrow> concluded (li_id i) f"
    by (rule tripleD [OF triple_run_checks refl run])
  show thesis
  proof (cases res)
    case (Inl e)
    with * have p: "pending (li_id i) f" by simp
    let ?r = "(judged i b (vf_stage f) e (vf_result f))\<lparr>ac_at := Some (sv_time v w')\<rparr>"
    show thesis
    proof (rule that [of ?r w'])
      show "verify_lark_identity v b loaded i w = (Inr ?r, w')" using run Inl by (simp add: verify_lark_identity_def)
    qed (use judged_pending [OF p] in \<open>auto intro: exI [of _ "vf_stage f"]\<close>)
  next
    case (Inr u)
    with * have c: "concluded (li_id i) f" by simp
    show thesis
      by (rule that [of "(vf_result f)\<lparr>ac_at := Some (sv_time v w')\<rparr>" w'])
         (use run Inr c in \<open>auto simp: verify_lark_identity_def concluded_def\<close>)
  qed
qed

text \<open>C37: A verification always ends with a result for its identity, whatever the service answers: no check is left
  running or unverified, the identity is verified exactly if all six checks passed, the deletion of the probe among
  them, and an error is noted exactly if it is not.
\<close>

theorem verification_is_conclusive:
  "\<exists>r w'. verify_lark_identity v b loaded i w = (Inr r, w') \<and> ac_identity r = li_id i \<and>
     (\<forall>c. settled_check (ac_checks r c)) \<and>
     (ac_verified r = (\<forall>c. ac_checks r c = Passed)) \<and> (ac_verified r = (ac_error r = None))"
proof -
  obtain r w' where "verify_lark_identity v b loaded i w = (Inr r, w')" "ac_identity r = li_id i"
    and ok: "ac_verified r \<longrightarrow> ac_error r = None \<and> (\<forall>c. ac_checks r c = Passed)"
    and bad: "\<not> ac_verified r \<longrightarrow> ac_error r \<noteq> None \<and> (\<exists>c. ac_checks r c = Failed) \<and> (\<forall>c. settled_check (ac_checks r c))"
    by (rule verified_identity)
  moreover have "\<forall>c. settled_check (ac_checks r c)"
    using ok bad by (cases "ac_verified r") (auto simp: settled_check_def)
  moreover have "ac_verified r = (\<forall>c. ac_checks r c = Passed)"
    using ok bad by (cases "ac_verified r") (force, metis check_state.distinct)
  moreover have "ac_verified r = (ac_error r = None)" using ok bad by blast
  ultimately show ?thesis by (intro exI conjI)
qed

section \<open>The outcomes of a board\<close>

lemma find_put_access:
  "find_access i (s\<lparr>lw_access := put_access r (lw_access s)\<rparr>) = (if i = ac_identity r then Some (access_row r) else find_access i s)"
proof -
  have row: "ac_identity (access_row r) = ac_identity r" by (simp add: access_row_def)
  have "List.find (\<lambda>x. ac_identity x = i) (update_where (\<lambda>x. ac_identity x = ac_identity r) (\<lambda>_. access_row r) xs) =
     (if i = ac_identity r \<and> ac_identity r \<in> ac_identity ` set xs then Some (access_row r)
      else List.find (\<lambda>x. ac_identity x = i) xs)" for xs
    by (induction xs) (auto simp: update_where_def row)
  moreover have "List.find (\<lambda>x. ac_identity x = i) (xs @ [access_row r]) =
     (if i = ac_identity r then Some (access_row r) else List.find (\<lambda>x. ac_identity x = i) xs)"
    if "ac_identity r \<notin> ac_identity ` set xs" for xs
    using that by (induction xs) (auto simp: row)
  ultimately show ?thesis by (auto simp: find_access_def put_access_def)
qed

lemma saved_outcomes:
  assumes "collect (save_or_complain b) outcomes s = (Inr results, s')" and "distinct (map ac_identity outcomes)"
  shows "results = outcomes" and "r \<in> set outcomes \<Longrightarrow> find_access (ac_identity r) s' = Some (access_row r)"
    and "i \<notin> ac_identity ` set outcomes \<Longrightarrow> find_access i s' = find_access i s"
    and "lw_identities s' = lw_identities s"
  using assms
proof (induction outcomes arbitrary: s results i r)
  case Nil
  { case 1 then show ?case by simp }
  { case 2 then show ?case by simp }
  { case 3 then show ?case by simp }
  { case 4 then show ?case by simp }
next
  case (Cons o1 os)
  have step: "\<exists>rest. collect (save_or_complain b) os (s\<lparr>lw_access := put_access o1 (lw_access s)\<rparr>) = (Inr rest, s') \<and>
      res = o1 # rest" if c: "collect (save_or_complain b) (o1 # os) s = (Inr res, s')" for s :: "'a lark_world" and res
  proof (cases "same_board_resource b s \<and> known_identity (ac_identity o1) s")
    case False
    then show ?thesis using c by (auto simp: run_bind save_or_complain_def save_identity_access_def split: if_splits)
  next
    case True
    obtain q s2 where "collect (save_or_complain b) os (s\<lparr>lw_access := put_access o1 (lw_access s)\<rparr>) = (q, s2)"
      by (metis prod.collapse)
    with True c show ?thesis by (cases q) (auto simp: run_bind save_or_complain_def save_identity_access_def)
  qed
  { case 1
    from step [OF 1(1)] Cons.IH(1) 1(2) show ?case by auto }
  { case 2
    from step [OF 2(2)] obtain rest where
      *: "collect (save_or_complain b) os (s\<lparr>lw_access := put_access o1 (lw_access s)\<rparr>) = (Inr rest, s')" by blast
    have d: "distinct (map ac_identity os)" "ac_identity o1 \<notin> ac_identity ` set os" using 2(3) by auto
    show ?case using 2(1) Cons.IH(2) [OF _ * d(1)] Cons.IH(3) [OF d(2) * d(1)] by (auto simp: find_put_access) }
  { case 3
    from step [OF 3(2)] obtain rest where
      *: "collect (save_or_complain b) os (s\<lparr>lw_access := put_access o1 (lw_access s)\<rparr>) = (Inr rest, s')" by blast
    show ?case using 3 Cons.IH(3) [OF _ *] by (auto simp: find_put_access) }
  { case 4
    from step [OF 4(1)] obtain rest where
      *: "collect (save_or_complain b) os (s\<lparr>lw_access := put_access o1 (lw_access s)\<rparr>) = (Inr rest, s')" by blast
    show ?case using 4 Cons.IH(4) [OF *] by auto }
qed

lemma verified_people:
  assumes "collect (verify_lark_identity v b loaded) people s = (Inr outcomes, s')"
  shows "map ac_identity outcomes = map li_id people"
  using assms
proof (induction people arbitrary: s outcomes)
  case (Cons i people)
  obtain r w' where "verify_lark_identity v b loaded i s = (Inr r, w')" "ac_identity r = li_id i" by (rule verified_identity)
  moreover obtain q w2 where "collect (verify_lark_identity v b loaded) people w' = (q, w2)" by (metis prod.collapse)
  ultimately show ?case using Cons by (cases q) (auto simp: run_bind)
qed simp

lemma verify_runs:
  assumes "verify_lark_board v loaded wanted order s = (Inr (sm, results), s')"
  obtains b people outcomes s1 s2 saved where "board_verification_context wanted s = Inr (b, people)"
    and "collect (verify_lark_identity v b loaded) (order people) s = (Inr outcomes, s1)"
    and "collect (save_or_complain b) outcomes s1 = (Inr saved, s2)"
    and "update_board_access_summary v b (in_order_of people saved) s2 = (Inr sm, s')"
    and "results = in_order_of people saved"
proof -
  obtain b people where c: "board_verification_context wanted s = Inr (b, people)"
    using assms by (cases "board_verification_context wanted s") (auto simp: verify_lark_board_def run_bind)
  obtain q s1 where v: "collect (verify_lark_identity v b loaded) (order people) s = (q, s1)" by (metis prod.collapse)
  obtain outcomes where q: "q = Inr outcomes"
    using assms c v by (cases q) (auto simp: verify_lark_board_def run_bind)
  obtain p s2 where w: "collect (save_or_complain b) outcomes s1 = (p, s2)" by (metis prod.collapse)
  obtain saved where p: "p = Inr saved"
    using assms c v q w by (cases p) (auto simp: verify_lark_board_def run_bind)
  obtain u s3 where x: "update_board_access_summary v b (in_order_of people saved) s2 = (u, s3)" by (metis prod.collapse)
  show thesis
    using assms c v q w p x that
    by (cases u) (auto simp: verify_lark_board_def run_bind Let_def)
qed

lemma context_people:
  assumes "board_verification_context wanted s = Inr (b, people)"
  shows "option_text (bd_token b) \<noteq> []" and "set people \<subseteq> set (lw_identities s)"
    and "distinct (map li_id (lw_identities s)) \<Longrightarrow> distinct (map li_id people)"
proof -
  obtain P where b: "option_text (bd_token b) \<noteq> []" and people: "people = sort_key (\<lambda>i. - li_updated i) (filter P (lw_identities s))"
    using assms by (auto simp: board_verification_context_def Let_def split: option.splits if_splits)
  show "option_text (bd_token b) \<noteq> []" by (fact b)
  show "set people \<subseteq> set (lw_identities s)" by (auto simp: people)
  show "distinct (map li_id people)" if "distinct (map li_id (lw_identities s))"
    using that by (auto simp: people distinct_map intro: inj_on_subset)
qed

lemma filter_key_singleton: "distinct (map f xs) \<Longrightarrow> x \<in> set xs \<Longrightarrow> filter (\<lambda>y. f y = f x) xs = [x]"
proof (induction xs)
  case (Cons a xs)
  have none: "filter (\<lambda>y. f y = f a) xs = []" using Cons.prems(1) by (auto simp: filter_empty_conv image_iff)
  show ?case
  proof (cases "x = a")
    case True
    then show ?thesis using none by simp
  next
    case False
    then have "x \<in> set xs" using Cons.prems(2) by simp
    moreover have "f x \<noteq> f a" using Cons.prems(1) \<open>x \<in> set xs\<close> by (metis distinct.simps(2) image_eqI list.set_map list.simps(9))
    ultimately show ?thesis using Cons by simp
  qed
qed simp

text \<open>The outcome of every identity that was verified is stored for its board, also when the threads complete in
  another order than they were started in, and the results are returned in the order of the identities.
\<close>

theorem verification_is_stored:
  assumes "verify_lark_board v loaded wanted order s = (Inr (sm, results), s')"
    and "\<And>xs. mset (order xs) = mset xs" and "distinct (map li_id (lw_identities s))"
    and "board_verification_context wanted s = Inr (b, people)"
  shows "map ac_identity results = map li_id people \<and>
    (\<forall>r \<in> set results. find_access (ac_identity r) s' = Some (access_row r))"
proof -
  from assms(1,4) obtain outcomes s1 s2 saved where
        v: "collect (verify_lark_identity v b loaded) (order people) s = (Inr outcomes, s1)"
    and w: "collect (save_or_complain b) outcomes s1 = (Inr saved, s2)"
    and u: "update_board_access_summary v b (in_order_of people saved) s2 = (Inr sm, s')"
    and r: "results = in_order_of people saved"
    by (auto elim!: verify_runs)
  have ids: "map ac_identity outcomes = map li_id (order people)" by (rule verified_people [OF v])
  have d: "distinct (map li_id people)" by (rule context_people(3) [OF assms(4,3)])
  have same: "mset (map ac_identity outcomes) = mset (map li_id people)" using assms(2) [of people] ids by simp
  then have dist: "distinct (map ac_identity outcomes)" using d by (metis mset_eq_imp_distinct_iff)
  have saved: "saved = outcomes" by (rule saved_outcomes(1) [OF w dist])
  have pick: "map ac_identity (in_order_of ps outcomes) = map li_id ps" if "set (map li_id ps) \<subseteq> ac_identity ` set outcomes" for ps
    using that by (induction ps) (auto simp: in_order_of_def filter_key_singleton [OF dist])
  have "set (map li_id people) = ac_identity ` set outcomes" using same by (metis set_mset_mset set_map)
  moreover have "set (in_order_of people outcomes) \<subseteq> set outcomes" by (auto simp: in_order_of_def)
  moreover have "find_access i s' = find_access i s2" for i
    using u by (auto simp: update_board_access_summary_def Let_def find_access_def split: if_splits)
  ultimately show ?thesis
    using pick [of people] saved_outcomes(2) [OF w dist] by (auto simp: r saved)
qed



text \<open>A service that answers a signed-in user with all there is to know.\<close>

definition full_answer :: json where
  "full_answer = JObj [(''tokenStatus'', JStr ''valid''), (''appId'', JStr ''app''), (''userOpenId'', JStr ''ou''),
     (''data'', JObj [(''items'', JList [JObj [(''table_id'', JStr ''t''), (''name'', JStr ''T'')]]),
        (''metas'', JList [JObj [(''owner_id'', JStr ''ou'')]]), (''auth_result'', JBool True),
        (''table'', JObj [(''table_id'', JStr ''t'')]), (''fields'', JList []), (''views'', JList []),
        (''record'', JObj [(''record_id'', JStr ''r'')])])]"

definition user_service :: "unit lark_service" where
  "user_service =
     \<lparr>sv_cli = (\<lambda>_. of_result (Inr (Cli_Output (Some full_answer)))), sv_http = (\<lambda>_. of_result (Inr (Http_Unreachable ''offline''))),
      sv_pause = of_result (Inr ()), sv_time = (\<lambda>_. 5)\<rparr>"

definition user_identity :: lark_identity where
  "user_identity = signed_in_user\<lparr>li_id := ''u'', li_app := Some ''app'', li_open_id := Some ''ou'', li_status := ''verified''\<rparr>"

definition user_board :: lark_board where
  "user_board = \<lparr>bd_id = ''b1'', bd_primary = None, bd_url = None, bd_token = Some ''k'',
     bd_table = Some ''t'', bd_view = None, bd_access = ''unverified'', bd_verified = None, bd_error = None, bd_listener = ''unverified'',
     bd_listener_verified = None, bd_listener_kind = None, bd_listener_error = None, bd_updated = 1\<rparr>"

definition user_world :: "unit lark_world" where
  "user_world = \<lparr>lw_out = (), lw_token = None, lw_board = Some user_board, lw_identities = [user_identity], lw_access = [], lw_uuids = 0\<rparr>"

lemma user_board_verified:
  "(case verify_lark_board user_service (Inl (ValueError ''none'')) None rev user_world of
      (Inl e, s) \<Rightarrow> False
    | (Inr (sm, rs), s) \<Rightarrow> sm_status sm = ''verified'' \<and> map ac_identity rs = [''u''] \<and>
        map_option bd_primary (lw_board s) = Some (Some ''u'') \<and> find_identity ''u'' s = Some user_identity \<and>
        lark_identity_is_usable user_identity)"
  by code_simp


lemma verification_is_stored_witness:
  "map ac_identity (case fst (verify_lark_board user_service (Inl (ValueError ''none'')) None rev user_world) of
      Inl e \<Rightarrow> [] | Inr (sm, rs) \<Rightarrow> rs) = [''u'']"
proof -
  obtain q s' where run: "verify_lark_board user_service (Inl (ValueError ''none'')) None rev user_world = (q, s')"
    by (metis prod.collapse)
  obtain sm rs where q: "q = Inr (sm, rs)"
    using user_board_verified by (cases q) (auto simp: run)
  have "distinct (map li_id (lw_identities user_world))" by (simp add: user_world_def)
  moreover have "board_verification_context None user_world = Inr (user_board, [user_identity])" by code_simp
  ultimately have "map ac_identity rs = map li_id [user_identity]"
    using verification_is_stored [OF run [unfolded q]] by simp
  then show ?thesis by (simp add: run q user_identity_def)
qed

end
