(* ===== verification/Event_Inbox.thy ===== *)
theory Event_Inbox
  imports Event_Database Delivery
begin

text \<open>
  \<^verbatim>\<open>core/global_db.py\<close>: the registered workspaces and the inbox of board notifications, which all
  workspaces of a machine share. Every function is one transaction; its times are arguments, in
  microseconds since the epoch.
\<close>

record workspace_row =
  wr_root :: string
  wr_enabled :: bool
  wr_updated :: int

datatype inbox_status = Inbox_Pending | Inbox_Retry | Inbox_Processing | Inbox_Processed | Inbox_Ignored | Inbox_Failed

record inbox_event =
  ib_id :: string
  ib_brand :: string
  ib_app :: string
  ib_type :: string
  ib_file :: "string option"
  ib_table :: "string option"
  ib_revision :: "string option"
  ib_payload :: dict
  ib_status :: inbox_status
  ib_attempts :: nat
  ib_next :: "int option"
  ib_error :: "string option"
  ib_received :: int
  ib_processed :: "int option"

record global_db =
  gd_workspaces :: "workspace_row list"
  gd_inbox :: "inbox_event list"

definition in_seconds :: "int \<Rightarrow> int" where
  "in_seconds n = n * 1000000"

definition in_days :: "int \<Rightarrow> int" where
  "in_days n = in_seconds (n * 86400)"

definition EVENT_RETRY_WINDOW :: int where
  "EVENT_RETRY_WINDOW = in_days 1"

definition SCHEMA_RETRY_DELAY :: int where
  "SCHEMA_RETRY_DELAY = 300"

section \<open>Workspaces\<close>

definition register_workspace :: "string \<Rightarrow> bool option \<Rightarrow> int \<Rightarrow> global_db \<Rightarrow> global_db" where
  "register_workspace root enabled t g =
     (if root \<in> wr_root ` set (gd_workspaces g) then
        g\<lparr>gd_workspaces := update_where (\<lambda>r. wr_root r = root)
           (\<lambda>r. r\<lparr>wr_enabled := (case enabled of None \<Rightarrow> wr_enabled r | Some b \<Rightarrow> b), wr_updated := t\<rparr>) (gd_workspaces g)\<rparr>
      else g\<lparr>gd_workspaces := gd_workspaces g @ [\<lparr>wr_root = root, wr_enabled = (enabled = Some True), wr_updated = t\<rparr>]\<rparr>)"

definition registered_workspaces :: "bool \<Rightarrow> global_db \<Rightarrow> string list" where
  "registered_workspaces enabled_only g =
     map wr_root (sort_key wr_updated (filter (\<lambda>r. enabled_only \<longrightarrow> wr_enabled r) (gd_workspaces g)))"

definition workspace_enabled :: "string \<Rightarrow> global_db \<Rightarrow> bool" where
  "workspace_enabled root g =
     (case List.find (\<lambda>r. wr_root r = root) (gd_workspaces g) of None \<Rightarrow> False | Some r \<Rightarrow> wr_enabled r)"

section \<open>The inbox\<close>

definition new_inbox_event ::
  "string \<Rightarrow> string \<Rightarrow> string \<Rightarrow> string \<Rightarrow> string option \<Rightarrow> string option \<Rightarrow> string option \<Rightarrow> dict \<Rightarrow> int \<Rightarrow> inbox_event" where
  "new_inbox_event i brand app ty file tbl revision payload t =
     \<lparr>ib_id = i, ib_brand = brand, ib_app = app, ib_type = ty, ib_file = file, ib_table = tbl, ib_revision = revision,
      ib_payload = payload, ib_status = Inbox_Pending, ib_attempts = 0, ib_next = None, ib_error = None,
      ib_received = t, ib_processed = None\<rparr>"

text \<open>\<^verbatim>\<open>INSERT OR IGNORE\<close>: a notification that is known already changes nothing.\<close>

definition record_lark_event :: "inbox_event \<Rightarrow> global_db \<Rightarrow> bool \<times> global_db" where
  "record_lark_event e g =
     (if ib_id e \<in> ib_id ` set (gd_inbox g) then (False, g) else (True, g\<lparr>gd_inbox := gd_inbox g @ [e]\<rparr>))"

definition claimable_at :: "int \<Rightarrow> inbox_event \<Rightarrow> bool" where
  "claimable_at t e \<longleftrightarrow> ib_status e = Inbox_Pending \<or> ib_status e = Inbox_Retry \<and> due (ib_next e) t"

definition due_lark_event_ids :: "nat \<Rightarrow> int \<Rightarrow> global_db \<Rightarrow> string list" where
  "due_lark_event_ids limit t g =
     take limit (map ib_id (sort_key ib_received (filter (claimable_at t) (gd_inbox g))))"

definition find_inbox :: "string \<Rightarrow> global_db \<Rightarrow> inbox_event option" where
  "find_inbox i g = List.find (\<lambda>e. ib_id e = i) (gd_inbox g)"

definition update_inbox :: "(inbox_event \<Rightarrow> bool) \<Rightarrow> (inbox_event \<Rightarrow> inbox_event) \<Rightarrow> global_db \<Rightarrow> global_db" where
  "update_inbox p f g = g\<lparr>gd_inbox := update_where p f (gd_inbox g)\<rparr>"

definition taken :: "inbox_event \<Rightarrow> inbox_event" where
  "taken e = e\<lparr>ib_status := Inbox_Processing, ib_attempts := Suc (ib_attempts e), ib_next := None\<rparr>"

definition claim_lark_event :: "string \<Rightarrow> int \<Rightarrow> global_db \<Rightarrow> inbox_event option \<times> global_db" where
  "claim_lark_event i t g =
     (let p = (\<lambda>e. ib_id e = i \<and> claimable_at t e) in
      if rowcount p (gd_inbox g) \<noteq> 1 then (None, update_inbox p taken g)
      else let g' = update_inbox p taken g in (find_inbox i g', g'))"

definition finish_lark_event :: "string \<Rightarrow> inbox_status \<Rightarrow> string option \<Rightarrow> int \<Rightarrow> global_db \<Rightarrow> global_db" where
  "finish_lark_event i status err t =
     update_inbox (\<lambda>e. ib_id e = i)
       (\<lambda>e. e\<lparr>ib_status := status, ib_error := err, ib_processed := Some t, ib_next := None\<rparr>)"

text \<open>
  The time is read once for the age of the event and again for the next attempt or the end. An event that is
  not there counts as expired.
\<close>

definition is_schema_error :: "py_error \<Rightarrow> bool" where
  "is_schema_error e \<longleftrightarrow> (case e of Raised c s \<Rightarrow> c = Schema_Incompatible | _ \<Rightarrow> False)"

definition event_retry_delay :: "bool \<Rightarrow> nat \<Rightarrow> int" where
  "event_retry_delay recoverable attempts = (if recoverable then SCHEMA_RETRY_DELAY else min (2 ^ (attempts - 1)) 300)"

definition event_expired :: "int \<Rightarrow> inbox_event option \<Rightarrow> bool" where
  "event_expired t row = (case row of None \<Rightarrow> True | Some e \<Rightarrow> t - ib_received e \<ge> EVENT_RETRY_WINDOW)"

definition retry_lark_event :: "string \<Rightarrow> py_error \<Rightarrow> int \<Rightarrow> int \<Rightarrow> global_db \<Rightarrow> inbox_status \<times> global_db" where
  "retry_lark_event i err t t' g =
     (let row = find_inbox i g;
          attempts = (case row of None \<Rightarrow> 0 | Some e \<Rightarrow> ib_attempts e);
          recoverable = is_schema_error err;
          gone = event_expired t row \<and> \<not> recoverable;
          status = (if gone then Inbox_Failed else Inbox_Retry)
      in (status, update_inbox (\<lambda>e. ib_id e = i)
            (\<lambda>e. e\<lparr>ib_status := status,
                   ib_next := (if gone then None else Some (t' + in_seconds (event_retry_delay recoverable attempts))),
                   ib_error := Some (error_text err), ib_processed := (if gone then Some t' else None)\<rparr>) g))"

definition stopped_note :: string where
  "stopped_note = ''TeamFlow daemon stopped during event processing''"

definition recover_lark_events :: "global_db \<Rightarrow> global_db" where
  "recover_lark_events =
     update_inbox (\<lambda>e. ib_status e = Inbox_Processing)
       (\<lambda>e. e\<lparr>ib_status := Inbox_Retry, ib_next := None, ib_error := coalesce (ib_error e) (Some stopped_note)\<rparr>)"

definition lark_event_counts :: "global_db \<Rightarrow> (inbox_status \<times> nat) list" where
  "lark_event_counts g =
     (let statuses = map ib_status (gd_inbox g) in map (\<lambda>s. (s, count_list statuses s)) (remdups statuses))"

definition outdated :: "int \<Rightarrow> inbox_event \<Rightarrow> bool" where
  "outdated t e \<longleftrightarrow>
     (case ib_processed e of
        None \<Rightarrow> False
      | Some p \<Rightarrow> (ib_status e = Inbox_Processed \<or> ib_status e = Inbox_Ignored) \<and> p < t - in_days 7 \<or>
                  ib_status e = Inbox_Failed \<and> p < t - in_days 30)"

definition cleanup_lark_events :: "int \<Rightarrow> global_db \<Rightarrow> nat \<times> global_db" where
  "cleanup_lark_events t g =
     (rowcount (outdated t) (gd_inbox g), g\<lparr>gd_inbox := filter (\<lambda>e. \<not> outdated t e) (gd_inbox g)\<rparr>)"

section \<open>Laws of the inbox\<close>

definition inbox_ids :: "global_db \<Rightarrow> string list" where
  "inbox_ids g = map ib_id (gd_inbox g)"

interpretation inbox_log: append_only inbox_ids "\<lambda>i g. snd (record_lark_event (new_inbox_event i b a ty f tbl r p t) g)"
  for b a ty f tbl r p t
  by unfold_locales (auto simp: inbox_ids_def record_lark_event_def new_inbox_event_def)

lemma inbox_ids_update [simp]: "(\<And>e. ib_id (f e) = ib_id e) \<Longrightarrow> inbox_ids (update_inbox p f g) = inbox_ids g"
  by (simp add: inbox_ids_def update_inbox_def map_update_where)

lemma find_inbox_update:
  assumes "\<And>e. ib_id (f e) = ib_id e"
  shows "find_inbox i (update_inbox p f g) = map_option (\<lambda>e. if p e then f e else e) (find_inbox i g)"
proof -
  have "List.find (\<lambda>e. ib_id e = i) (update_where p f xs) = map_option (\<lambda>e. if p e then f e else e) (List.find (\<lambda>e. ib_id e = i) xs)" for xs
    using assms by (induction xs) (simp_all add: update_where_def)
  then show ?thesis by (simp add: find_inbox_def update_inbox_def)
qed

lemma taken_simps [simp]: "ib_id (taken e) = ib_id e" "ib_status (taken e) = Inbox_Processing"
  "ib_attempts (taken e) = Suc (ib_attempts e)" "ib_next (taken e) = None" "ib_received (taken e) = ib_received e"
  by (simp_all add: taken_def)

lemma find_inbox_mem: "find_inbox i g = Some e \<Longrightarrow> e \<in> set (gd_inbox g) \<and> ib_id e = i"
  by (auto simp: find_inbox_def find_Some_iff)

lemma find_inbox_unique:
  assumes "distinct (inbox_ids g)" and "e \<in> set (gd_inbox g)"
  shows "find_inbox (ib_id e) g = Some e"
proof -
  have "List.find (\<lambda>x. ib_id x = ib_id e) xs = Some e" if "distinct (map ib_id xs)" "e \<in> set xs" for xs
    using that by (induction xs) (auto simp: image_iff)
  then show ?thesis using assms by (simp add: find_inbox_def inbox_ids_def)
qed

lemma rowcount_claimable:
  assumes "distinct (inbox_ids g)"
  shows "rowcount (\<lambda>e. ib_id e = i \<and> p e) (gd_inbox g) = (case find_inbox i g of Some e \<Rightarrow> if p e then 1 else 0 | None \<Rightarrow> 0)"
proof -
  have "rowcount (\<lambda>e. ib_id e = i \<and> p e) xs =
      (case List.find (\<lambda>e. ib_id e = i) xs of Some e \<Rightarrow> if p e then 1 else 0 | None \<Rightarrow> 0)"
    if "distinct (map ib_id xs)" for xs
    using that
  proof (induction xs)
    case (Cons x xs)
    have "rowcount (\<lambda>e. ib_id e = i \<and> p e) xs = 0" if "ib_id x = i"
    proof -
      have "i \<notin> set (map ib_id xs)" using Cons.prems that by auto
      then show ?thesis unfolding rowcount_def by (induction xs) auto
    qed
    then show ?case using Cons by (auto simp: rowcount_def)
  qed (simp add: rowcount_def)
  then show ?thesis using assms by (simp add: find_inbox_def inbox_ids_def)
qed

end
