(* ===== verification/Event_Processing.thy ===== *)
theory Event_Processing
  imports Event_Inbox Delivery_Planner Teamflow_Queries Effects
begin

text \<open>
  \<^verbatim>\<open>core/event_runtime.py\<close>: the listener of board notifications. A notification is claimed from the inbox,
  matched with the boards that are listened to, and every matching workspace reads the named cards again and
  logs what changed; then the log is turned into deliveries. Calls of the board are effects that may change
  everything the other threads of the service may. Console output is left out, except for the
  dispatch notes, which are kept in a list.
\<close>

section \<open>The service\<close>

record route =
  rx_context :: event_context
  rx_brand :: string
  rx_app :: string

datatype note_kind = Note_Waiting | Note_Not_Required | Note_Failed

record event_note =
  dn_root :: string
  dn_kind :: note_kind
  dn_event :: "string option"
  dn_record :: "string option"
  dn_reason :: string

record 's listener =
  ls_out :: 's
  ls_global :: global_db
  ls_dbs :: "string \<Rightarrow> db"
  ls_routes :: "(string \<times> route) list"
  ls_verifying :: "string list"
  ls_probes :: "(string \<times> int) list"
  ls_notes :: "event_note list"
  ls_wakeup :: bool

type_synonym ('s, 'a) listening = "('s listener, 'a) eff"

text \<open>The board of a workspace, the clocks and the prompts; \<open>lb_tables\<close> gives the identifier and revision of the tables.\<close>

record 's listener_board =
  lb_get :: "string \<Rightarrow> string \<Rightarrow> ('s, dict) listening"
  lb_list :: "string \<Rightarrow> nat \<Rightarrow> ('s, page) listening"
  lb_tables :: "string \<Rightarrow> ('s, (json \<times> json) list) listening"
  lb_now :: "'s listener \<Rightarrow> int"
  lb_monotonic :: "'s listener \<Rightarrow> int"
  lb_sha256 :: "string \<Rightarrow> string"
  lb_runtime :: "string \<Rightarrow> runtime"
  lb_pages :: nat

definition on_global :: "(int \<Rightarrow> global_db \<Rightarrow> 'a \<times> global_db) \<Rightarrow> 's listener_board \<Rightarrow> ('s, 'a) listening" where
  "on_global f b = (\<lambda>s. case f (lb_now b s) (ls_global s) of (v, g) \<Rightarrow> (Inr v, s\<lparr>ls_global := g\<rparr>))"

text \<open>A transaction on the database of a workspace; an exception rolls it back.\<close>

definition on_workspace :: "string \<Rightarrow> (int \<Rightarrow> db \<Rightarrow> ('a \<times> db) result) \<Rightarrow> 's listener_board \<Rightarrow> ('s, 'a) listening" where
  "on_workspace root f b = (\<lambda>s. case f (lb_now b s) (ls_dbs s root) of
     Inl e \<Rightarrow> (Inl e, s)
   | Inr (v, d) \<Rightarrow> (Inr v, s\<lparr>ls_dbs := (ls_dbs s)(root := d)\<rparr>))"

definition add_note :: "event_note \<Rightarrow> ('s, unit) listening" where
  "add_note n = write_eff (\<lambda>s. s\<lparr>ls_notes := ls_notes s @ [n]\<rparr>)"

definition app_key :: "route \<Rightarrow> string" where
  "app_key r = rx_brand r @ '':'' @ rx_app r"

abbreviation route_root :: "route \<Rightarrow> string" where
  "route_root r \<equiv> cx_workspace_root (rx_context r)"

section \<open>One workspace\<close>

record summary =
  su_record :: "string option"
  su_task :: "dict option"
  su_types :: "string list"

definition save_snapshot ::
  "'s listener_board \<Rightarrow> route \<Rightarrow> string \<Rightarrow> dict option \<Rightarrow> string option \<Rightarrow> string option \<Rightarrow> ('s, string list) listening" where
  "save_snapshot b r rid task source revision =
     on_workspace (route_root r) (\<lambda>t. save_task_snapshot (lb_sha256 b) (rx_context r) t rid task source revision) b"

text \<open>
  The page loop of \<^verbatim>\<open>reconcile_workspace\<close>. It need not end on a board that never ends: the first argument
  bounds the number of pages, and a run that uses it up is no run of the code.
\<close>

definition never_ending :: py_error where
  "never_ending = Raised Other_Class ''endless board''"

fun listed_tasks :: "nat \<Rightarrow> 's listener_board \<Rightarrow> string \<Rightarrow> nat \<Rightarrow> dict list \<Rightarrow> ('s, dict list) listening" where
  "listed_tasks 0 b root off tasks = of_result (Inl never_ending)"
| "listed_tasks (Suc n) b root off tasks = bind_eff (lb_list b root off) (\<lambda>p.
     let tasks' = tasks @ pg_tasks p in
     if \<not> pg_more p then of_result (Inr tasks')
     else if pg_tasks p = [] then of_result (Inl (ValueError ''Lark returned an empty task page with has_more=true''))
     else listed_tasks n b root (off + length (pg_tasks p)) tasks')"

text \<open>\<^verbatim>\<open>str(task.get("record_id") or "")\<close>\<close>

definition record_id_of :: "dict \<Rightarrow> string" where
  "record_id_of task = text_of (dget task ''record_id'')"

definition table_revision :: "(json \<times> json) list \<Rightarrow> string \<Rightarrow> string option" where
  "table_revision tables tbl =
     (case map_of tables (JStr tbl) of None \<Rightarrow> None | Some JNull \<Rightarrow> None | Some v \<Rightarrow> Some (py_str v))"

definition save_each ::
  "'s listener_board \<Rightarrow> route \<Rightarrow> string option \<Rightarrow> string option \<Rightarrow> (string \<times> dict option) list \<Rightarrow> ('s, nat) listening" where
  "save_each b r source revision cards =
     bind_eff (collect (\<lambda>(rid, task). save_snapshot b r rid task source revision) cards)
       (\<lambda>types. of_result (Inr (sum_list (map length types))))"

definition present_cards :: "dict list \<Rightarrow> (string \<times> dict option) list" where
  "present_cards tasks = map (\<lambda>x. (record_id_of x, Some x)) (filter (\<lambda>x. record_id_of x \<noteq> []) tasks)"

text \<open>A set of record ids is walked in some order; the model takes the order of the saved rows.\<close>

definition gone_cards :: "string list \<Rightarrow> dict list \<Rightarrow> (string \<times> dict option) list" where
  "gone_cards known tasks = map (\<lambda>rid. (rid, None)) (filter (\<lambda>rid. rid \<notin> fst ` set (present_cards tasks)) known)"

record reconciliation =
  rc_tasks :: nat
  rc_removed :: nat
  rc_events :: nat

definition saved_ids :: "'s listener_board \<Rightarrow> route \<Rightarrow> ('s, string list) listening" where
  "saved_ids b r = read_eff (\<lambda>s. saved_task_record_ids (rx_context r) (ls_dbs s (route_root r)))"

definition reconcile_workspace ::
  "'s listener_board \<Rightarrow> route \<Rightarrow> string option \<Rightarrow> string option \<Rightarrow> ('s, reconciliation) listening" where
  "reconcile_workspace b r source revision0 =
     bind_eff (case revision0 of
         Some v \<Rightarrow> of_result (Inr (Some v))
       | None \<Rightarrow> bind_eff (lb_tables b (route_root r)) (\<lambda>tables. of_result (Inr (table_revision tables (cx_table (rx_context r))))))
     (\<lambda>revision.
     bind_eff (listed_tasks (lb_pages b) b (route_root r) 0 []) (\<lambda>tasks.
     bind_eff (save_each b r source revision (present_cards tasks)) (\<lambda>n.
     bind_eff (saved_ids b r) (\<lambda>known.
     let gone = gone_cards known tasks in
     bind_eff (save_each b r source revision gone) (\<lambda>m.
     of_result (Inr \<lparr>rc_tasks = length tasks, rc_removed = length gone, rc_events = n + m\<rparr>))))))"

text \<open>Records of the listener's own probe are not cards; they are forgotten after a while.\<close>

definition live_probes :: "'s listener_board \<Rightarrow> ('s, string list) listening" where
  "live_probes b = (\<lambda>s. let kept = filter (\<lambda>(rid, expires). lb_monotonic b s < expires) (ls_probes s)
     in (Inr (map fst kept), s\<lparr>ls_probes := kept\<rparr>))"

definition process_record ::
  "'s listener_board \<Rightarrow> route \<Rightarrow> event_metadata \<Rightarrow> (string \<times> string) list \<Rightarrow> string \<Rightarrow> ('s, summary) listening" where
  "process_record b r md actions rid =
     (let action = (case map_of actions rid of None \<Rightarrow> [] | Some a \<Rightarrow> a);
          deleted = contains_text (map lower_char action) ''deleted'' in
      bind_eff (if deleted
                then read_eff (\<lambda>s. saved_task_snapshot (rx_context r) rid (ls_dbs s (route_root r)))
                else bind_eff (lb_get b (route_root r) rid) (\<lambda>task. of_result (Inr (Some task)))) (\<lambda>task.
      bind_eff (save_snapshot b r rid (if deleted then None else task) (Some (em_event_id md)) (em_revision md)) (\<lambda>types.
      of_result (Inr \<lparr>su_record = Some rid, su_task = task, su_types = types\<rparr>))))"

definition process_workspace_event :: "'s listener_board \<Rightarrow> route \<Rightarrow> dict \<Rightarrow> ('s, summary list) listening" where
  "process_workspace_event b r payload =
     bind_eff (of_result (lark_event_metadata payload)) (\<lambda>md.
     if em_event_type md = ''drive.file.bitable_field_changed_v1'' then
       bind_eff (on_workspace (route_root r)
         (\<lambda>t. save_board_schema_event (rx_context r) t (em_event_id md) (em_revision md)) b) (\<lambda>created.
       bind_eff (reconcile_workspace b r (Some (em_event_id md)) (em_revision md)) (\<lambda>_.
       of_result (Inr [\<lparr>su_record = None, su_task = None, su_types = (if created then [''board_schema_changed''] else [])\<rparr>])))
     else
       let actions = event_record_actions payload in
       bind_eff (live_probes b) (\<lambda>probes.
       collect (process_record b r md actions)
         (filter (\<lambda>rid. rid \<notin> set probes) (sorted_set (event_record_ids payload)))))"

section \<open>Turning the log into deliveries\<close>

text \<open>One note for every card of the notification: whom it waits for, or that nobody is told.\<close>

definition outcome_group :: "routing_outcome \<Rightarrow> string" where
  "outcome_group x = (if ro_record x = [] then ''board'' else ro_record x)"

text \<open>The notes are in the language of the board's service; the Chinese texts stand as their UTF-8 bytes.\<close>

definition waiting_reason :: "route \<Rightarrow> string \<Rightarrow> string" where
  "waiting_reason r target =
     (if rx_brand r = ''feishu'' then
        [CHR 0xE6, CHR 0x9C, CHR 0xAA, CHR 0xE6, CHR 0xB3, CHR 0xA8, CHR 0xE5, CHR 0x86, CHR 0x8C, CHR 0x20] @ map upper_char target @ '' Agent''
      else ''no '' @ target @ '' agent is registered'')"

definition quiet_reason :: "route \<Rightarrow> string" where
  "quiet_reason r =
     (if rx_brand r = ''feishu'' then
        [CHR 0xE5, CHR 0xBD, CHR 0x93, CHR 0xE5, CHR 0x89, CHR 0x8D, CHR 0xE5, CHR 0x8F, CHR 0x98,
          CHR 0xE6, CHR 0x9B, CHR 0xB4, CHR 0xE4, CHR 0xB8, CHR 0x8D, CHR 0xE9, CHR 0x80, CHR 0x9A, CHR 0xE7, CHR 0x9F, CHR 0xA5] @ '' Agent''
      else ''this change does not notify an agent'')"

definition group_note :: "route \<Rightarrow> string \<Rightarrow> routing_outcome list \<Rightarrow> event_note list" where
  "group_note r i entries =
     (case List.find (\<lambda>x. ro_result x = Waiting) entries of
        Some x \<Rightarrow> [\<lparr>dn_root = route_root r, dn_kind = Note_Waiting, dn_event = Some i, dn_record = Some (ro_record x),
                   dn_reason = waiting_reason r (case ro_target x of None \<Rightarrow> ''None'' | Some k \<Rightarrow> k)\<rparr>]
      | None \<Rightarrow>
          if \<exists>x \<in> set entries. ro_result x = Routed then []
          else (case entries of
                  [] \<Rightarrow> []
                | x # xs \<Rightarrow> [\<lparr>dn_root = route_root r, dn_kind = Note_Not_Required, dn_event = Some i, dn_record = Some (ro_record x),
                            dn_reason = quiet_reason r\<rparr>]))"

definition dispatch_notes :: "route \<Rightarrow> string option \<Rightarrow> routing_outcome list \<Rightarrow> event_note list" where
  "dispatch_notes r trigger outcomes =
     (case trigger of
        Some (c # cs) \<Rightarrow>
          let mine = filter (\<lambda>x. ro_source x = Some (c # cs)) outcomes in
          concat (map (\<lambda>k. group_note r (c # cs) (filter (\<lambda>x. outcome_group x = k) mine)) (dedup (map outcome_group mine)))
      | _ \<Rightarrow> [])"

definition consume_workspace_task_events :: "'s listener_board \<Rightarrow> route \<Rightarrow> string option \<Rightarrow> ('s, nat) listening" where
  "consume_workspace_task_events b r trigger =
     (let root = route_root r; R = lb_runtime b root; c = rx_context r in
      bind_eff (on_workspace root (\<lambda>t d. andthen (prepare_task_deliveries R c t d) (\<lambda>p. Inr (pl_outcomes p, pl_db p))) b) (\<lambda>outcomes.
      bind_eff (for_each add_note (dispatch_notes r trigger outcomes)) (\<lambda>_.
      bind_eff (on_workspace root (prepare_agent_catchup_deliveries R c) b) (\<lambda>catchup.
      bind_eff (write_eff (\<lambda>s. s\<lparr>ls_wakeup := True\<rparr>)) (\<lambda>_. of_result (Inr catchup))))))"

section \<open>One notification\<close>

definition matching_routes :: "inbox_event \<Rightarrow> 's listener \<Rightarrow> route list" where
  "matching_routes e s =
     filter (\<lambda>r. app_key r = ib_brand e @ '':'' @ ib_app e \<and> event_matches_board (ib_payload e) (rx_context r)) (map snd (ls_routes s))"

fun save_routes :: "'s listener_board \<Rightarrow> dict \<Rightarrow> route list \<Rightarrow> ('s, (string \<times> summary list) list) listening" where
  "save_routes b payload [] = of_result (Inr [])"
| "save_routes b payload (r # rs) =
     bind_eff (process_workspace_event b r payload) (\<lambda>sums.
     bind_eff (save_routes b payload rs) (\<lambda>rest. of_result (Inr ((route_root r, sums) # rest))))"

definition saved_event ::
  "'s listener_board \<Rightarrow> inbox_event \<Rightarrow> ('s, (route list \<times> (string \<times> summary list) list) option) listening" where
  "saved_event b e =
     bind_eff (read_eff (\<lambda>s. (matching_routes e s, ls_verifying s))) (\<lambda>(routes, verifying).
     if routes = [] then
       bind_eff (on_global (\<lambda>t g. ((), finish_lark_event (ib_id e) Inbox_Ignored None t g)) b) (\<lambda>_. of_result (Inr None))
     else if \<exists>r \<in> set routes. route_root r \<in> set verifying then
       of_result (Inl (ValueError ''listener verification is still cleaning up its probe record''))
     else bind_eff (save_routes b (ib_payload e) routes) (\<lambda>summaries.
          bind_eff (on_global (\<lambda>t g. ((), finish_lark_event (ib_id e) Inbox_Processed None t g)) b) (\<lambda>_.
          of_result (Inr (Some (routes, summaries))))))"

definition disabled_notes :: "route \<Rightarrow> string \<Rightarrow> summary list \<Rightarrow> event_note list" where
  "disabled_notes r i sums =
     map (\<lambda>rid. \<lparr>dn_root = route_root r, dn_kind = Note_Not_Required, dn_event = Some i, dn_record = rid,
                 dn_reason = ''workspace '' @ [CHR 0xE5, CHR 0xB7, CHR 0xB2, CHR 0xE5, CHR 0x81, CHR 0x9C, CHR 0xE7, CHR 0x94, CHR 0xA8]\<rparr>) (if sums = [] then [None] else map su_record sums)"

definition dispatch_route ::
  "'s listener_board \<Rightarrow> string \<Rightarrow> (string \<times> summary list) list \<Rightarrow> route \<Rightarrow> ('s, unit) listening" where
  "dispatch_route b i summaries r =
     bind_eff (read_eff (\<lambda>s. workspace_enabled (route_root r) (ls_global s))) (\<lambda>enabled.
     if \<not> enabled then
       for_each add_note (disabled_notes r i (case map_of (rev summaries) (route_root r) of None \<Rightarrow> [] | Some x \<Rightarrow> x))
     else catch_eff (bind_eff (consume_workspace_task_events b r (Some i)) (\<lambda>_. of_result (Inr ())))
       (\<lambda>e. add_note \<lparr>dn_root = route_root r, dn_kind = Note_Failed, dn_event = Some i, dn_record = None,
                      dn_reason = error_text e\<rparr>))"

definition process_event :: "'s listener_board \<Rightarrow> string \<Rightarrow> ('s, unit) listening" where
  "process_event b i =
     bind_eff (on_global (claim_lark_event i) b) (\<lambda>claimed.
     case claimed of
       None \<Rightarrow> of_result (Inr ())
     | Some e \<Rightarrow>
         bind_eff (catch_eff (saved_event b e)
           (\<lambda>err. bind_eff (on_global (\<lambda>t. retry_lark_event i err t t) b) (\<lambda>_. of_result (Inr None)))) (\<lambda>outcome.
         case outcome of
           None \<Rightarrow> of_result (Inr ())
         | Some (routes, summaries) \<Rightarrow> for_each (dispatch_route b i summaries) routes))"

section \<open>The inbox loop\<close>

text \<open>
  One round of \<^verbatim>\<open>consume_events\<close> with the routes in place: the notification that woke it, then every one that
  is due, and old ones are removed once a day.
\<close>

definition checkpoint :: "'s listener_board \<Rightarrow> route \<Rightarrow> dict \<Rightarrow> ('s, string) listening" where
  "checkpoint b r payload =
     bind_eff (of_result (lark_event_metadata payload)) (\<lambda>md.
     bind_eff (on_global (\<lambda>t. record_lark_event (new_inbox_event (em_event_id md) (rx_brand r) (rx_app r) (em_event_type md)
         (em_file_token md) (em_table md) (em_revision md) payload t)) b) (\<lambda>_.
     of_result (Inr (em_event_id md))))"

definition process_due :: "'s listener_board \<Rightarrow> ('s, unit) listening" where
  "process_due b =
     bind_eff (on_global (\<lambda>t g. (due_lark_event_ids 100 t g, g)) b) (\<lambda>ids. for_each (process_event b) ids)"

definition consume_round :: "'s listener_board \<Rightarrow> string option \<Rightarrow> int \<Rightarrow> ('s, int) listening" where
  "consume_round b message last_cleanup =
     bind_eff (case message of Some (c # cs) \<Rightarrow> process_event b (c # cs) | _ \<Rightarrow> of_result (Inr ())) (\<lambda>_.
     bind_eff (process_due b) (\<lambda>_.
     bind_eff (read_eff (lb_monotonic b)) (\<lambda>m.
     if m - last_cleanup < in_seconds 86400 then of_result (Inr last_cleanup)
     else bind_eff (on_global cleanup_lark_events b) (\<lambda>_. read_eff (lb_monotonic b)))))"

end
