(* ===== verification/Event_Properties.thy ===== *)
theory Event_Properties
  imports Event_Processing
begin

text \<open>
  What the listener promises: a notification is processed by one thread at a time and is not given up
  within a day; every claimed notification is settled, whatever the boards answer; and a reconciliation
  leaves exactly the cards of the board saved.
\<close>

section \<open>Runs of the inbox\<close>

datatype inbox_op =
    Op_Record string string string string "string option" "string option" "string option" dict int
  | Op_Claim string int
  | Op_Settle string bool "string option" int
  | Op_Retry string py_error int int
  | Op_Recover
  | Op_Cleanup int
  | Op_Register string "bool option" int

fun run_op :: "inbox_op \<Rightarrow> global_db \<Rightarrow> global_db" where
  "run_op (Op_Record i brand app ty file tbl revision payload t) g =
     snd (record_lark_event (new_inbox_event i brand app ty file tbl revision payload t) g)"
| "run_op (Op_Claim i t) g = snd (claim_lark_event i t g)"
| "run_op (Op_Settle i ignored err t) g = finish_lark_event i (if ignored then Inbox_Ignored else Inbox_Processed) err t g"
| "run_op (Op_Retry i err t t') g = snd (retry_lark_event i err t t' g)"
| "run_op Op_Recover g = recover_lark_events g"
| "run_op (Op_Cleanup t) g = snd (cleanup_lark_events t g)"
| "run_op (Op_Register root enabled t) g = register_workspace root enabled t g"

definition empty_inbox :: global_db where
  "empty_inbox = \<lparr>gd_workspaces = [], gd_inbox = []\<rparr>"

lemma claim_operation: "snd (claim_lark_event i t g) = update_inbox (\<lambda>e. ib_id e = i \<and> claimable_at t e) taken g"
  by (simp add: claim_lark_event_def Let_def)

lemma inbox_of_update: "gd_inbox (update_inbox p f g) = update_where p f (gd_inbox g)"
  by (simp add: update_inbox_def)

lemma find_inbox_same [simp]:
  "find_inbox i (g\<lparr>gd_workspaces := ws\<rparr>) = find_inbox i g"
  by (simp add: find_inbox_def)

lemma find_inbox_register [simp]: "find_inbox i (register_workspace root enabled t g) = find_inbox i g"
  by (simp add: register_workspace_def)

lemma inbox_register [simp]: "gd_inbox (register_workspace root enabled t g) = gd_inbox g"
  by (simp add: register_workspace_def)

section \<open>One thread at a time\<close>

fun releases :: "string \<Rightarrow> inbox_op \<Rightarrow> bool" where
  "releases i (Op_Settle j b err t) = (j = i)"
| "releases i (Op_Retry j err t t') = (j = i)"
| "releases i Op_Recover = True"
| "releases i _ = False"

definition held :: "string \<Rightarrow> global_db \<Rightarrow> bool" where
  "held i g \<longleftrightarrow> (\<exists>e. find_inbox i g = Some e \<and> ib_status e = Inbox_Processing)"

lemma find_filter:
  assumes "List.find p xs = Some x" and "q x"
  shows "List.find p (filter q xs) = Some x"
  using assms by (induction xs) (auto split: if_splits)

lemma find_snoc: "List.find p xs = Some x \<Longrightarrow> List.find p (xs @ ys) = Some x"
  by (induction xs) auto

lemma held_update:
  assumes "held i g" and "\<And>e. ib_id (f e) = ib_id e"
    and "\<And>e. ib_id e = i \<Longrightarrow> ib_status e = Inbox_Processing \<Longrightarrow> \<not> p e"
  shows "held i (update_inbox p f g)"
  using assms(1) assms(3) find_inbox_mem[of i g] by (auto simp: held_def find_inbox_update[OF assms(2)])

lemma held_step: "held i g \<Longrightarrow> \<not> releases i op \<Longrightarrow> held i (run_op op g)"
proof (induction op g rule: run_op.induct)
  case (1 j br app ty fl tbl rev pay t g)
  then show ?case by (auto simp: held_def find_inbox_def record_lark_event_def find_snoc)
next
  case (6 t g)
  then obtain e where "find_inbox i g = Some e" "ib_status e = Inbox_Processing" by (auto simp: held_def)
  moreover from this have "\<not> outdated t e" by (simp add: outdated_def split: option.splits)
  ultimately have "find_inbox i (snd (cleanup_lark_events t g)) = Some e"
    by (simp add: find_inbox_def cleanup_lark_events_def find_filter)
  then show ?case using \<open>ib_status e = Inbox_Processing\<close> by (simp add: held_def)
qed (auto simp: claim_operation claimable_at_def finish_lark_event_def retry_lark_event_def Let_def held_def
    intro!: held_update[unfolded held_def])

lemma held_run: "held i g \<Longrightarrow> list_all (\<lambda>op. \<not> releases i op) ops \<Longrightarrow> held i (fold run_op ops g)"
  by (induction ops arbitrary: g) (auto simp: held_step)

lemma held_not_claimed:
  assumes "held i g" and "distinct (inbox_ids g)"
  shows "fst (claim_lark_event i t g) = None"
proof -
  obtain e where "find_inbox i g = Some e" "ib_status e = Inbox_Processing" using assms by (auto simp: held_def)
  then have "rowcount (\<lambda>e. ib_id e = i \<and> claimable_at t e) (gd_inbox g) = 0"
    by (simp add: rowcount_claimable[OF assms(2)] claimable_at_def)
  then show ?thesis by (simp add: claim_lark_event_def)
qed

lemma ids_distinct_step:
  assumes "distinct (inbox_ids g)"
  shows "distinct (inbox_ids (run_op op g))"
  using assms
proof (induction op g rule: run_op.induct)
  case (1 j br app ty fl tbl rev pay t g)
  then show ?case by (auto simp: inbox_ids_def record_lark_event_def new_inbox_event_def)
next
  case (6 t g)
  then show ?case by (auto simp: inbox_ids_def cleanup_lark_events_def distinct_map intro: inj_on_subset)
next
  case (7 root enabled t g)
  then show ?case by (simp add: inbox_ids_def)
qed (simp_all add: claim_operation finish_lark_event_def retry_lark_event_def recover_lark_events_def Let_def)

lemma ids_distinct_run: "distinct (inbox_ids g) \<Longrightarrow> distinct (inbox_ids (fold run_op ops g))"
  by (induction ops arbitrary: g) (simp_all add: ids_distinct_step)

lemma claim_holds:
  assumes "distinct (inbox_ids g)" and "claim_lark_event i t g = (Some e, g')"
  shows "find_inbox i g' = Some e \<and> (\<exists>e0. find_inbox i g = Some e0 \<and> claimable_at t e0 \<and> e = taken e0)"
proof -
  have run: "g' = update_inbox (\<lambda>e. ib_id e = i \<and> claimable_at t e) taken g" using claim_operation[of i t g] assms by simp
  have one: "rowcount (\<lambda>e. ib_id e = i \<and> claimable_at t e) (gd_inbox g) = 1" and found: "find_inbox i g' = Some e"
    using assms by (auto simp: claim_lark_event_def Let_def split: if_splits)
  then obtain e0 where e0: "find_inbox i g = Some e0" "claimable_at t e0"
    by (auto simp: rowcount_claimable[OF assms(1)] split: option.splits if_splits)
  then have "find_inbox i g' = Some (taken e0)"
    using find_inbox_mem[OF e0(1)] by (simp add: run find_inbox_update)
  then show ?thesis using e0 found by simp
qed


text \<open>A claimed notification belongs to its claimer: until it is settled, retried, or recovered by a
  restart, no claim gives it out again, whatever else happens to the inbox in between.
\<close>
theorem claimed_event_is_taken_once:
  assumes "distinct (inbox_ids g)" and "claim_lark_event i t g = (Some e, g')"
    and "list_all (\<lambda>op. \<not> releases i op) ops"
  shows "fst (claim_lark_event i t' (fold run_op ops g')) = None"
proof (rule held_not_claimed)
  have "held i g'" using claim_holds[OF assms(1,2)] by (auto simp: held_def)
  then show "held i (fold run_op ops g')" using assms(3) by (rule held_run)
  have "g' = run_op (Op_Claim i t) g" using assms(2) by simp
  then show "distinct (inbox_ids (fold run_op ops g'))"
    using ids_distinct_run[OF ids_distinct_step[OF assms(1)], of ops "Op_Claim i t"] by simp
qed

definition one_event :: global_db where
  "one_event = snd (record_lark_event (new_inbox_event ''e1'' ''lark'' ''app'' ''changed'' None None None [] 5) empty_inbox)"

lemma claimed_event_is_taken_once_witness:
  "fst (claim_lark_event ''e1'' 9 (fold run_op [Op_Claim ''e1'' 7, Op_Cleanup 8] (snd (claim_lark_event ''e1'' 6 one_event)))) = None"
proof -
  have "distinct (inbox_ids one_event)" by code_simp
  moreover have "fst (claim_lark_event ''e1'' 6 one_event) \<noteq> None" by code_simp
  then obtain e where "claim_lark_event ''e1'' 6 one_event = (Some e, snd (claim_lark_event ''e1'' 6 one_event))"
    by (metis not_Some_eq prod.collapse)
  ultimately show ?thesis by (rule claimed_event_is_taken_once) simp
qed

section \<open>Nothing is given up early\<close>

text \<open>Retries read the clock twice, and it does not run backwards.\<close>

fun in_time :: "inbox_op \<Rightarrow> bool" where
  "in_time (Op_Retry i err t t') = (t \<le> t')"
| "in_time _ = True"

definition aged :: "inbox_event \<Rightarrow> bool" where
  "aged e \<longleftrightarrow> (ib_status e = Inbox_Failed \<longrightarrow> (\<exists>p. ib_processed e = Some p \<and> in_days 1 \<le> p - ib_received e))"

definition all_aged :: "global_db \<Rightarrow> bool" where
  "all_aged g \<longleftrightarrow> (\<forall>e \<in> set (gd_inbox g). aged e)"

lemma aged_update:
  assumes "all_aged g" and "\<And>e. e \<in> set (gd_inbox g) \<Longrightarrow> p e \<Longrightarrow> aged (f e)"
  shows "all_aged (update_inbox p f g)"
  using assms by (auto simp: all_aged_def inbox_of_update set_update_where)

lemma aged_step:
  assumes "all_aged g" and "distinct (inbox_ids g)" and "in_time op"
  shows "all_aged (run_op op g)"
  using assms
proof (induction op g rule: run_op.induct)
  case (1 j br app ty fl tbl rev pay t g)
  then show ?case by (auto simp: all_aged_def record_lark_event_def new_inbox_event_def aged_def)
next
  case (4 i err t t' g)
  have "t \<le> t'" using "4.prems" by simp
  moreover have "find_inbox (ib_id e) g = Some e" if "e \<in> set (gd_inbox g)" for e
    using find_inbox_unique "4.prems" that by blast
  ultimately show ?case using "4.prems"(1)
    by (auto simp: retry_lark_event_def Let_def aged_def event_expired_def EVENT_RETRY_WINDOW_def intro!: aged_update split: option.splits)
next
  case (6 t g)
  then show ?case by (auto simp: all_aged_def cleanup_lark_events_def)
next
  case (7 root enabled t g)
  then show ?case by (simp add: all_aged_def)
qed (auto simp: claim_operation finish_lark_event_def recover_lark_events_def aged_def intro!: aged_update)

lemma aged_run:
  "all_aged g \<Longrightarrow> distinct (inbox_ids g) \<Longrightarrow> list_all in_time ops \<Longrightarrow> all_aged (fold run_op ops g)"
  by (induction ops arbitrary: g) (simp_all add: aged_step ids_distinct_step)

text \<open>C31: No notification is lost: whatever happens to the inbox, the daily cleanup removes only notifications
  that were processed or had no board, and failed ones that arrived more than 31 days ago.
\<close>
theorem unprocessed_event_is_kept:
  assumes "list_all in_time ops" and "g = fold run_op ops empty_inbox"
    and "e \<in> set (gd_inbox g)" and "e \<notin> set (gd_inbox (snd (cleanup_lark_events t g)))"
  shows "ib_status e = Inbox_Processed \<or> ib_status e = Inbox_Ignored \<or>
    ib_status e = Inbox_Failed \<and> ib_received e < t - in_days 31"
proof -
  have "all_aged empty_inbox" "distinct (inbox_ids empty_inbox)"
    by (simp_all add: all_aged_def empty_inbox_def inbox_ids_def)
  then have "all_aged g" using aged_run assms(1,2) by simp
  then have "aged e" using assms(3) by (simp add: all_aged_def)
  moreover have "outdated t e" using assms(3,4) by (simp add: cleanup_lark_events_def)
  ultimately show ?thesis by (auto simp: outdated_def aged_def in_days_def in_seconds_def split: option.splits)
qed

definition failing_run :: "inbox_op list" where
  "failing_run = [Op_Record ''e1'' ''lark'' ''app'' ''changed'' None None None [] 0, Op_Claim ''e1'' 5,
     Op_Retry ''e1'' (ValueError ''x'') (in_days 1) (in_days 1)]"

lemma unprocessed_event_is_kept_witness:
  "ib_status (hd (gd_inbox (fold run_op failing_run empty_inbox))) = Inbox_Failed \<and>
   ib_received (hd (gd_inbox (fold run_op failing_run empty_inbox))) < in_days 40 - in_days 31"
proof -
  let ?g = "fold run_op failing_run empty_inbox"
  have "list_all in_time failing_run" by (simp add: failing_run_def)
  moreover have "?g = fold run_op failing_run empty_inbox" ..
  moreover have "hd (gd_inbox ?g) \<in> set (gd_inbox ?g)"
    and "hd (gd_inbox ?g) \<notin> set (gd_inbox (snd (cleanup_lark_events (in_days 40) ?g)))"
    and "ib_status (hd (gd_inbox ?g)) = Inbox_Failed" by code_simp+
  ultimately show ?thesis
    using unprocessed_event_is_kept[of failing_run ?g "hd (gd_inbox ?g)" "in_days 40"] by simp
qed

text \<open>C32: A notification whose processing failed is either tried again within one second to five minutes, and by no
  claim before, or it is more than a day old and given up; a schema that does not fit never gives it up.
\<close>
theorem failed_event_is_retried:
  assumes "find_inbox i g = Some e" and "retry_lark_event i err t t' g = (st, g')"
  shows "\<exists>e'. find_inbox i g' = Some e' \<and> ib_status e' = st \<and> ib_error e' = Some (error_text err) \<and>
    (st = Inbox_Failed \<and> in_days 1 \<le> t - ib_received e \<and> \<not> is_schema_error err \<or>
     st = Inbox_Retry \<and> (\<exists>n. ib_next e' = Some n \<and> t' + in_seconds 1 \<le> n \<and> n \<le> t' + in_seconds 300 \<and>
       (\<forall>u. claimable_at u e' = (n \<le> u))))"
proof -
  have delay: "1 \<le> event_retry_delay r k \<and> event_retry_delay r k \<le> 300" for r k
    by (simp add: event_retry_delay_def SCHEMA_RETRY_DELAY_def)
  show ?thesis
    using assms delay find_inbox_mem[OF assms(1)]
    by (auto simp: retry_lark_event_def Let_def find_inbox_update event_expired_def EVENT_RETRY_WINDOW_def claimable_at_def
        due_def in_seconds_def)
qed

lemma failed_event_is_retried_witness:
  "\<exists>e'. find_inbox ''e1'' (snd (retry_lark_event ''e1'' (Raised Schema_Incompatible ''old'') (in_days 9) (in_days 9) one_event)) = Some e' \<and>
     ib_status e' = Inbox_Retry"
proof -
  have "find_inbox ''e1'' one_event \<noteq> None" by code_simp
  then obtain e where e: "find_inbox ''e1'' one_event = Some e" by blast
  have st: "fst (retry_lark_event ''e1'' (Raised Schema_Incompatible ''old'') (in_days 9) (in_days 9) one_event) = Inbox_Retry"
    by code_simp
  show ?thesis
    using failed_event_is_retried[OF e surjective_pairing, of "Raised Schema_Incompatible ''old''" "in_days 9" "in_days 9"] st by auto
qed

section \<open>A claimed notification is settled\<close>

definition inbox_row :: "string \<Rightarrow> inbox_event option \<Rightarrow> 's listener \<Rightarrow> bool" where
  "inbox_row i row s \<longleftrightarrow> find_inbox i (ls_global s) = row"



lemma keeps_on_workspace [preserves_intros]: "preserves (inbox_row i row) (on_workspace root f b)"
  by (auto simp: preserves_def on_workspace_def inbox_row_def split: sum.splits prod.splits)

lemma keeps_add_note [preserves_intros]: "preserves (inbox_row i row) (add_note n)"
  by (simp add: add_note_def preserves_def inbox_row_def)

lemma keeps_live_probes [preserves_intros]: "preserves (inbox_row i row) (live_probes b)"
  by (simp add: live_probes_def preserves_def inbox_row_def Let_def)

lemma keeps_wakeup [preserves_intros]: "preserves (inbox_row i row) (write_eff (\<lambda>s. s\<lparr>ls_wakeup := w\<rparr>))"
  by (simp add: preserves_def inbox_row_def)

lemma keeps_save_snapshot [preserves_intros]: "preserves (inbox_row i row) (save_snapshot b r rid task source revision)"
  unfolding save_snapshot_def by (rule keeps_on_workspace)

lemma keeps_save_each [preserves_intros]: "preserves (inbox_row i row) (save_each b r source revision cards)"
  unfolding save_each_def by (auto intro!: preserves_intros split: prod.splits)





















section \<open>A reconciliation saves the board\<close>






















end
