(* ===== verification/Board_Setup.thy ===== *)
theory Board_Setup
  imports Board_Verification
begin

text \<open>
  The initialization of a board in \<^verbatim>\<open>core/lark_board.py\<close>: a table is chosen or made, its default records are
  removed if all of them are empty, its columns and its view are brought up to the definition, and the board
  remembers where it is. Progress messages are left out.
\<close>

section \<open>The link of a board\<close>

definition url_scheme :: "string \<Rightarrow> string" where
  "url_scheme url = map lower_char (take (length url - length (without_scheme url)) url)"

definition url_fragment :: "string \<Rightarrow> string" where
  "url_fragment url = (let f = dropWhile (\<lambda>c. c \<noteq> CHR ''#'') url in if length f \<le> 1 then [] else f)"

text \<open>The values of a query by their names, in the order of their first appearance.\<close>

definition query_dict :: "(string \<times> string) list \<Rightarrow> (string \<times> string list) list" where
  "query_dict kvs = map (\<lambda>k. (k, query_values kvs k)) (dedup (map fst kvs))"

definition query_of :: "(string \<times> string list) list \<Rightarrow> string" where
  "query_of d = urlencode (concat (map (\<lambda>(k, vs). map (\<lambda>v. (k, JStr v)) vs) d))"

definition board_url :: "string \<Rightarrow> string \<Rightarrow> string \<Rightarrow> string" where
  "board_url url t w =
     (let (host, path, query) = url_parts url;
          q = query_of (AList.update ''view'' [w] (AList.update ''table'' [t] (query_dict (query_pairs query))))
      in url_scheme url @
         (if host = [] then path else ''//'' @ host @ (if path \<noteq> [] \<and> hd path \<noteq> CHR ''/'' then ''/'' @ path else path)) @
         (if q = [] then [] else ''?'' @ q) @ url_fragment url)"

section \<open>The table\<close>

text \<open>A table with the columns of a card is taken at once; else the first one with nothing in it, if there is one.\<close>

type_synonym found_table = "board_table \<times> board_bundle \<times> dict list option"

fun search_tables ::
  "nat \<Rightarrow> 's lark_service \<Rightarrow> client \<Rightarrow> (string \<times> field_spec) list \<Rightarrow> board_table list \<Rightarrow> found_table option \<Rightarrow>
   ('s, found_table option) lark" where
  "search_tables n v c specs [] found = of_result (Inr found)"
| "search_tables n v c specs (t # ts) found =
     bind_eff (get_table v c (py_str (bt_id t))) (\<lambda>bundle.
     bind_eff (of_result (task_field_map bundle specs task_field_aliases False)) (\<lambda>mapped.
     if mapped \<noteq> None then of_result (Inr (Some (t, bundle, None)))
     else bind_eff (reusable_empty_records n v c bundle) (\<lambda>empties.
          search_tables n v c specs ts (if found = None \<and> empties \<noteq> None then Some (t, bundle, empties) else found))))"

definition read_table ::
  "nat \<Rightarrow> 's lark_service \<Rightarrow> client \<Rightarrow> board_table \<Rightarrow> bool \<Rightarrow> ('s, found_table \<times> bool) lark" where
  "read_table n v c t created =
     bind_eff (get_table v c (py_str (bt_id t))) (\<lambda>bundle.
     bind_eff (reusable_empty_records n v c bundle) (\<lambda>empties. of_result (Inr ((t, bundle, empties), created))))"

definition initialization_table ::
  "nat \<Rightarrow> 's lark_service \<Rightarrow> client \<Rightarrow> lark_board \<Rightarrow> board_table list \<Rightarrow> (string \<times> field_spec) list \<Rightarrow>
   ('s, found_table \<times> bool) lark" where
  "initialization_table n v c b tables specs =
     (case nonempty (bd_table b) of
        Some k \<Rightarrow> (case selected_table b tables of
            None \<Rightarrow> of_result (Inl (Raised Other_Class ''no table''))
          | Some t \<Rightarrow> read_table n v c t False)
      | None \<Rightarrow> bind_eff (search_tables n v c specs tables None) (\<lambda>found.
          case found of
            Some x \<Rightarrow> of_result (Inr (x, False))
          | None \<Rightarrow> bind_eff (create_table v c (bn_table (task_names b)) (bn_primary (task_names b))) (\<lambda>t. read_table n v c t True)))"

definition delete_empty :: "'s lark_service \<Rightarrow> client \<Rightarrow> string \<Rightarrow> dict \<Rightarrow> ('s, unit) lark" where
  "delete_empty v c t r =
     (case map_of r ''record_id'' of
        None \<Rightarrow> of_result (Inl (KeyError ''record_id'')) | Some i \<Rightarrow> delete_record v c t (py_str i))"

definition named_table ::
  "'s lark_service \<Rightarrow> client \<Rightarrow> string \<Rightarrow> board_names \<Rightarrow> bool \<Rightarrow> board_bundle \<Rightarrow> ('s, board_bundle) lark" where
  "named_table v c t names adopted bundle =
     (if (if adopted then bt_name (bu_table bundle) \<noteq> JStr (bn_table names)
          else bt_name (bu_table bundle) = JStr LEGACY_TASK_TABLE_NAME)
      then bind_eff (update_table v c t (bn_table names)) (\<lambda>_.
           of_result (Inr (bundle\<lparr>bu_table := (bu_table bundle)\<lparr>bt_name := JStr (bn_table names)\<rparr>\<rparr>)))
      else of_result (Inr bundle))"

definition settle_table ::
  "'s lark_service \<Rightarrow> client \<Rightarrow> string \<Rightarrow> board_names \<Rightarrow> board_bundle \<Rightarrow> dict list option \<Rightarrow> ('s, board_bundle) lark" where
  "settle_table v c t names bundle empties =
     bind_eff (for_each (delete_empty v c t) (case empties of None \<Rightarrow> [] | Some rs \<Rightarrow> rs)) (\<lambda>_.
     named_table v c t names (empties \<noteq> None) bundle)"

text \<open>The primary column of an adopted table gets the name of the title.\<close>

definition name_primary ::
  "'s lark_service \<Rightarrow> client \<Rightarrow> string \<Rightarrow> board_names \<Rightarrow> bool \<Rightarrow> board_bundle \<Rightarrow> ('s, board_bundle) lark" where
  "name_primary v c t names adopted bundle =
     bind_eff (of_result (primary_field bundle)) (\<lambda>p.
     if adopted \<and> bf_name p \<noteq> JStr (bn_primary names) then
       bind_eff (update_field v c t (bf_id p) \<lparr>fs_name = bn_primary names, fs_type = ''text'', fs_options = None, fs_style = None\<rparr>)
         (\<lambda>updated. of_result (Inr (bundle\<lparr>bu_fields :=
            put_field p (updated\<lparr>bf_name := JStr (bn_primary names)\<rparr>) (bu_fields bundle)\<rparr>)))
     else of_result (Inr bundle))"

section \<open>The columns\<close>

text \<open>\<^verbatim>\<open>_ensure_task_fields\<close> with the columns it resolves: the one that was found stays in its place, a new one is the last.\<close>

definition resolved_field :: "(string \<times> string list) list \<Rightarrow> string \<times> field_spec \<Rightarrow> board_field list \<Rightarrow> board_field list \<Rightarrow> board_field" where
  "resolved_field aliases = (\<lambda>(key, spec) before after.
     case find_task_field before spec (assoc_list aliases key) True of
       Inr (Some f) \<Rightarrow> after ! length (takeWhile (\<lambda>x. x \<noteq> f) before) | _ \<Rightarrow> last after)"

fun ensure_resolved ::
  "'s lark_service \<Rightarrow> client \<Rightarrow> string \<Rightarrow> (string \<times> string list) list \<Rightarrow> (string \<times> field_spec) list \<Rightarrow> board_field list \<Rightarrow>
   (string \<times> board_field) list \<Rightarrow> ('s, board_field list \<times> (string \<times> board_field) list) lark" where
  "ensure_resolved v c t aliases [] fs acc = of_result (Inr (fs, acc))"
| "ensure_resolved v c t aliases (s # specs) fs acc =
     bind_eff (ensure_field v c t aliases s fs) (\<lambda>fs'.
     ensure_resolved v c t aliases specs fs' (acc @ [(fst s, resolved_field aliases s fs fs')]))"

lemma ensure_resolved_fields:
  "bind_eff (ensure_resolved v c t aliases specs fs acc) (\<lambda>x. of_result (Inr (fst x))) s =
   ensure_task_fields v c t aliases specs fs s"
proof (induction specs arbitrary: fs acc s)
  case (Cons x specs)
  obtain q s' where "ensure_field v c t aliases x fs s = (q, s')" by (metis prod.collapse)
  then show ?case using Cons by (cases q) (auto simp: run_bind)
qed simp

text \<open>\<^verbatim>\<open>_task_prefix\<close>: the fixed text in front of the numbers.\<close>

definition task_prefix :: "board_field \<Rightarrow> string option" where
  "task_prefix f =
     (let rules = map as_dict (as_items (py_or (dget (as_dict (bf_style f)) ''rules'') (JList [])));
          s = concat (map (\<lambda>r. if dget r ''type'' = JStr ''text'' then text_of (dget r ''text'') else []) rules)
      in if ends_with s ''-'' then Some (butlast s) else if s = [] then None else Some s)"

definition prefix_changed :: "string \<Rightarrow> py_error" where
  "prefix_changed p = ValueError (''task prefix is already '' @ p @ ''; TeamFlow will not change it automatically'')"

text \<open>A prefix that was asked for has to be the one the board has.\<close>

definition settled_prefix :: "bool \<Rightarrow> string \<Rightarrow> board_field \<Rightarrow> string result" where
  "settled_prefix asked wanted f =
     (case nonempty (task_prefix f) of
        None \<Rightarrow> Inr wanted
      | Some p \<Rightarrow> if asked \<and> p \<noteq> wanted then Inl (prefix_changed p) else Inr p)"

section \<open>The view\<close>

definition settle_view ::
  "'s lark_service \<Rightarrow> client \<Rightarrow> string \<Rightarrow> board_names \<Rightarrow> board_bundle \<Rightarrow> ('s, board_view \<times> bool) lark" where
  "settle_view v c t names bundle =
     bind_eff (if bu_views bundle = [] then list_views v c t else of_result (Inr (bu_views bundle))) (\<lambda>views.
     case List.find is_task_view views of
       None \<Rightarrow> bind_eff (create_view v c t (bn_view names)) (\<lambda>w. of_result (Inr (w, True)))
     | Some w \<Rightarrow>
         if bv_name w = JStr (bn_view names) then of_result (Inr (w, False))
         else bind_eff (rename_view v c t (py_str (bv_id w)) (bn_view names)) (\<lambda>renamed.
              of_result (Inr (renamed\<lparr>bv_name := JStr (bn_view names)\<rparr>, False))))"

text \<open>A view that was just made may not be there yet: it is grouped again, twice at most.\<close>

fun retry_group :: "nat \<Rightarrow> 's lark_service \<Rightarrow> ('s, unit) lark \<Rightarrow> ('s, unit) lark" where
  "retry_group 0 v m = m"
| "retry_group (Suc n) v m = catch_eff m (\<lambda>e.
     if is_value_error e \<and> contains_text (map lower_char (error_text e)) ''not_found''
     then bind_eff (sv_pause v) (\<lambda>_. retry_group n v m) else of_result (Inl e))"

section \<open>Initialization\<close>

record board_setup =
  bs_bundle :: board_bundle
  bs_view :: board_view
  bs_url :: string
  bs_prefix :: string
  bs_created :: bool
  bs_reused :: bool
  bs_deleted :: nat

definition set_up_board ::
  "nat \<Rightarrow> 's lark_service \<Rightarrow> lark_board \<Rightarrow> lark_identity \<Rightarrow> (string \<times> field_spec) list \<Rightarrow> bool \<Rightarrow> string \<Rightarrow> ('s, board_setup) lark" where
  "set_up_board n v b ident specs asked wanted =
     (let names = task_names b in
      bind_eff (open_client v ident b) (\<lambda>c.
      bind_eff (get_base v c) (\<lambda>base.
      bind_eff (list_tables v c) (\<lambda>tables.
      bind_eff (initialization_table n v c b tables specs) (\<lambda>((table, bundle0, empties), created).
      let t = py_str (bt_id table) in
      bind_eff (settle_table v c t names bundle0 empties) (\<lambda>bundle1.
      bind_eff (name_primary v c t names (empties \<noteq> None) bundle1) (\<lambda>bundle2.
      bind_eff (ensure_resolved v c t task_field_aliases specs (bu_fields bundle2) []) (\<lambda>(fs, resolved).
      bind_eff (of_result (case map_of resolved ''task_id'' of None \<Rightarrow> Inl (KeyError ''task_id'') | Some f \<Rightarrow> settled_prefix asked wanted f)) (\<lambda>prefix.
      let bundle = bundle2\<lparr>bu_fields := fs\<rparr> in
      bind_eff (settle_view v c t names bundle) (\<lambda>(view, made).
      let w = py_str (bv_id view) in
      bind_eff (retry_group (if made then 2 else 0) v (case map_of resolved ''status'' of
          None \<Rightarrow> of_result (Inl (KeyError ''status'')) | Some f \<Rightarrow> set_view_group v c t w (py_str (bf_id f)))) (\<lambda>_.
      let url = board_url (text_of (py_or (JStr (option_text (bd_url b))) (dget base ''url''))) t w in
      bind_eff (save_board_success v (Some t) (Some w) (Some url)) (\<lambda>_.
      of_result (Inr \<lparr>bs_bundle = bundle, bs_view = view, bs_url = url, bs_prefix = prefix, bs_created = created,
        bs_reused = (empties \<noteq> None \<and> \<not> created), bs_deleted = (case empties of None \<Rightarrow> 0 | Some rs \<Rightarrow> length rs)\<rparr>)))))))))))))"

text \<open>
  The prefix of the task numbers is the one asked for, normalized, or the default one for the workspace; both
  are arguments, since they go by the letters of Unicode. A missing scope is reported with all scopes.
\<close>

definition initialize_lark_board ::
  "nat \<Rightarrow> 's lark_service \<Rightarrow> dict result \<Rightarrow> string result option \<Rightarrow> string result \<Rightarrow> ('s, board_setup) lark" where
  "initialize_lark_board n v loaded asked default_prefix =
     bind_eff (\<lambda>s. (board_context s, s)) (\<lambda>(b, ident).
     bind_eff (of_result loaded) (\<lambda>d.
     bind_eff (of_result (case asked of Some p \<Rightarrow> p | None \<Rightarrow> default_prefix)) (\<lambda>wanted.
     bind_eff (of_result (task_field_specs d (board_locale (option_text (bd_url b))) (Some wanted))) (\<lambda>specs.
     catch_eff (set_up_board n v b ident specs (asked \<noteq> None) wanted) (\<lambda>e.
       bind_eff (save_board_failure v e) (\<lambda>_.
       of_result (Inl (case missing_scope_error e ident b of None \<Rightarrow> e | Some scoped \<Rightarrow> scoped))))))))"

end
