(* ===== verification/Lark_Accounts.thy ===== *)
theory Lark_Accounts
  imports Board_Access
begin

text \<open>
  The Lark identities and the board of a workspace in \<^verbatim>\<open>core/db.py\<close>: they are configured, verified, refreshed,
  removed and created. The workspace itself is set up before, which is not part of the model; the argument
  \<open>hex\<close> gives the fresh suffix of an id.
\<close>

section \<open>Rows\<close>

definition update_identity :: "string \<Rightarrow> (lark_identity \<Rightarrow> lark_identity) \<Rightarrow> 's lark_world \<Rightarrow> 's lark_world" where
  "update_identity i f s = s\<lparr>lw_identities := update_where (\<lambda>x. li_id x = i) f (lw_identities s)\<rparr>"

definition blank_identity :: "string \<Rightarrow> string \<Rightarrow> int \<Rightarrow> lark_identity" where
  "blank_identity i auth t =
     \<lparr>li_id = i, li_auth = auth, li_app = None, li_app_name = None, li_app_avatar = None, li_synced = None, li_secret = None,
      li_access_token = None, li_refresh_token = None, li_open_id = None, li_user_name = None, li_user_avatar = None,
      li_status = ''unverified'', li_verified = None, li_error = None, li_created = t, li_updated = t\<rparr>"

text \<open>What is known of an application; a value that is missing leaves the stored one as it is.\<close>

record app_facts =
  af_name :: "string option"
  af_avatar :: "string option"
  af_synced :: "int option"
  af_secret :: "string option"
  af_access_token :: "string option"
  af_refresh_token :: "string option"

definition put_facts :: "app_facts \<Rightarrow> lark_identity \<Rightarrow> lark_identity" where
  "put_facts a x = x\<lparr>li_app_name := coalesce (af_name a) (li_app_name x), li_app_avatar := coalesce (af_avatar a) (li_app_avatar x),
     li_synced := coalesce (af_synced a) (li_synced x), li_secret := coalesce (af_secret a) (li_secret x),
     li_access_token := coalesce (af_access_token a) (li_access_token x),
     li_refresh_token := coalesce (af_refresh_token a) (li_refresh_token x)\<rparr>"

definition upsert_lark_identity ::
  "(nat \<Rightarrow> string) \<Rightarrow> string \<Rightarrow> string option \<Rightarrow> app_facts \<Rightarrow> int \<Rightarrow> 's lark_world \<Rightarrow> string \<times> 's lark_world" where
  "upsert_lark_identity hex auth app a t s =
     (case List.find (\<lambda>x. li_auth x = auth \<and> option_text (li_app x) = option_text app) (lw_identities s) of
        Some x \<Rightarrow> (li_id x, update_identity (li_id x)
          (\<lambda>y. (put_facts a y)\<lparr>li_status := ''unverified'', li_verified := None, li_error := None, li_updated := t\<rparr>) s)
      | None \<Rightarrow>
          let i = ''lark_'' @ hex (lw_uuids s) in
          (i, s\<lparr>lw_identities := lw_identities s @ [put_facts a ((blank_identity i auth t)\<lparr>li_app := app\<rparr>)],
                lw_uuids := Suc (lw_uuids s)\<rparr>))"

text \<open>The newest user identity is the one that is updated.\<close>

definition newest_first :: "lark_identity list \<Rightarrow> lark_identity list" where
  "newest_first xs = sort_key (\<lambda>x. - li_updated x) xs"

definition put_user :: "string \<Rightarrow> string \<Rightarrow> string \<Rightarrow> string \<Rightarrow> int \<Rightarrow> lark_identity \<Rightarrow> lark_identity" where
  "put_user app open_id name avatar t x = x\<lparr>li_app := Some app, li_open_id := Some open_id, li_user_name := Some name,
     li_user_avatar := coalesce (nonempty (Some avatar)) (li_user_avatar x), li_access_token := None, li_refresh_token := None,
     li_status := ''verified'', li_verified := Some t, li_error := None, li_updated := t\<rparr>"

definition upsert_lark_user_identity ::
  "(nat \<Rightarrow> string) \<Rightarrow> string \<Rightarrow> string \<Rightarrow> string \<Rightarrow> string \<Rightarrow> int \<Rightarrow> 's lark_world \<Rightarrow> string \<times> 's lark_world" where
  "upsert_lark_user_identity hex app open_id name avatar t s =
     (case newest_first (filter (\<lambda>x. li_auth x = ''user'') (lw_identities s)) of
        x # xs \<Rightarrow> (li_id x, update_identity (li_id x) (put_user app open_id name avatar t) s)
      | [] \<Rightarrow>
          let i = ''lark_user_'' @ hex (lw_uuids s) in
          (i, s\<lparr>lw_identities := lw_identities s @ [put_user app open_id name avatar t (blank_identity i ''user'' t)],
                lw_uuids := Suc (lw_uuids s)\<rparr>))"

definition fresh_board :: "string \<Rightarrow> string option \<Rightarrow> string option \<Rightarrow> string option \<Rightarrow> string option \<Rightarrow> string option \<Rightarrow> int \<Rightarrow> lark_board" where
  "fresh_board i primary url token table view t =
     \<lparr>bd_id = i, bd_primary = primary, bd_url = url, bd_token = token, bd_table = table, bd_view = view, bd_access = ''unverified'',
      bd_verified = None, bd_error = None, bd_listener = ''unverified'', bd_listener_verified = None, bd_listener_kind = None,
      bd_listener_error = None, bd_updated = t\<rparr>"

definition resource_changed :: "lark_board \<Rightarrow> string option \<Rightarrow> string option \<Rightarrow> string option \<Rightarrow> bool" where
  "resource_changed b token table view \<longleftrightarrow>
     nonempty (bd_token b) \<noteq> token \<or> nonempty (bd_table b) \<noteq> table \<or> nonempty (bd_view b) \<noteq> view"

text \<open>Another resource starts without a primary identity and without outcomes.\<close>

definition upsert_lark_board ::
  "(nat \<Rightarrow> string) \<Rightarrow> string option \<Rightarrow> string option \<Rightarrow> string option \<Rightarrow> string option \<Rightarrow> string option \<Rightarrow> int \<Rightarrow>
   's lark_world \<Rightarrow> string \<times> 's lark_world" where
  "upsert_lark_board hex primary url token table view t s =
     (case lw_board s of
        Some b \<Rightarrow>
          let changed = resource_changed b token table view;
              stable = (if changed \<or> nonempty (bd_primary b) = None then primary else bd_primary b)
          in (bd_id b, s\<lparr>lw_board := Some (fresh_board (bd_id b) stable url token table view t),
                         lw_access := (if changed then [] else lw_access s)\<rparr>)
      | None \<Rightarrow>
          let i = ''board_'' @ hex (lw_uuids s) in
          (i, s\<lparr>lw_board := Some (fresh_board i primary url token table view t), lw_uuids := Suc (lw_uuids s)\<rparr>))"

section \<open>Applications\<close>

definition brand_origin :: "string \<Rightarrow> string" where
  "brand_origin domain = (if domain = ''larksuite'' then ''https://open.larksuite.com'' else ''https://open.feishu.cn'')"

definition token_failure :: "dict \<Rightarrow> string" where
  "token_failure payload = py_str (py_or (dget payload ''msg'') (JStr ''failed to get tenant access token''))"

definition text_option :: "json \<Rightarrow> string option" where
  "text_option v = (if v = JNull then None else Some (py_str v))"

text \<open>The name and the avatar of an application, and what went wrong.\<close>

definition app_name_of :: "dict \<Rightarrow> json" where
  "app_name_of payload =
     (let data = as_dict (dget payload ''data''); app = as_dict (dget data ''app'') in
      py_or (dget app ''app_name'') (py_or (dget data ''app_name'') (py_or (dget app ''name'') (dget data ''name''))))"

definition app_avatar_of :: "dict \<Rightarrow> json" where
  "app_avatar_of payload =
     (let data = as_dict (dget payload ''data'') in py_or (dget (as_dict (dget data ''app'')) ''avatar_url'') (dget data ''avatar_url''))"

definition fetch_lark_app_info ::
  "'s lark_service \<Rightarrow> string \<Rightarrow> string \<Rightarrow> string \<Rightarrow> ('s, string option \<times> string option \<times> string option) lark" where
  "fetch_lark_app_info v app secret domain =
     (let origin = brand_origin domain; lang = (if domain = ''larksuite'' then ''en_us'' else ''zh_cn'');
          (url, body) = token_request origin (Some app) (Some secret)
      in bind_eff (post_json v url body []) (\<lambda>(token_payload, err).
      if option_text err \<noteq> [] then of_result (Inr (None, None, err))
      else if \<not> truthy (dget token_payload ''tenant_access_token'') then of_result (Inr (None, None, Some (token_failure token_payload)))
      else bind_eff (get_json v (origin @ ''/open-apis/application/v6/applications/'' @ app @ ''?lang='' @ lang)
             [(''Authorization'', ''Bearer '' @ py_str (dget token_payload ''tenant_access_token''))]) (\<lambda>(payload, err).
        if option_text err \<noteq> [] then of_result (Inr (None, None, err))
        else of_result (Inr (text_option (app_name_of payload), text_option (app_avatar_of payload),
               if truthy (app_name_of payload) then None
               else Some (py_str (py_or (dget payload ''msg'') (JStr ''app name not found''))))))))"

definition stamp :: "'s lark_service \<Rightarrow> (int \<Rightarrow> 's lark_world \<Rightarrow> 'a \<times> 's lark_world) \<Rightarrow> ('s, 'a) lark" where
  "stamp v f = (\<lambda>s. case f (sv_time v s) s of (x, s') \<Rightarrow> (Inr x, s'))"

definition identity_error :: "string \<Rightarrow> string \<Rightarrow> int \<Rightarrow> 's lark_world \<Rightarrow> 's lark_world" where
  "identity_error i e t = update_identity i (\<lambda>x. x\<lparr>li_error := Some e, li_updated := t\<rparr>)"

definition configure_lark_identity ::
  "(nat \<Rightarrow> string) \<Rightarrow> 's lark_service \<Rightarrow> string \<Rightarrow> string \<Rightarrow> string \<Rightarrow> ('s, string \<times> string option) lark" where
  "configure_lark_identity hex v app0 secret domain =
     (let app = strip app0 in
      if app = [] \<or> secret = [] then of_result (Inl (ValueError ''app_id and app_secret are required''))
      else bind_eff (fetch_lark_app_info v app secret domain) (\<lambda>(name, avatar, err).
           stamp v (\<lambda>t s.
             let facts = \<lparr>af_name = name, af_avatar = avatar, af_synced = (if option_text name \<noteq> [] then Some t else None),
                   af_secret = Some secret, af_access_token = None, af_refresh_token = None\<rparr>;
                 (i, s') = upsert_lark_identity hex ''bot'' (Some app) facts t s
             in ((i, err), if option_text err \<noteq> [] then identity_error i (option_text err) t s' else s'))))"

definition identity_not_found :: py_error where
  "identity_not_found = ValueError ''lark identity not found''"

definition refresh_lark_identity :: "'s lark_service \<Rightarrow> string \<Rightarrow> string \<Rightarrow> ('s, bool \<times> string option) lark" where
  "refresh_lark_identity v i domain =
     bind_eff (read_eff (find_identity i)) (\<lambda>found.
     case found of
       None \<Rightarrow> of_result (Inl identity_not_found)
     | Some x \<Rightarrow>
         if option_text (li_app x) = [] \<or> option_text (li_secret x) = []
         then of_result (Inl (ValueError ''app_id and app_secret are required''))
         else bind_eff (read_eff (sv_time v)) (\<lambda>t.
              bind_eff (fetch_lark_app_info v (option_text (li_app x)) (option_text (li_secret x)) domain) (\<lambda>(name, avatar, err).
              stamp v (\<lambda>_ s.
                if option_text name \<noteq> [] then
                  ((True, name), update_identity i (\<lambda>y. y\<lparr>li_app_name := name, li_app_avatar := avatar, li_synced := Some t,
                     li_error := None, li_updated := t\<rparr>) s)
                else let e = (if option_text err \<noteq> [] then option_text err else ''failed to read app name'') in
                  ((False, Some e), identity_error i e t s)))))"

text \<open>The outcomes of a removed identity go with it, and it is no longer the board's primary one.\<close>

definition remove_lark_identity :: "string \<Rightarrow> 's lark_world \<Rightarrow> nat \<times> 's lark_world" where
  "remove_lark_identity i s =
     (length (filter (\<lambda>x. li_id x = i) (lw_identities s)),
      s\<lparr>lw_identities := filter (\<lambda>x. li_id x \<noteq> i) (lw_identities s),
        lw_access := filter (\<lambda>a. ac_identity a \<noteq> i) (lw_access s),
        lw_board := map_option (\<lambda>b. if bd_primary b = Some i then b\<lparr>bd_primary := None\<rparr> else b) (lw_board s)\<rparr>)"

section \<open>Users\<close>

definition unavailable_user :: "dict \<Rightarrow> string \<Rightarrow> int \<Rightarrow> lark_identity \<Rightarrow> lark_identity" where
  "unavailable_user status e t x =
     x\<lparr>li_status := text_of (py_or (dget status ''tokenStatus'') (JStr ''unavailable'')), li_verified := Some t,
       li_error := Some e, li_updated := t\<rparr>"

definition profile_user :: "dict \<Rightarrow> dict" where
  "profile_user profile = as_dict (dget (as_dict (dget profile ''data'')) ''user'')"

definition profile_avatar :: "dict \<Rightarrow> string" where
  "profile_avatar u = strip (text_of (py_or (dget u ''avatar_middle'')
     (py_or (dget u ''avatar_url'') (py_or (dget u ''avatar_big'') (dget u ''avatar_thumb'')))))"

definition verify_lark_user_identity ::
  "(nat \<Rightarrow> string) \<Rightarrow> 's lark_service \<Rightarrow> dict \<Rightarrow> dict \<Rightarrow> ('s, string) lark" where
  "verify_lark_user_identity hex v status profile =
     (case lark_user_status_values status None of
        Inl e \<Rightarrow>
          if is_value_error e then
            bind_eff (stamp v (\<lambda>t s. ((), s\<lparr>lw_identities := update_where (\<lambda>x. li_auth x = ''user'')
              (unavailable_user status (error_text e) t) (lw_identities s)\<rparr>))) (\<lambda>_. of_result (Inl e))
          else of_result (Inl e)
      | Inr (app, open_id, name0) \<Rightarrow>
          let u = profile_user profile; shown = strip (text_of (dget u ''open_id''));
              name = strip (text_of (py_or (dget u ''name'') (JStr name0)))
          in if shown \<noteq> [] \<and> shown \<noteq> open_id then of_result (Inl (ValueError ''the active Lark profile does not match the authorized user''))
             else stamp v (upsert_lark_user_identity hex app open_id name (profile_avatar u)))"

section \<open>Boards\<close>

definition no_bitable :: py_error where
  "no_bitable = ValueError ''the Wiki URL does not point to a Bitable''"

definition wiki_node :: "dict \<Rightarrow> dict" where
  "wiki_node payload = as_dict (py_or (dget (as_dict (dget payload ''data'')) ''node'') (dget payload ''node''))"

definition bitable_of_node :: "dict \<Rightarrow> string result" where
  "bitable_of_node node =
     (if dget node ''obj_type'' \<noteq> JStr ''bitable'' \<or> \<not> truthy (dget node ''obj_token'') then Inl no_bitable
      else Inr (py_str (dget node ''obj_token'')))"

definition bot_token :: "'s lark_service \<Rightarrow> string \<Rightarrow> lark_identity \<Rightarrow> ('s, string) lark" where
  "bot_token v origin x =
     (let (url, body) = token_request origin (li_app x) (li_secret x) in
      bind_eff (post_json v url body []) (\<lambda>(payload, err). of_result
        (if option_text err \<noteq> [] then Inl (ValueError (option_text err))
         else if \<not> truthy (dget payload ''tenant_access_token'') then Inl (ValueError (token_failure payload))
         else Inr (py_str (dget payload ''tenant_access_token'')))))"

definition resolve_lark_wiki_bitable :: "'s lark_service \<Rightarrow> lark_identity \<Rightarrow> string \<Rightarrow> string \<Rightarrow> ('s, string) lark" where
  "resolve_lark_wiki_bitable v x wiki url =
     bind_eff
       (if li_auth x = ''user'' then
          run_lark_cli_json v [''wiki'', ''spaces'', ''get_node'', ''--params'', compact (JObj [(''token'', JStr wiki)]), ''--as'', ''user'']
        else let origin = open_origin url in
          bind_eff (bot_token v origin x) (\<lambda>t.
          bind_eff (get_json v (origin @ ''/open-apis/wiki/v2/spaces/get_node?'' @ urlencode [(''token'', JStr wiki)])
            [(''Authorization'', ''Bearer '' @ t)]) (\<lambda>(payload, err).
          of_result (if option_text err \<noteq> [] then Inl (ValueError (option_text err)) else Inr payload))))
       (\<lambda>payload. of_result (bitable_of_node (wiki_node payload)))"

text \<open>The first usable identity that can read the page decides; otherwise the last error counts.\<close>

fun resolve_wiki ::
  "'s lark_service \<Rightarrow> string \<Rightarrow> string \<Rightarrow> lark_identity list \<Rightarrow> string option \<Rightarrow> ('s, string option) lark" where
  "resolve_wiki v wiki url [] problem = of_result (case problem of None \<Rightarrow> Inr None | Some e \<Rightarrow> Inl (ValueError e))"
| "resolve_wiki v wiki url (x # xs) problem =
     (if \<not> lark_identity_is_usable x then resolve_wiki v wiki url xs problem
      else catch_eff (bind_eff (resolve_lark_wiki_bitable v x wiki url) (\<lambda>t. of_result (Inr (Some t))))
        (\<lambda>e. if is_value_error e then resolve_wiki v wiki url xs (Some (error_text e)) else of_result (Inl e)))"

definition board_token_of :: "'s lark_service \<Rightarrow> board_link \<Rightarrow> string \<Rightarrow> ('s, string) lark" where
  "board_token_of v link url =
     bind_eff (case ln_base link of
         Some t \<Rightarrow> of_result (Inr (Some t))
       | None \<Rightarrow> (case ln_wiki link of
           None \<Rightarrow> of_result (Inr None)
         | Some wiki \<Rightarrow> bind_eff (read_eff (\<lambda>s. newest_first (lw_identities s))) (\<lambda>xs. resolve_wiki v wiki url xs None)))
     (\<lambda>found. of_result (case found of
        None \<Rightarrow> Inl (ValueError ''a valid Feishu/Lark Bitable URL is required'') | Some t \<Rightarrow> Inr t))"

definition deleted_resource :: "string \<Rightarrow> bool" where
  "deleted_resource e \<longleftrightarrow> contains_text e ''131005'' \<and> contains_text (map lower_char e) ''not found''"

text \<open>The link leads to the resource that is configured.\<close>

definition same_resource :: "board_link \<Rightarrow> lark_board \<Rightarrow> bool" where
  "same_resource link b \<longleftrightarrow>
     ln_wiki link \<noteq> None \<and> ln_wiki link = ln_wiki (parse_lark_bitable_url (bd_url b)) \<or>
     ln_base link \<noteq> None \<and> ln_base link = bd_token b"

definition note_deleted :: "board_link \<Rightarrow> string \<Rightarrow> int \<Rightarrow> 's lark_world \<Rightarrow> 's lark_world" where
  "note_deleted link e t s =
     (case lw_board s of
        None \<Rightarrow> s
      | Some b \<Rightarrow>
          if same_resource link b
          then s\<lparr>lw_access := [], lw_board := Some (b\<lparr>bd_access := ''unavailable'', bd_verified := None, bd_error := Some e, bd_updated := t\<rparr>)\<rparr>
          else s)"

definition configure_lark_board :: "(nat \<Rightarrow> string) \<Rightarrow> 's lark_service \<Rightarrow> string \<Rightarrow> ('s, string) lark" where
  "configure_lark_board hex v url0 =
     (let url = strip url0; link = parse_lark_bitable_url (Some url) in
      catch_eff
        (bind_eff (board_token_of v link url) (\<lambda>t.
         stamp v (upsert_lark_board hex None (Some url) (Some t) (ln_table link) (ln_view link))))
        (\<lambda>e. if is_value_error e \<and> deleted_resource (error_text e)
             then bind_eff (stamp v (\<lambda>t s. ((), note_deleted link (error_text e) t s))) (\<lambda>_. of_result (Inl e))
             else of_result (Inl e)))"

text \<open>The name of a new board, from the one asked for or from the name of the project; names in Chinese as UTF-8 bytes.\<close>

definition new_board_name :: "string \<Rightarrow> string \<Rightarrow> string" where
  "new_board_name project name =
     (if strip name \<noteq> [] then strip name
      else project @
        (if ends_with project [CHR 0xE9, CHR 0xA1, CHR 0xB9, CHR 0xE7, CHR 0x9B, CHR 0xAE] then []
         else [CHR 0xE9, CHR 0xA1, CHR 0xB9, CHR 0xE7, CHR 0x9B, CHR 0xAE]) @
        [CHR 0xE7, CHR 0x9C, CHR 0x8B, CHR 0xE6, CHR 0x9D, CHR 0xBF])"

text \<open>A user who is no longer the one authorized is marked before the error goes on.\<close>

definition check_active_user :: "'s lark_service \<Rightarrow> lark_identity \<Rightarrow> ('s, unit) lark" where
  "check_active_user v x =
     bind_eff (run_lark_cli_json v [''auth'', ''status'', ''--verify'']) (\<lambda>status.
     case andthen (lark_user_status_values status (li_open_id x)) (\<lambda>(app, _).
            if Some app \<noteq> li_app x
            then Inl (ValueError (''lark-cli is authorized for '' @ app @ '', but this identity uses '' @
                   (case li_app x of None \<Rightarrow> ''None'' | Some a \<Rightarrow> a)))
            else Inr ()) of
       Inr u \<Rightarrow> of_result (Inr u)
     | Inl e \<Rightarrow>
         if is_value_error e then
           bind_eff (stamp v (\<lambda>t s. ((), update_identity (li_id x) (unavailable_user status (error_text e) t) s))) (\<lambda>_. of_result (Inl e))
         else of_result (Inl e))"

definition request_new_base :: "'s lark_service \<Rightarrow> lark_identity \<Rightarrow> string \<Rightarrow> string \<Rightarrow> ('s, dict) lark" where
  "request_new_base v x domain name =
     (if li_auth x = ''user'' then
        bind_eff (check_active_user v x) (\<lambda>_. run_lark_cli_json v [''base'', ''+base-create'', ''--as'', ''user'', ''--name'', name])
      else let origin = brand_origin domain in
        bind_eff (bot_token v origin x) (\<lambda>t.
        bind_eff (post_json v (origin @ ''/open-apis/base/v3/bases'') [(''name'', JStr name)] [(''Authorization'', ''Bearer '' @ t)]) (\<lambda>(payload, err).
        of_result (if option_text err \<noteq> [] then Inl (ValueError (option_text err)) else Inr payload))))"

definition created_base :: "dict \<Rightarrow> dict" where
  "created_base payload =
     (let data = as_dict (dget payload ''data'') in as_dict (py_or (dget payload ''base'') (py_or (dget data ''base'') (JObj data))))"

definition create_lark_board ::
  "(nat \<Rightarrow> string) \<Rightarrow> 's lark_service \<Rightarrow> string \<Rightarrow> string \<Rightarrow> string \<Rightarrow> string \<Rightarrow> ('s, string \<times> string option) lark" where
  "create_lark_board hex v project i domain name =
     bind_eff (read_eff (find_identity i)) (\<lambda>found.
     case found of
       None \<Rightarrow> of_result (Inl identity_not_found)
     | Some x \<Rightarrow>
         if \<not> lark_identity_is_usable x then of_result (Inl (ValueError ''lark identity is unavailable''))
         else bind_eff (request_new_base v x domain (new_board_name project name)) (\<lambda>payload.
              let base = created_base payload;
                  url = text_option (py_or (dget base ''url'') (dget base ''app_url''));
                  token = py_or (dget base ''base_token'') (py_or (dget base ''app_token'') (dget base ''token''))
              in if \<not> truthy token then of_result (Inl (ValueError ''Bitable creation did not return a token''))
                 else bind_eff (read_eff (known_identity i)) (\<lambda>known.
                   if \<not> known then of_result (Inl foreign_key_error)
                   else stamp v (\<lambda>t s. let (b, s') = upsert_lark_board hex (Some i) url (Some (py_str token)) None None t s in ((b, url), s')))))"

end
