(* ===== verification/Accounts_Properties.thy ===== *)
theory Accounts_Properties
  imports Board_Setup Lark_Accounts Verification_Properties
begin

text \<open>
  What the operations on the Lark identities and on the board keep of their rows: ids stay unique, an outcome
  belongs to an identity that is there, and the board names no other one as its primary identity.
\<close>

section \<open>Requests that keep a property of the rows\<close>

definition serves :: "('s lark_world \<Rightarrow> bool) \<Rightarrow> 's lark_service \<Rightarrow> bool" where
  "serves P v \<longleftrightarrow> (\<forall>args. preserves P (sv_cli v args)) \<and> (\<forall>q. preserves P (sv_http v q)) \<and> preserves P (sv_pause v) \<and>
     (\<forall>s t. P s \<longrightarrow> P (s\<lparr>lw_token := t\<rparr>))"

named_theorems client_keeps

lemma keeps_cli [client_keeps]: "serves P v \<Longrightarrow> preserves P (run_lark_cli_json v args)"
  unfolding run_lark_cli_json_def by (intro preserves_intros) (simp add: serves_def)

lemma keeps_json [client_keeps]: "serves P v \<Longrightarrow> preserves P (read_json v q)"
  unfolding read_json_def by (intro preserves_intros) (simp add: serves_def)

lemma keeps_post [client_keeps]: "serves P v \<Longrightarrow> preserves P (post_json v url body hs)"
  unfolding post_json_def by (rule keeps_json)

lemma keeps_get [client_keeps]: "serves P v \<Longrightarrow> preserves P (get_json v url hs)"
  unfolding get_json_def by (rule keeps_json)

lemma keeps_pause [client_keeps]: "serves P v \<Longrightarrow> preserves P (sv_pause v)"
  by (simp add: serves_def)

lemma keeps_token_write [client_keeps]: "serves P v \<Longrightarrow> preserves P (write_eff (\<lambda>s. s\<lparr>lw_token := t\<rparr>))"
  by (simp add: serves_def preserves_write)

lemma preserves_prod' [preserves_intros]: "(\<And>a b. preserves P (f a b)) \<Longrightarrow> preserves P (case x of (a, b) \<Rightarrow> f a b)"
  by (cases x) simp

lemma preserves_prod_fun [preserves_intros]:
  "(\<And>a b. preserves P (f a b c)) \<Longrightarrow> preserves P ((case x of (a, b) \<Rightarrow> f a b) c)"
  by (cases x) simp

lemma keeps_open [client_keeps]: "serves P v \<Longrightarrow> preserves P (open_client v i b)"
  unfolding open_client_def by (intro preserves_intros client_keeps)

lemma keeps_tenant_token [client_keeps]: "serves P v \<Longrightarrow> preserves P (tenant_token v c)"
  unfolding tenant_token_def Let_def by (intro preserves_intros client_keeps)

lemma keeps_bot [client_keeps]: "serves P v \<Longrightarrow> preserves P (bot_request v c verb path query body)"
  unfolding bot_request_def by (intro preserves_intros client_keeps)

lemma keeps_user [client_keeps]: "serves P v \<Longrightarrow> preserves P (user_command v c name args)"
  unfolding user_command_def by (intro preserves_intros client_keeps)

lemma keeps_errors: "preserves P m \<Longrightarrow> preserves P (lark_errors m)"
  unfolding lark_errors_def by (intro preserves_intros)

lemma keeps_api [client_keeps]: "serves P v \<Longrightarrow> preserves P (user_api v verb path query body)"
  unfolding user_api_def by (intro preserves_intros keeps_errors client_keeps)

lemma keeps_either [client_keeps]: "serves P v \<Longrightarrow> preserves P (either_request v c name args verb parts query body)"
  unfolding either_request_def by (intro preserves_intros client_keeps)

lemma keeps_document [client_keeps]: "serves P v \<Longrightarrow> preserves P (check_document_permission v c action)"
  unfolding check_document_permission_def by (intro preserves_intros keeps_errors client_keeps)

lemma keeps_requests [client_keeps]:
  assumes "serves P v"
  shows "preserves P (add_collaborator v c x)" and "preserves P (get_bot_info v c)" and "preserves P (get_base v c)"
    and "preserves P (get_file_metadata v c)" and "preserves P (authenticate v c)" and "preserves P (list_tables v c)"
    and "preserves P (list_fields v c t)" and "preserves P (list_views v c t)" and "preserves P (create_table v c x y)"
    and "preserves P (update_table v c t x)" and "preserves P (get_field v c t j)" and "preserves P (create_field v c t spec)"
    and "preserves P (update_field v c t j spec)" and "preserves P (create_view v c t x)" and "preserves P (rename_view v c t x y)"
    and "preserves P (set_view_group v c t x y)" and "preserves P (list_records v c t view k off)"
    and "preserves P (get_record v c t x)" and "preserves P (upsert_record v c t payload rid token)" and "preserves P (delete_record v c t x)"
  unfolding add_collaborator_def get_bot_info_def get_base_def get_file_metadata_def authenticate_def list_tables_def
    list_fields_def list_views_def create_table_def update_table_def get_field_def create_field_def update_field_def
    create_view_def rename_view_def set_view_group_def list_records_def get_record_def upsert_record_def delete_record_def Let_def
  by (intro preserves_intros client_keeps assms)+

lemma keeps_table [client_keeps]: "serves P v \<Longrightarrow> preserves P (get_table v c t)"
  unfolding get_table_def by (intro preserves_intros client_keeps)

lemma keeps_open_id [client_keeps]: "serves P v \<Longrightarrow> preserves P (identity_open_id v c)"
  unfolding identity_open_id_def by (intro preserves_intros client_keeps)

lemma keeps_retry [client_keeps]: "serves P v \<Longrightarrow> preserves P m \<Longrightarrow> preserves P (retry_read n v m)"
  by (induction n) (auto intro!: preserves_intros client_keeps)

lemma keeps_retry_group [client_keeps]: "serves P v \<Longrightarrow> preserves P m \<Longrightarrow> preserves P (retry_group n v m)"
  by (induction n) (auto intro!: preserves_intros client_keeps)

lemma keeps_read_new [client_keeps]: "serves P v \<Longrightarrow> preserves P (read_new_record v c t rid)"
  unfolding read_new_record_def by (intro client_keeps)

lemma keeps_complete [client_keeps]: "serves P v \<Longrightarrow> preserves P (complete_options v c t spec f)"
  unfolding complete_options_def by (intro preserves_intros client_keeps)

lemma keeps_ensure_field [client_keeps]: "serves P v \<Longrightarrow> preserves P (ensure_field v c t aliases s fs)"
  by (cases s) (auto simp: ensure_field_def intro!: preserves_intros client_keeps)

lemma keeps_ensure [client_keeps]: "serves P v \<Longrightarrow> preserves P (ensure_task_fields v c t aliases specs fs)"
  by (induction specs arbitrary: fs) (auto intro!: preserves_intros client_keeps)

lemma keeps_ensure_resolved [client_keeps]: "serves P v \<Longrightarrow> preserves P (ensure_resolved v c t aliases specs fs acc)"
  by (induction specs arbitrary: fs acc) (auto intro!: preserves_intros client_keeps)

lemma keeps_empty_records: "(\<And>off. preserves P (page off)) \<Longrightarrow> preserves P (empty_records n page off found)"
  by (induction n arbitrary: off found) (auto intro!: preserves_intros)

lemma keeps_reusable [client_keeps]: "serves P v \<Longrightarrow> preserves P (reusable_empty_records n v c b)"
  unfolding reusable_empty_records_def by (intro preserves_intros keeps_empty_records client_keeps)

lemma keeps_search [client_keeps]: "serves P v \<Longrightarrow> preserves P (search_tables n v c specs ts found)"
  by (induction ts arbitrary: found) (auto intro!: preserves_intros client_keeps)

lemma keeps_initialization_table [client_keeps]: "serves P v \<Longrightarrow> preserves P (initialization_table n v c b tables specs)"
  unfolding initialization_table_def read_table_def by (intro preserves_intros client_keeps)

lemma keeps_settle_table [client_keeps]: "serves P v \<Longrightarrow> preserves P (settle_table v c t names bundle empties)"
  unfolding settle_table_def named_table_def delete_empty_def by (intro preserves_intros client_keeps)

lemma keeps_name_primary [client_keeps]: "serves P v \<Longrightarrow> preserves P (name_primary v c t names adopted bundle)"
  unfolding name_primary_def by (intro preserves_intros client_keeps)

lemma keeps_settle_view [client_keeps]: "serves P v \<Longrightarrow> preserves P (settle_view v c t names bundle)"
  unfolding settle_view_def by (intro preserves_intros client_keeps)

lemma keeps_board_reading [client_keeps]: "serves P v \<Longrightarrow> preserves P (read_board_access v c b loaded tables)"
  unfolding read_board_access_def Let_def by (intro preserves_intros client_keeps)

lemma keeps_app_info [client_keeps]: "serves P v \<Longrightarrow> preserves P (fetch_lark_app_info v app secret domain)"
  unfolding fetch_lark_app_info_def Let_def by (intro preserves_intros client_keeps)

lemma keeps_bot_token [client_keeps]: "serves P v \<Longrightarrow> preserves P (bot_token v origin x)"
  unfolding bot_token_def Let_def by (intro preserves_intros client_keeps)

lemma keeps_wiki [client_keeps]: "serves P v \<Longrightarrow> preserves P (resolve_lark_wiki_bitable v x wiki url)"
  unfolding resolve_lark_wiki_bitable_def Let_def by (intro preserves_intros client_keeps)

lemma keeps_resolve [client_keeps]: "serves P v \<Longrightarrow> preserves P (resolve_wiki v wiki url xs problem)"
  by (induction xs arbitrary: problem) (auto intro!: preserves_intros client_keeps)

lemma keeps_token_of [client_keeps]: "serves P v \<Longrightarrow> preserves P (board_token_of v link url)"
  unfolding board_token_of_def by (intro preserves_intros client_keeps)

section \<open>Rows that stay consistent\<close>

text \<open>Fresh suffixes: different ones at different times, and none that looks like a marker of a user.\<close>

definition fresh_suffixes :: "(nat \<Rightarrow> string) \<Rightarrow> bool" where
  "fresh_suffixes hex \<longleftrightarrow> inj hex \<and> (\<forall>n m. hex n \<noteq> ''user_'' @ hex m)"

definition accounts_ok :: "(nat \<Rightarrow> string) \<Rightarrow> 's lark_world \<Rightarrow> bool" where
  "accounts_ok hex s \<longleftrightarrow> distinct (map li_id (lw_identities s)) \<and>
     (\<forall>n \<ge> lw_uuids s. \<not> known_identity (''lark_'' @ hex n) s \<and> \<not> known_identity (''lark_user_'' @ hex n) s) \<and>
     distinct (map ac_identity (lw_access s)) \<and> (\<forall>a \<in> set (lw_access s). known_identity (ac_identity a) s) \<and>
     (lw_board s = None \<longrightarrow> lw_access s = []) \<and>
     (\<forall>b p. lw_board s = Some b \<longrightarrow> bd_primary b = Some p \<longrightarrow> known_identity p s)"

lemma accounts_frame:
  assumes "accounts_ok hex s" and "map li_id (lw_identities s') = map li_id (lw_identities s)" and "lw_uuids s' = lw_uuids s"
    and "lw_access s' = lw_access s \<or> lw_access s' = []"
    and "map_option bd_primary (lw_board s') = map_option bd_primary (lw_board s)"
  shows "accounts_ok hex s'"
proof -
  have known: "known_identity i s' = known_identity i s" for i
    using assms(2) unfolding known_identity_def by (metis image_set)
  show ?thesis using assms unfolding accounts_ok_def known
    by (cases "lw_board s"; cases "lw_board s'") auto
qed

lemma ids_update: "(\<And>x. li_id (f x) = li_id x) \<Longrightarrow> map li_id (update_where P f xs) = map li_id xs"
  by (simp add: update_where_def)

lemma update_identity_ok:
  "accounts_ok hex s \<Longrightarrow> (\<And>x. li_id (f x) = li_id x) \<Longrightarrow> accounts_ok hex (update_identity i f s)"
  by (rule accounts_frame [of hex s]) (auto simp: update_identity_def ids_update)

lemma new_identity_ok:
  assumes "fresh_suffixes hex" and "accounts_ok hex s"
    and "li_id x = ''lark_'' @ hex (lw_uuids s) \<or> li_id x = ''lark_user_'' @ hex (lw_uuids s)"
  shows "accounts_ok hex (s\<lparr>lw_identities := lw_identities s @ [x], lw_uuids := Suc (lw_uuids s)\<rparr>)"
proof -
  let ?s = "s\<lparr>lw_identities := lw_identities s @ [x], lw_uuids := Suc (lw_uuids s)\<rparr>"
  have known: "known_identity i ?s \<longleftrightarrow> i = li_id x \<or> known_identity i s" for i by (auto simp: known_identity_def)
  have new: "\<not> known_identity (li_id x) s" using assms(2,3) by (auto simp: accounts_ok_def)
  have fresh: "hex n \<noteq> hex m" if "n \<noteq> m" for n m using assms(1) that by (auto simp: fresh_suffixes_def inj_def)
  have user: "hex n \<noteq> ''user_'' @ hex m" for n m using assms(1) by (simp add: fresh_suffixes_def)
  have later: "''lark_'' @ hex n \<noteq> li_id x \<and> ''lark_user_'' @ hex n \<noteq> li_id x" if "n \<ge> Suc (lw_uuids s)" for n
    using assms(3) fresh [of n "lw_uuids s"] user [of n "lw_uuids s"] user [of "lw_uuids s" n] that by auto
  show ?thesis
    using assms(2) new later unfolding accounts_ok_def known by (auto simp: known_identity_def)
qed

lemma upsert_identity_ok:
  assumes "fresh_suffixes hex" and "accounts_ok hex s"
  shows "accounts_ok hex (snd (upsert_lark_identity hex auth app a t s))"
proof (cases "List.find (\<lambda>x. li_auth x = auth \<and> option_text (li_app x) = option_text app) (lw_identities s)")
  case None
  then show ?thesis
    by (simp add: upsert_lark_identity_def Let_def new_identity_ok [OF assms] put_facts_def blank_identity_def)
next
  case (Some x)
  then show ?thesis
    by (simp add: upsert_lark_identity_def put_facts_def update_identity_ok [OF assms(2)])
qed

lemma upsert_user_ok:
  assumes "fresh_suffixes hex" and "accounts_ok hex s"
  shows "accounts_ok hex (snd (upsert_lark_user_identity hex app open_id name avatar t s))"
proof (cases "newest_first (filter (\<lambda>x. li_auth x = ''user'') (lw_identities s))")
  case Nil
  then show ?thesis
    by (simp add: upsert_lark_user_identity_def Let_def new_identity_ok [OF assms] put_user_def blank_identity_def)
next
  case (Cons x xs)
  then show ?thesis
    by (simp add: upsert_lark_user_identity_def put_user_def update_identity_ok [OF assms(2)])
qed

lemma upsert_board_ok:
  assumes "accounts_ok hex s" and "case primary of None \<Rightarrow> True | Some p \<Rightarrow> known_identity p s"
  shows "accounts_ok hex (snd (upsert_lark_board hex primary url token table view t s))"
proof -
  have known: "known_identity i (s\<lparr>lw_board := b, lw_access := a\<rparr>) = known_identity i s"
    "known_identity i (s\<lparr>lw_board := b, lw_uuids := n\<rparr>) = known_identity i s" for i b a n
    by (simp_all add: known_identity_def)
  show ?thesis
    using assms
    by (auto simp: upsert_lark_board_def accounts_ok_def Let_def known fresh_board_def split: option.splits)
qed

lemma remove_ok:
  assumes "accounts_ok hex s"
  shows "accounts_ok hex (snd (remove_lark_identity i s))"
proof -
  have known: "known_identity j (snd (remove_lark_identity i s)) \<longleftrightarrow> j \<noteq> i \<and> known_identity j s" for j
    by (auto simp: known_identity_def remove_lark_identity_def)
  show ?thesis
    using assms unfolding accounts_ok_def known
    by (cases "lw_board s"; cases "bd_primary (the (lw_board s)) = Some i")
      (auto simp: remove_lark_identity_def distinct_map_filter)
qed

section \<open>Operations that keep the rows consistent\<close>

lemma preserves_stamp: "(\<And>t s. P s \<Longrightarrow> P (snd (f t s))) \<Longrightarrow> preserves P (stamp v f)"
  by (auto simp: preserves_def stamp_def split: prod.splits) (metis snd_conv)

lemma preserves_state_part: "(\<And>s. P s \<Longrightarrow> P (snd (m s))) \<Longrightarrow> preserves P m"
  by (simp add: preserves_def)

lemma serves_accounts:
  "(\<And>args. preserves (accounts_ok hex) (sv_cli v args)) \<Longrightarrow> (\<And>q. preserves (accounts_ok hex) (sv_http v q)) \<Longrightarrow>
   preserves (accounts_ok hex) (sv_pause v) \<Longrightarrow> serves (accounts_ok hex) v"
  unfolding serves_def by (auto intro: accounts_frame)

lemma keeps_configure_identity:
  assumes "fresh_suffixes hex" and "serves (accounts_ok hex) v"
  shows "preserves (accounts_ok hex) (configure_lark_identity hex v app secret domain)"
proof -
  have put: "accounts_ok hex (snd (case upsert_lark_identity hex auth k a t s of
      (i, s') \<Rightarrow> ((i, err), if c then identity_error i e t s' else s')))"
    if "accounts_ok hex s" for s :: "'a lark_world" and auth k a t c e and err :: "string option"
  proof -
    obtain i s' where up: "upsert_lark_identity hex auth k a t s = (i, s')" by (metis prod.collapse)
    then have "accounts_ok hex s'" using upsert_identity_ok [OF assms(1) that] by (metis snd_conv)
    then show ?thesis by (simp add: up identity_error_def update_identity_ok)
  qed
  show ?thesis
    unfolding configure_lark_identity_def Let_def
    by (intro preserves_intros client_keeps assms(2) preserves_stamp put)
qed

lemma keeps_refresh_identity:
  assumes "serves (accounts_ok hex) v"
  shows "preserves (accounts_ok hex) (refresh_lark_identity v i domain)"
  unfolding refresh_lark_identity_def Let_def
  by (intro preserves_intros client_keeps assms preserves_stamp) (simp add: identity_error_def update_identity_ok)

lemma keeps_verify_user:
  assumes "fresh_suffixes hex"
  shows "preserves (accounts_ok hex) (verify_lark_user_identity hex v status profile)"
proof -
  have "accounts_ok hex s \<Longrightarrow> accounts_ok hex (s\<lparr>lw_identities := update_where P (unavailable_user status e t) (lw_identities s)\<rparr>)"
    for s :: "'a lark_world" and P e t
    by (rule accounts_frame [of hex s]) (simp_all add: ids_update unavailable_user_def)
  then show ?thesis
    unfolding verify_lark_user_identity_def Let_def
    by (auto split: sum.splits prod.splits intro!: preserves_intros preserves_stamp upsert_user_ok [OF assms])
qed

lemma keeps_configure_board:
  assumes "serves (accounts_ok hex) v"
  shows "preserves (accounts_ok hex) (configure_lark_board hex v url)"
proof -
  have "accounts_ok hex s \<Longrightarrow> accounts_ok hex (note_deleted link e t s)" for s :: "'a lark_world" and link e t
    by (rule accounts_frame [of hex s]) (auto simp: note_deleted_def split: option.splits)
  then show ?thesis
    unfolding configure_lark_board_def Let_def
    by (intro preserves_intros client_keeps assms preserves_stamp upsert_board_ok) simp_all
qed

lemma keeps_create_board:
  assumes "serves (accounts_ok hex) v"
  shows "preserves (accounts_ok hex) (create_lark_board hex v project i domain name)"
proof -
  have user: "preserves (accounts_ok hex) (check_active_user v x)" for x
    unfolding check_active_user_def
    by (auto split: sum.splits intro!: preserves_intros client_keeps assms preserves_stamp update_identity_ok simp: unavailable_user_def)
  have new: "preserves (accounts_ok hex) (request_new_base v x domain k)" for x k
    unfolding request_new_base_def Let_def by (intro preserves_intros client_keeps assms user)
  have put: "preserves (accounts_ok hex) (bind_eff (read_eff (known_identity i)) (\<lambda>known.
      if \<not> known then of_result (Inl foreign_key_error)
      else stamp v (\<lambda>t s. case upsert_lark_board hex (Some i) url k None None t s of (b, s') \<Rightarrow> ((b, url), s'))))" for url k
  proof (rule preserves_state_part)
    fix s :: "'a lark_world" assume ok: "accounts_ok hex s"
    show "accounts_ok hex (snd (bind_eff (read_eff (known_identity i)) (\<lambda>known.
      if \<not> known then of_result (Inl foreign_key_error)
      else stamp v (\<lambda>t s. case upsert_lark_board hex (Some i) url k None None t s of (b, s') \<Rightarrow> ((b, url), s'))) s))"
      using ok upsert_board_ok [OF ok, of "Some i" url k None None "sv_time v s"]
      by (auto simp: stamp_def split: prod.splits)
  qed
  show ?thesis
    unfolding create_lark_board_def Let_def by (intro preserves_intros client_keeps assms new put)
qed

text \<open>What a verification keeps of the rows goes by its requests alone.\<close>

definition on_rows :: "('s lark_world \<Rightarrow> bool) \<Rightarrow> 's lark_world \<times> verification \<Rightarrow> bool" where
  "on_rows P x \<longleftrightarrow> P (fst x)"

lemma asking_keeps: "preserves P m \<Longrightarrow> preserves (on_rows P) (asking m)"
  by (auto simp: preserves_def asking_def on_rows_def split: prod.splits)

lemma locally_keeps: "preserves (on_rows P) (locally g)"
  by (simp add: preserves_def locally_def on_rows_def split: prod.splits)

lemma noting_keeps:
  "preserves (on_rows P) (mark c st)" "preserves (on_rows P) (in_result g)" "preserves (on_rows P) (enter_stage c st)"
  by (auto simp: mark_def in_result_def enter_stage_def intro!: preserves_intros locally_keeps)

lemma keeps_run_checks:
  assumes "serves P v"
  shows "preserves (on_rows P) (run_checks v b loaded i)"
proof -
  have owner: "preserves (on_rows P) (find_owner v c)" for c
    unfolding find_owner_def Let_def by (intro preserves_intros asking_keeps noting_keeps client_keeps assms)
  have collaborator: "preserves (on_rows P) (check_collaborator v c)" for c
    unfolding check_collaborator_def by (intro preserves_intros asking_keeps noting_keeps client_keeps assms)
  have probe: "preserves (on_rows P) (write_probe v c t)" for c t
    unfolding write_probe_def Let_def by (intro preserves_intros asking_keeps noting_keeps locally_keeps client_keeps assms)
  have cleanup: "preserves (on_rows P) (delete_probe v c t)" for c t
    unfolding delete_probe_def by (intro preserves_intros asking_keeps noting_keeps locally_keeps client_keeps assms)
  have errors: "preserves (on_rows P) raise_probe_errors"
    unfolding raise_probe_errors_def by (intro preserves_intros locally_keeps)
  show ?thesis
    unfolding run_checks_def
    by (intro preserves_intros asking_keeps noting_keeps client_keeps assms owner collaborator probe cleanup errors)
qed

lemma keeps_verify_identity [client_keeps]:
  assumes "serves P v"
  shows "preserves P (verify_lark_identity v b loaded i)"
proof (rule preserves_state_part)
  fix s assume P: "P s"
  obtain r w f where run: "run_checks v b loaded i (s, fresh_verification (li_id i)) = (r, (w, f))" by (metis prod.collapse)
  have "on_rows P (w, f)" by (rule preservesD [OF keeps_run_checks [OF assms] run]) (simp add: on_rows_def P)
  then show "P (snd (verify_lark_identity v b loaded i s))" by (simp add: verify_lark_identity_def run on_rows_def)
qed

lemma keeps_save_access: "preserves (accounts_ok hex) (save_or_complain b r)"
proof (rule preserves_state_part)
  fix s :: "'a lark_world" assume ok: "accounts_ok hex s"
  have known: "known_identity i (s\<lparr>lw_access := x\<rparr>) = known_identity i s" for i x by (simp add: known_identity_def)
  have ids: "map ac_identity (put_access r xs) = (if ac_identity r \<in> ac_identity ` set xs then map ac_identity xs else map ac_identity xs @ [ac_identity r])"
    for xs by (auto simp: put_access_def update_where_def access_row_def)
  then have set_ids: "ac_identity ` set (put_access r xs) = insert (ac_identity r) (ac_identity ` set xs)" for xs
    by (metis (no_types) image_set insert_absorb list.set(2) set_append Un_insert_right append_Nil2 sup_bot_right list.set(1))
  have put: "accounts_ok hex (s\<lparr>lw_access := put_access r (lw_access s)\<rparr>)" if "known_identity (ac_identity r) s" "lw_board s \<noteq> None"
  proof -
    have "\<forall>a \<in> set (put_access r (lw_access s)). known_identity (ac_identity a) s"
    proof
      fix a assume "a \<in> set (put_access r (lw_access s))"
      then have "ac_identity a \<in> insert (ac_identity r) (ac_identity ` set (lw_access s))" using set_ids by blast
      then show "known_identity (ac_identity a) s" using ok that(1) by (auto simp: accounts_ok_def)
    qed
    then show ?thesis using ok that(2) unfolding accounts_ok_def known by (auto simp: ids)
  qed
  show "accounts_ok hex (snd (save_or_complain b r s))"
    using ok put by (auto simp: save_or_complain_def run_bind save_identity_access_def same_board_resource_def split: option.splits)
qed

lemma accounts_board:
  assumes ok: "accounts_ok hex s" and prim: "\<And>p. bd_primary b = Some p \<Longrightarrow> known_identity p s"
  shows "accounts_ok hex (s\<lparr>lw_board := Some b\<rparr>)"
proof -
  have known: "known_identity i (s\<lparr>lw_board := x\<rparr>) = known_identity i s" for i x by (simp add: known_identity_def)
  from ok have "distinct (map li_id (lw_identities s))"
    and "\<forall>n \<ge> lw_uuids s. \<not> known_identity (''lark_'' @ hex n) s \<and> \<not> known_identity (''lark_user_'' @ hex n) s"
    and "distinct (map ac_identity (lw_access s))" and "\<forall>a \<in> set (lw_access s). known_identity (ac_identity a) s"
    unfolding accounts_ok_def by blast+
  then show ?thesis unfolding accounts_ok_def known using prim by (simp del: append.simps)
qed

lemma summarized_ok:
  assumes "accounts_ok hex s" and "case primary of None \<Rightarrow> True | Some p \<Rightarrow> known_identity p s"
  shows "accounts_ok hex (s\<lparr>lw_board := map_option (summarized_board primary rd st er t) (lw_board s)\<rparr>)"
proof (cases "lw_board s")
  case None
  then have "s\<lparr>lw_board := map_option (summarized_board primary rd st er t) (lw_board s)\<rparr> = s" by simp
  then show ?thesis using assms(1) by metis
next
  case (Some b)
  have "bd_primary (summarized_board primary rd st er t b) = primary" by (simp add: summarized_board_def Let_def)
  then show ?thesis using accounts_board [OF assms(1), of "summarized_board primary rd st er t b"] assms(2) Some by (cases primary) simp_all
qed

lemma keeps_verify_board:
  assumes "serves (accounts_ok hex) v"
  shows "preserves (accounts_ok hex) (verify_lark_board v loaded wanted order)"
proof -
  have sum: "preserves (accounts_ok hex) (update_board_access_summary v b results)" for b results
  proof (rule preserves_state_part)
    fix s :: "'a lark_world" assume "accounts_ok hex s"
    then show "accounts_ok hex (snd (update_board_access_summary v b results s))"
      by (auto simp: update_board_access_summary_def Let_def split: option.splits intro!: summarized_ok)
  qed
  show ?thesis
    unfolding verify_lark_board_def Let_def
    by (intro preserves_intros client_keeps assms sum keeps_save_access) (simp add: preserves_def)
qed

lemma keeps_grant_by [client_keeps]: "serves P v \<Longrightarrow> preserves P (grant_by v b open_id gs why)"
  by (induction gs arbitrary: why) (auto intro!: preserves_intros client_keeps)

lemma keeps_grant:
  assumes "serves (accounts_ok hex) v"
  shows "preserves (accounts_ok hex) (grant_lark_board_access v loaded i order)"
  unfolding grant_lark_board_access_def grantee_open_id_def
  by (intro preserves_intros client_keeps assms keeps_verify_board)

lemma keeps_board_row: "(\<And>b. bd_primary (f b) = bd_primary b) \<Longrightarrow> preserves (accounts_ok hex) (update_board f)"
  unfolding update_board_def by (rule preserves_write, rule accounts_frame) (auto simp: option.map_comp comp_def)

lemma keeps_success: "preserves (accounts_ok hex) (save_board_success v t w url)"
  unfolding save_board_success_def by (intro preserves_intros keeps_board_row) simp

lemma keeps_failure: "preserves (accounts_ok hex) (save_board_failure v e)"
  unfolding save_board_failure_def by (intro preserves_intros keeps_board_row) simp

lemma keeps_noting: "preserves (accounts_ok hex) m \<Longrightarrow> preserves (accounts_ok hex) (noting_failure v m)"
  unfolding noting_failure_def by (intro preserves_intros keeps_failure)

lemma keeps_initialize:
  assumes "serves (accounts_ok hex) v"
  shows "preserves (accounts_ok hex) (initialize_lark_board n v loaded asked def_prefix)"
  unfolding initialize_lark_board_def set_up_board_def Let_def
  by (intro preserves_intros client_keeps assms keeps_success keeps_failure) (simp_all add: preserves_def)

lemma keeps_cards:
  assumes "serves (accounts_ok hex) v"
  shows "preserves (accounts_ok hex) (list_lark_tasks v w limit off)" and "preserves (accounts_ok hex) (get_lark_task v w rid)"
    and "preserves (accounts_ok hex) (upsert_lark_task v w task mrid token)"
proof -
  have ctx: "preserves (accounts_ok hex) (card_context v w)"
    unfolding card_context_def Let_def by (intro preserves_intros client_keeps assms) (simp add: preserves_def)
  note steps = preserves_intros client_keeps assms ctx keeps_noting keeps_success
  show "preserves (accounts_ok hex) (list_lark_tasks v w limit off)" unfolding list_lark_tasks_def note_success_def by (intro steps)
  show "preserves (accounts_ok hex) (get_lark_task v w rid)" unfolding get_lark_task_def note_success_def by (intro steps)
  show "preserves (accounts_ok hex) (upsert_lark_task v w task mrid token)"
    unfolding upsert_lark_task_def note_success_def Let_def by (intro steps)
qed

section \<open>Runs of operations\<close>

text \<open>The operations of the settings page, the tools and the command line on the rows of a workspace, in any order.\<close>

inductive account_step :: "(nat \<Rightarrow> string) \<Rightarrow> 's lark_service \<Rightarrow> 's lark_world \<Rightarrow> 's lark_world \<Rightarrow> bool"
  for hex v where
  Step_Configure_Identity: "account_step hex v s (snd (configure_lark_identity hex v app secret domain s))"
| Step_Refresh_Identity: "account_step hex v s (snd (refresh_lark_identity v i domain s))"
| Step_Verify_User: "account_step hex v s (snd (verify_lark_user_identity hex v status profile s))"
| Step_Remove_Identity: "account_step hex v s (snd (remove_lark_identity i s))"
| Step_Configure_Board: "account_step hex v s (snd (configure_lark_board hex v url s))"
| Step_Create_Board: "account_step hex v s (snd (create_lark_board hex v project i domain name s))"
| Step_Verify_Board: "account_step hex v s (snd (verify_lark_board v loaded wanted order s))"
| Step_Grant: "account_step hex v s (snd (grant_lark_board_access v loaded i order s))"
| Step_Initialize: "account_step hex v s (snd (initialize_lark_board n v loaded asked def_prefix s))"
| Step_List: "account_step hex v s (snd (list_lark_tasks v loaded limit off s))"
| Step_Get: "account_step hex v s (snd (get_lark_task v loaded rid s))"
| Step_Upsert: "account_step hex v s (snd (upsert_lark_task v loaded task mrid token s))"

inductive account_run :: "(nat \<Rightarrow> string) \<Rightarrow> 's lark_service \<Rightarrow> 's lark_world \<Rightarrow> 's lark_world \<Rightarrow> bool"
  for hex v where
  run_start: "account_run hex v s s"
| run_step: "account_run hex v s s' \<Longrightarrow> account_step hex v s' s'' \<Longrightarrow> account_run hex v s s''"

lemma account_step_ok:
  assumes "account_step hex v s s'" and "fresh_suffixes hex" and "serves (accounts_ok hex) v" and "accounts_ok hex s"
  shows "accounts_ok hex s'"
  using assms(1)
  by cases
    (simp_all add: remove_ok [OF assms(4)]
      keeps_configure_identity [OF assms(2,3), unfolded preserves_def, rule_format, OF assms(4)]
      keeps_refresh_identity [OF assms(3), unfolded preserves_def, rule_format, OF assms(4)]
      keeps_verify_user [OF assms(2), unfolded preserves_def, rule_format, OF assms(4)]
      keeps_configure_board [OF assms(3), unfolded preserves_def, rule_format, OF assms(4)]
      keeps_create_board [OF assms(3), unfolded preserves_def, rule_format, OF assms(4)]
      keeps_verify_board [OF assms(3), unfolded preserves_def, rule_format, OF assms(4)]
      keeps_grant [OF assms(3), unfolded preserves_def, rule_format, OF assms(4)]
      keeps_initialize [OF assms(3), unfolded preserves_def, rule_format, OF assms(4)]
      keeps_cards [OF assms(3), unfolded preserves_def, rule_format, OF assms(4)])

text \<open>C39: Over every run of the operations on identities, boards and cards the rows stay consistent: no two identities
  share an id, every stored outcome belongs to an identity that is there and to a board, none is stored twice, and
  the primary identity of the board is there. The service may do what it likes as long as it does not break this.
\<close>

theorem accounts_stay_consistent:
  assumes "account_run hex v s s'" and "fresh_suffixes hex" and "serves (accounts_ok hex) v" and "accounts_ok hex s"
  shows "accounts_ok hex s'"
  using assms(1) assms(4) by induction (auto intro: account_step_ok [OF _ assms(2,3)])

definition repeated_letter :: "nat \<Rightarrow> string" where
  "repeated_letter n = replicate n (CHR ''a'')"

lemma repeated_letter_fresh: "fresh_suffixes repeated_letter"
proof -
  have "inj repeated_letter" by (rule injI) (metis length_replicate repeated_letter_def)
  moreover have "repeated_letter n \<noteq> ''user_'' @ repeated_letter m" for n m
    by (cases n) (simp_all add: repeated_letter_def)
  ultimately show ?thesis by (simp add: fresh_suffixes_def)
qed

definition two_step_world :: "unit lark_world" where
  "two_step_world = snd (remove_lark_identity ''u'' (snd (verify_lark_board user_service (Inl (ValueError ''none'')) None rev user_world)))"

theorem accounts_stay_consistent_witness: "accounts_ok repeated_letter two_step_world"
proof (rule accounts_stay_consistent [of repeated_letter user_service user_world])
  show "account_run repeated_letter user_service user_world two_step_world"
    unfolding two_step_world_def by (rule run_step [OF run_step [OF run_start Step_Verify_Board] Step_Remove_Identity])
  show "serves (accounts_ok repeated_letter) user_service"
    by (rule serves_accounts) (simp_all add: user_service_def preserves_of_result)
  show "accounts_ok repeated_letter user_world"
    by (simp add: accounts_ok_def user_world_def known_identity_def user_identity_def user_board_def)
qed (rule repeated_letter_fresh)

text \<open>
  A board that is configured with a link to another base, table or view starts without outcomes and refuses cards
  until it was verified; a link to the same resource keeps its outcomes and its primary identity.
\<close>

theorem new_resource_starts_unverified:
  assumes "lw_board s = Some b" and "parse_lark_bitable_url (Some (strip url)) = link" and "ln_base link = Some k" and "k \<noteq> []"
  shows "\<exists>s'. configure_lark_board hex v url s = (Inr (bd_id b), s') \<and> map_option bd_access (lw_board s') = Some ''unverified'' \<and>
    (if resource_changed b (Some k) (ln_table link) (ln_view link)
     then lw_access s' = [] \<and> board_context s' = Inl (ValueError ''the configured Bitable owner or manager identity has not been selected'')
     else lw_access s' = lw_access s \<and>
       map_option (\<lambda>b'. nonempty (bd_primary b')) (lw_board s') = Some (nonempty (bd_primary b)))"
proof -
  have "configure_lark_board hex v url s = (case upsert_lark_board hex None (Some (strip url)) (Some k) (ln_table link) (ln_view link)
      (sv_time v s) s of (i, s') \<Rightarrow> (Inr i, s'))"
    using assms by (simp add: configure_lark_board_def Let_def board_token_of_def run_catch run_bind stamp_def split: prod.splits)
  then show ?thesis
    using assms(1,4)
    by (auto simp: upsert_lark_board_def Let_def fresh_board_def board_context_def option_text_def nonempty_def given_def)
qed

theorem new_resource_starts_unverified_witness:
  "lw_access (snd (configure_lark_board repeated_letter user_service ''https://x.feishu.cn/base/other'' user_world)) = []"
proof -
  have link: "parse_lark_bitable_url (Some (strip ''https://x.feishu.cn/base/other'')) =
     \<lparr>ln_base = Some ''other'', ln_wiki = None, ln_table = None, ln_view = None\<rparr>" by code_simp
  have "resource_changed user_board (Some ''other'') None None"
    by (simp add: resource_changed_def user_board_def nonempty_def given_def)
  then show ?thesis
    using new_resource_starts_unverified [OF _ link, of user_world user_board "''other''" repeated_letter user_service]
    by (auto simp: user_world_def)
qed

end
