(* ===== verification/Setup_Properties.thy ===== *)
theory Setup_Properties
  imports Board_Setup Board_Properties
begin

text \<open>
  What the initialization of a board leaves behind: the link it stores leads back to the table and the view it
  chose, and to the base of the link it was made from.
\<close>

section \<open>Queries that were written can be read\<close>

lemma upper_hex_safe: "n < 16 \<Longrightarrow> unreserved (upper_char (hex_digit n))"
  by (auto simp: hex_digit_def upper_char_def unreserved_def is_letter_def is_digit_def between_def Let_def)

lemma quote_plus_chars: "c \<in> set (quote_plus s) \<Longrightarrow> unreserved c \<or> c = CHR ''+'' \<or> c = CHR ''%''"
proof (induction s)
  case (Cons a s)
  have "unreserved x \<or> x = CHR ''%''" if "x \<in> set (url_hex a)" for x
    using that nat_of_char_less_256 [of a] by (auto simp: url_hex_def Let_def upper_hex_safe less_mult_imp_div_less)
  with Cons show ?case by (auto simp: quote_plus_def split: if_splits)
qed (simp add: quote_plus_def)

lemma quote_plus_safe: "c \<in> set ''&=#?/'' \<Longrightarrow> c \<notin> set (quote_plus s)"
proof
  assume "c \<in> set ''&=#?/''" and "c \<in> set (quote_plus s)"
  from quote_plus_chars [OF this(2)] this(1) show False
    by (auto simp: unreserved_def is_letter_def between_def is_digit_def)
qed

lemma quote_plus_Nil [simp]: "quote_plus s = [] \<longleftrightarrow> s = []"
  by (cases s) (auto simp: quote_plus_def url_hex_def Let_def)

lemma split_on_none: "d \<notin> set s \<Longrightarrow> split_on d s = [s]"
  by (induction s) auto

lemma split_on_sep: "d \<notin> set s \<Longrightarrow> split_on d (s @ d # rest) = s # split_on d rest"
  by (induction s) auto

lemma split_on_join: "ps \<noteq> [] \<Longrightarrow> (\<And>p. p \<in> set ps \<Longrightarrow> d \<notin> set p) \<Longrightarrow> split_on d (join [d] ps) = ps"
proof (induction ps)
  case (Cons p ps)
  then show ?case by (cases ps) (auto simp: split_on_none split_on_sep)
qed simp

lemma query_pair_read:
  assumes "v \<noteq> []"
  shows "(let n = takeWhile (\<lambda>c. c \<noteq> CHR ''='') (quote_plus k @ ''='' @ quote_plus v);
        w = drop (Suc (length n)) (quote_plus k @ ''='' @ quote_plus v) in
     if w = [] then [] else [(unquote_plus n, unquote_plus w)]) = [(k, v)]"
proof -
  have "CHR ''='' \<notin> set (quote_plus k)" by (rule quote_plus_safe) simp
  then have "takeWhile (\<lambda>c. c \<noteq> CHR ''='') (quote_plus k @ ''='' @ quote_plus v) = quote_plus k"
    by (subst takeWhile_append2) auto
  then show ?thesis using assms by (simp add: unquote_quote)
qed

lemma query_pairs_urlencode:
  assumes "kvs \<noteq> []" and "\<And>k v. (k, v) \<in> set kvs \<Longrightarrow> v \<noteq> []"
  shows "query_pairs (urlencode (map (\<lambda>(k, v). (k, JStr v)) kvs)) = kvs"
proof -
  let ?part = "\<lambda>(k, v). quote_plus k @ ''='' @ quote_plus v"
  let ?read = "\<lambda>part. let n = takeWhile (\<lambda>c. c \<noteq> CHR ''='') part; w = drop (Suc (length n)) part in
     if w = [] then [] else [(unquote_plus n, unquote_plus w)]"
  have amp: "CHR ''&'' \<notin> set (?part kv)" for kv
    using quote_plus_safe [of "CHR ''&''"] by (auto split: prod.splits)
  have split: "split_on (CHR ''&'') (join ''&'' (map ?part kvs)) = map ?part kvs"
  proof (rule split_on_join)
    fix p assume "p \<in> set (map ?part kvs)"
    then obtain kv where part: "p = ?part kv" by auto
    show "CHR ''&'' \<notin> set p" unfolding part by (rule amp)
  qed (use assms(1) in simp)
  have "urlencode (map (\<lambda>(k, v). (k, JStr v)) kvs) = join ''&'' (map ?part kvs)"
    by (simp add: urlencode_def comp_def case_prod_beta')
  then have "query_pairs (urlencode (map (\<lambda>(k, v). (k, JStr v)) kvs)) = concat (map ?read (map ?part kvs))"
    unfolding query_pairs_def by (simp only: split)
  moreover have "?read (?part kv) = [kv]" if "kv \<in> set kvs" for kv
  proof (cases kv)
    case (Pair k v)
    then have "v \<noteq> []" using assms(2) that by blast
    then show ?thesis unfolding Pair prod.case by (rule query_pair_read)
  qed
  then have "concat (map ?read (map ?part kvs)) = concat (map (\<lambda>kv. [kv]) kvs)"
    by (simp only: map_map comp_def cong: map_cong)
  ultimately show ?thesis by simp
qed

lemma query_values_of:
  assumes "distinct (map fst d)"
  shows "query_values (concat (map (\<lambda>(k, vs). map (\<lambda>v. (k, v)) vs) d)) key = (case map_of d key of None \<Rightarrow> [] | Some vs \<Rightarrow> vs)"
  using assms
proof (induction d)
  case (Cons a d)
  have none: "filter (\<lambda>kv. fst kv = k) (concat (map (\<lambda>(k, vs). map (\<lambda>v. (k, v)) vs) d)) = []" if "k \<notin> fst ` set d" for k
    using that by (force simp: filter_empty_conv)
  have all: "map snd (filter (\<lambda>kv. fst kv = k) (map (\<lambda>v. (k, v)) vs)) = vs" for k :: string and vs :: "string list"
    by (simp add: filter_map comp_def)
  show ?case using Cons none [of "fst a"]
    by (cases a) (auto simp: query_values_def all filter_map comp_def)
qed (simp add: query_values_def)

lemma query_of_read:
  assumes "distinct (map fst d)" and "\<And>k vs v. (k, vs) \<in> set d \<Longrightarrow> v \<in> set vs \<Longrightarrow> v \<noteq> []"
    and "map_of d key = Some [v]" and "strip v = v" and "v \<noteq> []"
  shows "first_query_value (query_pairs (query_of d)) key = Some v"
proof -
  let ?kvs = "concat (map (\<lambda>(k, vs). map (\<lambda>v. (k, v)) vs) d)"
  have eq: "concat (map (\<lambda>(k, vs). map (\<lambda>v. (k, JStr v)) vs) d) = map (\<lambda>(k, v). (k, JStr v)) ?kvs"
    by (simp add: map_concat comp_def case_prod_beta')
  have "(key, v) \<in> set ?kvs" using map_of_SomeD [OF assms(3)] by (auto intro!: bexI [of _ "(key, [v])"])
  then have "?kvs \<noteq> []" by (metis list.set(1) empty_iff)
  moreover have "v \<noteq> []" if "(k, v) \<in> set ?kvs" for k v using that assms(2) by force
  ultimately have "query_pairs (query_of d) = ?kvs" unfolding query_of_def eq by (rule query_pairs_urlencode)
  then show ?thesis
    using query_values_of [OF assms(1), of key] assms(3-5) by (simp add: first_query_value_def)
qed

lemma unquote_plus_Nil: "s \<noteq> [] \<Longrightarrow> unquote_plus s \<noteq> []"
  by (cases s) (auto split: list.splits option.splits)

lemma query_dict_values:
  "distinct (map fst (query_dict (query_pairs q)))"
  "(k, vs) \<in> set (query_dict (query_pairs q)) \<Longrightarrow> v \<in> set vs \<Longrightarrow> v \<noteq> []"
proof -
  show "distinct (map fst (query_dict (query_pairs q)))" by (simp add: query_dict_def comp_def distinct_dedup)
  have vals: "v \<noteq> []" if "(k, v) \<in> set (query_pairs q)" for k v
    using that by (auto simp: query_pairs_def Let_def unquote_plus_Nil split: if_splits)
  assume "(k, vs) \<in> set (query_dict (query_pairs q))" and "v \<in> set vs"
  then have "(k, v) \<in> set (query_pairs q)" by (auto simp: query_dict_def query_values_def)
  then show "v \<noteq> []" by (rule vals)
qed

section \<open>The link of an initialized board\<close>

lemma https_parts:
  "without_scheme (''https:'' @ rest) = rest" "url_scheme (''https:'' @ rest) = ''https:''"
proof -
  show *: "without_scheme (''https:'' @ rest) = rest"
    by (simp add: without_scheme_def is_letter_def between_def scheme_char_def)
  show "url_scheme (''https:'' @ rest) = ''https:''" 
  proof -
    have "take (length (''https:'' @ rest) - length rest) (''https:'' @ rest) = ''https:''" by simp
    moreover have "map lower_char ''https:'' = ''https:''" by code_simp
    ultimately show ?thesis unfolding url_scheme_def * by simp
  qed
qed

lemma takeWhile_cut: "(\<And>x. x \<in> set xs \<Longrightarrow> P x) \<Longrightarrow> ys = [] \<or> \<not> P (hd ys) \<Longrightarrow> takeWhile P (xs @ ys) = xs"
  by (cases ys) (simp_all add: takeWhile_append2 takeWhile_tail)

lemma parts_of:
  assumes "host \<noteq> []" and "set host \<inter> set ''/?#'' = {}" and "set path \<inter> set ''?#'' = {}" and "path = [] \<or> hd path = CHR ''/''"
    and "CHR ''#'' \<notin> set query" and "fragment = [] \<or> hd fragment = CHR ''#''"
    and "q = [] \<and> query = [] \<or> q = CHR ''?'' # query"
  shows "url_parts (''https:'' @ ''//'' @ host @ path @ q @ fragment) = (host, path, query)"
proof -
  let ?tail = "path @ q @ fragment"
  have tail: "?tail = [] \<or> hd ?tail \<in> set ''/?#''"
  proof (cases path)
    case Nil
    then show ?thesis using assms(6,7) by (cases q) auto
  next
    case (Cons a as)
    then show ?thesis using assms(4) by simp
  qed
  have host: "takeWhile (\<lambda>c. c \<notin> set ''/?#'') (host @ ?tail) = host"
    by (rule takeWhile_cut) (use assms(2) tail in blast)+
  have "CHR ''#'' \<notin> set (path @ q)" using assms(3,5,7) by auto
  then have plain: "takeWhile (\<lambda>c. c \<noteq> CHR ''#'') ((path @ q) @ fragment) = path @ q"
    by (intro takeWhile_cut) (metis, use assms(6) in blast)
  have path: "takeWhile (\<lambda>c. c \<noteq> CHR ''?'') (path @ q) = path"
    by (rule takeWhile_cut) (use assms(3,7) in auto)
  have slashes: "drop 2 (''//'' @ s) = s" "drop (2 + length host) (''//'' @ host @ s) = s" for s by simp_all
  have query: "drop (Suc 0) q = query" using assms(7) by auto
  have double: "starts_with (CHR ''/'' # CHR ''/'' # s) ''//''" for s by (simp add: starts_with_def)
  show ?thesis
    unfolding url_parts_def https_parts Let_def starts_with_append if_True slashes host
    by (simp add: plain [unfolded append_assoc] path query double)
qed

lemma hd_dropWhile_cut: "dropWhile P xs = [] \<or> \<not> P (hd (dropWhile P xs))"
  by (metis hd_dropWhile)

lemma https_url_parts:
  assumes "url = ''https:'' @ ''//'' @ rest" and "url_parts url = (host, path, query)" and "host \<noteq> []"
  shows "set host \<inter> set ''/?#'' = {}" and "set path \<inter> set ''?#'' = {}" and "path = [] \<or> hd path = CHR ''/''"
proof -
  let ?tail = "drop (length host) rest" and ?plain = "takeWhile (\<lambda>c. c \<noteq> CHR ''#'') (drop (length host) rest)"
  have slash: "starts_with (''//'' @ rest) ''//''" "drop 2 (''//'' @ rest) = rest" "drop (2 + length host) (''//'' @ rest) = ?tail"
    by (simp_all add: starts_with_def)
  have parts: "host = takeWhile (\<lambda>c. c \<notin> set ''/?#'') rest" "path = takeWhile (\<lambda>c. c \<noteq> CHR ''?'') ?plain"
    using assms(2) slash unfolding assms(1) url_parts_def https_parts by (auto simp: Let_def)
  show "set host \<inter> set ''/?#'' = {}" using set_takeWhileD [of _ _ rest] unfolding parts(1) by fastforce
  show "set path \<inter> set ''?#'' = {}" 
  proof -
    have "x \<noteq> CHR ''?'' \<and> x \<noteq> CHR ''#''" if "x \<in> set path" for x
      using that unfolding parts(2) by (blast dest: set_takeWhileD)
    then show ?thesis by auto
  qed
  have tail: "?tail = dropWhile (\<lambda>c. c \<notin> set ''/?#'') rest" unfolding parts(1) by (simp add: dropWhile_eq_drop)
  show "path = [] \<or> hd path = CHR ''/''"
  proof (cases path)
    case (Cons a as)
    then have "?tail \<noteq> []" and a: "hd ?tail = a" "a \<noteq> CHR ''?''" "a \<noteq> CHR ''#''"
      unfolding parts(2) by (cases ?tail; auto split: if_splits)+
    then have "a \<in> set ''/?#''" using hd_dropWhile_cut [of "\<lambda>c. c \<notin> set ''/?#''" rest] tail by metis
    then show ?thesis using a Cons by auto
  qed simp
qed


lemma fragment_cut: "url_fragment url = [] \<or> hd (url_fragment url) = CHR ''#''"
proof (cases "dropWhile (\<lambda>c. c \<noteq> CHR ''#'') url")
  case (Cons a as)
  have "\<not> (hd (dropWhile (\<lambda>c. c \<noteq> CHR ''#'') url) \<noteq> CHR ''#'')" by (rule hd_dropWhile) (simp add: Cons)
  then show ?thesis by (simp add: url_fragment_def Let_def)
qed (simp add: url_fragment_def Let_def)

lemma query_of_plain: "CHR ''#'' \<notin> set (query_of d)"
proof -
  have join: "CHR ''#'' \<notin> set (join ''&'' ps)" if "\<And>p. p \<in> set ps \<Longrightarrow> CHR ''#'' \<notin> set p" for ps
    using that by (induction ps rule: induct_list012) auto
  show ?thesis unfolding query_of_def urlencode_def
    by (rule join) (use quote_plus_safe [of "CHR ''#''"] in auto)
qed

lemma query_dict_updated:
  fixes d :: "(string \<times> string list) list"
  assumes "distinct (map fst d)" and "\<forall>kv\<in>set d. [] \<notin> set (snd kv)" and "x \<noteq> []"
  shows "distinct (map fst (AList.update k [x] d))" and "\<forall>kv\<in>set (AList.update k [x] d). [] \<notin> set (snd kv)"
proof -
  show "distinct (map fst (AList.update k [x] d))" using assms(1) by (rule distinct_update)
  have "set (AList.update k [x] d) \<subseteq> insert (k, [x]) (set d)" by (induction d) auto
  then show "\<forall>kv\<in>set (AList.update k [x] d). [] \<notin> set (snd kv)" using assms(2,3) by fastforce
qed

lemma board_url_shape:
  assumes "url = ''https:'' @ rest" and "url_parts url = (host, path, query)" and "host \<noteq> []" and "path = [] \<or> hd path = CHR ''/''"
    and "q = query_of (AList.update ''view'' [w] (AList.update ''table'' [t] (query_dict (query_pairs query))))" and "q \<noteq> []"
  shows "board_url url t w = ''https:'' @ ''//'' @ host @ path @ (CHR ''?'' # q) @ url_fragment url"
  unfolding board_url_def assms(2) Let_def prod.case assms(5) [symmetric]
  unfolding assms(1) https_parts using assms(3,4,6) by auto

text \<open>C40: the link that an initialization stores for a board leads back to it: parsing it gives the table and the
  view that were chosen, and the same base or wiki node as the link it was made from.
\<close>

theorem board_url_reads_back:
  assumes "url = ''https:'' @ ''//'' @ rest" and "url_host url \<noteq> []"
    and "strip t = t" and "t \<noteq> []" and "strip w = w" and "w \<noteq> []"
  shows "parse_lark_bitable_url (Some (board_url url t w)) =
    (parse_lark_bitable_url (Some url))\<lparr>ln_table := Some t, ln_view := Some w\<rparr>"
proof -
  obtain host path query where parts: "url_parts url = (host, path, query)" by (metis prod.collapse)
  have host: "host \<noteq> []" using assms(2) parts by (auto simp: url_host_def)
  note cuts = https_url_parts [OF assms(1) parts host]
  define d where "d = AList.update ''view'' [w] (AList.update ''table'' [t] (query_dict (query_pairs query)))"
  define d1 where "d1 = AList.update ''table'' [t] (query_dict (query_pairs query))"
  have "\<forall>kv\<in>set (query_dict (query_pairs query)). [] \<notin> set (snd kv)"
    using query_dict_values(2) [of _ _ query "[]"] by force
  note one = query_dict_updated [OF query_dict_values(1) this assms(4), of "''table''", folded d1_def]
  note two = query_dict_updated [OF one assms(6), of "''view''", unfolded d1_def, folded d_def]
  note dist = two(1)
  have vals: "v \<noteq> []" if "(k, vs) \<in> set d" "v \<in> set vs" for k vs v using two(2) that by fastforce
  have keys: "map_of d ''table'' = Some [t]" "map_of d ''view'' = Some [w]" by (simp_all add: d_def update_conv)
  note read = query_of_read [OF dist vals]
  have q: "query_of d \<noteq> []"
  proof
    assume "query_of d = []"
    with read [OF _ _ keys(1) assms(3,4)] show False by (simp add: query_pairs_def first_query_value_def query_values_def)
  qed
  have shape: "board_url url t w = ''https:'' @ ''//'' @ host @ path @ (CHR ''?'' # query_of d) @ url_fragment url"
    using board_url_shape [OF assms(1) parts host cuts(3) refl] q unfolding d_def by blast
  have new: "url_parts (board_url url t w) = (host, path, query_of d)"
    unfolding shape by (rule parts_of) (use host cuts query_of_plain fragment_cut in auto)
  have "board_url url t w \<noteq> []" unfolding shape by simp
  moreover have "url \<noteq> []" by (simp add: assms(1))
  ultimately have parse: "parse_lark_bitable_url (Some u) =
      (let named = (\<lambda>name. case path_parts u of a # b # _ \<Rightarrow> if a = name then Some b else None | _ \<Rightarrow> None);
           qs = query_pairs (snd (snd (url_parts u)))
       in \<lparr>ln_base = named ''base'', ln_wiki = named ''wiki'', ln_table = first_query_value qs ''table'',
           ln_view = first_query_value qs ''view''\<rparr>)" if "u \<in> {url, board_url url t w}" for u
    using that by (cases u) (auto simp: parse_lark_bitable_url_def)
  have "path_parts (board_url url t w) = path_parts url" by (simp add: path_parts_def new parts)
  then show ?thesis
    by (simp add: parse Let_def new parts read [OF _ _ keys(1) assms(3,4)] read [OF _ _ keys(2) assms(5,6)])
qed

theorem board_url_reads_back_witness:
  "parse_lark_bitable_url (Some (board_url ''https://acme.feishu.cn/base/bas1?view=old&x=a%20b#top'' ''tbl&1'' ''vew 2'')) =
   \<lparr>ln_base = Some ''bas1'', ln_wiki = None, ln_table = Some ''tbl&1'', ln_view = Some ''vew 2''\<rparr>"
proof -
  let ?url = "''https://acme.feishu.cn/base/bas1?view=old&x=a%20b#top''"
  have read: "url_host ?url \<noteq> []" "strip ''tbl&1'' = ''tbl&1''" "strip ''vew 2'' = ''vew 2''" by code_simp+
  have "parse_lark_bitable_url (Some (board_url ?url ''tbl&1'' ''vew 2'')) =
      (parse_lark_bitable_url (Some ?url))\<lparr>ln_table := Some ''tbl&1'', ln_view := Some ''vew 2''\<rparr>"
    by (rule board_url_reads_back [where rest = "''acme.feishu.cn/base/bas1?view=old&x=a%20b#top''", OF _ read(1,2) _ read(3)]) simp_all
  moreover have "parse_lark_bitable_url (Some ?url) =
      \<lparr>ln_base = Some ''bas1'', ln_wiki = None, ln_table = None, ln_view = Some ''old''\<rparr>" by code_simp
  ultimately show ?thesis by simp
qed

end
