(* ===== verification/Spec2Isabelle.thy ===== *)
theory Spec2Isabelle
  imports Prelude Workflow_Model Workflow_Validation Workflow_Loading Demo_Workflow Workflow_Values
    Json_Text Git_Facts Append_Only Workspace_Settings Delivery Workflow_Contract Workflow_Responses
    Rule_Validation Workflow_Lifecycle Workflow_Totality Workflow_Engine
    Teamflow_Tools Tool_Properties Teamflow_Queries Event_Database
    Task_Events Task_Routing Delivery_Execution Delivery_Planner Delivery_Store Delivery_Turns Delivery_Invariants
    Agent_Assignments Delivery_System Delivery_Properties
    Planner_Properties Definition_Properties Agent_Properties
    Effects Task_Executions Execution_Properties Delivery_Worker Turn_Reconciliation Worker_Properties
    Tool_Dispatch Tool_Service Service_Properties
    Task_Fields Board_Cards Lark_Urls Lark_Client Board_Access Board_Properties Board_Verification Verification_Properties
    Event_Inbox Event_Processing Event_Properties Board_Setup Lark_Accounts Accounts_Properties Setup_Properties
begin

text \<open>
  TeamFlow lets coding agents work on the cards of a Lark (Feishu) task board. A workflow definition says which
  states a card has, who may act on it and when; a change of the board becomes a logged event; an event that
  dispatches a card becomes a delivery to an agent; a delivery becomes a turn of the agent's session; and in its
  turn the agent calls tools, which change the card. This library models these parts as they are written in
  Python under \<^verbatim>\<open>src/core/\<close> and proves what makes them correct.

  \<^bold>\<open>How the parts meet.\<close> The listener (\<open>Event_Processing\<close>) takes notifications from an inbox, reads the cards
  they name from the board (\<open>Lark_Client\<close>, \<open>Board_Access\<close>) and saves snapshots, which logs events (\<open>Task_Events\<close>).
  The planner (\<open>Delivery_Planner\<close>) routes them (\<open>Task_Routing\<close>) to agents of the registry (\<open>Agent_Assignments\<close>).
  The delivery runtime (\<open>Delivery_Worker\<close>, \<open>Turn_Reconciliation\<close>) claims deliveries from the store
  (\<open>Delivery_Store\<close>, \<open>Delivery_Turns\<close>) and starts turns in the harness. A tool call passes the gate
  (\<open>Tool_Service\<close>), is dispatched (\<open>Tool_Dispatch\<close>), asks the action engine what the definition allows
  (\<open>Workflow_Lifecycle\<close> with \<open>Workflow_Contract\<close>, \<open>Rule_Validation\<close> and the completion gate of \<open>Delivery\<close>) and
  writes the card (\<open>Teamflow_Tools\<close>), which is the next change of the board.

  \<^bold>\<open>Theories and sources.\<close> Files are relative to \<^verbatim>\<open>src/core/\<close>.
  \<^item> Shared: \<open>Prelude\<close> has the values of \<^verbatim>\<open>json.loads\<close>, dictionaries as association lists, exceptions as values
    (\<open>py_error\<close>, \<open>result\<close>) and the proof collections; \<open>Effects\<close> has computations over a state with the calculi
    \<open>preserves\<close> and \<open>yields\<close>; \<open>Json_Text\<close> has the JSON text codec; \<open>Append_Only\<close> has the interface of histories.
  \<^item> Workflow: \<open>Workflow_Model\<close>, \<open>Workflow_Validation\<close> (\<^verbatim>\<open>workflow_validation.py\<close>), \<open>Workflow_Loading\<close> (what the
    engine reads of a raw definition), \<open>Workflow_Values\<close> and \<open>Task_Fields\<close> (\<^verbatim>\<open>workflow.py\<close>), \<open>Workflow_Contract\<close>,
    \<open>Workflow_Responses\<close>, \<open>Rule_Validation\<close>, \<open>Workflow_Lifecycle\<close> (files of the same names, and
    \<^verbatim>\<open>workflow_runtime.py\<close>); \<open>Git_Facts\<close>, \<open>Delivery\<close>, \<open>Workspace_Settings\<close> (files of the same names).
  \<^item> Tools: \<open>Teamflow_Tools\<close> and \<open>Teamflow_Queries\<close> (\<^verbatim>\<open>teamflow_tools.py\<close>), \<open>Tool_Dispatch\<close>
    (\<^verbatim>\<open>teamflow_tool_dispatcher.py\<close>), \<open>Tool_Service\<close> (\<^verbatim>\<open>tool_runtime.py\<close>), \<open>Task_Executions\<close> (\<^verbatim>\<open>task_execution.py\<close>).
  \<^item> Events and deliveries: \<open>Event_Database\<close> (the tables, \<^verbatim>\<open>migrations/\<close>), \<open>Task_Events\<close> (\<^verbatim>\<open>lark_events.py\<close>),
    \<open>Task_Routing\<close>, \<open>Delivery_Execution\<close>, \<open>Delivery_Planner\<close>, \<open>Delivery_Store\<close> and \<open>Delivery_Turns\<close>
    (\<^verbatim>\<open>task_routing.py\<close>, \<^verbatim>\<open>task_delivery_execution.py\<close>, \<^verbatim>\<open>task_delivery_planner.py\<close>, \<^verbatim>\<open>task_delivery_store.py\<close>),
    \<open>Agent_Assignments\<close> (\<^verbatim>\<open>db.py\<close>), \<open>Delivery_Worker\<close> and \<open>Turn_Reconciliation\<close> (\<^verbatim>\<open>delivery_runtime.py\<close>),
    \<open>Event_Inbox\<close> (\<^verbatim>\<open>global_db.py\<close>), \<open>Event_Processing\<close> (\<^verbatim>\<open>event_runtime.py\<close>, \<^verbatim>\<open>lark_worker_runtime.py\<close>).
  \<^item> Board: \<open>Lark_Urls\<close>, \<open>Board_Cards\<close>, \<open>Lark_Client\<close>, \<open>Board_Access\<close>, \<open>Board_Verification\<close>, \<open>Board_Setup\<close>
    (\<^verbatim>\<open>lark_board.py\<close>, with \<^verbatim>\<open>config.py\<close>), \<open>Lark_Accounts\<close> (\<^verbatim>\<open>db.py\<close>).

  A table is a list of records in the order of row ids, a transaction is a function on the record of the tables,
  and a Python exception is a value. Definitions keep the names of the functions they translate.

  \<^bold>\<open>What the lemmas show.\<close>
  \<^item> \<open>Workflow_Validation\<close>, \<open>Workflow_Loading\<close>, \<open>Definition_Properties\<close>: a validated definition reads as a well-formed
    workflow whose states are reachable and can finish; the exceptions are shown by concrete definitions.
  \<^item> \<open>Rule_Validation\<close>, \<open>Workflow_Totality\<close>, \<open>Workflow_Engine\<close>: the checks of a rule against their specification,
    totality of the engine, and the refinement of the engine by the state graph of the definition.
  \<^item> \<open>Teamflow_Tools\<close>, \<open>Tool_Properties\<close>, \<open>Tool_Dispatch\<close>, \<open>Service_Properties\<close>: tools return, write at most once
    and only what was checked; a grant is redeemed once; a repeated call is answered from the cache.
  \<^item> \<open>Delivery_Invariants\<close>, \<open>Delivery_System\<close>, \<open>Delivery_Properties\<close>, \<open>Planner_Properties\<close>, \<open>Agent_Properties\<close>: the
    pipeline as one transition system with its invariant, and what claims, routing and the registry promise.
  \<^item> \<open>Worker_Properties\<close>, \<open>Execution_Properties\<close>: every pass of the runtime is a run of the store's transactions,
    so that the promises of the store hold whatever the harness does; turns start only after their intent is stored.
  \<^item> \<open>Event_Properties\<close>, \<open>Board_Properties\<close>, \<open>Verification_Properties\<close>, \<open>Accounts_Properties\<close>, \<open>Setup_Properties\<close>:
    notifications are settled, cards read back, verifications conclude, the rows of identities stay consistent.

  The interfaces are locales: \<open>append_only\<close> is interpreted by the resource ledger, the turns of a delivery, the
  event log and the inbox; \<open>row_update\<close> and \<open>releasing_update\<close> by every \<^verbatim>\<open>UPDATE\<close> of the deliveries;
  \<open>keyed_table\<close> by the table of grants and answers of the tool service.

  \<^bold>\<open>Bounds.\<close> Loops over outside answers take fuel. The JSON parser takes more than the length of its text, which
  suffices for every printed value (\<open>fuel_le_length\<close>). A tool rereads a card at most 13 times: the growing waits pass
  the deadline before (\<open>tools_return\<close>). The pages of a board and of a table's records are read up to a bound that is
  an argument; \<open>listed_board\<close> and \<open>empty_records_paged\<close> show that more pages than records are enough when the
  service pages honestly. The other retries are bounded in the code itself: three reads of a new record, three
  groupings of a new view.

  \<^bold>\<open>Outside.\<close> The board service, the harness, git, the file system, the clock and fresh identifiers are arguments.
  A call of the service or of the harness may change the tables, which stands for other processes; where a theorem
  needs that these keep to something, it is a hypothesis. Texts are lists of bytes: what is beyond ASCII stands
  as UTF-8 in links and names, and messages in Chinese are English stand-ins. Log lines and progress
  messages are left out, and so is the set-up of a workspace before its first use.

  \<^bold>\<open>Not modelled.\<close> The daemon with its processes, sockets and locks; the clients of the Codex program, which speak
  a protocol of another project; threads and their wake-ups; schema migrations; the reading of YAML files; the
  templates of prompts, which are an argument; the command line and the protocol of the tool server.
\<close>

end
